(* ===== verification/Prelude.thy ===== *)
theory Prelude
  imports Main "HOL-Library.Word" "HOL-Library.Char_ord" "HOL-Library.List_Lexorder"
begin

text \<open>
  Shared vocabulary of the development: Go errors as values, the sequencing of fallible
  steps, and the lemma collections the component theories extend.

  A Go function that returns \<open>(T, error)\<close> is a function into the sum type
  \<open>error + 'a\<close>: \<open>Inl e\<close> is the error return, \<open>Inr v\<close> the value with a nil error. An \<open>error\<close>
  keeps the structure that \<open>errors.Is\<close> looks at: the sentinel variables of the repository
  (the two packages that declare a "not found" error declare two different values), the
  errors made by \<open>errors.New\<close> or \<open>fmt.Errorf\<close> without a wrapped error, and the wrapping
  by \<open>%w\<close> (one error, or several: also \<open>errors.Join\<close>). The arguments a message is
  formatted with are left out: only logs show them.
\<close>

named_theorems result_simps "rewriting of the sequencing of fallible steps"
named_theorems codec_simps "rewriting of the encoding and decoding of documents"
named_theorems key_simps "the folded names of the keys of the stored documents"

section \<open>Errors\<close>

datatype sentinel =
    StoreErrAlreadyExists | StoreErrNotFound
  | ErrInvalidArgument | ErrUnauthenticated | ErrPermissionDenied | ErrNotFound
  | ErrMethodNotAllowed | ErrConflict | ErrInternal | ErrUnavailable
  | ErrInvalidCSR | ErrNoReachableNodes | ErrNameExists | ErrNotExist

datatype error =
    Sentinel sentinel
  | Msg string
  | Wrap string error
  | Multi string "error list"

type_synonym 'a result = "error + 'a"

text \<open>\<open>errors.Is\<close> walks the tree of wrapped errors.\<close>

fun errors_Is :: "error \<Rightarrow> sentinel \<Rightarrow> bool" where
  "errors_Is (Sentinel s) t = (s = t)"
| "errors_Is (Msg m) t = False"
| "errors_Is (Wrap m e) t = errors_Is e t"
| "errors_Is (Multi m es) t = list_ex (\<lambda>e. errors_Is e t) es"

text \<open>\<open>errors.Join\<close> drops nil errors and is nil when nothing is left.\<close>

definition errors_Join :: "error option list \<Rightarrow> error option" where
  "errors_Join es =
     (let present = List.map_filter id es
      in if present = [] then None else Some (Multi ''join'' present))"

lemma errors_Join_None: "errors_Join es = None \<longleftrightarrow> (\<forall>e \<in> set es. e = None)"
  by (induction es) (auto simp: errors_Join_def List.map_filter_def Let_def)

section \<open>Sequencing\<close>

definition bind_result :: "'e + 'a \<Rightarrow> ('a \<Rightarrow> 'e + 'b) \<Rightarrow> 'e + 'b" where
  "bind_result m f = (case m of Inl e \<Rightarrow> Inl e | Inr v \<Rightarrow> f v)"

definition map_error :: "('e \<Rightarrow> 'f) \<Rightarrow> 'e + 'a \<Rightarrow> 'f + 'a" where
  "map_error f m = (case m of Inl e \<Rightarrow> Inl (f e) | Inr v \<Rightarrow> Inr v)"

definition map_value :: "('a \<Rightarrow> 'b) \<Rightarrow> 'e + 'a \<Rightarrow> 'e + 'b" where
  "map_value f m = (case m of Inl e \<Rightarrow> Inl e | Inr v \<Rightarrow> Inr (f v))"

lemma bind_result_simps [simp, result_simps]:
  "bind_result (Inl e) f = Inl e"
  "bind_result (Inr v) f = f v"
  by (simp_all add: bind_result_def)

lemma map_error_simps [simp, result_simps]:
  "map_error g (Inl e) = Inl (g e)"
  "map_error g (Inr v) = Inr v"
  by (simp_all add: map_error_def)

lemma map_value_simps [simp, result_simps]:
  "map_value g (Inl e) = Inl e"
  "map_value g (Inr v) = Inr (g v)"
  by (simp_all add: map_value_def)

lemma bind_result_eq_Inr:
  "bind_result m f = Inr y \<longleftrightarrow> (\<exists>x. m = Inr x \<and> f x = Inr y)"
  by (cases m) auto

lemma bind_result_eq_Inl:
  "bind_result m f = Inl e \<longleftrightarrow> m = Inl e \<or> (\<exists>x. m = Inr x \<and> f x = Inl e)"
  by (cases m) auto

lemma map_error_eq_Inr [simp]: "map_error g m = Inr y \<longleftrightarrow> m = Inr y"
  by (cases m) auto

lemma map_error_eq_Inl: "map_error g m = Inl e \<longleftrightarrow> (\<exists>e'. m = Inl e' \<and> e = g e')"
  by (cases m) auto

lemma map_value_eq_Inr: "map_value g m = Inr y \<longleftrightarrow> (\<exists>x. m = Inr x \<and> y = g x)"
  by (cases m) auto

lemma map_value_eq_Inl [simp]: "map_value g m = Inl e \<longleftrightarrow> m = Inl e"
  by (cases m) auto

lemmas result_eqs =
  bind_result_eq_Inr bind_result_eq_Inl map_error_eq_Inr map_error_eq_Inl
  map_value_eq_Inr map_value_eq_Inl

text \<open>A loop that stops at the first error.\<close>

fun fold_result :: "('a \<Rightarrow> 's \<Rightarrow> 'e + 's) \<Rightarrow> 'a list \<Rightarrow> 's \<Rightarrow> 'e + 's" where
  "fold_result f [] s = Inr s"
| "fold_result f (x # xs) s = bind_result (f x s) (fold_result f xs)"

lemma fold_result_append:
  "fold_result f (xs @ ys) s = bind_result (fold_result f xs s) (fold_result f ys)"
  by (induction xs arbitrary: s) (auto simp: bind_result_def split: sum.splits)

lemma fold_result_invariant:
  assumes "fold_result f xs s = Inr t" and "P s"
    and "\<And>x u v. x \<in> set xs \<Longrightarrow> P u \<Longrightarrow> f x u = Inr v \<Longrightarrow> P v"
  shows "P t"
  using assms
proof (induction xs arbitrary: s)
  case Nil
  then show ?case by simp
next
  case (Cons x xs)
  from Cons.prems(1) obtain u where u: "f x s = Inr u" "fold_result f xs u = Inr t"
    by (auto simp: bind_result_eq_Inr)
  have "P u" using Cons.prems(2,3) u(1) by auto
  then show ?case using Cons.IH u(2) Cons.prems(3) by auto
qed

section \<open>Lists and maps\<close>

lemma distinct_map_of_iff:
  "distinct (map fst xs) \<Longrightarrow> map_of xs k = Some v \<longleftrightarrow> (k, v) \<in> set xs"
  by auto

lemma map_of_in_keys: "k \<in> set (map fst xs) \<longleftrightarrow> map_of xs k \<noteq> None"
  by (metis map_of_eq_None_iff list.set_map)

text \<open>The time of the model: nanoseconds since the Unix epoch, and durations in nanoseconds.\<close>

type_synonym instant = int
type_synonym duration = int

abbreviation seconds :: "int \<Rightarrow> duration" where
  "seconds s \<equiv> s * 1000000000"

abbreviation minutes :: "int \<Rightarrow> duration" where
  "minutes m \<equiv> seconds (60 * m)"

abbreviation hours :: "int \<Rightarrow> duration" where
  "hours h \<equiv> minutes (60 * h)"

end
