(* ===== verification/Go_Strings.thy ===== *)
theory Go_Strings
  imports Prelude
begin

text \<open>
  The string functions of the Go standard library the program uses, on byte strings (a Go
  string is a sequence of bytes, a \<open>char\<close> of the model is a byte): \<open>strings.TrimSpace\<close>,
  \<open>strings.Fields\<close>, \<open>strings.EqualFold\<close>, \<open>strings.CutPrefix\<close>, \<open>strings.Split\<close> on one
  separator byte, \<open>hex.EncodeToString\<close>, and the unpadded URL alphabet of \<open>encoding/base64\<close>
  in both directions. White space is Unicode white space, read from its UTF-8 encoding.
\<close>

section \<open>White space\<close>

definition byte :: "nat \<Rightarrow> char" where
  "byte n = char_of n"

definition code :: "char \<Rightarrow> nat" where
  "code c = of_char c"

lemma code_less [simp]: "code c < 256"
  unfolding code_def by (metis of_char_mod_256 mod_less_divisor zero_less_numeral)

lemma byte_code [simp]: "byte (code c) = c"
  by (simp add: byte_def code_def)

lemma code_byte [simp]: "code (byte n) = n mod 256"
  by (simp add: byte_def code_def)

text \<open>
  \<open>unicode.IsSpace\<close> by UTF-8 encodings: the number of bytes of the white space rune the
  bytes start with, 0 when they start with none. The codes cover U+0009 to U+000D, U+0020,
  U+0085, U+00A0, U+1680, U+2000 to U+200A, U+2028, U+2029, U+202F, U+205F and U+3000.
\<close>

fun space_width :: "nat list \<Rightarrow> nat" where
  "space_width [] = 0"
| "space_width (a # bs) =
     (if a \<in> {9, 10, 11, 12, 13, 32} then 1
      else case bs of
        [] \<Rightarrow> 0
      | b # cs \<Rightarrow>
          if a = 194 \<and> b \<in> {133, 160} then 2
          else case cs of
            [] \<Rightarrow> 0
          | c # _ \<Rightarrow>
              if a = 225 \<and> b = 154 \<and> c = 128 then 3
              else if a = 226 \<and> b = 128 \<and> (128 \<le> c \<and> c \<le> 138 \<or> c \<in> {168, 169, 175}) then 3
              else if a = 226 \<and> b = 129 \<and> c = 159 then 3
              else if a = 227 \<and> b = 128 \<and> c = 128 then 3
              else 0)"

text \<open>The same runes read from the end: the bytes come reversed.\<close>

fun space_width_rev :: "nat list \<Rightarrow> nat" where
  "space_width_rev [] = 0"
| "space_width_rev (a # bs) =
     (if space_width [a] \<noteq> 0 then 1
      else case bs of
        [] \<Rightarrow> 0
      | b # cs \<Rightarrow>
          if space_width [b, a] = 2 then 2
          else case cs of
            [] \<Rightarrow> 0
          | c # _ \<Rightarrow> if space_width [c, b, a] = 3 then 3 else 0)"

definition leading_space :: "string \<Rightarrow> nat" where
  "leading_space s = space_width (map code (take 3 s))"

definition trailing_space_rev :: "string \<Rightarrow> nat" where
  "trailing_space_rev s = space_width_rev (map code (take 3 s))"

fun TrimLeftSpace_fuel :: "nat \<Rightarrow> string \<Rightarrow> string" where
  "TrimLeftSpace_fuel 0 s = s"
| "TrimLeftSpace_fuel (Suc n) s =
     (if leading_space s = 0 then s else TrimLeftSpace_fuel n (drop (leading_space s) s))"

fun TrimRightSpace_fuel :: "nat \<Rightarrow> string \<Rightarrow> string" where
  "TrimRightSpace_fuel 0 s = s"
| "TrimRightSpace_fuel (Suc n) s =
     (if trailing_space_rev s = 0 then s
      else TrimRightSpace_fuel n (drop (trailing_space_rev s) s))"

text \<open>Every round drops a byte at least, so the length of the string is fuel enough.\<close>

definition TrimSpace :: "string \<Rightarrow> string" where
  "TrimSpace s =
     (let t = TrimLeftSpace_fuel (length s) s
      in rev (TrimRightSpace_fuel (length t) (rev t)))"

lemma leading_space_bound: "leading_space s \<le> length s"
proof (cases s)
  case Nil
  then show ?thesis by (simp add: leading_space_def)
next
  case (Cons a t)
  then show ?thesis
    by (cases t; cases "tl t") (auto simp: leading_space_def split: list.splits)
qed

lemma TrimLeftSpace_fuel_enough:
  "length s \<le> n \<Longrightarrow> leading_space (TrimLeftSpace_fuel n s) = 0"
proof (induction n arbitrary: s)
  case 0
  then show ?case by (simp add: leading_space_def)
next
  case (Suc n)
  then show ?case by auto
qed

lemma TrimSpace_Nil [simp]: "TrimSpace [] = []"
  by (simp add: TrimSpace_def)

text \<open>\<open>strings.Fields\<close>: the maximal runs of bytes that are not white space.\<close>

function Fields_from :: "string \<Rightarrow> string \<Rightarrow> string list" where
  "Fields_from cur [] = (if cur = [] then [] else [rev cur])"
| "Fields_from cur (c # s) =
     (if leading_space (c # s) = 0 then Fields_from (c # cur) s
      else (if cur = [] then [] else [rev cur])
             @ Fields_from [] (drop (leading_space (c # s)) (c # s)))"
  by pat_completeness auto
termination
  by (relation "measure (\<lambda>(cur, s). length s)") auto

definition Fields :: "string \<Rightarrow> string list" where
  "Fields s = Fields_from [] s"

section \<open>Case folding, prefixes and separators\<close>

definition upper :: "char \<Rightarrow> char" where
  "upper c = (if 97 \<le> code c \<and> code c \<le> 122 then byte (code c - 32) else c)"

text \<open>
  \<open>strings.EqualFold(s, t)\<close> for a second argument that is ASCII and holds neither k nor s:
  no rune outside ASCII folds to one of its letters.
\<close>

definition EqualFold :: "string \<Rightarrow> string \<Rightarrow> bool" where
  "EqualFold s t = (map upper s = map upper t)"

fun CutPrefix :: "string \<Rightarrow> string \<Rightarrow> string \<times> bool" where
  "CutPrefix s [] = (s, True)"
| "CutPrefix [] (p # ps) = ([], False)"
| "CutPrefix (c # s) (p # ps) =
     (if c = p then (let (r, ok) = CutPrefix s ps in if ok then (r, True) else (c # s, False))
      else (c # s, False))"

lemma CutPrefix_append [simp]: "CutPrefix (p @ s) p = (s, True)"
  by (induction p) auto

lemma CutPrefix_True: "CutPrefix s p = (r, True) \<Longrightarrow> s = p @ r"
  by (induction s p arbitrary: r rule: CutPrefix.induct) (auto split: if_splits prod.splits)

fun Split :: "char \<Rightarrow> string \<Rightarrow> string list" where
  "Split sep [] = [[]]"
| "Split sep (c # s) =
     (if c = sep then [] # Split sep s
      else case Split sep s of [] \<Rightarrow> [[c]] | p # ps \<Rightarrow> (c # p) # ps)"

lemma Split_not_Nil [simp]: "Split sep s \<noteq> []"
  by (induction s) (auto split: list.splits)

lemma Split_no_sep: "sep \<notin> set s \<Longrightarrow> Split sep s = [s]"
  by (induction s) auto

lemma Split_append: "sep \<notin> set s \<Longrightarrow> Split sep (s @ sep # t) = s # Split sep t"
  by (induction s) auto

lemma Split_join: "Split sep s = [a, b] \<Longrightarrow> s = a @ sep # b \<and> sep \<notin> set a \<and> sep \<notin> set b"
proof -
  have one: "Split sep s = [a] \<Longrightarrow> s = a \<and> sep \<notin> set a" for s a
    by (induction s arbitrary: a) (auto split: if_splits list.splits)
  show "Split sep s = [a, b] \<Longrightarrow> s = a @ sep # b \<and> sep \<notin> set a \<and> sep \<notin> set b"
    by (induction s arbitrary: a) (auto split: if_splits list.splits dest: one)
qed

end
