(* ===== verification/Json.thy ===== *)
theory Json
  imports Go_Strings
begin

text \<open>
  JSON documents and the decoding of structs by \<open>encoding/json\<close>. The store keeps documents,
  and the API reads and writes them: a document is the syntax tree of the text. Numbers are
  integers (\<open>JInt\<close>) or other literals (\<open>JDec\<close>, which no integer field accepts). A
  \<open>time.Time\<close> and a byte slice encode themselves as a string of their own format: they are
  atoms of the document (\<open>JTime\<close>, \<open>JBytes\<close>). The strings of a document are valid UTF-8: what the
  server stores was decoded from JSON or generated in hex, base64 or PEM, and the documents made
  of what comes from a command line or the host's name are written with \<open>json_string\<close> of \<open>Utf8\<close>.

  A struct is decoded member by member, in the order of the text: a member goes to the field
  whose name equals its key up to case folding, \<open>null\<close> leaves a field that is no pointer as
  it is, a later member overwrites an earlier one, and a key without a field is an error
  only under \<open>DisallowUnknownFields\<close>.
\<close>

section \<open>Documents\<close>

datatype json =
    JNull
  | JBool bool
  | JInt int
  | JDec string
  | JStr string
  | JTime instant
  | JBytes string
  | JArr "json list"
  | JObj "(string \<times> json) list"

type_synonym uint64 = "64 word"
type_synonym go_int = "64 word"

text \<open>The folding of member keys: ASCII case, the long s and the Kelvin sign.\<close>

function fold_name :: "string \<Rightarrow> string" where
  "fold_name [] = []"
| "fold_name (c # s) =
     (if map code (take 2 (c # s)) = [197, 191] then CHR ''S'' # fold_name (drop 1 s)
      else if map code (take 3 (c # s)) = [226, 132, 170] then CHR ''K'' # fold_name (drop 2 s)
      else upper c # fold_name s)"
  by pat_completeness auto
termination
  by (relation "measure length") auto

declare fold_name.simps [simp del]

section \<open>Encoding\<close>

text \<open>\<open>time.Time.MarshalJSON\<close> fails for a year outside 0 to 9999.\<close>

definition time_min :: instant where
  "time_min = seconds (- 62167219200)"

definition time_max :: instant where
  "time_max = seconds 253402300800"

definition enc_time :: "instant \<Rightarrow> json result" where
  "enc_time t =
     (if time_min \<le> t \<and> t < time_max then Inr (JTime t)
      else Inl (Msg ''Time.MarshalJSON: year outside of range [0,9999]''))"

text \<open>A pointer field with \<open>omitempty\<close>: no member for nil.\<close>

definition omit_time :: "string \<Rightarrow> instant option \<Rightarrow> (string \<times> json) list result" where
  "omit_time k t =
     (case t of None \<Rightarrow> Inr [] | Some u \<Rightarrow> map_value (\<lambda>j. [(k, j)]) (enc_time u))"

definition omit_string :: "string \<Rightarrow> string \<Rightarrow> (string \<times> json) list" where
  "omit_string k s = (if s = [] then [] else [(k, JStr s)])"

definition omit_int :: "string \<Rightarrow> go_int option \<Rightarrow> (string \<times> json) list" where
  "omit_int k i = (case i of None \<Rightarrow> [] | Some n \<Rightarrow> [(k, JInt (sint n))])"

definition enc_uint :: "uint64 \<Rightarrow> json" where
  "enc_uint n = JInt (uint n)"

section \<open>Decoding\<close>

definition type_error :: "'a result" where
  "type_error = Inl (Msg ''json: cannot unmarshal'')"

definition dec_string :: "json \<Rightarrow> string \<Rightarrow> string result" where
  "dec_string j old = (case j of JStr s \<Rightarrow> Inr s | JNull \<Rightarrow> Inr old | _ \<Rightarrow> type_error)"

definition dec_bytes :: "json \<Rightarrow> string result" where
  "dec_bytes j = (case j of JBytes s \<Rightarrow> Inr s | JNull \<Rightarrow> Inr [] | _ \<Rightarrow> type_error)"

definition dec_bool :: "json \<Rightarrow> bool \<Rightarrow> bool result" where
  "dec_bool j old = (case j of JBool b \<Rightarrow> Inr b | JNull \<Rightarrow> Inr old | _ \<Rightarrow> type_error)"

definition dec_uint :: "json \<Rightarrow> uint64 \<Rightarrow> uint64 result" where
  "dec_uint j old =
     (case j of
        JInt i \<Rightarrow> if 0 \<le> i \<and> i < 2 ^ 64 then Inr (word_of_int i) else type_error
      | JNull \<Rightarrow> Inr old
      | _ \<Rightarrow> type_error)"

definition dec_int_ptr :: "json \<Rightarrow> go_int option result" where
  "dec_int_ptr j =
     (case j of
        JInt i \<Rightarrow> if - (2 ^ 63) \<le> i \<and> i < 2 ^ 63 then Inr (Some (word_of_int i)) else type_error
      | JNull \<Rightarrow> Inr None
      | _ \<Rightarrow> type_error)"

definition dec_time :: "json \<Rightarrow> instant \<Rightarrow> instant result" where
  "dec_time j old = (case j of JTime t \<Rightarrow> Inr t | JNull \<Rightarrow> Inr old | _ \<Rightarrow> type_error)"

definition dec_time_ptr :: "json \<Rightarrow> instant option result" where
  "dec_time_ptr j = (case j of JTime t \<Rightarrow> Inr (Some t) | JNull \<Rightarrow> Inr None | _ \<Rightarrow> type_error)"

text \<open>The fields of a struct: the name of each and how a member is stored in it.\<close>

type_synonym 'a fields = "(string \<times> (json \<Rightarrow> 'a \<Rightarrow> 'a result)) list"

fun find_field :: "string \<Rightarrow> 'a fields \<Rightarrow> (json \<Rightarrow> 'a \<Rightarrow> 'a result) option" where
  "find_field k [] = None"
| "find_field k ((n, store) # fs) =
     (if k = n \<or> fold_name k = fold_name n then Some store else find_field k fs)"

definition decode_member ::
  "bool \<Rightarrow> 'a fields \<Rightarrow> string \<times> json \<Rightarrow> 'a \<Rightarrow> 'a result" where
  "decode_member strict fs m s =
     (case find_field (fst m) fs of
        None \<Rightarrow> if strict then Inl (Msg ''json: unknown field'') else Inr s
      | Some store \<Rightarrow> store (snd m) s)"

definition decode_struct :: "bool \<Rightarrow> 'a fields \<Rightarrow> 'a \<Rightarrow> json \<Rightarrow> 'a result" where
  "decode_struct strict fs zero j =
     (case j of
        JObj ms \<Rightarrow> fold_result (decode_member strict fs) ms zero
      | JNull \<Rightarrow> Inr zero
      | _ \<Rightarrow> type_error)"

fun map_result :: "('a \<Rightarrow> 'e + 'b) \<Rightarrow> 'a list \<Rightarrow> 'e + 'b list" where
  "map_result f [] = Inr []"
| "map_result f (x # xs) =
     bind_result (f x) (\<lambda>y. map_value ((#) y) (map_result f xs))"

definition dec_slice :: "(json \<Rightarrow> 'a result) \<Rightarrow> json \<Rightarrow> 'a list result" where
  "dec_slice dec j =
     (case j of JArr js \<Rightarrow> map_result dec js | JNull \<Rightarrow> Inr [] | _ \<Rightarrow> type_error)"

section \<open>Values round trip\<close>

lemma enc_time_Inr [codec_simps]: "enc_time t = Inr j \<longleftrightarrow> time_min \<le> t \<and> t < time_max \<and> j = JTime t"
  by (auto simp: enc_time_def)

lemma enc_time_in: "time_min \<le> t \<Longrightarrow> t < time_max \<Longrightarrow> enc_time t = Inr (JTime t)"
  by (simp add: enc_time_def)

lemma omit_time_Inr:
  "omit_time k t = Inr ms \<longleftrightarrow>
     (case t of None \<Rightarrow> ms = []
      | Some u \<Rightarrow> time_min \<le> u \<and> u < time_max \<and> ms = [(k, JTime u)])"
  by (auto simp: omit_time_def enc_time_def split: option.splits)

lemma dec_simps [codec_simps]:
  "dec_string (JStr s) old = Inr s"
  "dec_bytes (JBytes s) = Inr s"
  "dec_bool (JBool b) bold = Inr b"
  "dec_time (JTime t) told = Inr t"
  "dec_time_ptr (JTime t) = Inr (Some t)"
  by (simp_all add: dec_string_def dec_bytes_def dec_bool_def dec_time_def dec_time_ptr_def)

lemma dec_uint_enc [codec_simps]: "dec_uint (enc_uint n) old = Inr n"
proof -
  have "0 \<le> uint n" "uint n < 2 ^ 64"
    using uint_lt2p [of n] by simp_all
  then show ?thesis by (simp add: dec_uint_def enc_uint_def)
qed

lemma dec_int_enc [codec_simps]: "dec_int_ptr (JInt (sint (n :: go_int))) = Inr (Some n)"
proof -
  have "- (2 ^ 63) \<le> sint n" "sint n < 2 ^ 63"
    using sint_range_size [of n] by (simp_all add: word_size)
  then show ?thesis by (simp add: dec_int_ptr_def)
qed

lemma decode_struct_JObj [codec_simps]:
  "decode_struct strict fs zero (JObj ms) = fold_result (decode_member strict fs) ms zero"
  by (simp add: decode_struct_def)

lemma decode_struct_strict: "decode_struct True fs zero j = Inr v \<Longrightarrow> decode_struct False fs zero j = Inr v"
proof -
  have "fold_result (decode_member True fs) ms s = Inr v \<Longrightarrow>
      fold_result (decode_member False fs) ms s = Inr v" for ms s
    by (induction ms arbitrary: s)
      (auto simp: bind_result_eq_Inr decode_member_def split: option.splits)
  then show "decode_struct True fs zero j = Inr v \<Longrightarrow> decode_struct False fs zero j = Inr v"
    by (cases j) (auto simp: decode_struct_def)
qed

section \<open>The interface of a stored type\<close>

text \<open>
  What the collections rely on: a document made by encoding a value decodes to that value.
  Encoding may fail (a time outside the range of its text format).
\<close>

locale json_codec =
  fixes enc :: "'v \<Rightarrow> json result"
    and dec :: "json \<Rightarrow> 'v result"
  assumes dec_enc: "enc v = Inr d \<Longrightarrow> dec d = Inr v"
begin

lemma enc_inj: "enc v = Inr d \<Longrightarrow> enc w = Inr d \<Longrightarrow> v = w"
  using dec_enc by (metis sum.inject(2))

end

end
