(* ===== verification/Bolt.thy ===== *)
theory Bolt
  imports Json
begin

text \<open>
  The embedded database \<open>go.etcd.io/bbolt\<close> is third-party code: its operations are a
  parameter of the model, a record of functions on an abstract database state \<open>'db\<close>. A
  read-write transaction works on a state of the same type, obtained by \<open>b_Begin\<close> and made
  durable by \<open>b_Commit\<close>; both may fail. What the program relies on is the locale \<open>bolt_api\<close>,
  stated over the observable content of a state (\<open>view\<close>): which buckets exist, and which
  key of a bucket holds which document (\<open>Some None\<close> for a key that names a nested bucket).
  The in-memory instance at the end shows that the laws can hold.
\<close>

section \<open>The operations\<close>

record 'db bolt =
  b_Begin :: "'db \<Rightarrow> 'db result"
  b_Commit :: "'db \<Rightarrow> 'db result"
  b_CreateBucketIfNotExists :: "string \<Rightarrow> 'db \<Rightarrow> 'db result"
  b_HasBucket :: "string \<Rightarrow> 'db \<Rightarrow> bool"
  b_Get :: "string \<Rightarrow> string \<Rightarrow> 'db \<Rightarrow> json option"
  b_Put :: "string \<Rightarrow> string \<Rightarrow> json \<Rightarrow> 'db \<Rightarrow> 'db result"
  b_Delete :: "string \<Rightarrow> string \<Rightarrow> 'db \<Rightarrow> 'db result"
  b_ForEach :: "string \<Rightarrow> 'db \<Rightarrow> (string \<times> json option) list"

text \<open>
  \<open>DB.Update(fn)\<close>: run \<open>fn\<close> in a read-write transaction, commit when it returns nil, roll
  back when it returns an error. \<open>fn\<close> is a closure: \<open>'c\<close> is the state of the variables it
  captures, which keep their values even when the transaction is rolled back.
\<close>

definition db_Update ::
  "'db bolt \<Rightarrow> 'c \<Rightarrow> ('db \<Rightarrow> 'c \<times> 'db result) \<Rightarrow> 'db \<Rightarrow> 'c \<times> error option \<times> 'db" where
  "db_Update B c0 fn db =
     (case b_Begin B db of
        Inl e \<Rightarrow> (c0, Some e, db)
      | Inr tx \<Rightarrow>
          (case fn tx of
             (c, Inl e) \<Rightarrow> (c, Some e, db)
           | (c, Inr tx') \<Rightarrow>
               (case b_Commit B tx' of
                  Inl e \<Rightarrow> (c, Some e, db)
                | Inr db' \<Rightarrow> (c, None, db'))))"

text \<open>\<open>DB.View(fn)\<close>: run \<open>fn\<close> in a read-only transaction.\<close>

definition db_View :: "'db bolt \<Rightarrow> ('db \<Rightarrow> 'a result) \<Rightarrow> 'db \<Rightarrow> 'a result" where
  "db_View B fn db = bind_result (b_Begin B db) fn"

section \<open>The laws\<close>

definition view ::
  "'db bolt \<Rightarrow> 'db \<Rightarrow> string \<Rightarrow> (string \<Rightarrow> json option option) option" where
  "view B db n = (if b_HasBucket B n db then Some (map_of (b_ForEach B n db)) else None)"

lemma view_has: "b_HasBucket B n db \<longleftrightarrow> (\<exists>m. view B db n = Some m)"
  by (simp add: view_def)

locale bolt_api =
  fixes B :: "'db bolt"
  assumes begin_view: "b_Begin B db = Inr tx \<Longrightarrow> view B tx = view B db"
    and commit_view: "b_Commit B tx = Inr db \<Longrightarrow> view B db = view B tx"
    and create_bucket_view:
      "b_CreateBucketIfNotExists B n tx = Inr tx' \<Longrightarrow>
         view B tx' =
           (view B tx)(n := Some (case view B tx n of None \<Rightarrow> Map.empty | Some m \<Rightarrow> m))"
    and get_view:
      "view B tx n = Some m \<Longrightarrow>
         b_Get B n k tx = (case m k of Some (Some d) \<Rightarrow> Some d | _ \<Rightarrow> None)"
    and put_view:
      "view B tx n = Some m \<Longrightarrow> b_Put B n k d tx = Inr tx' \<Longrightarrow>
         view B tx' = (view B tx)(n \<mapsto> m(k \<mapsto> Some d))"
    and delete_view:
      "view B tx n = Some m \<Longrightarrow> b_Delete B n k tx = Inr tx' \<Longrightarrow>
         view B tx' = (view B tx)(n \<mapsto> m(k := None))"
    and foreach_order:
      "b_HasBucket B n tx \<Longrightarrow>
         sorted (map fst (b_ForEach B n tx)) \<and> distinct (map fst (b_ForEach B n tx))"
begin

text \<open>What a finished transaction did: all of the closure's effect, or nothing.\<close>

lemma update_committed:
  "db_Update B c0 fn db = (c, None, db') \<Longrightarrow>
     \<exists>tx tx'. view B tx = view B db \<and> fn tx = (c, Inr tx') \<and> view B db' = view B tx'"
  by (auto simp: db_Update_def split: sum.splits prod.splits
      dest!: begin_view commit_view)

lemma update_ran:
  "db_Update B c0 fn db = (c, e, db') \<Longrightarrow>
     c = c0 \<and> e \<noteq> None \<and> db' = db
     \<or> (\<exists>tx. view B tx = view B db \<and> fst (fn tx) = c
           \<and> (e = None \<longrightarrow> (\<exists>tx'. snd (fn tx) = Inr tx' \<and> view B db' = view B tx')))"
  by (auto simp: db_Update_def split: sum.splits prod.splits
      dest!: begin_view commit_view)

end

lemma update_rolled_back: "db_Update B c0 fn db = (c, Some e, db') \<Longrightarrow> db' = db"
  by (auto simp: db_Update_def split: sum.splits prod.splits)

section \<open>An in-memory instance\<close>

type_synonym mem_db = "(string \<times> (string \<times> json) list) list"

definition mem_put :: "string \<Rightarrow> string \<Rightarrow> json \<Rightarrow> mem_db \<Rightarrow> mem_db" where
  "mem_put n k d db =
     map (\<lambda>(m, es). (m, if m = n then (k, d) # filter (\<lambda>e. fst e \<noteq> k) es else es)) db"

definition mem_delete :: "string \<Rightarrow> string \<Rightarrow> mem_db \<Rightarrow> mem_db" where
  "mem_delete n k db =
     map (\<lambda>(m, es). (m, if m = n then filter (\<lambda>e. fst e \<noteq> k) es else es)) db"

definition mem_list :: "(string \<times> json) list \<Rightarrow> (string \<times> json option) list" where
  "mem_list es = map (\<lambda>k. (k, map_of es k)) (sort (remdups (map fst es)))"

definition mem_content :: "string \<Rightarrow> mem_db \<Rightarrow> (string \<times> json) list" where
  "mem_content n db = (case map_of db n of None \<Rightarrow> [] | Some es \<Rightarrow> es)"

definition mem_bolt :: "mem_db bolt" where
  "mem_bolt = \<lparr>
     b_Begin = Inr,
     b_Commit = Inr,
     b_CreateBucketIfNotExists =
       (\<lambda>n db. if n = [] then Inl (Msg ''bucket name required'')
               else Inr (if map_of db n = None then (n, []) # db else db)),
     b_HasBucket = (\<lambda>n db. map_of db n \<noteq> None),
     b_Get = (\<lambda>n k db. map_of (mem_content n db) k),
     b_Put = (\<lambda>n k d db. if k = [] then Inl (Msg ''key required'') else Inr (mem_put n k d db)),
     b_Delete = (\<lambda>n k db. Inr (mem_delete n k db)),
     b_ForEach = (\<lambda>n db. mem_list (mem_content n db))\<rparr>"

lemma mem_bolt_ops [simp]:
  "b_Begin mem_bolt db = Inr db"
  "b_Commit mem_bolt db = Inr db"
  "b_CreateBucketIfNotExists mem_bolt n db =
     (if n = [] then Inl (Msg ''bucket name required'')
      else Inr (if map_of db n = None then (n, []) # db else db))"
  "b_HasBucket mem_bolt n db \<longleftrightarrow> map_of db n \<noteq> None"
  "b_Get mem_bolt n k db = map_of (mem_content n db) k"
  "b_Put mem_bolt n k d db =
     (if k = [] then Inl (Msg ''key required'') else Inr (mem_put n k d db))"
  "b_Delete mem_bolt n k db = Inr (mem_delete n k db)"
  "b_ForEach mem_bolt n db = mem_list (mem_content n db)"
  by (simp_all add: mem_bolt_def)

lemma map_of_keys: "map_of (map (\<lambda>k. (k, f k)) ks) k = (if k \<in> set ks then Some (f k) else None)"
  by (induction ks) auto

lemma map_of_mem_list: "map_of (mem_list es) = (\<lambda>k. map_option Some (map_of es k))"
proof
  fix k
  show "map_of (mem_list es) k = map_option Some (map_of es k)"
    by (cases "map_of es k")
      (force simp: mem_list_def map_of_keys map_of_eq_None_iff dest: map_of_SomeD)+
qed

lemma mem_view:
  "view mem_bolt db n = map_option (\<lambda>es k. map_option Some (map_of es k)) (map_of db n)"
  by (auto simp: view_def mem_content_def map_of_mem_list split: option.splits)

lemma map_of_values: "map_of (map (\<lambda>(m, es). (m, f m es)) db) n = map_option (f n) (map_of db n)"
  by (induction db) auto

lemma map_of_filter_key: "map_of (filter (\<lambda>e. fst e \<noteq> k) es) = (map_of es)(k := None)"
proof
  fix j
  show "map_of (filter (\<lambda>e. fst e \<noteq> k) es) j = ((map_of es)(k := None)) j"
    by (induction es) auto
qed

interpretation mem: bolt_api mem_bolt
proof
  fix n tx tx'
  assume "b_CreateBucketIfNotExists mem_bolt n tx = Inr tx'"
  then show "view mem_bolt tx' = (view mem_bolt tx)
      (n := Some (case view mem_bolt tx n of None \<Rightarrow> Map.empty | Some m \<Rightarrow> m))"
    by (auto simp: mem_view fun_eq_iff split: if_splits option.splits)
next
  fix n k d tx m tx'
  assume "view mem_bolt tx n = Some m" "b_Put mem_bolt n k d tx = Inr tx'"
  then show "view mem_bolt tx' = (view mem_bolt tx)(n \<mapsto> m(k \<mapsto> Some d))"
    by (auto simp: mem_view fun_eq_iff mem_put_def map_of_values map_of_filter_key option.map_ident
        split: if_splits)
next
  fix n k tx m tx'
  assume "view mem_bolt tx n = Some m" "b_Delete mem_bolt n k tx = Inr tx'"
  then show "view mem_bolt tx' = (view mem_bolt tx)(n \<mapsto> m(k := None))"
    by (auto simp: mem_view fun_eq_iff mem_delete_def map_of_values map_of_filter_key option.map_ident)
next
  fix n tx
  show "sorted (map fst (b_ForEach mem_bolt n tx)) \<and> distinct (map fst (b_ForEach mem_bolt n tx))"
    by (simp add: mem_list_def comp_def)
next
  fix tx n m k
  assume "view mem_bolt tx n = Some m"
  then show "b_Get mem_bolt n k tx = (case m k of Some (Some d) \<Rightarrow> Some d | _ \<Rightarrow> None)"
    by (auto simp: mem_view mem_content_def split: option.splits)
qed simp_all

end
