(* ===== verification/Store.thy ===== *)
theory Store
  imports Bolt
begin

text \<open>
  \<open>internal/store\<close>: typed collections over the buckets of the database. A collection is its
  bucket name with the document codec of its element type. The operations with the suffix
  \<open>Tx\<close> work inside a transaction of the caller; the others run a transaction of their own.
  The specification of a collection is the partial map \<open>tbl\<close> of its keys to values, defined
  when every stored document decodes (\<open>tbl_ok\<close>); the locale \<open>store_collection\<close> shows what
  each operation does to that map.
\<close>

section \<open>Collections and their operations\<close>

record 'v collection =
  col_bucket :: string
  col_enc :: "'v \<Rightarrow> json result"
  col_dec :: "json \<Rightarrow> 'v result"

record 'v Entry =
  Key :: string
  Value :: 'v

definition no_bucket :: error where
  "no_bucket = Msg ''collection does not exist''"

definition NewCollection ::
  "'db bolt \<Rightarrow> string \<Rightarrow> ('v \<Rightarrow> json result) \<Rightarrow> (json \<Rightarrow> 'v result) \<Rightarrow> 'db
     \<Rightarrow> 'v collection result \<times> 'db" where
  "NewCollection B name enc dec db =
     (case db_Update B () (\<lambda>tx. ((), b_CreateBucketIfNotExists B name tx)) db of
        (_, Some e, db') \<Rightarrow> (Inl (Wrap ''initialize collection'' e), db')
      | (_, None, db') \<Rightarrow>
          (Inr \<lparr>col_bucket = name, col_enc = enc, col_dec = dec\<rparr>, db'))"

subsection \<open>Inside a transaction\<close>

definition CreateTx :: "'db bolt \<Rightarrow> 'v collection \<Rightarrow> string \<Rightarrow> 'v \<Rightarrow> 'db \<Rightarrow> 'db result" where
  "CreateTx B c key value tx =
     (if \<not> b_HasBucket B (col_bucket c) tx then Inl no_bucket
      else if b_Get B (col_bucket c) key tx \<noteq> None
      then Inl (Wrap ''create entry in collection'' (Sentinel StoreErrAlreadyExists))
      else case col_enc c value of
        Inl e \<Rightarrow> Inl (Wrap ''encode entry'' e)
      | Inr data \<Rightarrow>
          map_error (Wrap ''create entry in collection'') (b_Put B (col_bucket c) key data tx))"

definition GetTx :: "'db bolt \<Rightarrow> 'v collection \<Rightarrow> string \<Rightarrow> 'db \<Rightarrow> 'v result" where
  "GetTx B c key tx =
     (if \<not> b_HasBucket B (col_bucket c) tx then Inl no_bucket
      else case b_Get B (col_bucket c) key tx of
        None \<Rightarrow> Inl (Wrap ''get entry from collection'' (Sentinel StoreErrNotFound))
      | Some data \<Rightarrow> map_error (Wrap ''decode entry from collection'') (col_dec c data))"

definition UpdateTx :: "'db bolt \<Rightarrow> 'v collection \<Rightarrow> string \<Rightarrow> 'v \<Rightarrow> 'db \<Rightarrow> 'db result" where
  "UpdateTx B c key value tx =
     (if \<not> b_HasBucket B (col_bucket c) tx then Inl no_bucket
      else if b_Get B (col_bucket c) key tx = None
      then Inl (Wrap ''update entry in collection'' (Sentinel StoreErrNotFound))
      else case col_enc c value of
        Inl e \<Rightarrow> Inl (Wrap ''encode entry'' e)
      | Inr data \<Rightarrow>
          map_error (Wrap ''update entry in collection'') (b_Put B (col_bucket c) key data tx))"

definition ModifyTx ::
  "'db bolt \<Rightarrow> 'v collection \<Rightarrow> string \<Rightarrow> ('v \<Rightarrow> 'v result) \<Rightarrow> 'db \<Rightarrow> 'db result" where
  "ModifyTx B c key modify tx =
     bind_result (GetTx B c key tx) (\<lambda>value.
     bind_result (map_error (Wrap ''modify entry in collection'') (modify value)) (\<lambda>value'.
       UpdateTx B c key value' tx))"

definition DeleteTx :: "'db bolt \<Rightarrow> 'v collection \<Rightarrow> string \<Rightarrow> 'db \<Rightarrow> 'db result" where
  "DeleteTx B c key tx =
     (if \<not> b_HasBucket B (col_bucket c) tx then Inl no_bucket
      else map_error (Wrap ''delete entry from collection'') (b_Delete B (col_bucket c) key tx))"

definition decode_entry :: "'v collection \<Rightarrow> string \<times> json option \<Rightarrow> 'v Entry result" where
  "decode_entry c kd =
     (case snd kd of
        None \<Rightarrow> Inl (Msg ''unexpected nested bucket'')
      | Some data \<Rightarrow>
          map_value (\<lambda>v. \<lparr>Key = fst kd, Value = v\<rparr>)
            (map_error (Wrap ''decode entry'') (col_dec c data)))"

definition ListTx :: "'db bolt \<Rightarrow> 'v collection \<Rightarrow> 'db \<Rightarrow> 'v Entry list result" where
  "ListTx B c tx =
     (if \<not> b_HasBucket B (col_bucket c) tx then Inl no_bucket
      else map_error (Wrap ''list collection'')
             (map_result (decode_entry c) (b_ForEach B (col_bucket c) tx)))"

definition WriteTx ::
  "'db bolt \<Rightarrow> 'c \<Rightarrow> ('db \<Rightarrow> 'c \<times> 'db result) \<Rightarrow> 'db \<Rightarrow> 'c \<times> error option \<times> 'db" where
  "WriteTx B c0 fn db =
     (case db_Update B c0 fn db of
        (c, e, db') \<Rightarrow> (c, map_option (Wrap ''write transaction'') e, db'))"

subsection \<open>In a transaction of their own\<close>

definition Create ::
  "'db bolt \<Rightarrow> 'v collection \<Rightarrow> string \<Rightarrow> 'v \<Rightarrow> 'db \<Rightarrow> error option \<times> 'db" where
  "Create B c key value db =
     (case col_enc c value of
        Inl e \<Rightarrow> (Some (Wrap ''encode entry'' e), db)
      | Inr data \<Rightarrow>
          (case db_Update B ()
                  (\<lambda>tx. ((),
                     if \<not> b_HasBucket B (col_bucket c) tx then Inl no_bucket
                     else if b_Get B (col_bucket c) key tx \<noteq> None
                     then Inl (Sentinel StoreErrAlreadyExists)
                     else b_Put B (col_bucket c) key data tx)) db of
             (_, e, db') \<Rightarrow> (map_option (Wrap ''create entry in collection'') e, db')))"

definition Get :: "'db bolt \<Rightarrow> 'v collection \<Rightarrow> string \<Rightarrow> 'db \<Rightarrow> 'v result" where
  "Get B c key db =
     map_error (Wrap ''get entry from collection'')
       (db_View B
          (\<lambda>tx. if \<not> b_HasBucket B (col_bucket c) tx then Inl no_bucket
                else case b_Get B (col_bucket c) key tx of
                  None \<Rightarrow> Inl (Sentinel StoreErrNotFound)
                | Some data \<Rightarrow> map_error (Wrap ''decode entry'') (col_dec c data)) db)"

definition Modify ::
  "'db bolt \<Rightarrow> 'v collection \<Rightarrow> string \<Rightarrow> ('v \<Rightarrow> 'v result) \<Rightarrow> 'db \<Rightarrow> error option \<times> 'db" where
  "Modify B c key modify db =
     (case db_Update B ()
             (\<lambda>tx. ((),
                if \<not> b_HasBucket B (col_bucket c) tx then Inl no_bucket
                else case b_Get B (col_bucket c) key tx of
                  None \<Rightarrow> Inl (Sentinel StoreErrNotFound)
                | Some data \<Rightarrow>
                    bind_result (map_error (Wrap ''decode entry'') (col_dec c data)) (\<lambda>value.
                    bind_result (modify value) (\<lambda>value'.
                    bind_result (map_error (Wrap ''encode entry'') (col_enc c value')) (\<lambda>data'.
                      b_Put B (col_bucket c) key data' tx))))) db of
        (_, e, db') \<Rightarrow> (map_option (Wrap ''modify entry in collection'') e, db'))"

definition Delete :: "'db bolt \<Rightarrow> 'v collection \<Rightarrow> string \<Rightarrow> 'db \<Rightarrow> error option \<times> 'db" where
  "Delete B c key db =
     (case db_Update B ()
             (\<lambda>tx. ((), if \<not> b_HasBucket B (col_bucket c) tx then Inl no_bucket
                        else b_Delete B (col_bucket c) key tx)) db of
        (_, e, db') \<Rightarrow> (map_option (Wrap ''delete entry from collection'') e, db'))"

definition list_entries :: "'db bolt \<Rightarrow> 'v collection \<Rightarrow> 'db \<Rightarrow> 'v Entry list result" where
  "list_entries B c db =
     map_error (Wrap ''list collection'')
       (db_View B
          (\<lambda>tx. if \<not> b_HasBucket B (col_bucket c) tx then Inl no_bucket
                else map_result (decode_entry c) (b_ForEach B (col_bucket c) tx)) db)"

section \<open>The specification: a map of keys to values\<close>

definition tbl_ok :: "'db bolt \<Rightarrow> 'v collection \<Rightarrow> 'db \<Rightarrow> bool" where
  "tbl_ok B c db \<longleftrightarrow>
     (\<exists>m. view B db (col_bucket c) = Some m
        \<and> (\<forall>k x. m k = Some x \<longrightarrow> (\<exists>d v. x = Some d \<and> col_dec c d = Inr v)))"

definition tbl :: "'db bolt \<Rightarrow> 'v collection \<Rightarrow> 'db \<Rightarrow> string \<Rightarrow> 'v option" where
  "tbl B c db k =
     (case view B db (col_bucket c) of
        None \<Rightarrow> None
      | Some m \<Rightarrow>
          (case m k of
             Some (Some d) \<Rightarrow> (case col_dec c d of Inl e \<Rightarrow> None | Inr v \<Rightarrow> Some v)
           | _ \<Rightarrow> None))"

text \<open>A change of another bucket leaves a collection as it is.\<close>

lemma tbl_frame:
  "view B db' (col_bucket c) = view B db (col_bucket c) \<Longrightarrow>
     tbl B c db' = tbl B c db \<and> (tbl_ok B c db' \<longleftrightarrow> tbl_ok B c db)"
  by (simp add: tbl_def tbl_ok_def fun_eq_iff)

lemma tbl_view_eq:
  "view B db' = view B db \<Longrightarrow> tbl B c db' = tbl B c db \<and> (tbl_ok B c db' \<longleftrightarrow> tbl_ok B c db)"
  by (rule tbl_frame) simp

lemma map_result_Inr:
  "map_result f xs = Inr ys \<longleftrightarrow> length ys = length xs \<and> (\<forall>i < length xs. f (xs ! i) = Inr (ys ! i))"
proof (induction xs arbitrary: ys)
  case Nil
  then show ?case by auto
next
  case (Cons x xs)
  show ?case
  proof
    assume "map_result f (x # xs) = Inr ys"
    then obtain y zs where "ys = y # zs" "f x = Inr y" "map_result f xs = Inr zs"
      by (auto simp: result_eqs)
    with Cons.IH [of zs] show "length ys = length (x # xs)
        \<and> (\<forall>i < length (x # xs). f ((x # xs) ! i) = Inr (ys ! i))"
      by (auto simp: less_Suc_eq_0_disj)
  next
    assume a: "length ys = length (x # xs)
        \<and> (\<forall>i < length (x # xs). f ((x # xs) ! i) = Inr (ys ! i))"
    then obtain y zs where "ys = y # zs" by (cases ys) auto
    with a Cons.IH [of zs] show "map_result f (x # xs) = Inr ys"
      by (force simp: result_eqs)
  qed
qed

lemma map_result_total:
  "(\<And>x. x \<in> set xs \<Longrightarrow> \<exists>y. f x = Inr y) \<Longrightarrow> \<exists>ys. map_result f xs = Inr ys"
  by (induction xs) (fastforce simp: result_eqs)+

definition pairs :: "'v Entry list \<Rightarrow> (string \<times> 'v) list" where
  "pairs es = map (\<lambda>e. (Key e, Value e)) es"

lemma decode_entries:
  assumes "map_result (decode_entry c) kds = Inr es"
  shows "map Key es = map fst kds"
    and "map_of (pairs es) k =
      (case map_of kds k of
         Some (Some d) \<Rightarrow> (case col_dec c d of Inl e \<Rightarrow> None | Inr v \<Rightarrow> Some v)
       | _ \<Rightarrow> None)"
  using assms
  by (induction kds arbitrary: es)
    (auto simp: decode_entry_def pairs_def result_eqs split: option.splits)

lemma pairs_key: "distinct (map Key es) \<Longrightarrow> e \<in> set es \<Longrightarrow> map_of (pairs es) (Key e) = Some (Value e)"
  by (rule map_of_is_SomeI) (force simp: pairs_def comp_def)+

lemma pairs_entry: "map_of (pairs es) k = Some v \<Longrightarrow> \<exists>e \<in> set es. Key e = k \<and> Value e = v"
  by (force simp: pairs_def dest!: map_of_SomeD)

section \<open>What every operation does to the map\<close>

locale store_collection = bolt_api B for B :: "'db bolt" +
  fixes c :: "'v collection"
  assumes codec: "col_enc c v = Inr d \<Longrightarrow> col_dec c d = Inr v"
begin

sublocale documents: json_codec "col_enc c" "col_dec c"
  by unfold_locales (rule codec)

lemma has_bucket: "tbl_ok B c tx \<Longrightarrow> b_HasBucket B (col_bucket c) tx"
  by (auto simp: tbl_ok_def view_has)

lemma get_iff_tbl:
  assumes "tbl_ok B c tx"
  shows "b_Get B (col_bucket c) k tx = None \<longleftrightarrow> tbl B c tx k = None"
    and "b_Get B (col_bucket c) k tx = Some d \<Longrightarrow> \<exists>v. col_dec c d = Inr v \<and> tbl B c tx k = Some v"
  using assms by (fastforce simp: tbl_ok_def tbl_def get_view split: option.splits sum.splits)+

lemma tbl_after_put:
  assumes ok: "tbl_ok B c tx" and enc: "col_enc c v = Inr d"
    and put: "b_Put B (col_bucket c) k d tx = Inr tx'"
  shows "tbl_ok B c tx'" and "tbl B c tx' = (tbl B c tx)(k \<mapsto> v)"
    and "\<And>n. n \<noteq> col_bucket c \<Longrightarrow> view B tx' n = view B tx n"
proof -
  from ok obtain m where m: "view B tx (col_bucket c) = Some m"
    and all: "\<forall>k x. m k = Some x \<longrightarrow> (\<exists>d v. x = Some d \<and> col_dec c d = Inr v)"
    by (auto simp: tbl_ok_def)
  have view': "view B tx' = (view B tx)(col_bucket c \<mapsto> m(k \<mapsto> Some d))"
    using m put by (rule put_view)
  show "tbl_ok B c tx'"
    using all codec [OF enc] by (auto simp: tbl_ok_def view')
  show "tbl B c tx' = (tbl B c tx)(k \<mapsto> v)"
    using codec [OF enc] by (auto simp: tbl_def view' m fun_eq_iff)
  show "\<And>n. n \<noteq> col_bucket c \<Longrightarrow> view B tx' n = view B tx n"
    by (simp add: view')
qed

lemma GetTx_tbl:
  assumes "tbl_ok B c tx"
  shows "GetTx B c k tx =
    (case tbl B c tx k of
       None \<Rightarrow> Inl (Wrap ''get entry from collection'' (Sentinel StoreErrNotFound))
     | Some v \<Rightarrow> Inr v)"
  using has_bucket [OF assms] get_iff_tbl [OF assms, of k]
  by (cases "b_Get B (col_bucket c) k tx") (auto simp: GetTx_def)

lemma CreateTx_tbl:
  assumes "tbl_ok B c tx" and "CreateTx B c k v tx = Inr tx'"
  shows "tbl B c tx k = None" and "tbl_ok B c tx'" and "tbl B c tx' = (tbl B c tx)(k \<mapsto> v)"
    and "\<And>n. n \<noteq> col_bucket c \<Longrightarrow> view B tx' n = view B tx n"
  using assms get_iff_tbl(1) [OF assms(1)] tbl_after_put [OF assms(1)]
  by (auto simp: CreateTx_def split: if_splits sum.splits)

lemma UpdateTx_tbl:
  assumes "tbl_ok B c tx" and "UpdateTx B c k v tx = Inr tx'"
  shows "tbl B c tx k \<noteq> None" and "tbl_ok B c tx'" and "tbl B c tx' = (tbl B c tx)(k \<mapsto> v)"
    and "\<And>n. n \<noteq> col_bucket c \<Longrightarrow> view B tx' n = view B tx n"
  using assms get_iff_tbl(1) [OF assms(1)] tbl_after_put [OF assms(1)]
  by (auto simp: UpdateTx_def split: if_splits sum.splits)

lemma UpdateTx_missing:
  assumes "tbl_ok B c tx" and "tbl B c tx k = None"
  shows "UpdateTx B c k v tx = Inl (Wrap ''update entry in collection'' (Sentinel StoreErrNotFound))"
  using assms has_bucket get_iff_tbl(1) by (auto simp: UpdateTx_def)

lemma CreateTx_exists:
  assumes "tbl_ok B c tx" and "tbl B c tx k \<noteq> None"
  shows "CreateTx B c k v tx =
    Inl (Wrap ''create entry in collection'' (Sentinel StoreErrAlreadyExists))"
  using assms has_bucket get_iff_tbl(1) by (auto simp: CreateTx_def)

lemma ListTx_tbl:
  assumes "tbl_ok B c tx"
  shows "\<exists>es. ListTx B c tx = Inr es \<and> map_of (pairs es) = tbl B c tx
    \<and> sorted (map Key es) \<and> distinct (map Key es)"
proof -
  let ?kds = "b_ForEach B (col_bucket c) tx"
  have has: "b_HasBucket B (col_bucket c) tx" using assms by (rule has_bucket)
  have v: "view B tx (col_bucket c) = Some (map_of ?kds)"
    using has by (simp add: view_def)
  have dist: "distinct (map fst ?kds)" using foreach_order [OF has] by simp
  have "\<exists>e. decode_entry c kd = Inr e" if "kd \<in> set ?kds" for kd
  proof -
    have "map_of ?kds (fst kd) = Some (snd kd)" using that dist by auto
    then show ?thesis
      using assms v by (fastforce simp: tbl_ok_def decode_entry_def result_eqs)
  qed
  then obtain es where es: "map_result (decode_entry c) ?kds = Inr es"
    using map_result_total by blast
  have "map_of (pairs es) = tbl B c tx"
    by (rule ext) (simp add: decode_entries(2) [OF es] tbl_def v)
  then show ?thesis
    using has es foreach_order [OF has] decode_entries(1) [OF es] by (simp add: ListTx_def)
qed

text \<open>Runs of the closed operations.\<close>

lemma Get_tbl:
  assumes "tbl_ok B c db" and "b_Begin B db = Inr tx"
  shows "Get B c k db =
    (case tbl B c db k of
       None \<Rightarrow> Inl (Wrap ''get entry from collection'' (Sentinel StoreErrNotFound))
     | Some v \<Rightarrow> Inr v)"
proof -
  have "view B tx = view B db" using assms(2) by (rule begin_view)
  then have eq: "tbl B c tx = tbl B c db" and ok: "tbl_ok B c tx"
    using tbl_view_eq [of B tx db c] assms(1) by auto
  show ?thesis
    using has_bucket [OF ok] get_iff_tbl [OF ok, of k] assms(2)
    by (cases "b_Get B (col_bucket c) k tx") (auto simp: Get_def db_View_def eq)
qed

lemma list_entries_tbl:
  assumes "tbl_ok B c db" and "b_Begin B db = Inr tx"
  shows "\<exists>es. list_entries B c db = Inr es \<and> map_of (pairs es) = tbl B c db
    \<and> sorted (map Key es) \<and> distinct (map Key es)"
proof -
  have "view B tx = view B db" using assms(2) by (rule begin_view)
  then have eq: "tbl B c tx = tbl B c db" and ok: "tbl_ok B c tx"
    using tbl_view_eq [of B tx db c] assms(1) by auto
  have "list_entries B c db = ListTx B c tx"
    using assms(2) has_bucket [OF ok] by (simp add: list_entries_def ListTx_def db_View_def)
  with ListTx_tbl [OF ok] show ?thesis by (simp add: eq)
qed

lemma Create_ok:
  assumes "tbl_ok B c db" and "Create B c k v db = (None, db')"
  shows "tbl B c db k = None" and "tbl_ok B c db'" and "tbl B c db' = (tbl B c db)(k \<mapsto> v)"
    and "\<And>n. n \<noteq> col_bucket c \<Longrightarrow> view B db' n = view B db n"
proof -
  from assms(2) obtain d tx tx' where enc: "col_enc c v = Inr d"
    and same: "view B tx = view B db" "view B db' = view B tx'"
    and free: "b_Get B (col_bucket c) k tx = None"
    and put: "b_Put B (col_bucket c) k d tx = Inr tx'"
    by (auto simp: Create_def split: sum.splits prod.splits if_splits dest!: update_committed)
  have ok: "tbl_ok B c tx" and eq: "tbl B c tx = tbl B c db"
    using assms(1) tbl_view_eq [OF same(1), of c] by auto
  note after = tbl_after_put [OF ok enc put]
  show "tbl B c db k = None" using get_iff_tbl(1) [OF ok] free eq by simp
  show "tbl_ok B c db'" and "tbl B c db' = (tbl B c db)(k \<mapsto> v)"
    using after(1,2) tbl_view_eq [OF same(2), of c] eq by auto
  show "\<And>n. n \<noteq> col_bucket c \<Longrightarrow> view B db' n = view B db n"
    using after(3) same by simp
qed

lemma Modify_ok:
  assumes "tbl_ok B c db" and "Modify B c k f db = (None, db')"
  shows "\<exists>v w. tbl B c db k = Some v \<and> f v = Inr w \<and> tbl B c db' = (tbl B c db)(k \<mapsto> w)"
    and "tbl_ok B c db'"
    and "\<And>n. n \<noteq> col_bucket c \<Longrightarrow> view B db' n = view B db n"
proof -
  from assms(2) obtain tx tx' d v w d' where same: "view B tx = view B db" "view B db' = view B tx'"
    and got: "b_Get B (col_bucket c) k tx = Some d" and dec: "col_dec c d = Inr v"
    and f: "f v = Inr w" and enc: "col_enc c w = Inr d'"
    and put: "b_Put B (col_bucket c) k d' tx = Inr tx'"
    by (auto simp: Modify_def result_eqs split: prod.splits if_splits option.splits
        dest!: update_committed)
  have ok: "tbl_ok B c tx" and eq: "tbl B c tx = tbl B c db"
    using assms(1) tbl_view_eq [OF same(1), of c] by auto
  note after = tbl_after_put [OF ok enc put]
  have "tbl B c db k = Some v"
    using get_iff_tbl(2) [OF ok got] dec eq by auto
  with f after(2) tbl_view_eq [OF same(2), of c] eq
  show "\<exists>v w. tbl B c db k = Some v \<and> f v = Inr w \<and> tbl B c db' = (tbl B c db)(k \<mapsto> w)"
    by auto
  show "tbl_ok B c db'" using after(1) tbl_view_eq [OF same(2), of c] by auto
  show "\<And>n. n \<noteq> col_bucket c \<Longrightarrow> view B db' n = view B db n"
    using after(3) same by simp
qed

lemma Delete_ok:
  assumes "tbl_ok B c db" and "Delete B c k db = (None, db')"
  shows "tbl B c db' = (tbl B c db)(k := None)" and "tbl_ok B c db'"
    and "\<And>n. n \<noteq> col_bucket c \<Longrightarrow> view B db' n = view B db n"
proof -
  from assms(2) obtain tx tx' where same: "view B tx = view B db" "view B db' = view B tx'"
    and del: "b_Delete B (col_bucket c) k tx = Inr tx'"
    by (auto simp: Delete_def split: prod.splits if_splits dest!: update_committed)
  have ok: "tbl_ok B c tx" and eq: "tbl B c tx = tbl B c db"
    using assms(1) tbl_view_eq [OF same(1), of c] by auto
  from ok obtain m where m: "view B tx (col_bucket c) = Some m"
    and all: "\<forall>k x. m k = Some x \<longrightarrow> (\<exists>d v. x = Some d \<and> col_dec c d = Inr v)"
    by (auto simp: tbl_ok_def)
  have view': "view B tx' = (view B tx)(col_bucket c \<mapsto> m(k := None))"
    using m del by (rule delete_view)
  have "tbl_ok B c tx'" using all by (auto simp: tbl_ok_def view')
  moreover have "tbl B c tx' = (tbl B c tx)(k := None)"
    by (auto simp: tbl_def view' m fun_eq_iff)
  ultimately show "tbl B c db' = (tbl B c db)(k := None)" and "tbl_ok B c db'"
    using tbl_view_eq [OF same(2), of c] eq by auto
  show "\<And>n. n \<noteq> col_bucket c \<Longrightarrow> view B db' n = view B db n"
    using same by (simp add: view')
qed

end

text \<open>A failed operation leaves the database as it was.\<close>

lemma failed_unchanged:
  "Create B c k v db = (Some e, db') \<Longrightarrow> db' = db"
  "Modify B c k f db = (Some e, db') \<Longrightarrow> db' = db"
  "Delete B c k db = (Some e, db') \<Longrightarrow> db' = db"
  "WriteTx B c0 fn db = (x, Some e, db') \<Longrightarrow> db' = db"
  by (auto simp: Create_def Modify_def Delete_def WriteTx_def
      split: sum.splits prod.splits dest: update_rolled_back)

section \<open>Properties\<close>

text \<open>
  Claim C24: a collection behaves as a map. On a database that keeps the laws of the interface
  and whose documents decode, a \<open>Create\<close> that succeeds adds a new key, a \<open>Modify\<close> that succeeds
  replaces a stored value by the function's result, a \<open>Delete\<close> that succeeds removes the key,
  and a \<open>Get\<close> that can begin its transaction returns exactly the stored value or a not found
  error; the documents decode afterwards, and no other collection changes.
\<close>

theorem collection_is_map:
  assumes "bolt_api B" and "\<And>v d. col_enc c v = Inr d \<Longrightarrow> col_dec c d = Inr v" and "tbl_ok B c db"
  shows "(\<forall>v db'. Create B c k v db = (None, db') \<longrightarrow>
      tbl B c db k = None \<and> tbl B c db' = (tbl B c db)(k \<mapsto> v) \<and> tbl_ok B c db'
      \<and> (\<forall>n. n \<noteq> col_bucket c \<longrightarrow> view B db' n = view B db n))
    \<and> (\<forall>f db'. Modify B c k f db = (None, db') \<longrightarrow>
      (\<exists>v w. tbl B c db k = Some v \<and> f v = Inr w \<and> tbl B c db' = (tbl B c db)(k \<mapsto> w))
      \<and> tbl_ok B c db' \<and> (\<forall>n. n \<noteq> col_bucket c \<longrightarrow> view B db' n = view B db n))
    \<and> (\<forall>db'. Delete B c k db = (None, db') \<longrightarrow>
      tbl B c db' = (tbl B c db)(k := None) \<and> tbl_ok B c db'
      \<and> (\<forall>n. n \<noteq> col_bucket c \<longrightarrow> view B db' n = view B db n))
    \<and> (\<forall>tx. b_Begin B db = Inr tx \<longrightarrow>
      (case tbl B c db k of
         Some v \<Rightarrow> Get B c k db = Inr v
       | None \<Rightarrow> \<exists>e. Get B c k db = Inl e \<and> errors_Is e StoreErrNotFound))"
proof -
  have s: "store_collection B c"
    using assms(1,2) by (simp add: store_collection_def store_collection_axioms_def)
  note create = store_collection.Create_ok [OF s assms(3), of k]
    and modify = store_collection.Modify_ok [OF s assms(3), of k]
    and delete = store_collection.Delete_ok [OF s assms(3), of k]
    and get = store_collection.Get_tbl [OF s assms(3), of _ k]
  show ?thesis
    using create modify delete get by (intro conjI allI impI) (auto split: option.splits)
qed

definition ex_collection :: "string collection" where
  "ex_collection = \<lparr>col_bucket = ''b'', col_enc = \<lambda>s. Inr (JStr s), col_dec = \<lambda>j. dec_string j []\<rparr>"

theorem collection_is_map_witness:
  "tbl mem_bolt ex_collection (snd (Create mem_bolt ex_collection ''k'' ''v'' [(''b'', [])])) ''k'' = Some ''v''
   \<and> Get mem_bolt ex_collection ''x'' [(''b'', [(''x'', JStr ''y'')])] = Inr ''y''"
proof -
  have enc: "col_enc ex_collection v = Inr d \<Longrightarrow> col_dec ex_collection d = Inr v" for v d
    by (auto simp: ex_collection_def dec_string_def)
  have ok: "tbl_ok mem_bolt ex_collection [(''b'', [])]"
    "tbl_ok mem_bolt ex_collection [(''b'', [(''x'', JStr ''y'')])]"
    by (auto simp: tbl_ok_def mem_view ex_collection_def dec_string_def)
  have cr: "Create mem_bolt ex_collection ''k'' ''v'' [(''b'', [])]
      = (None, [(''b'', [(''k'', JStr ''v'')])])"
    by (simp add: Create_def db_Update_def ex_collection_def mem_content_def mem_put_def)
  have t: "tbl mem_bolt ex_collection [(''b'', [(''x'', JStr ''y'')])] ''x'' = Some ''y''"
    by (simp add: tbl_def mem_view ex_collection_def dec_string_def)
  show ?thesis
    using collection_is_map [OF mem.bolt_api_axioms enc ok(1), of "''k''"]
      collection_is_map [OF mem.bolt_api_axioms enc ok(2), of "''x''"] cr t by simp
qed

text \<open>
  Operations are all or nothing. A \<open>Create\<close>, \<open>Modify\<close>, \<open>Delete\<close> or \<open>WriteTx\<close> that
  returns an error leaves the database as it was, whatever its closure wrote before it failed.
\<close>

theorem failed_operation_unchanged:
  "(Create B c k v db = (Some e, db1) \<longrightarrow> db1 = db)
   \<and> (Modify B c k f db = (Some e, db2) \<longrightarrow> db2 = db)
   \<and> (Delete B c k db = (Some e, db3) \<longrightarrow> db3 = db)
   \<and> (WriteTx B c0 fn db = (x, Some e, db4) \<longrightarrow> db4 = db)"
  by (intro conjI impI; erule failed_unchanged)

theorem failed_operation_unchanged_witness:
  "snd (snd (WriteTx mem_bolt ()
     (\<lambda>tx. ((), bind_result (DeleteTx mem_bolt ex_collection ''x'' tx) (\<lambda>_. Inl (Msg ''late'')))) [(''b'', [])]))
   = [(''b'', [])]"
proof -
  have "WriteTx mem_bolt ()
     (\<lambda>tx. ((), bind_result (DeleteTx mem_bolt ex_collection ''x'' tx) (\<lambda>_. Inl (Msg ''late'')))) [(''b'', [])]
     = ((), Some (Wrap ''write transaction'' (Msg ''late'')), [(''b'', [])])"
    by (simp add: WriteTx_def db_Update_def DeleteTx_def ex_collection_def)
  then show ?thesis using failed_operation_unchanged [of mem_bolt] by fastforce
qed

end
