(* ===== verification/Go_Encoding.thy ===== *)
theory Go_Encoding
  imports Go_Strings
begin

text \<open>
  \<open>hex.EncodeToString\<close> and \<open>base64.RawURLEncoding\<close> on byte strings. The base64 decoder is
  Go's lenient one: carriage returns and newlines are skipped, the unused low bits of a
  partial last group are ignored, padding characters are errors.
\<close>

section \<open>Hexadecimal\<close>

definition hex_digit :: "nat \<Rightarrow> char" where
  "hex_digit n = ''0123456789abcdef'' ! n"

definition hex_EncodeToString :: "string \<Rightarrow> string" where
  "hex_EncodeToString bs =
     concat (map (\<lambda>c. [hex_digit (code c div 16), hex_digit (code c mod 16)]) bs)"

lemma length_hex: "length (hex_EncodeToString bs) = 2 * length bs"
  by (induction bs) (auto simp: hex_EncodeToString_def)

lemma nat_less_16: "n < 16 \<Longrightarrow> n \<in> {0, 1, 2, 3, 4, 5, 6, 7, 8, 9, 10, 11, 12, 13, 14, 15 :: nat}"
  by simp presburger

lemma hex_digit_inj: "m < 16 \<Longrightarrow> n < 16 \<Longrightarrow> hex_digit m = hex_digit n \<Longrightarrow> m = n"
proof -
  have d: "distinct ''0123456789abcdef''" and l: "length ''0123456789abcdef'' = 16"
    by simp_all
  show "m < 16 \<Longrightarrow> n < 16 \<Longrightarrow> hex_digit m = hex_digit n \<Longrightarrow> m = n"
    unfolding hex_digit_def using nth_eq_iff_index_eq [OF d] l by metis
qed

lemma code_inj: "code a = code b \<Longrightarrow> a = b"
  by (metis byte_code)

lemma hex_pair_inj:
  assumes "hex_digit (code a div 16) = hex_digit (code b div 16)"
    and "hex_digit (code a mod 16) = hex_digit (code b mod 16)"
  shows "a = b"
proof -
  have bound: "code c div 16 < 16" for c
    using code_less [of c] by linarith
  have "code a div 16 = code b div 16" "code a mod 16 = code b mod 16"
    using assms hex_digit_inj bound by simp_all
  then show ?thesis
    by (intro code_inj) (metis div_mult_mod_eq)
qed

lemma hex_inj: "hex_EncodeToString a = hex_EncodeToString b \<Longrightarrow> a = b"
proof (induction a arbitrary: b)
  case Nil
  then show ?case by (cases b) (auto simp: hex_EncodeToString_def)
next
  case (Cons x a)
  then show ?case
    by (cases b) (auto simp: hex_EncodeToString_def dest: hex_pair_inj)
qed

section \<open>Unpadded URL base64\<close>

definition b64_alphabet :: string where
  "b64_alphabet = ''ABCDEFGHIJKLMNOPQRSTUVWXYZabcdefghijklmnopqrstuvwxyz0123456789-_''"

definition b64_char :: "nat \<Rightarrow> char" where
  "b64_char n = b64_alphabet ! n"

fun index_from :: "nat \<Rightarrow> char list \<Rightarrow> char \<Rightarrow> nat option" where
  "index_from i [] c = None"
| "index_from i (x # xs) c = (if x = c then Some i else index_from (Suc i) xs c)"

definition b64_value :: "char \<Rightarrow> nat option" where
  "b64_value c = index_from 0 b64_alphabet c"

fun b64_EncodeToString :: "string \<Rightarrow> string" where
  "b64_EncodeToString [] = []"
| "b64_EncodeToString [a] =
     (let v = code a * 65536
      in [b64_char (v div 262144 mod 64), b64_char (v div 4096 mod 64)])"
| "b64_EncodeToString [a, b] =
     (let v = code a * 65536 + code b * 256
      in [b64_char (v div 262144 mod 64), b64_char (v div 4096 mod 64), b64_char (v div 64 mod 64)])"
| "b64_EncodeToString (a # b # c # bs) =
     (let v = code a * 65536 + code b * 256 + code c
      in b64_char (v div 262144 mod 64) # b64_char (v div 4096 mod 64)
           # b64_char (v div 64 mod 64) # b64_char (v mod 64) # b64_EncodeToString bs)"

fun b64_quanta :: "nat list \<Rightarrow> string option" where
  "b64_quanta [] = Some []"
| "b64_quanta [p] = None"
| "b64_quanta [p, q] =
     (let v = p * 262144 + q * 4096 in Some [byte (v div 65536)])"
| "b64_quanta [p, q, r] =
     (let v = p * 262144 + q * 4096 + r * 64
      in Some [byte (v div 65536), byte (v div 256 mod 256)])"
| "b64_quanta (p # q # r # s # xs) =
     (let v = p * 262144 + q * 4096 + r * 64 + s
      in map_option (\<lambda>rest. byte (v div 65536) # byte (v div 256 mod 256) # byte (v mod 256) # rest)
           (b64_quanta xs))"

fun b64_values :: "string \<Rightarrow> nat list option" where
  "b64_values [] = Some []"
| "b64_values (c # cs) =
     (case b64_value c of
        None \<Rightarrow> None
      | Some v \<Rightarrow> map_option ((#) v) (b64_values cs))"

definition b64_DecodeString :: "string \<Rightarrow> string option" where
  "b64_DecodeString s =
     Option.bind (b64_values (filter (\<lambda>c. c \<noteq> byte 10 \<and> c \<noteq> byte 13) s)) b64_quanta"

lemma index_from_nth:
  "distinct xs \<Longrightarrow> n < length xs \<Longrightarrow> index_from i xs (xs ! n) = Some (i + n)"
proof (induction xs arbitrary: i n)
  case Nil
  then show ?case by simp
next
  case (Cons x xs)
  then show ?case by (cases n) auto
qed

lemma b64_alphabet_facts: "distinct b64_alphabet" "length b64_alphabet = 64"
  by (simp_all add: b64_alphabet_def)

lemma b64_value_char [simp]: "n < 64 \<Longrightarrow> b64_value (b64_char n) = Some n"
  using index_from_nth [OF b64_alphabet_facts(1), of n 0] b64_alphabet_facts(2)
  by (simp add: b64_value_def b64_char_def)

lemma b64_char_in: "n < 64 \<Longrightarrow> b64_char n \<in> set b64_alphabet"
  using b64_alphabet_facts(2) by (simp add: b64_char_def)

lemma b64_alphabet_plain: "CHR ''.'' \<notin> set b64_alphabet" "byte 10 \<notin> set b64_alphabet"
    "byte 13 \<notin> set b64_alphabet"
  unfolding b64_alphabet_def by code_simp+

lemma set_b64_Encode: "set (b64_EncodeToString bs) \<subseteq> set b64_alphabet"
  by (induction bs rule: b64_EncodeToString.induct) (auto simp: Let_def b64_char_in)

lemma b64_Encode_no_dot [simp]: "CHR ''.'' \<notin> set (b64_EncodeToString bs)"
  using set_b64_Encode b64_alphabet_plain(1) by blast

lemma filter_b64_Encode:
  "filter (\<lambda>c. c \<noteq> byte 10 \<and> c \<noteq> byte 13) (b64_EncodeToString bs) = b64_EncodeToString bs"
  using set_b64_Encode [of bs] b64_alphabet_plain(2,3)
  by (intro filter_True) auto

lemma length_b64_Encode:
  "length (b64_EncodeToString bs) = (4 * length bs + 2) div 3"
  by (induction bs rule: b64_EncodeToString.induct) (auto simp: Let_def)

text \<open>The groups of six bits put together again.\<close>

lemma sextets4:
  assumes "v < (16777216 :: nat)"
  shows "v div 262144 mod 64 * 262144 + v div 4096 mod 64 * 4096 + v div 64 mod 64 * 64 + v mod 64
           = v"
proof -
  have d: "v div 4096 = v div 64 div 64" "v div 262144 = v div 64 div 64 div 64"
    by (simp_all add: div_mult2_eq [symmetric])
  have "v div 262144 < 64"
    using assms by (simp add: less_mult_imp_div_less)
  then have "v div 262144 mod 64 = v div 262144"
    by simp
  moreover have "v div 64 div 64 = v div 64 div 64 div 64 * 64 + v div 64 div 64 mod 64"
    and "v div 64 = v div 64 div 64 * 64 + v div 64 mod 64" and "v = v div 64 * 64 + v mod 64"
    by (metis div_mult_mod_eq)+
  ultimately show ?thesis
    unfolding d by linarith
qed

lemma three_bytes:
  assumes "a < 256" "b < 256" "c < (256 :: nat)"
  shows "(a * 65536 + b * 256 + c) div 65536 = a"
    "(a * 65536 + b * 256 + c) div 256 mod 256 = b"
    "(a * 65536 + b * 256 + c) mod 256 = c"
    "a * 65536 + b * 256 + c < 16777216"
proof -
  show "(a * 65536 + b * 256 + c) div 65536 = a"
    by (rule div_nat_eqI) (use assms in simp_all)
  have "(a * 65536 + b * 256 + c) div 256 = a * 256 + b"
    by (rule div_nat_eqI) (use assms in simp_all)
  then show "(a * 65536 + b * 256 + c) div 256 mod 256 = b"
    using assms by simp
  have "(a * 65536 + b * 256 + c) = c + 256 * (a * 256 + b)"
    by simp
  then show "(a * 65536 + b * 256 + c) mod 256 = c"
    using assms by (metis mod_less mod_mult_self2)
  show "a * 65536 + b * 256 + c < 16777216"
    using assms by linarith
qed

lemma low_sextets:
  "(a * 65536) mod 64 = (0 :: nat)" "(a * 65536) div 64 mod 64 = (0 :: nat)"
  "(a * 65536 + b * 256) mod 64 = (0 :: nat)"
proof -
  have e: "a * 65536 = 64 * (64 * (a * 16))" "a * 65536 + b * 256 = 64 * (a * 1024 + b * 4)"
    by simp_all
  show "(a * 65536) mod 64 = 0" "(a * 65536) div 64 mod 64 = 0"
    unfolding e(1) by simp_all
  show "(a * 65536 + b * 256) mod 64 = 0"
    unfolding e(2) by (rule mod_mult_self1_is_0)
qed

lemma quantum1: "p * 262144 + q * 4096 = w \<Longrightarrow> b64_quanta [p, q] = Some [byte (w div 65536)]"
  by (auto simp: Let_def)

lemma quantum2:
  "p * 262144 + q * 4096 + r * 64 = w \<Longrightarrow>
     b64_quanta [p, q, r] = Some [byte (w div 65536), byte (w div 256 mod 256)]"
  by (auto simp: Let_def)

lemma quantum3:
  "p * 262144 + q * 4096 + r * 64 + s = w \<Longrightarrow>
     b64_quanta (p # q # r # s # xs) =
       map_option (\<lambda>rest. byte (w div 65536) # byte (w div 256 mod 256) # byte (w mod 256) # rest)
         (b64_quanta xs)"
  by (auto simp: Let_def)

lemma b64_quanta_encode:
  "\<exists>vs. b64_values (b64_EncodeToString bs) = Some vs \<and> b64_quanta vs = Some bs"
proof (induction bs rule: b64_EncodeToString.induct)
  case 1
  show ?case by simp
next
  case (2 a)
  obtain v where v: "v = code a * 65536" by blast
  have enc: "b64_EncodeToString [a] = [b64_char (v div 262144 mod 64), b64_char (v div 4096 mod 64)]"
    by (simp add: v Let_def)
  have low: "v mod 64 = 0" "v div 64 mod 64 = 0" and hi: "v div 65536 = code a"
    and bound: "v < 16777216"
    using code_less [of a] low_sextets(1,2) [of "code a"] by (simp_all add: v)
  show ?case
    unfolding enc using quantum1 [OF sextets4 [OF bound, unfolded low add_0_right mult_0]] hi
    by simp
next
  case (3 a b)
  obtain v where v: "v = code a * 65536 + code b * 256" by blast
  have enc: "b64_EncodeToString [a, b] =
      [b64_char (v div 262144 mod 64), b64_char (v div 4096 mod 64), b64_char (v div 64 mod 64)]"
    by (simp only: v Let_def b64_EncodeToString.simps)
  note bytes = three_bytes [OF code_less [of a] code_less [of b], of 0, unfolded add_0_right,
      folded v, OF zero_less_numeral]
  have low: "v mod 64 = 0"
    using low_sextets(3) by (simp only: v)
  show ?case
    unfolding enc
    using quantum2 [OF sextets4 [OF bytes(4), unfolded low add_0_right]] bytes(1,2) by simp
next
  case (4 a b c bs)
  obtain v where v: "v = code a * 65536 + code b * 256 + code c" by blast
  have enc: "b64_EncodeToString (a # b # c # bs) =
      b64_char (v div 262144 mod 64) # b64_char (v div 4096 mod 64)
        # b64_char (v div 64 mod 64) # b64_char (v mod 64) # b64_EncodeToString bs"
    by (simp only: v Let_def b64_EncodeToString.simps)
  note bytes = three_bytes [OF code_less [of a] code_less [of b] code_less [of c], folded v]
  from 4 obtain vs where "b64_values (b64_EncodeToString bs) = Some vs" "b64_quanta vs = Some bs"
    by blast
  then show ?case
    unfolding enc using quantum3 [OF sextets4 [OF bytes(4)]] bytes(1-3)
    by (simp del: b64_quanta.simps)
qed

lemma b64_roundtrip [simp]: "b64_DecodeString (b64_EncodeToString bs) = Some bs"
  using b64_quanta_encode [of bs] by (auto simp: b64_DecodeString_def filter_b64_Encode)

lemma b64_inj: "b64_EncodeToString a = b64_EncodeToString b \<Longrightarrow> a = b"
  by (metis b64_roundtrip option.inject)

end
