(* ===== verification/Node.thy ===== *)
theory Node
  imports Json Go_Encoding
begin

text \<open>
  \<open>internal/node\<close>: the stored node, its document, when it counts as reachable, and the
  generation of its identifier from sixteen random bytes (\<open>rnd\<close>, what \<open>rand.Read\<close> filled in).
\<close>

section \<open>The node and its document\<close>

record Node =
  n_ID :: string
  n_Name :: string
  n_RuntimeReady :: bool
  n_LastSeenAt :: "instant option"
  n_StatusSessionID :: string
  n_StatusSequence :: uint64

definition zero_Node :: Node where
  "zero_Node = \<lparr>n_ID = [], n_Name = [], n_RuntimeReady = False, n_LastSeenAt = None,
     n_StatusSessionID = [], n_StatusSequence = 0\<rparr>"

definition marshal_Node :: "Node \<Rightarrow> json result" where
  "marshal_Node n =
     map_value
       (\<lambda>seen. JObj
          ([(''id'', JStr (n_ID n)), (''name'', JStr (n_Name n)),
            (''runtime_ready'', JBool (n_RuntimeReady n))]
           @ seen @ omit_string ''status_session_id'' (n_StatusSessionID n)
           @ [(''status_sequence'', enc_uint (n_StatusSequence n))]))
       (omit_time ''last_seen_at'' (n_LastSeenAt n))"

definition Node_fields :: "Node fields" where
  "Node_fields =
     [(''id'', \<lambda>j n. map_value (\<lambda>x. n\<lparr>n_ID := x\<rparr>) (dec_string j (n_ID n))),
      (''name'', \<lambda>j n. map_value (\<lambda>x. n\<lparr>n_Name := x\<rparr>) (dec_string j (n_Name n))),
      (''runtime_ready'',
         \<lambda>j n. map_value (\<lambda>x. n\<lparr>n_RuntimeReady := x\<rparr>) (dec_bool j (n_RuntimeReady n))),
      (''last_seen_at'', \<lambda>j n. map_value (\<lambda>x. n\<lparr>n_LastSeenAt := x\<rparr>) (dec_time_ptr j)),
      (''status_session_id'',
         \<lambda>j n. map_value (\<lambda>x. n\<lparr>n_StatusSessionID := x\<rparr>) (dec_string j (n_StatusSessionID n))),
      (''status_sequence'',
         \<lambda>j n. map_value (\<lambda>x. n\<lparr>n_StatusSequence := x\<rparr>) (dec_uint j (n_StatusSequence n)))]"

definition unmarshal_Node :: "json \<Rightarrow> Node result" where
  "unmarshal_Node = decode_struct False Node_fields zero_Node"

lemma Node_keys [key_simps]:
  "fold_name ''id'' = ''ID''" "fold_name ''name'' = ''NAME''"
  "fold_name ''runtime_ready'' = ''RUNTIME_READY''"
  "fold_name ''last_seen_at'' = ''LAST_SEEN_AT''"
  "fold_name ''status_session_id'' = ''STATUS_SESSION_ID''"
  "fold_name ''status_sequence'' = ''STATUS_SEQUENCE''"
  by code_simp+

lemma Node_field_steps [codec_simps]:
  "decode_member False Node_fields (''id'', JStr s) n = Inr (n\<lparr>n_ID := s\<rparr>)"
  "decode_member False Node_fields (''name'', JStr s) n = Inr (n\<lparr>n_Name := s\<rparr>)"
  "decode_member False Node_fields (''runtime_ready'', JBool b) n = Inr (n\<lparr>n_RuntimeReady := b\<rparr>)"
  "decode_member False Node_fields (''last_seen_at'', JTime t) n = Inr (n\<lparr>n_LastSeenAt := Some t\<rparr>)"
  "decode_member False Node_fields (''status_session_id'', JStr s) n
     = Inr (n\<lparr>n_StatusSessionID := s\<rparr>)"
  "decode_member False Node_fields (''status_sequence'', enc_uint i) n
     = Inr (n\<lparr>n_StatusSequence := i\<rparr>)"
  by (simp_all add: decode_member_def Node_fields_def codec_simps key_simps)

lemma Node_omitted [codec_simps]:
  "n_StatusSessionID n = [] \<Longrightarrow>
     fold_result (decode_member False Node_fields) (omit_string ''status_session_id'' s) n
       = Inr (n\<lparr>n_StatusSessionID := s\<rparr>)"
  "omit_time ''last_seen_at'' t = Inr ms \<Longrightarrow> n_LastSeenAt n = None \<Longrightarrow>
     fold_result (decode_member False Node_fields) ms n = Inr (n\<lparr>n_LastSeenAt := t\<rparr>)"
  by (cases n; auto simp: omit_string_def omit_time_Inr codec_simps split: option.splits)+

text \<open>A document is read back as the node it was made from.\<close>

lemma Node_codec: "marshal_Node n = Inr d \<Longrightarrow> unmarshal_Node d = Inr n"
  unfolding marshal_Node_def unmarshal_Node_def map_value_eq_Inr
  by (erule exE, erule conjE, cases n, simp add: codec_simps fold_result_append zero_Node_def)

interpretation node_codec: json_codec marshal_Node unmarshal_Node
  by unfold_locales (rule Node_codec)

lemma marshal_Node_defined:
  "(\<And>t. n_LastSeenAt n = Some t \<Longrightarrow> time_min \<le> t \<and> t < time_max) \<Longrightarrow> \<exists>d. marshal_Node n = Inr d"
  by (auto simp: marshal_Node_def map_value_def omit_time_def enc_time_in split: option.splits)

section \<open>Reachability\<close>

definition heartbeatMaxAge :: duration where
  "heartbeatMaxAge = seconds 90"

definition IsReachable :: "Node \<Rightarrow> instant \<Rightarrow> bool" where
  "IsReachable n now =
     (case n_LastSeenAt n of None \<Rightarrow> False | Some seen \<Rightarrow> now < seen + heartbeatMaxAge)"

lemma IsReachable_antimono: "IsReachable n later \<Longrightarrow> now \<le> later \<Longrightarrow> IsReachable n now"
  by (auto simp: IsReachable_def split: option.splits)

definition GenerateNodeID :: "string \<Rightarrow> string" where
  "GenerateNodeID rnd = hex_EncodeToString rnd"

lemma GenerateNodeID_inj: "GenerateNodeID a = GenerateNodeID b \<Longrightarrow> a = b"
  unfolding GenerateNodeID_def by (rule hex_inj)

lemma GenerateNodeID_not_Nil: "rnd \<noteq> [] \<Longrightarrow> GenerateNodeID rnd \<noteq> []"
  using length_hex [of rnd] by (cases rnd) (auto simp: GenerateNodeID_def)

end
