(* ===== verification/Container.thy ===== *)
theory Container
  imports Json Go_Encoding Node
begin

text \<open>
  \<open>internal/container\<close>: the stored container and its document. The lifecycle state is a Go
  string type with three constants; a stored document may hold any string. The enumeration
  \<open>lifecycle\<close> and its order are the specification of the three constants: pending, then
  running, then exited.
\<close>

section \<open>States\<close>

type_synonym State = string

definition StatePending :: State where "StatePending = ''pending''"
definition StateRunning :: State where "StateRunning = ''running''"
definition StateExited :: State where "StateExited = ''exited''"

lemma State_distinct [simp]:
  "StatePending \<noteq> StateRunning" "StatePending \<noteq> StateExited" "StateRunning \<noteq> StateExited"
  "StateRunning \<noteq> StatePending" "StateExited \<noteq> StatePending" "StateExited \<noteq> StateRunning"
  by (simp_all add: StatePending_def StateRunning_def StateExited_def)

datatype lifecycle = Pending | Running | Exited

fun rank :: "lifecycle \<Rightarrow> nat" where
  "rank Pending = 0"
| "rank Running = 1"
| "rank Exited = 2"

lemma rank_inj: "rank a = rank b \<Longrightarrow> a = b"
  by (cases a; cases b) auto

instantiation lifecycle :: linorder
begin

definition less_eq_lifecycle :: "lifecycle \<Rightarrow> lifecycle \<Rightarrow> bool" where
  "a \<le> b \<longleftrightarrow> rank a \<le> rank b"

definition less_lifecycle :: "lifecycle \<Rightarrow> lifecycle \<Rightarrow> bool" where
  "a < b \<longleftrightarrow> rank a < rank b"

instance
  by intro_classes (auto simp: less_eq_lifecycle_def less_lifecycle_def intro: rank_inj)

end

definition lifecycle_of :: "State \<Rightarrow> lifecycle option" where
  "lifecycle_of s =
     (if s = StatePending then Some Pending
      else if s = StateRunning then Some Running
      else if s = StateExited then Some Exited
      else None)"

lemma lifecycle_of_simps [simp]:
  "lifecycle_of StatePending = Some Pending"
  "lifecycle_of StateRunning = Some Running"
  "lifecycle_of StateExited = Some Exited"
  by (simp_all add: lifecycle_of_def)

lemma lifecycle_order_simps [simp]:
  "Pending \<le> a" "Running \<le> a \<longleftrightarrow> a \<noteq> Pending" "Exited \<le> a \<longleftrightarrow> a = Exited"
  by (cases a; simp add: less_eq_lifecycle_def)+

section \<open>The container and its document\<close>

record Container =
  c_ID :: string
  c_Name :: string
  c_Image :: string
  c_NodeID :: string
  c_State :: State
  c_ExitCode :: "go_int option"
  c_Reason :: string
  c_Message :: string
  c_CreatedAt :: instant
  c_DeletionRequestedAt :: "instant option"

text \<open>The zero \<open>time.Time\<close> is the first instant of year 1.\<close>

definition zero_time :: instant where
  "zero_time = seconds (- 62135596800)"

definition zero_Container :: Container where
  "zero_Container = \<lparr>c_ID = [], c_Name = [], c_Image = [], c_NodeID = [], c_State = [],
     c_ExitCode = None, c_Reason = [], c_Message = [], c_CreatedAt = zero_time,
     c_DeletionRequestedAt = None\<rparr>"

definition marshal_Container :: "Container \<Rightarrow> json result" where
  "marshal_Container c =
     bind_result (enc_time (c_CreatedAt c)) (\<lambda>created.
     bind_result (omit_time ''deletion_requested_at'' (c_DeletionRequestedAt c)) (\<lambda>deletion.
     Inr (JObj
       ([(''id'', JStr (c_ID c)), (''name'', JStr (c_Name c)), (''image'', JStr (c_Image c))]
        @ omit_string ''node_id'' (c_NodeID c)
        @ [(''state'', JStr (c_State c))]
        @ omit_int ''exit_code'' (c_ExitCode c)
        @ omit_string ''reason'' (c_Reason c)
        @ omit_string ''message'' (c_Message c)
        @ [(''created_at'', created)]
        @ deletion))))"

definition Container_fields :: "Container fields" where
  "Container_fields =
     [(''id'', \<lambda>j c. map_value (\<lambda>x. c\<lparr>c_ID := x\<rparr>) (dec_string j (c_ID c))),
      (''name'', \<lambda>j c. map_value (\<lambda>x. c\<lparr>c_Name := x\<rparr>) (dec_string j (c_Name c))),
      (''image'', \<lambda>j c. map_value (\<lambda>x. c\<lparr>c_Image := x\<rparr>) (dec_string j (c_Image c))),
      (''node_id'', \<lambda>j c. map_value (\<lambda>x. c\<lparr>c_NodeID := x\<rparr>) (dec_string j (c_NodeID c))),
      (''state'', \<lambda>j c. map_value (\<lambda>x. c\<lparr>c_State := x\<rparr>) (dec_string j (c_State c))),
      (''exit_code'', \<lambda>j c. map_value (\<lambda>x. c\<lparr>c_ExitCode := x\<rparr>) (dec_int_ptr j)),
      (''reason'', \<lambda>j c. map_value (\<lambda>x. c\<lparr>c_Reason := x\<rparr>) (dec_string j (c_Reason c))),
      (''message'', \<lambda>j c. map_value (\<lambda>x. c\<lparr>c_Message := x\<rparr>) (dec_string j (c_Message c))),
      (''created_at'', \<lambda>j c. map_value (\<lambda>x. c\<lparr>c_CreatedAt := x\<rparr>) (dec_time j (c_CreatedAt c))),
      (''deletion_requested_at'',
         \<lambda>j c. map_value (\<lambda>x. c\<lparr>c_DeletionRequestedAt := x\<rparr>) (dec_time_ptr j))]"

definition unmarshal_Container :: "json \<Rightarrow> Container result" where
  "unmarshal_Container = decode_struct False Container_fields zero_Container"

lemma Container_keys [key_simps]:
  "fold_name ''image'' = ''IMAGE''" "fold_name ''node_id'' = ''NODE_ID''"
  "fold_name ''state'' = ''STATE''" "fold_name ''exit_code'' = ''EXIT_CODE''"
  "fold_name ''reason'' = ''REASON''" "fold_name ''message'' = ''MESSAGE''"
  "fold_name ''created_at'' = ''CREATED_AT''"
  "fold_name ''deletion_requested_at'' = ''DELETION_REQUESTED_AT''"
  by code_simp+

text \<open>Looking up each member's key finds its field.\<close>

lemma Container_field_steps [codec_simps]:
  "decode_member False Container_fields (''id'', JStr s) c = Inr (c\<lparr>c_ID := s\<rparr>)"
  "decode_member False Container_fields (''name'', JStr s) c = Inr (c\<lparr>c_Name := s\<rparr>)"
  "decode_member False Container_fields (''image'', JStr s) c = Inr (c\<lparr>c_Image := s\<rparr>)"
  "decode_member False Container_fields (''node_id'', JStr s) c = Inr (c\<lparr>c_NodeID := s\<rparr>)"
  "decode_member False Container_fields (''state'', JStr s) c = Inr (c\<lparr>c_State := s\<rparr>)"
  "decode_member False Container_fields (''exit_code'', JInt (sint i)) c
     = Inr (c\<lparr>c_ExitCode := Some i\<rparr>)"
  "decode_member False Container_fields (''reason'', JStr s) c = Inr (c\<lparr>c_Reason := s\<rparr>)"
  "decode_member False Container_fields (''message'', JStr s) c = Inr (c\<lparr>c_Message := s\<rparr>)"
  "decode_member False Container_fields (''created_at'', JTime t) c = Inr (c\<lparr>c_CreatedAt := t\<rparr>)"
  "decode_member False Container_fields (''deletion_requested_at'', JTime t) c
     = Inr (c\<lparr>c_DeletionRequestedAt := Some t\<rparr>)"
  by (simp_all add: decode_member_def Container_fields_def codec_simps key_simps)

lemma Container_omitted [codec_simps]:
  "c_NodeID c = [] \<Longrightarrow>
     fold_result (decode_member False Container_fields) (omit_string ''node_id'' s) c
       = Inr (c\<lparr>c_NodeID := s\<rparr>)"
  "c_Reason c = [] \<Longrightarrow>
     fold_result (decode_member False Container_fields) (omit_string ''reason'' s) c
       = Inr (c\<lparr>c_Reason := s\<rparr>)"
  "c_Message c = [] \<Longrightarrow>
     fold_result (decode_member False Container_fields) (omit_string ''message'' s) c
       = Inr (c\<lparr>c_Message := s\<rparr>)"
  "c_ExitCode c = None \<Longrightarrow>
     fold_result (decode_member False Container_fields) (omit_int ''exit_code'' i) c
       = Inr (c\<lparr>c_ExitCode := i\<rparr>)"
  "omit_time ''deletion_requested_at'' t = Inr ms \<Longrightarrow> c_DeletionRequestedAt c = None \<Longrightarrow>
     fold_result (decode_member False Container_fields) ms c
       = Inr (c\<lparr>c_DeletionRequestedAt := t\<rparr>)"
  by (cases c; auto simp: omit_string_def omit_int_def omit_time_Inr codec_simps split: option.splits)+

lemma Container_codec: "marshal_Container c = Inr d \<Longrightarrow> unmarshal_Container d = Inr c"
  unfolding marshal_Container_def unmarshal_Container_def bind_result_eq_Inr
  by (elim exE conjE, cases c, simp add: enc_time_Inr, elim conjE, hypsubst,
      simp add: codec_simps fold_result_append zero_Container_def)

interpretation container_codec: json_codec marshal_Container unmarshal_Container
  by unfold_locales (rule Container_codec)

lemma marshal_Container_defined:
  assumes "time_min \<le> c_CreatedAt c" "c_CreatedAt c < time_max"
    and "\<And>t. c_DeletionRequestedAt c = Some t \<Longrightarrow> time_min \<le> t \<and> t < time_max"
  shows "\<exists>d. marshal_Container c = Inr d"
  using assms by (auto simp: marshal_Container_def omit_time_def enc_time_in split: option.splits)

definition GenerateContainerID :: "string \<Rightarrow> string" where
  "GenerateContainerID rnd = hex_EncodeToString rnd"

end
