(* ===== verification/Token.thy ===== *)
theory Token
  imports Json Go_Encoding Node Container
begin

text \<open>
  \<open>internal/token\<close>: join tokens and what the server keeps about them. A token is
  \<open><CA fingerprint>.<secret>\<close>, both parts 32 bytes in unpadded URL base64. The server stores
  the metadata under the hash of the secret. SHA-256 is a parameter (\<open>sha256\<close>); the random
  bytes of a new secret are an argument, as \<open>rand.Read\<close> returned them.
\<close>

section \<open>Tokens\<close>

record Token =
  t_CAFingerprint :: string
  t_Secret :: string

definition Format :: "Token \<Rightarrow> string" where
  "Format t = t_CAFingerprint t @ ''.'' @ t_Secret t"

definition SecretHash :: "(string \<Rightarrow> string) \<Rightarrow> Token \<Rightarrow> string" where
  "SecretHash sha256 t = hex_EncodeToString (sha256 (t_Secret t))"

definition generateSecret :: "string result \<Rightarrow> string result" where
  "generateSecret rnd =
     (case rnd of
        Inl e \<Rightarrow> Inl (Wrap ''generate token secret'' e)
      | Inr bytes \<Rightarrow> Inr (b64_EncodeToString bytes))"

definition caFingerprint :: "(string \<Rightarrow> string) \<Rightarrow> string \<Rightarrow> string" where
  "caFingerprint sha256 raw = b64_EncodeToString (sha256 raw)"

definition Generate :: "(string \<Rightarrow> string) \<Rightarrow> string \<Rightarrow> string result \<Rightarrow> Token result" where
  "Generate sha256 caRaw rnd =
     bind_result (generateSecret rnd) (\<lambda>secret.
       Inr \<lparr>t_CAFingerprint = caFingerprint sha256 caRaw, t_Secret = secret\<rparr>)"

text \<open>The check of one part, as the loop of \<open>Parse\<close> makes it.\<close>

definition check_part :: "string \<Rightarrow> unit \<Rightarrow> unit result" where
  "check_part part u =
     (case b64_DecodeString part of
        None \<Rightarrow> Inl (Wrap ''decode token part'' (Msg ''illegal base64 data''))
      | Some decoded \<Rightarrow>
          if length decoded \<noteq> 32 then Inl (Msg ''each token part must contain 32 bytes'')
          else Inr ())"

definition Parse :: "string \<Rightarrow> Token result" where
  "Parse value =
     (let parts = Split (CHR ''.'') value
      in if length parts \<noteq> 2 then Inl (Msg ''token must contain a CA fingerprint and secret'')
         else bind_result (fold_result check_part parts ())
           (\<lambda>_. Inr \<lparr>t_CAFingerprint = parts ! 0, t_Secret = parts ! 1\<rparr>))"

lemma Parse_two_parts:
  "Parse value = Inr t \<longleftrightarrow>
     (\<exists>a b. Split (CHR ''.'') value = [a, b] \<and> t = \<lparr>t_CAFingerprint = a, t_Secret = b\<rparr>
        \<and> check_part a () = Inr () \<and> check_part b () = Inr ())"
proof (cases "\<exists>a b. Split (CHR ''.'') value = [a, b]")
  case True
  then obtain a b where ab: "Split (CHR ''.'') value = [a, b]" by blast
  then show ?thesis
    by (simp add: Parse_def Let_def bind_result_eq_Inr) blast
next
  case False
  then have "length (Split (CHR ''.'') value) \<noteq> 2"
    by (auto simp: numeral_2_eq_2 length_Suc_conv)
  with False show ?thesis by (auto simp: Parse_def Let_def)
qed

lemma check_part_encoded [simp]:
  "check_part (b64_EncodeToString bs) () = Inr () \<longleftrightarrow> length bs = 32"
  by (simp add: check_part_def)

lemma Parse_Format_encoded:
  assumes "length a = 32" "length b = 32"
  shows "Parse (Format \<lparr>t_CAFingerprint = b64_EncodeToString a, t_Secret = b64_EncodeToString b\<rparr>)
    = Inr \<lparr>t_CAFingerprint = b64_EncodeToString a, t_Secret = b64_EncodeToString b\<rparr>"
  using assms
  by (simp add: Parse_two_parts Format_def Split_append Split_no_sep)

lemma Format_of_Parse: "Parse value = Inr t \<Longrightarrow> Format t = value"
  unfolding Parse_two_parts Format_def by (auto dest: Split_join)

lemma Generate_Inr:
  "Generate sha256 raw rnd = Inr t \<longleftrightarrow>
     (\<exists>bs. rnd = Inr bs
        \<and> t = \<lparr>t_CAFingerprint = b64_EncodeToString (sha256 raw), t_Secret = b64_EncodeToString bs\<rparr>)"
  by (auto simp: Generate_def generateSecret_def caFingerprint_def split: sum.splits)

section \<open>Metadata\<close>

record EnrollmentResult =
  er_RequestHash :: string
  er_NodeID :: string
  er_Certificate :: string

record Metadata =
  md_ExpiresAt :: instant
  md_Enrollment :: "EnrollmentResult option"

definition Expired :: "Metadata \<Rightarrow> instant \<Rightarrow> bool" where
  "Expired m now \<longleftrightarrow> \<not> now < md_ExpiresAt m"

definition zero_EnrollmentResult :: EnrollmentResult where
  "zero_EnrollmentResult = \<lparr>er_RequestHash = [], er_NodeID = [], er_Certificate = []\<rparr>"

definition zero_Metadata :: Metadata where
  "zero_Metadata = \<lparr>md_ExpiresAt = zero_time, md_Enrollment = None\<rparr>"

definition marshal_EnrollmentResult :: "EnrollmentResult \<Rightarrow> json" where
  "marshal_EnrollmentResult e =
     JObj [(''request_hash'', JStr (er_RequestHash e)), (''node_id'', JStr (er_NodeID e)),
           (''certificate'', JStr (er_Certificate e))]"

definition marshal_Metadata :: "Metadata \<Rightarrow> json result" where
  "marshal_Metadata m =
     map_value
       (\<lambda>expires. JObj
          ((''expires_at'', expires)
             # (case md_Enrollment m of
                  None \<Rightarrow> []
                | Some e \<Rightarrow> [(''enrollment'', marshal_EnrollmentResult e)])))
       (enc_time (md_ExpiresAt m))"

definition EnrollmentResult_fields :: "EnrollmentResult fields" where
  "EnrollmentResult_fields =
     [(''request_hash'',
         \<lambda>j e. map_value (\<lambda>x. e\<lparr>er_RequestHash := x\<rparr>) (dec_string j (er_RequestHash e))),
      (''node_id'', \<lambda>j e. map_value (\<lambda>x. e\<lparr>er_NodeID := x\<rparr>) (dec_string j (er_NodeID e))),
      (''certificate'',
         \<lambda>j e. map_value (\<lambda>x. e\<lparr>er_Certificate := x\<rparr>) (dec_string j (er_Certificate e)))]"

text \<open>A pointer to a struct: \<open>null\<close> makes it nil, an object fills the struct it points to.\<close>

definition dec_enrollment ::
  "json \<Rightarrow> EnrollmentResult option \<Rightarrow> EnrollmentResult option result" where
  "dec_enrollment j old =
     (case j of
        JNull \<Rightarrow> Inr None
      | _ \<Rightarrow> map_value Some
               (decode_struct False EnrollmentResult_fields
                  (case old of None \<Rightarrow> zero_EnrollmentResult | Some e \<Rightarrow> e) j))"

definition Metadata_fields :: "Metadata fields" where
  "Metadata_fields =
     [(''expires_at'',
         \<lambda>j m. map_value (\<lambda>x. m\<lparr>md_ExpiresAt := x\<rparr>) (dec_time j (md_ExpiresAt m))),
      (''enrollment'',
         \<lambda>j m. map_value (\<lambda>x. m\<lparr>md_Enrollment := x\<rparr>) (dec_enrollment j (md_Enrollment m)))]"

definition unmarshal_Metadata :: "json \<Rightarrow> Metadata result" where
  "unmarshal_Metadata = decode_struct False Metadata_fields zero_Metadata"

lemma Metadata_keys [key_simps]:
  "fold_name ''expires_at'' = ''EXPIRES_AT''" "fold_name ''enrollment'' = ''ENROLLMENT''"
  "fold_name ''request_hash'' = ''REQUEST_HASH''" "fold_name ''certificate'' = ''CERTIFICATE''"
  by code_simp+

lemma EnrollmentResult_codec:
  "decode_struct False EnrollmentResult_fields zero_EnrollmentResult (marshal_EnrollmentResult e)
     = Inr e"
  by (simp add: marshal_EnrollmentResult_def EnrollmentResult_fields_def codec_simps key_simps
      decode_member_def zero_EnrollmentResult_def)

lemma dec_enrollment_marshal [codec_simps]:
  "dec_enrollment (marshal_EnrollmentResult e) None = Inr (Some e)"
  using EnrollmentResult_codec [of e]
  by (simp add: dec_enrollment_def marshal_EnrollmentResult_def)

lemma Metadata_codec: "marshal_Metadata m = Inr d \<Longrightarrow> unmarshal_Metadata d = Inr m"
  unfolding marshal_Metadata_def unmarshal_Metadata_def map_value_eq_Inr
  by (cases m)
    (auto simp: enc_time_Inr codec_simps decode_member_def key_simps Metadata_fields_def
      zero_Metadata_def split: option.split)

interpretation metadata_codec: json_codec marshal_Metadata unmarshal_Metadata
  by unfold_locales (rule Metadata_codec)

section \<open>Properties\<close>

lemma b64_values_chars: "b64_values s = Some vs \<Longrightarrow> c \<in> set s \<Longrightarrow> b64_value c \<noteq> None"
  by (induction s arbitrary: vs) (auto split: option.splits)

lemma decoded_no_dot: "b64_DecodeString p = Some d \<Longrightarrow> CHR ''.'' \<notin> set p"
proof
  assume "b64_DecodeString p = Some d" "CHR ''.'' \<in> set p"
  moreover have "b64_value (CHR ''.'') = None" "CHR ''.'' \<noteq> byte 10" "CHR ''.'' \<noteq> byte 13"
    by code_simp+
  ultimately show False
    using b64_values_chars by (fastforce simp: b64_DecodeString_def bind_eq_Some_conv)
qed

definition thirty_two_bytes :: "string \<Rightarrow> bool" where
  "thirty_two_bytes part = (case b64_DecodeString part of None \<Rightarrow> False | Some d \<Rightarrow> length d = 32)"

lemma check_part_iff: "check_part part () = Inr () \<longleftrightarrow> thirty_two_bytes part"
  by (auto simp: check_part_def thirty_two_bytes_def split: option.splits)

text \<open>
  Claim C26: parsing inverts formatting and accepts nothing else. A text parses to a token
  exactly when it is that token's formatted text and both parts decode to 32 bytes; so every
  accepted text has one dot, between two parts of unpadded URL base64.
\<close>

theorem parse_exact:
  "Parse value = Inr t \<longleftrightarrow>
     value = Format t \<and> thirty_two_bytes (t_CAFingerprint t) \<and> thirty_two_bytes (t_Secret t)"
proof
  assume p: "Parse value = Inr t"
  then show "value = Format t \<and> thirty_two_bytes (t_CAFingerprint t) \<and> thirty_two_bytes (t_Secret t)"
    using Format_of_Parse [OF p] by (auto simp: Parse_two_parts check_part_iff)
next
  assume v: "value = Format t \<and> thirty_two_bytes (t_CAFingerprint t) \<and> thirty_two_bytes (t_Secret t)"
  then have "CHR ''.'' \<notin> set (t_CAFingerprint t)" "CHR ''.'' \<notin> set (t_Secret t)"
    using decoded_no_dot by (auto simp: thirty_two_bytes_def split: option.splits)
  then have "Split (CHR ''.'') value = [t_CAFingerprint t, t_Secret t]"
    using v by (simp add: Format_def Split_append Split_no_sep)
  then show "Parse value = Inr t" using v by (auto simp: Parse_two_parts check_part_iff)
qed

end
