(* ===== verification/Queue.thy ===== *)
theory Queue
  imports Prelude "HOL-Library.Multiset"
begin

text \<open>
  \<open>internal/queue\<close>: the work queue between the API server and the scheduler. Every method
  holds the mutex for its whole body (\<open>Get\<close> gives it up only inside \<open>cond.Wait\<close>), so a
  method is one atomic step on the queue; what it does to the condition variable is part of
  its result. \<open>Get\<close> with nothing to return waits: its result is then \<open>None\<close>, and it runs
  again when it is woken. Closing a closed channel panics: \<open>Shutdown\<close> returns an option.
  The second half puts the methods together with the goroutines of \<open>AddAfter\<close> and the
  callers that wait, as a step relation.
\<close>

section \<open>The queue\<close>

record MemoryQueue =
  items :: "string list"
  dirty :: "string set"
  processing :: "string set"
  shuttingDown :: bool
  shutdownCh_closed :: bool

datatype wake = NoWake | Signal | Broadcast

definition NewMemoryQueue :: MemoryQueue where
  "NewMemoryQueue = \<lparr>items = [], dirty = {}, processing = {}, shuttingDown = False,
     shutdownCh_closed = False\<rparr>"

definition Add :: "string \<Rightarrow> MemoryQueue \<Rightarrow> MemoryQueue \<times> wake" where
  "Add name q =
     (if shuttingDown q then (q, NoWake)
      else if name \<in> dirty q then (q, NoWake)
      else
        let q1 = q\<lparr>dirty := insert name (dirty q)\<rparr>
        in if name \<in> processing q then (q1, NoWake)
           else (q1\<lparr>items := items q @ [name]\<rparr>, Signal))"

text \<open>The goroutine that \<open>AddAfter\<close> starts, by what it waits for; \<open>None\<close> when it returns early.\<close>

definition AddAfter :: "string \<Rightarrow> duration \<Rightarrow> MemoryQueue \<Rightarrow> (string \<times> duration) option" where
  "AddAfter name delay q = (if shuttingDown q then None else Some (name, delay))"

definition Get :: "MemoryQueue \<Rightarrow> (string \<times> bool) option \<times> MemoryQueue" where
  "Get q =
     (if items q = [] \<and> \<not> shuttingDown q then (None, q)
      else if shuttingDown q then (Some ([], True), q)
      else
        let name = hd (items q)
        in (Some (name, False),
            q\<lparr>items := tl (items q), dirty := dirty q - {name},
              processing := insert name (processing q)\<rparr>))"

definition Done :: "string \<Rightarrow> MemoryQueue \<Rightarrow> MemoryQueue \<times> wake" where
  "Done name q =
     (let q1 = q\<lparr>processing := processing q - {name}\<rparr>
      in if name \<notin> dirty q then (q1, NoWake)
         else (q1\<lparr>items := items q @ [name]\<rparr>, Signal))"

definition queue_len :: "MemoryQueue \<Rightarrow> nat" where
  "queue_len q = length (items q)"

definition Shutdown :: "MemoryQueue \<Rightarrow> (MemoryQueue \<times> wake) option" where
  "Shutdown q =
     (if shuttingDown q then Some (q, NoWake)
      else if shutdownCh_closed q then None
      else Some (q\<lparr>shuttingDown := True, shutdownCh_closed := True\<rparr>, Broadcast))"

section \<open>The invariant\<close>

text \<open>
  The list holds each name at most once, and exactly the names that are dirty and not being
  processed. A name that is both waits for \<open>Done\<close>.
\<close>

definition queue_inv :: "MemoryQueue \<Rightarrow> bool" where
  "queue_inv q \<longleftrightarrow>
     distinct (items q) \<and> set (items q) = dirty q - processing q
     \<and> (shutdownCh_closed q \<longleftrightarrow> shuttingDown q)"

lemma queue_inv_New: "queue_inv NewMemoryQueue"
  by (simp add: queue_inv_def NewMemoryQueue_def)

lemma queue_inv_Add: "queue_inv q \<Longrightarrow> queue_inv (fst (Add name q))"
  by (auto simp: queue_inv_def Add_def Let_def)

lemma Get_cases:
  obtains (waits) "items q = []" "\<not> shuttingDown q" "Get q = (None, q)"
  | (shut) "shuttingDown q" "Get q = (Some ([], True), q)"
  | (item) x xs where "items q = x # xs" "\<not> shuttingDown q"
      "Get q = (Some (x, False), q\<lparr>items := xs, dirty := dirty q - {x},
         processing := insert x (processing q)\<rparr>)"
  by (cases "items q"; cases "shuttingDown q") (auto simp: Get_def)

lemma queue_inv_Get: "queue_inv q \<Longrightarrow> queue_inv (snd (Get q))"
  by (cases rule: Get_cases [of q]) (auto simp: queue_inv_def)

text \<open>\<open>Done\<close> keeps the invariant for a name that is being processed: what its callers pass.\<close>

lemma queue_inv_Done: "queue_inv q \<Longrightarrow> name \<in> processing q \<Longrightarrow> queue_inv (fst (Done name q))"
  by (auto simp: queue_inv_def Done_def Let_def)

lemma Shutdown_total: "queue_inv q \<Longrightarrow> \<exists>q' w. Shutdown q = Some (q', w)"
  by (auto simp: queue_inv_def Shutdown_def)

lemma queue_inv_Shutdown: "queue_inv q \<Longrightarrow> Shutdown q = Some (q', w) \<Longrightarrow> queue_inv q'"
  by (auto simp: queue_inv_def Shutdown_def split: if_splits)

lemmas queue_inv_intros =
  queue_inv_New queue_inv_Add queue_inv_Get queue_inv_Done queue_inv_Shutdown

section \<open>The specification\<close>

text \<open>
  What a client of a work queue relies on: the names that wait to be handled (\<open>pending\<close>), the
  names that are being handled (\<open>active\<close>), and whether the queue is closed. A name that is
  active is never handed out, a name added while it is active stays pending.
\<close>

locale work_queue =
  fixes add :: "string \<Rightarrow> 'q \<Rightarrow> 'q"
    and get :: "'q \<Rightarrow> (string \<times> bool) option \<times> 'q"
    and finish :: "string \<Rightarrow> 'q \<Rightarrow> 'q"
    and pending :: "'q \<Rightarrow> string set"
    and active :: "'q \<Rightarrow> string set"
    and closed :: "'q \<Rightarrow> bool"
    and inv :: "'q \<Rightarrow> bool"
  assumes inv_add: "inv q \<Longrightarrow> inv (add x q)"
    and inv_get: "inv q \<Longrightarrow> inv (snd (get q))"
    and inv_finish: "inv q \<Longrightarrow> x \<in> active q \<Longrightarrow> inv (finish x q)"
    and add_open: "inv q \<Longrightarrow> \<not> closed q \<Longrightarrow> pending (add x q) = insert x (pending q)"
    and add_closed: "closed q \<Longrightarrow> add x q = q"
    and add_active: "active (add x q) = active q"
    and add_keeps_closed: "closed (add x q) = closed q"
    and get_waits: "inv q \<Longrightarrow>
      fst (get q) = None \<longleftrightarrow> \<not> closed q \<and> pending q \<subseteq> active q"
    and get_shutdown: "fst (get q) = Some (x, True) \<longleftrightarrow> closed q \<and> x = []"
    and get_item: "inv q \<Longrightarrow> get q = (Some (x, False), q') \<Longrightarrow>
      x \<in> pending q - active q \<and> pending q' = pending q - {x} \<and> active q' = insert x (active q)
      \<and> closed q' = closed q"
    and finish_pending: "pending (finish x q) = pending q"
    and finish_active: "active (finish x q) = active q - {x}"
    and finish_closed: "closed (finish x q) = closed q"
begin

text \<open>One round of a single worker: take a name, perhaps add it again, finish it.\<close>

lemma round_inv:
  assumes "inv q" and "get q = (Some (x, False), q1)"
  shows "inv (finish x q1)" and "active (finish x q1) = active q"
    and "pending (finish x q1) = pending q - {x}"
proof -
  have q1: "inv q1" using inv_get [OF assms(1)] assms(2) by simp
  note item = get_item [OF assms]
  show "inv (finish x q1)" using inv_finish [OF q1, of x] item by simp
  show "active (finish x q1) = active q" using item by (auto simp: finish_active)
  show "pending (finish x q1) = pending q - {x}" using item by (simp add: finish_pending)
qed

text \<open>A name added while it is handled is handed out again.\<close>

lemma added_while_active:
  assumes "inv q" and "\<not> closed q" and "x \<in> active q" and "active q \<subseteq> {x}"
  shows "fst (get (finish x (add x q))) \<noteq> None"
proof -
  have i: "inv (finish x (add x q))"
    using assms inv_add inv_finish by (simp add: add_active)
  have "x \<in> pending (finish x (add x q)) - active (finish x (add x q))"
    using assms by (simp add: finish_pending finish_active add_open)
  then show ?thesis using get_waits [OF i] by blast
qed

end

interpretation mq: work_queue
  "\<lambda>x q. fst (Add x q)" Get "\<lambda>x q. fst (Done x q)" dirty processing shuttingDown queue_inv
proof
  fix q x q'
  assume "queue_inv q" "Get q = (Some (x, False), q')"
  then show "x \<in> dirty q - processing q \<and> dirty q' = dirty q - {x}
      \<and> processing q' = insert x (processing q) \<and> shuttingDown q' = shuttingDown q"
  proof (cases rule: Get_cases [of q])
    case (item y ys)
    with \<open>queue_inv q\<close> have "y \<in> dirty q - processing q"
      unfolding queue_inv_def by (metis list.set_intros(1))
    with item \<open>Get q = (Some (x, False), q')\<close> show ?thesis by auto
  qed simp_all
next
  fix q
  assume "queue_inv q"
  then have "items q = [] \<longleftrightarrow> dirty q \<subseteq> processing q"
    by (metis Diff_eq_empty_iff queue_inv_def set_empty)
  then show "(fst (Get q) = None) \<longleftrightarrow> \<not> shuttingDown q \<and> dirty q \<subseteq> processing q"
    by (auto simp: Get_def Let_def)
next
  fix q x
  show "(fst (Get q) = Some (x, True)) \<longleftrightarrow> shuttingDown q \<and> x = []"
    by (cases rule: Get_cases [of q]) auto
qed (use queue_inv_Add queue_inv_Get queue_inv_Done in
    \<open>auto simp: Add_def Done_def Let_def\<close>)

section \<open>First in, first out\<close>

datatype qop = OpAdd string | OpGet | OpDone string

fun qrun :: "qop list \<Rightarrow> MemoryQueue \<Rightarrow> MemoryQueue" where
  "qrun [] q = q"
| "qrun (OpAdd x # ops) q = qrun ops (fst (Add x q))"
| "qrun (OpGet # ops) q = qrun ops (snd (Get q))"
| "qrun (OpDone x # ops) q = qrun ops (fst (Done x q))"

lemma items_Add: "\<exists>zs. items (fst (Add x q)) = items q @ zs"
  by (auto simp: Add_def Let_def)

lemma items_Done: "\<exists>zs. items (fst (Done x q)) = items q @ zs"
  by (auto simp: Done_def Let_def)

lemma open_kept [simp]:
  "shuttingDown (fst (Add x q)) = shuttingDown q"
  "shuttingDown (fst (Done x q)) = shuttingDown q"
  "shuttingDown (snd (Get q)) = shuttingDown q"
  by (auto simp: Add_def Done_def Get_def Let_def)

lemma items_Get_open:
  "\<not> shuttingDown q \<Longrightarrow> items q = x # xs \<Longrightarrow> items (snd (Get q)) = xs \<and> fst (Get q) = Some (x, False)"
  by (simp add: Get_def)

lemma fifo_run:
  assumes "\<not> shuttingDown q" and "items q = ys @ x # zs"
    and "length (filter (\<lambda>p. p = OpGet) ops) = length ys"
  shows "fst (Get (qrun ops q)) = Some (x, False)"
  using assms
proof (induction ops q arbitrary: ys zs rule: qrun.induct)
  case (1 q)
  then show ?case by (simp add: Get_def)
next
  case (2 y ops q)
  obtain us where "items (fst (Add y q)) = items q @ us" using items_Add by blast
  with 2 show ?case by simp
next
  case (3 ops q)
  then obtain y ys' where "ys = y # ys'" by (cases ys) auto
  with 3 items_Get_open [of q y "ys' @ x # zs"] show ?case by simp
next
  case (4 y ops q)
  obtain us where "items (fst (Done y q)) = items q @ us" using items_Done by blast
  with 4 show ?case by simp
qed

section \<open>The queue with its goroutines\<close>

text \<open>
  \<open>timers\<close> are the goroutines of \<open>AddAfter\<close> that still wait, \<open>sleepers\<close> the callers of \<open>Get\<close>
  inside \<open>cond.Wait\<close>, \<open>woken\<close> those that were signalled and have not yet taken the mutex
  again. A signal wakes one sleeper if there is one.
\<close>

record qsystem =
  mq :: MemoryQueue
  timers :: "(string \<times> duration) multiset"
  sleepers :: nat
  woken :: nat

fun notify :: "wake \<Rightarrow> nat \<times> nat \<Rightarrow> nat \<times> nat" where
  "notify NoWake (s, w) = (s, w)"
| "notify Signal (s, w) = (if 0 < s then (s - 1, w + 1) else (s, w))"
| "notify Broadcast (s, w) = (0, w + s)"

definition apply_op :: "MemoryQueue \<times> wake \<Rightarrow> qsystem \<Rightarrow> qsystem" where
  "apply_op r s =
     (let (sl, wo) = notify (snd r) (sleepers s, woken s)
      in s\<lparr>mq := fst r, sleepers := sl, woken := wo\<rparr>)"

definition init_qsystem :: qsystem where
  "init_qsystem = \<lparr>mq = NewMemoryQueue, timers = {#}, sleepers = 0, woken = 0\<rparr>"

inductive qstep :: "qsystem \<Rightarrow> qsystem \<Rightarrow> bool" where
  add: "qstep s (apply_op (Add x (mq s)) s)"
| add_after: "AddAfter x d (mq s) = Some t \<Longrightarrow> qstep s (s\<lparr>timers := add_mset t (timers s)\<rparr>)"
| timer_fires: "(x, d) \<in># timers s \<Longrightarrow>
    qstep s (apply_op (Add x (mq s)) (s\<lparr>timers := timers s - {#(x, d)#}\<rparr>))"
| timer_stops: "t \<in># timers s \<Longrightarrow> shutdownCh_closed (mq s) \<Longrightarrow>
    qstep s (s\<lparr>timers := timers s - {#t#}\<rparr>)"
| get_returns: "Get (mq s) = (Some r, q) \<Longrightarrow> qstep s (s\<lparr>mq := q\<rparr>)"
| get_sleeps: "Get (mq s) = (None, q) \<Longrightarrow> qstep s (s\<lparr>sleepers := sleepers s + 1\<rparr>)"
| woken_returns: "0 < woken s \<Longrightarrow> Get (mq s) = (Some r, q) \<Longrightarrow>
    qstep s (s\<lparr>mq := q, woken := woken s - 1\<rparr>)"
| woken_sleeps: "0 < woken s \<Longrightarrow> Get (mq s) = (None, q) \<Longrightarrow>
    qstep s (s\<lparr>sleepers := sleepers s + 1, woken := woken s - 1\<rparr>)"
| finish: "x \<in> processing (mq s) \<Longrightarrow> qstep s (apply_op (Done x (mq s)) s)"
| shutdown: "Shutdown (mq s) = Some r \<Longrightarrow> qstep s (apply_op r s)"

inductive qreach :: "qsystem \<Rightarrow> bool" where
  init: "qreach init_qsystem"
| step: "qreach s \<Longrightarrow> qstep s t \<Longrightarrow> qreach t"

text \<open>
  While somebody sleeps, the queue is open and no more names wait than sleepers have been
  woken for them.
\<close>

definition wake_inv :: "qsystem \<Rightarrow> bool" where
  "wake_inv s \<longleftrightarrow>
     (0 < sleepers s \<longrightarrow> \<not> shuttingDown (mq s) \<and> length (items (mq s)) \<le> woken s)"

definition qsystem_inv :: "qsystem \<Rightarrow> bool" where
  "qsystem_inv s \<longleftrightarrow> queue_inv (mq s) \<and> wake_inv s"

lemma apply_op_mq [simp]: "mq (apply_op r s) = fst r"
  by (simp add: apply_op_def Let_def split: prod.splits)

lemma wake_inv_Add: "wake_inv s \<Longrightarrow> wake_inv (apply_op (Add x (mq s)) s)"
  by (auto simp: wake_inv_def apply_op_def Add_def Let_def)

lemma wake_inv_timers [simp]: "wake_inv (s\<lparr>timers := ts\<rparr>) = wake_inv s"
  by (simp add: wake_inv_def)

lemma wake_inv_Done: "wake_inv s \<Longrightarrow> wake_inv (apply_op (Done x (mq s)) s)"
  by (auto simp: wake_inv_def apply_op_def Done_def Let_def)

lemma wake_inv_Shutdown:
  "queue_inv (mq s) \<Longrightarrow> wake_inv s \<Longrightarrow> Shutdown (mq s) = Some r \<Longrightarrow> wake_inv (apply_op r s)"
  by (auto simp: wake_inv_def apply_op_def Shutdown_def queue_inv_def split: if_splits)

lemma wake_inv_Get:
  assumes "wake_inv s"
  shows "Get (mq s) = (Some r, q) \<Longrightarrow> wake_inv (s\<lparr>mq := q\<rparr>)"
    and "Get (mq s) = (None, q) \<Longrightarrow> wake_inv (s\<lparr>sleepers := sleepers s + 1\<rparr>)"
    and "0 < woken s \<Longrightarrow> Get (mq s) = (Some r, q) \<Longrightarrow>
      wake_inv (s\<lparr>mq := q, woken := woken s - 1\<rparr>)"
    and "0 < woken s \<Longrightarrow> Get (mq s) = (None, q) \<Longrightarrow>
      wake_inv (s\<lparr>sleepers := sleepers s + 1, woken := woken s - 1\<rparr>)"
  using assms by (cases rule: Get_cases [of "mq s"]; auto simp: wake_inv_def)+

lemma qstep_inv: "qstep s t \<Longrightarrow> qsystem_inv s \<Longrightarrow> qsystem_inv t"
proof (induction rule: qstep.induct)
  case (add s x)
  then show ?case by (auto simp: qsystem_inv_def intro: queue_inv_Add wake_inv_Add)
next
  case (timer_fires x d s)
  then show ?case
    using wake_inv_Add [of "s\<lparr>timers := timers s - {#(x, d)#}\<rparr>" x]
    by (auto simp: qsystem_inv_def intro: queue_inv_Add)
next
  case (get_returns s r q)
  then show ?case
    using queue_inv_Get [of "mq s"] wake_inv_Get(1) by (auto simp: qsystem_inv_def)
next
  case (get_sleeps s q)
  then show ?case using wake_inv_Get(2) by (auto simp: qsystem_inv_def)
next
  case (woken_returns s r q)
  then show ?case
    using queue_inv_Get [of "mq s"] wake_inv_Get(3) by (auto simp: qsystem_inv_def)
next
  case (woken_sleeps s q)
  then show ?case using wake_inv_Get(4) by (auto simp: qsystem_inv_def)
next
  case (finish x s)
  then show ?case by (auto simp: qsystem_inv_def intro: queue_inv_Done wake_inv_Done)
next
  case (shutdown s r)
  then show ?case
    by (cases r) (auto simp: qsystem_inv_def intro: queue_inv_Shutdown wake_inv_Shutdown)
qed (auto simp: qsystem_inv_def)

lemma qreach_inv: "qreach s \<Longrightarrow> qsystem_inv s"
proof (induction rule: qreach.induct)
  case init
  show ?case
    using queue_inv_New by (simp add: qsystem_inv_def wake_inv_def init_qsystem_def)
next
  case (step s t)
  then show ?case by (blast intro: qstep_inv)
qed

section \<open>Properties\<close>

text \<open>
  Claim C22: no wake-up is lost. In every reachable state of the queue with its goroutines, the
  list holds each name once and exactly the names that are dirty and not processed; and
  while a caller of \<open>Get\<close> sleeps, the queue is not shut down and no more names wait than
  callers were woken for them, so a name is never left waiting with every caller asleep.
\<close>

theorem no_lost_wakeup:
  assumes "qreach s"
  shows "distinct (items (mq s)) \<and> set (items (mq s)) = dirty (mq s) - processing (mq s)
    \<and> (0 < sleepers s \<longrightarrow> \<not> shuttingDown (mq s) \<and> length (items (mq s)) \<le> woken s)"
  using qreach_inv [OF assms] by (simp add: qsystem_inv_def queue_inv_def wake_inv_def)

definition ex_sleeping :: qsystem where
  "ex_sleeping = apply_op (Add ''a'' (mq (init_qsystem\<lparr>sleepers := 1\<rparr>))) (init_qsystem\<lparr>sleepers := 1\<rparr>)"

theorem no_lost_wakeup_witness:
  "distinct (items (mq ex_sleeping)) \<and> set (items (mq ex_sleeping)) = {''a''} \<and> woken ex_sleeping = 1"
proof -
  have "Get (mq init_qsystem) = (None, mq init_qsystem)"
    by (simp add: Get_def init_qsystem_def NewMemoryQueue_def)
  then have "qreach (init_qsystem\<lparr>sleepers := sleepers init_qsystem + 1\<rparr>)"
    by (intro qreach.step [OF qreach.init] qstep.get_sleeps)
  then have "qreach (init_qsystem\<lparr>sleepers := 1\<rparr>)"
    by (simp add: init_qsystem_def)
  then have "qreach ex_sleeping" unfolding ex_sleeping_def by (rule qreach.step [OF _ qstep.add])
  from no_lost_wakeup [OF this] show ?thesis
    by (simp add: ex_sleeping_def apply_op_def Add_def init_qsystem_def NewMemoryQueue_def Let_def)
qed

text \<open>
  Claim C23: names are handed out first in, first out. While the queue is open, a name with
  \<open>length ys\<close> names before it is the next result of \<open>Get\<close> after exactly that many calls of
  \<open>Get\<close>, whatever calls of \<open>Add\<close> and \<open>Done\<close> come between.
\<close>

theorem first_in_first_out:
  assumes "\<not> shuttingDown q" and "items q = ys @ x # zs"
    and "length (filter (\<lambda>p. p = OpGet) ops) = length ys"
  shows "fst (Get (qrun ops q)) = Some (x, False)"
  by (rule fifo_run [OF assms])

theorem first_in_first_out_witness:
  "fst (Get (qrun [OpAdd ''c'', OpGet, OpDone ''a'']
     (NewMemoryQueue\<lparr>items := [''a'', ''b''], dirty := {''a'', ''b''}\<rparr>))) = Some (''b'', False)"
  by (rule first_in_first_out [where ys = "[''a'']" and zs = "[]"]) (simp_all add: NewMemoryQueue_def)

end
