(* ===== verification/Watch.thy ===== *)
theory Watch
  imports Prelude
begin

text \<open>
  \<open>internal/watch\<close>: one broadcast channel per node that somebody watches. A channel is a
  number; \<open>w_next\<close> is the next one \<open>make\<close> returns and \<open>w_closed\<close> the set of the closed ones.
  The mutex makes each method one atomic step. Closing a closed channel panics, which is
  the result \<open>None\<close> of \<open>Notify\<close>.
\<close>

section \<open>The watcher\<close>

type_synonym chan = nat

record NodeWatcher =
  w_nodes :: "string \<Rightarrow> chan option"
  w_next :: chan
  w_closed :: "chan set"

definition NewNodeWatcher :: NodeWatcher where
  "NewNodeWatcher = \<lparr>w_nodes = Map.empty, w_next = 0, w_closed = {}\<rparr>"

definition Watch :: "string \<Rightarrow> NodeWatcher \<Rightarrow> chan result \<times> NodeWatcher" where
  "Watch nodeID w =
     (if nodeID = [] then (Inl (Msg ''node ID must not be empty''), w)
      else case w_nodes w nodeID of
        Some ch \<Rightarrow> (Inr ch, w)
      | None \<Rightarrow>
          (Inr (w_next w),
           w\<lparr>w_nodes := (w_nodes w)(nodeID \<mapsto> w_next w), w_next := Suc (w_next w)\<rparr>))"

definition Notify :: "string \<Rightarrow> NodeWatcher \<Rightarrow> (error option \<times> NodeWatcher) option" where
  "Notify nodeID w =
     (if nodeID = [] then Some (Some (Msg ''node ID must not be empty''), w)
      else case w_nodes w nodeID of
        None \<Rightarrow> Some (None, w)
      | Some ch \<Rightarrow>
          if ch \<in> w_closed w then None
          else Some (None, w\<lparr>w_nodes := (w_nodes w)(nodeID := None),
                             w_closed := insert ch (w_closed w)\<rparr>))"

text \<open>Whether a receive from the channel returns at once.\<close>

definition chan_closed :: "NodeWatcher \<Rightarrow> chan \<Rightarrow> bool" where
  "chan_closed w ch \<longleftrightarrow> ch \<in> w_closed w"

section \<open>The invariant\<close>

text \<open>The channels in the map are open, made before, and belong to one node each.\<close>

definition watcher_inv :: "NodeWatcher \<Rightarrow> bool" where
  "watcher_inv w \<longleftrightarrow>
     (\<forall>n ch. w_nodes w n = Some ch \<longrightarrow> ch \<notin> w_closed w \<and> ch < w_next w)
     \<and> (\<forall>m n ch. w_nodes w m = Some ch \<longrightarrow> w_nodes w n = Some ch \<longrightarrow> m = n)
     \<and> (\<forall>ch \<in> w_closed w. ch < w_next w)"

lemma watcher_inv_New: "watcher_inv NewNodeWatcher"
  by (simp add: watcher_inv_def NewNodeWatcher_def)

lemma watcher_inv_Watch: "watcher_inv w \<Longrightarrow> watcher_inv (snd (Watch n w))"
  unfolding watcher_inv_def Watch_def by (auto split: option.splits) (force dest: less_SucI)+

lemma watcher_inv_Notify: "watcher_inv w \<Longrightarrow> Notify n w = Some (e, w') \<Longrightarrow> watcher_inv w'"
  unfolding watcher_inv_def Notify_def by (fastforce split: option.splits if_splits)

lemma Notify_total: "watcher_inv w \<Longrightarrow> \<exists>e w'. Notify n w = Some (e, w')"
  by (auto simp: watcher_inv_def Notify_def split: option.splits)

section \<open>The interface\<close>

text \<open>
  A change feed, as the handler that streams assignments and the scheduler use it. \<open>holds\<close> is
  the channel a watcher of a node waits on next.
\<close>

locale change_feed =
  fixes watch :: "string \<Rightarrow> 'w \<Rightarrow> chan result \<times> 'w"
    and notify :: "string \<Rightarrow> 'w \<Rightarrow> (error option \<times> 'w) option"
    and current :: "'w \<Rightarrow> string \<Rightarrow> chan option"
    and is_closed :: "'w \<Rightarrow> chan \<Rightarrow> bool"
    and inv :: "'w \<Rightarrow> bool"
  assumes watch_inv: "inv w \<Longrightarrow> inv (snd (watch n w))"
    and watch_current: "watch n w = (Inr ch, w') \<Longrightarrow> current w' n = Some ch"
    and watch_keeps: "inv w \<Longrightarrow> current w m = Some ch \<Longrightarrow> current (snd (watch n w)) m = Some ch"
    and watch_closed: "is_closed (snd (watch n w)) ch = is_closed w ch"
    and current_open: "inv w \<Longrightarrow> current w n = Some ch \<Longrightarrow> \<not> is_closed w ch"
    and notify_inv: "inv w \<Longrightarrow> notify n w = Some (e, w') \<Longrightarrow> inv w'"
    and notify_total: "inv w \<Longrightarrow> \<exists>e w'. notify n w = Some (e, w')"
    and notify_closes: "notify n w = Some (None, w') \<Longrightarrow> current w n = Some ch \<Longrightarrow> is_closed w' ch"
    and notify_others: "inv w \<Longrightarrow> notify n w = Some (e, w') \<Longrightarrow> m \<noteq> n \<Longrightarrow>
      current w' m = current w m"
    and notify_keeps: "inv w \<Longrightarrow> notify n w = Some (e, w') \<Longrightarrow> is_closed w ch \<Longrightarrow> is_closed w' ch"
begin

text \<open>
  A channel a watcher holds is, at any later time, either closed or still the channel the
  next notification of its node closes. This is what makes waiting on it safe.
\<close>

definition live :: "'w \<Rightarrow> string \<Rightarrow> chan \<Rightarrow> bool" where
  "live w n ch \<longleftrightarrow> is_closed w ch \<or> current w n = Some ch"

lemma live_watched: "watch n w = (Inr ch, w') \<Longrightarrow> live w' n ch"
  by (simp add: live_def watch_current)

lemma live_watch: "inv w \<Longrightarrow> live w m ch \<Longrightarrow> live (snd (watch n w)) m ch"
  using watch_keeps by (auto simp: live_def watch_closed)

lemma live_notify:
  assumes "inv w" "live w m ch" "notify n w = Some (e, w')" and "e = None \<or> m \<noteq> n"
  shows "live w' m ch"
  using assms notify_closes notify_others notify_keeps unfolding live_def by metis

lemma notified_closed:
  "inv w \<Longrightarrow> live w n ch \<Longrightarrow> notify n w = Some (None, w') \<Longrightarrow> is_closed w' ch"
  using notify_closes notify_keeps unfolding live_def by metis

end

interpretation nw: change_feed Watch Notify w_nodes chan_closed watcher_inv
proof
  fix n w e w'
  assume "watcher_inv w" "Notify n w = Some (e, w')"
  then show "watcher_inv w'" by (rule watcher_inv_Notify)
next
  fix w n
  assume "watcher_inv w"
  then show "watcher_inv (snd (Watch n w))" and "\<exists>e w'. Notify n w = Some (e, w')"
    by (rule watcher_inv_Watch, rule Notify_total)
qed (auto simp: Watch_def Notify_def chan_closed_def watcher_inv_def
    split: option.splits if_splits)

end
