(* ===== verification/State.thy ===== *)
theory State
  imports Store Node Container Token Queue Watch
begin

text \<open>
  The state the API server and the scheduler share: the database with its three collections,
  the scheduling queue and the node watcher. \<open>db_inv\<close> is the invariant of the stored data
  that every transaction of the server and of the scheduler keeps.
\<close>

section \<open>The three collections\<close>

definition nodes_collection :: "Node collection" where
  "nodes_collection =
     \<lparr>col_bucket = ''nodes'', col_enc = marshal_Node, col_dec = unmarshal_Node\<rparr>"

definition containers_collection :: "Container collection" where
  "containers_collection =
     \<lparr>col_bucket = ''containers'', col_enc = marshal_Container, col_dec = unmarshal_Container\<rparr>"

definition tokens_collection :: "Metadata collection" where
  "tokens_collection =
     \<lparr>col_bucket = ''tokens'', col_enc = marshal_Metadata, col_dec = unmarshal_Metadata\<rparr>"

lemma collection_simps [simp]:
  "col_bucket nodes_collection = ''nodes''"
  "col_bucket containers_collection = ''containers''"
  "col_bucket tokens_collection = ''tokens''"
  "col_enc nodes_collection = marshal_Node"
  "col_enc containers_collection = marshal_Container"
  "col_enc tokens_collection = marshal_Metadata"
  "col_dec nodes_collection = unmarshal_Node"
  "col_dec containers_collection = unmarshal_Container"
  "col_dec tokens_collection = unmarshal_Metadata"
  by (simp_all add: nodes_collection_def containers_collection_def tokens_collection_def)

locale hambo_db = bolt_api B for B :: "'db bolt"
begin

sublocale nodes: store_collection B nodes_collection
  by unfold_locales (simp add: Node_codec)

sublocale containers: store_collection B containers_collection
  by unfold_locales (simp add: Container_codec)

sublocale tokens: store_collection B tokens_collection
  by unfold_locales (simp add: Metadata_codec)

end

interpretation mem_db: hambo_db mem_bolt
  by unfold_locales

abbreviation node_tbl :: "'db bolt \<Rightarrow> 'db \<Rightarrow> string \<Rightarrow> Node option" where
  "node_tbl B \<equiv> tbl B nodes_collection"

abbreviation container_tbl :: "'db bolt \<Rightarrow> 'db \<Rightarrow> string \<Rightarrow> Container option" where
  "container_tbl B \<equiv> tbl B containers_collection"

abbreviation token_tbl :: "'db bolt \<Rightarrow> 'db \<Rightarrow> string \<Rightarrow> Metadata option" where
  "token_tbl B \<equiv> tbl B tokens_collection"

section \<open>The shared state\<close>

record 'db state =
  st_db :: 'db
  st_queue :: MemoryQueue
  st_watcher :: NodeWatcher

section \<open>The invariant of the stored data\<close>

text \<open>Every document of the three buckets decodes.\<close>

definition db_ok :: "'db bolt \<Rightarrow> 'db \<Rightarrow> bool" where
  "db_ok B db \<longleftrightarrow>
     tbl_ok B nodes_collection db \<and> tbl_ok B containers_collection db
     \<and> tbl_ok B tokens_collection db"

definition nodes_inv :: "(string \<Rightarrow> Node option) \<Rightarrow> bool" where
  "nodes_inv N \<longleftrightarrow> (\<forall>k n. N k = Some n \<longrightarrow> n_ID n = k \<and> k \<noteq> [])"

definition containers_inv ::
  "(string \<Rightarrow> Node option) \<Rightarrow> (string \<Rightarrow> Container option) \<Rightarrow> bool" where
  "containers_inv N C \<longleftrightarrow>
     (\<forall>k c. C k = Some c \<longrightarrow>
        c_ID c = k
        \<and> lifecycle_of (c_State c) \<noteq> None
        \<and> (c_ExitCode c \<noteq> None \<longrightarrow> c_State c = StateExited)
        \<and> (c_NodeID c \<noteq> [] \<longrightarrow> N (c_NodeID c) \<noteq> None)
        \<and> (c_NodeID c = [] \<longrightarrow> c_State c = StatePending))
     \<and> (\<forall>j k c d. C j = Some c \<longrightarrow> C k = Some d \<longrightarrow> c_Name c = c_Name d \<longrightarrow> j = k)"

definition tokens_inv ::
  "(string \<Rightarrow> Node option) \<Rightarrow> (string \<Rightarrow> Metadata option) \<Rightarrow> bool" where
  "tokens_inv N T \<longleftrightarrow>
     (\<forall>h m e. T h = Some m \<longrightarrow> md_Enrollment m = Some e \<longrightarrow> N (er_NodeID e) \<noteq> None)
     \<and> (\<forall>h g m m' e e'.
          T h = Some m \<longrightarrow> T g = Some m' \<longrightarrow> md_Enrollment m = Some e \<longrightarrow>
          md_Enrollment m' = Some e' \<longrightarrow> er_NodeID e = er_NodeID e' \<longrightarrow> h = g)"

definition db_inv :: "'db bolt \<Rightarrow> 'db \<Rightarrow> bool" where
  "db_inv B db \<longleftrightarrow>
     db_ok B db \<and> nodes_inv (node_tbl B db)
     \<and> containers_inv (node_tbl B db) (container_tbl B db)
     \<and> tokens_inv (node_tbl B db) (token_tbl B db)"

text \<open>A database that can begin and commit its transactions, as it can without an I/O error.\<close>

definition db_works :: "'db bolt \<Rightarrow> bool" where
  "db_works B \<longleftrightarrow>
     (\<forall>db. \<exists>tx. b_Begin B db = Inr tx) \<and> (\<forall>tx. \<exists>db. b_Commit B tx = Inr db)"

lemma mem_bolt_works: "db_works mem_bolt"
  by (simp add: db_works_def)

text \<open>
  \<open>Bucket.Put\<close> refuses only a blank or a too long key and a key that names a nested bucket
  (the limit on the length of values, \<open>2 ^ 31 - 2\<close> bytes, is far from the documents of the server).
\<close>

definition maxKeySize :: nat where "maxKeySize = 32768"

definition puts_work :: "'db bolt \<Rightarrow> bool" where
  "puts_work B \<longleftrightarrow>
     (\<forall>tx n m k d. view B tx n = Some m \<longrightarrow> k \<noteq> [] \<longrightarrow> length k \<le> maxKeySize \<longrightarrow> m k \<noteq> Some None
        \<longrightarrow> (\<exists>tx'. b_Put B n k d tx = Inr tx'))"

lemma mem_puts_work: "puts_work mem_bolt"
  by (simp add: puts_work_def)

context store_collection
begin

lemma put_works:
  assumes "puts_work B" and "tbl_ok B c tx" and "k \<noteq> []" and "length k \<le> maxKeySize"
  shows "\<exists>tx'. b_Put B (col_bucket c) k d tx = Inr tx'"
proof -
  obtain m where "view B tx (col_bucket c) = Some m" "m k \<noteq> Some None"
    using assms(2) by (auto simp: tbl_ok_def)
  then show ?thesis using assms(1,3,4) unfolding puts_work_def by blast
qed

lemma CreateTx_works:
  assumes "puts_work B" and "tbl_ok B c tx" and "tbl B c tx k = None" and "k \<noteq> []" "length k \<le> maxKeySize"
    and "col_enc c v = Inr d"
  shows "\<exists>tx'. CreateTx B c k v tx = Inr tx'"
  using put_works [OF assms(1,2,4,5), of d] has_bucket [OF assms(2)] get_iff_tbl(1) [OF assms(2)] assms(3,6)
  by (auto simp: CreateTx_def)

lemma UpdateTx_works:
  assumes "puts_work B" and "tbl_ok B c tx" and "tbl B c tx k = Some v0" and "k \<noteq> []" "length k \<le> maxKeySize"
    and "col_enc c v = Inr d"
  shows "\<exists>tx'. UpdateTx B c k v tx = Inr tx'"
  using put_works [OF assms(1,2,4,5), of d] has_bucket [OF assms(2)] get_iff_tbl(1) [OF assms(2), of k] assms(3,6)
  by (auto simp: UpdateTx_def)

end

lemma db_inv_view: "view B db' = view B db \<Longrightarrow> db_inv B db' \<longleftrightarrow> db_inv B db"
  using tbl_view_eq [of B db' db nodes_collection] tbl_view_eq [of B db' db containers_collection]
    tbl_view_eq [of B db' db tokens_collection]
  by (simp add: db_inv_def db_ok_def)

text \<open>The same content: the documents a reader of the three collections sees.\<close>

definition same_data :: "'db bolt \<Rightarrow> 'db \<Rightarrow> 'db \<Rightarrow> bool" where
  "same_data B db db' \<longleftrightarrow>
     node_tbl B db' = node_tbl B db \<and> container_tbl B db' = container_tbl B db
     \<and> token_tbl B db' = token_tbl B db"

lemma same_data_view: "view B db' = view B db \<Longrightarrow> same_data B db db'"
  using tbl_view_eq [of B db' db nodes_collection] tbl_view_eq [of B db' db containers_collection]
    tbl_view_eq [of B db' db tokens_collection] by (simp add: same_data_def)

lemma same_data_refl [simp]: "same_data B db db"
  by (simp add: same_data_def)

text \<open>A transaction that works: the closure runs on the stored data, and its result decides.\<close>

context bolt_api
begin

lemma WriteTx_works:
  assumes "db_works B"
  obtains tx where "view B tx = view B db"
    "\<And>c e. fn tx = (c, Inl e) \<Longrightarrow> WriteTx B c0 fn db = (c, Some (Wrap ''write transaction'' e), db)"
    "\<And>c tx'. fn tx = (c, Inr tx') \<Longrightarrow>
       \<exists>db'. WriteTx B c0 fn db = (c, None, db') \<and> view B db' = view B tx'"
proof -
  obtain tx where tx: "b_Begin B db = Inr tx" using assms by (auto simp: db_works_def)
  show ?thesis
  proof (rule that [of tx])
    show "view B tx = view B db" using tx by (rule begin_view)
    show "WriteTx B c0 fn db = (c, Some (Wrap ''write transaction'' e), db)"
      if "fn tx = (c, Inl e)" for c e
      using that tx by (simp add: WriteTx_def db_Update_def)
    show "\<exists>db'. WriteTx B c0 fn db = (c, None, db') \<and> view B db' = view B tx'"
      if "fn tx = (c, Inr tx')" for c tx'
    proof -
      obtain db' where "b_Commit B tx' = Inr db'" using assms by (auto simp: db_works_def)
      then show ?thesis
        using that tx commit_view by (fastforce simp: WriteTx_def db_Update_def)
    qed
  qed
qed

end

lemma nodes_inv_upd: "nodes_inv N \<Longrightarrow> n_ID n = k \<Longrightarrow> k \<noteq> [] \<Longrightarrow> nodes_inv (N(k \<mapsto> n))"
  by (auto simp: nodes_inv_def)

lemma containers_inv_nodes: "containers_inv N C \<Longrightarrow> dom N \<subseteq> dom M \<Longrightarrow> containers_inv M C"
  unfolding containers_inv_def by blast

lemma tokens_inv_nodes: "tokens_inv N T \<Longrightarrow> dom N \<subseteq> dom M \<Longrightarrow> tokens_inv M T"
  unfolding tokens_inv_def by blast

text \<open>A container changes its state, node or message, not its identifier or its name.\<close>

lemma containers_inv_upd:
  assumes "containers_inv N C" and "C k = Some old" and "c_ID c = c_ID old" "c_Name c = c_Name old"
    and "lifecycle_of (c_State c) \<noteq> None" "c_ExitCode c \<noteq> None \<longrightarrow> c_State c = StateExited"
    and "c_NodeID c \<noteq> [] \<longrightarrow> N (c_NodeID c) \<noteq> None"
    and "c_NodeID c = [] \<longrightarrow> c_State c = StatePending"
  shows "containers_inv N (C(k \<mapsto> c))"
proof -
  have pt: "\<And>k c. C k = Some c \<Longrightarrow> c_ID c = k \<and> lifecycle_of (c_State c) \<noteq> None
        \<and> (c_ExitCode c \<noteq> None \<longrightarrow> c_State c = StateExited)
        \<and> (c_NodeID c \<noteq> [] \<longrightarrow> N (c_NodeID c) \<noteq> None)
        \<and> (c_NodeID c = [] \<longrightarrow> c_State c = StatePending)"
    and uq: "\<And>j k c d. C j = Some c \<Longrightarrow> C k = Some d \<Longrightarrow> c_Name c = c_Name d \<Longrightarrow> j = k"
    using assms(1) unfolding containers_inv_def by blast+
  have "c_ID c = k" using pt [OF assms(2)] assms(3) by simp
  moreover have "j = k" if "C j = Some d" "c_Name d = c_Name c" for j d
    using uq [OF that(1) assms(2)] that(2) assms(4) by simp
  ultimately show ?thesis
    unfolding containers_inv_def
    by (intro conjI allI impI)
      (use pt assms(5-8) uq in \<open>auto split: if_splits\<close>)
qed

lemma containers_inv_new:
  assumes "containers_inv N C" and "c_ID c = k" "c_State c = StatePending" "c_ExitCode c = None"
    and "c_NodeID c = []" and "\<forall>j d. C j = Some d \<longrightarrow> c_Name d \<noteq> c_Name c"
  shows "containers_inv N (C(k \<mapsto> c))"
  using assms unfolding containers_inv_def by (auto split: if_splits; metis)

context hambo_db
begin

lemma tokens_store: "store_collection B tokens_collection"
  by (rule tokens.store_collection_axioms)

lemma get_node_tx:
  "db_inv B tx \<Longrightarrow> node_tbl B tx k = Some n \<Longrightarrow> GetTx B nodes_collection k tx = Inr n"
  using nodes.GetTx_tbl [of tx k] by (simp add: db_inv_def db_ok_def)

lemma get_node:
  assumes "db_works B" and "db_inv B db"
  shows "Store.Get B nodes_collection k db =
    (case node_tbl B db k of
       None \<Rightarrow> Inl (Wrap ''get entry from collection'' (Sentinel StoreErrNotFound))
     | Some n \<Rightarrow> Inr n)"
proof -
  obtain tx where "b_Begin B db = Inr tx" using assms(1) by (auto simp: db_works_def)
  then show ?thesis using nodes.Get_tbl assms(2) by (simp add: db_inv_def db_ok_def)
qed

end

section \<open>Documents\<close>

text \<open>
  Claim C27: the documents of nodes, containers and token metadata are read back as the values
  they were made from, with every optional field, present or left out; and a node or a
  container is stored whenever its times are in the years 0 to 9999.
\<close>

theorem documents_roundtrip:
  "(\<forall>n d. marshal_Node n = Inr d \<longrightarrow> unmarshal_Node d = Inr n)
   \<and> (\<forall>c d. marshal_Container c = Inr d \<longrightarrow> unmarshal_Container d = Inr c)
   \<and> (\<forall>m d. marshal_Metadata m = Inr d \<longrightarrow> unmarshal_Metadata d = Inr m)"
  using Node_codec Container_codec Metadata_codec by blast

theorem documents_roundtrip_witness:
  "unmarshal_Container (JObj [(''id'', JStr ''63''), (''name'', JStr ''web''), (''image'', JStr ''i''),
       (''state'', JStr ''exited''), (''exit_code'', JInt (- 1)), (''created_at'', JTime 4)])
     = Inr (zero_Container\<lparr>c_ID := ''63'', c_Name := ''web'', c_Image := ''i'', c_State := ''exited'',
              c_ExitCode := Some (- 1), c_CreatedAt := 4\<rparr>)"
proof -
  have "marshal_Container (zero_Container\<lparr>c_ID := ''63'', c_Name := ''web'', c_Image := ''i'',
        c_State := ''exited'', c_ExitCode := Some (- 1), c_CreatedAt := 4\<rparr>)
      = Inr (JObj [(''id'', JStr ''63''), (''name'', JStr ''web''), (''image'', JStr ''i''),
          (''state'', JStr ''exited''), (''exit_code'', JInt (- 1)), (''created_at'', JTime 4)])"
    by (simp add: marshal_Container_def zero_Container_def enc_time_def time_min_def time_max_def
        omit_string_def omit_int_def omit_time_def)
  then show ?thesis using documents_roundtrip by blast
qed

end
