(* ===== verification/Pki.thy ===== *)
theory Pki
  imports Prelude
begin

unbundle bit_operations_syntax

text \<open>
  \<open>internal/pki\<close>: the certificate authority and the certificates it issues. The functions of
  \<open>crypto/x509\<close>, \<open>crypto/ed25519\<close> and \<open>crypto/tls\<close> that make or read keys, requests and
  certificates are a parameter: the record \<open>x509\<close>. What the code relies on, that a
  certificate made from a template of the program carries the template's fields, is the
  predicate \<open>x509_faithful\<close>. \<open>AddDate\<close> depends on the calendar and the time zone and is a field too.
\<close>

section \<open>Certificates and requests\<close>

type_synonym key_usage = "64 word"

definition KeyUsageDigitalSignature :: key_usage where
  "KeyUsageDigitalSignature = push_bit 0 1"

definition KeyUsageCertSign :: key_usage where
  "KeyUsageCertSign = push_bit 5 1"

datatype ext_key_usage = ExtKeyUsageServerAuth | ExtKeyUsageClientAuth

datatype public_key = Ed25519Public string | OtherPublic string
datatype private_key = Ed25519Private string | OtherPrivate string

record certificate =
  ct_CommonName :: string
  ct_Organization :: "string list"
  ct_NotBefore :: instant
  ct_NotAfter :: instant
  ct_BasicConstraintsValid :: bool
  ct_IsCA :: bool
  ct_KeyUsage :: key_usage
  ct_ExtKeyUsage :: "ext_key_usage list"
  ct_DNSNames :: "string list"
  ct_IPAddresses :: "string list"
  ct_Raw :: string

record csr =
  csr_PublicKey :: public_key
  csr_CheckSignature :: "error option"

record x509 =
  x_CreateCertificate :: "certificate \<Rightarrow> certificate \<Rightarrow> public_key \<Rightarrow> private_key \<Rightarrow> string result"
  x_ParseCertificate :: "string \<Rightarrow> certificate result"
  x_ParseCertificateRequest :: "string \<Rightarrow> csr result"
  x_AddDate :: "instant \<Rightarrow> int \<Rightarrow> int \<Rightarrow> int \<Rightarrow> instant"

text \<open>The fields of a certificate that was made from a template.\<close>

definition same_fields :: "certificate \<Rightarrow> certificate \<Rightarrow> bool" where
  "same_fields c t \<longleftrightarrow>
     ct_CommonName c = ct_CommonName t \<and> ct_Organization c = ct_Organization t
     \<and> ct_IsCA c = ct_IsCA t \<and> ct_BasicConstraintsValid c = ct_BasicConstraintsValid t
     \<and> ct_KeyUsage c = ct_KeyUsage t \<and> ct_ExtKeyUsage c = ct_ExtKeyUsage t
     \<and> ct_DNSNames c = ct_DNSNames t \<and> ct_IPAddresses c = ct_IPAddresses t"

text \<open>
  The templates the program uses: the extension of basic constraints is always there, there is
  at most one organization, and only the usages of \<open>crypto/x509\<close> are set. For such a template
  the certificate that \<open>CreateCertificate\<close> encodes has the template's fields, with the validity
  cut to whole seconds, the precision of the encoding.
\<close>

definition plain_template :: "certificate \<Rightarrow> bool" where
  "plain_template t \<longleftrightarrow>
     ct_BasicConstraintsValid t \<and> length (ct_Organization t) \<le> 1 \<and> ct_KeyUsage t < push_bit 9 1"

definition whole_second :: "instant \<Rightarrow> instant" where
  "whole_second t = t - t mod seconds 1"

definition made_from :: "certificate \<Rightarrow> certificate \<Rightarrow> bool" where
  "made_from c t \<longleftrightarrow>
     same_fields c t \<and> ct_NotBefore c = whole_second (ct_NotBefore t)
     \<and> ct_NotAfter c = whole_second (ct_NotAfter t)"

definition x509_faithful :: "x509 \<Rightarrow> bool" where
  "x509_faithful X \<longleftrightarrow>
     (\<forall>t p pub priv der c.
        x_CreateCertificate X t p pub priv = Inr der \<longrightarrow> x_ParseCertificate X der = Inr c \<longrightarrow>
        plain_template t \<longrightarrow> made_from c t)"

text \<open>A certificate that was parsed holds whole seconds.\<close>

definition in_seconds :: "certificate \<Rightarrow> bool" where
  "in_seconds c \<longleftrightarrow>
     whole_second (ct_NotBefore c) = ct_NotBefore c \<and> whole_second (ct_NotAfter c) = ct_NotAfter c"

lemma whole_second_bounds: "whole_second t \<le> t" "t < whole_second t + seconds 1"
  by (simp_all add: whole_second_def)

lemma whole_second_mono: "s \<le> t \<Longrightarrow> whole_second s \<le> whole_second t"
proof -
  have "whole_second t = seconds 1 * (t div seconds 1)" for t
    by (simp add: whole_second_def minus_mod_eq_mult_div)
  then show "s \<le> t \<Longrightarrow> whole_second s \<le> whole_second t" by (simp add: zdiv_mono1)
qed

record CA =
  ca_Certificate :: certificate
  ca_PrivateKey :: private_key

record Certificate =
  crt_Certificate :: certificate
  crt_PrivateKey :: private_key

section \<open>Making and loading the authority\<close>

text \<open>The key pair is the result of \<open>ed25519.GenerateKey\<close>.\<close>

definition ca_template :: "x509 \<Rightarrow> instant \<Rightarrow> certificate" where
  "ca_template X now = \<lparr>
     ct_CommonName = ''Hambo CA'', ct_Organization = [],
     ct_NotBefore = now - minutes 5, ct_NotAfter = x_AddDate X now 5 0 0,
     ct_BasicConstraintsValid = True, ct_IsCA = True,
     ct_KeyUsage = KeyUsageCertSign, ct_ExtKeyUsage = [],
     ct_DNSNames = [], ct_IPAddresses = [], ct_Raw = []\<rparr>"

definition GenerateCA ::
  "x509 \<Rightarrow> (public_key \<times> private_key) result \<Rightarrow> instant \<Rightarrow> CA result" where
  "GenerateCA X keys now =
     bind_result (map_error (Wrap ''generate CA key'') keys) (\<lambda>(publicKey, privateKey).
     let template = ca_template X now in
     bind_result (map_error (Wrap ''create CA certificate'')
         (x_CreateCertificate X template template publicKey privateKey)) (\<lambda>der.
     bind_result (map_error (Wrap ''parse CA certificate'') (x_ParseCertificate X der)) (\<lambda>certificate.
     Inr \<lparr>ca_Certificate = certificate, ca_PrivateKey = privateKey\<rparr>)))"

text \<open>
  \<open>pair\<close> is the result of \<open>tls.LoadX509KeyPair\<close>: the encoded leaf certificate and its
  private key.
\<close>

definition LoadCA :: "x509 \<Rightarrow> (string \<times> private_key) result \<Rightarrow> CA result" where
  "LoadCA X pair =
     bind_result (map_error (Wrap ''load CA certificate and key'') pair) (\<lambda>(leaf, privateKey).
     bind_result (map_error (Wrap ''parse CA certificate'') (x_ParseCertificate X leaf)) (\<lambda>certificate.
     if \<not> ct_BasicConstraintsValid certificate \<or> \<not> ct_IsCA certificate
     then Inl (Msg ''CA certificate must have valid CA constraints'')
     else if ct_KeyUsage certificate AND KeyUsageCertSign = 0
     then Inl (Msg ''CA certificate must allow certificate signing'')
     else case privateKey of
       OtherPrivate _ \<Rightarrow> Inl (Msg ''CA private key must use Ed25519'')
     | Ed25519Private _ \<Rightarrow> Inr \<lparr>ca_Certificate = certificate, ca_PrivateKey = privateKey\<rparr>))"

section \<open>Issuing\<close>

text \<open>The validity of a new certificate is cut to the validity of the authority.\<close>

definition clamp_validity :: "certificate \<Rightarrow> certificate \<Rightarrow> certificate" where
  "clamp_validity ca t =
     (let t1 = (if ct_NotBefore t < ct_NotBefore ca then t\<lparr>ct_NotBefore := ct_NotBefore ca\<rparr> else t)
      in if ct_NotAfter ca < ct_NotAfter t1 then t1\<lparr>ct_NotAfter := ct_NotAfter ca\<rparr> else t1)"

definition server_template :: "x509 \<Rightarrow> instant \<Rightarrow> certificate" where
  "server_template X now = \<lparr>
     ct_CommonName = ''Hambo Server'', ct_Organization = [],
     ct_NotBefore = now - minutes 5, ct_NotAfter = x_AddDate X now 0 0 90,
     ct_BasicConstraintsValid = True, ct_IsCA = False,
     ct_KeyUsage = KeyUsageDigitalSignature, ct_ExtKeyUsage = [ExtKeyUsageServerAuth],
     ct_DNSNames = [''localhost''], ct_IPAddresses = [''127.0.0.1''], ct_Raw = []\<rparr>"

definition admin_template :: "x509 \<Rightarrow> instant \<Rightarrow> certificate" where
  "admin_template X now = \<lparr>
     ct_CommonName = ''admin'', ct_Organization = [''hambo:admins''],
     ct_NotBefore = now - minutes 5, ct_NotAfter = x_AddDate X now 0 0 90,
     ct_BasicConstraintsValid = True, ct_IsCA = False,
     ct_KeyUsage = KeyUsageDigitalSignature, ct_ExtKeyUsage = [ExtKeyUsageClientAuth],
     ct_DNSNames = [], ct_IPAddresses = [], ct_Raw = []\<rparr>"

definition node_template :: "x509 \<Rightarrow> instant \<Rightarrow> string \<Rightarrow> certificate" where
  "node_template X now nodeID = \<lparr>
     ct_CommonName = ''hambo:node:'' @ nodeID, ct_Organization = [''hambo:nodes''],
     ct_NotBefore = now - minutes 5, ct_NotAfter = x_AddDate X now 0 0 90,
     ct_BasicConstraintsValid = True, ct_IsCA = False,
     ct_KeyUsage = KeyUsageDigitalSignature, ct_ExtKeyUsage = [ExtKeyUsageClientAuth],
     ct_DNSNames = [], ct_IPAddresses = [], ct_Raw = []\<rparr>"

definition IssueServerCertificate ::
  "x509 \<Rightarrow> CA \<Rightarrow> (public_key \<times> private_key) result \<Rightarrow> instant \<Rightarrow> Certificate result" where
  "IssueServerCertificate X ca keys now =
     (if now < ct_NotBefore (ca_Certificate ca)
      then Inl (Msg ''cannot issue server certificate: CA is not valid yet'')
      else if \<not> now < ct_NotAfter (ca_Certificate ca)
      then Inl (Msg ''cannot issue server certificate: CA has expired'')
      else
        bind_result (map_error (Wrap ''generate server key'') keys) (\<lambda>(publicKey, privateKey).
        let template = clamp_validity (ca_Certificate ca) (server_template X now) in
        bind_result (map_error (Wrap ''create server certificate'')
            (x_CreateCertificate X template (ca_Certificate ca) publicKey (ca_PrivateKey ca))) (\<lambda>der.
        bind_result (map_error (Wrap ''parse server certificate'') (x_ParseCertificate X der))
          (\<lambda>certificate.
        Inr \<lparr>crt_Certificate = certificate, crt_PrivateKey = privateKey\<rparr>))))"

definition IssueAdminCertificate ::
  "x509 \<Rightarrow> CA \<Rightarrow> (public_key \<times> private_key) result \<Rightarrow> instant \<Rightarrow> Certificate result" where
  "IssueAdminCertificate X ca keys now =
     (if now < ct_NotBefore (ca_Certificate ca)
      then Inl (Msg ''cannot issue admin certificate: CA is not valid yet'')
      else if \<not> now < ct_NotAfter (ca_Certificate ca)
      then Inl (Msg ''cannot issue admin certificate: CA has expired'')
      else
        bind_result (map_error (Wrap ''generate admin key'') keys) (\<lambda>(publicKey, privateKey).
        let template = clamp_validity (ca_Certificate ca) (admin_template X now) in
        bind_result (map_error (Wrap ''create admin certificate'')
            (x_CreateCertificate X template (ca_Certificate ca) publicKey (ca_PrivateKey ca))) (\<lambda>der.
        bind_result (map_error (Wrap ''parse admin certificate'') (x_ParseCertificate X der))
          (\<lambda>certificate.
        Inr \<lparr>crt_Certificate = certificate, crt_PrivateKey = privateKey\<rparr>))))"

definition IssueNodeCertificate ::
  "x509 \<Rightarrow> CA \<Rightarrow> instant \<Rightarrow> string \<Rightarrow> string \<Rightarrow> certificate result" where
  "IssueNodeCertificate X ca now nodeID csrDER =
     (if nodeID = [] then Inl (Msg ''cannot issue node certificate: node ID is required'')
      else if now < ct_NotBefore (ca_Certificate ca)
      then Inl (Msg ''cannot issue node certificate: CA is not valid yet'')
      else if \<not> now < ct_NotAfter (ca_Certificate ca)
      then Inl (Msg ''cannot issue node certificate: CA has expired'')
      else case x_ParseCertificateRequest X csrDER of
        Inl e \<Rightarrow> Inl (Multi ''parse node CSR'' [Sentinel ErrInvalidCSR, e])
      | Inr request \<Rightarrow>
          (case csr_PublicKey request of
             OtherPublic _ \<Rightarrow>
               Inl (Wrap ''node CSR must use an Ed25519 public key'' (Sentinel ErrInvalidCSR))
           | Ed25519Public k \<Rightarrow>
               (case csr_CheckSignature request of
                  Some e \<Rightarrow> Inl (Multi ''verify node CSR signature'' [Sentinel ErrInvalidCSR, e])
                | None \<Rightarrow>
                    let template = clamp_validity (ca_Certificate ca) (node_template X now nodeID) in
                    bind_result (map_error (Wrap ''create node certificate'')
                        (x_CreateCertificate X template (ca_Certificate ca) (csr_PublicKey request)
                          (ca_PrivateKey ca))) (\<lambda>der.
                    map_error (Wrap ''parse node certificate'') (x_ParseCertificate X der)))))"

text \<open>\<open>create\<close> is \<open>x509.CreateCertificateRequest\<close> with an empty subject; the size check comes first.\<close>

definition GenerateNodeCSR :: "(string \<Rightarrow> string result) \<Rightarrow> string \<Rightarrow> string result" where
  "GenerateNodeCSR create privateKey =
     (if length privateKey \<noteq> 64 then Inl (Msg ''invalid Ed25519 private key size'')
      else map_error (Wrap ''create CSR'') (create privateKey))"

section \<open>Issued certificates\<close>

lemma clamp_validity_bounds:
  assumes "ct_NotBefore ca \<le> now" "now < ct_NotAfter ca"
    and "ct_NotBefore t \<le> now" "now < ct_NotAfter t"
  shows "ct_NotBefore ca \<le> ct_NotBefore (clamp_validity ca t)"
    and "ct_NotAfter (clamp_validity ca t) \<le> ct_NotAfter ca"
    and "ct_NotBefore (clamp_validity ca t) \<le> now"
    and "now < ct_NotAfter (clamp_validity ca t)"
  using assms by (auto simp: clamp_validity_def Let_def)

lemma clamp_same_fields: "same_fields (clamp_validity ca t) t"
  by (simp add: clamp_validity_def same_fields_def Let_def)

lemma same_fields_trans: "same_fields a b \<Longrightarrow> same_fields b c \<Longrightarrow> same_fields a c"
  by (simp add: same_fields_def)

lemma node_certificate_template:
  assumes "IssueNodeCertificate X ca now nodeID csrDER = Inr c"
  shows "nodeID \<noteq> []"
    and "ct_NotBefore (ca_Certificate ca) \<le> now" "now < ct_NotAfter (ca_Certificate ca)"
    and "\<exists>request k der. x_ParseCertificateRequest X csrDER = Inr request
      \<and> csr_PublicKey request = Ed25519Public k \<and> csr_CheckSignature request = None
      \<and> x_CreateCertificate X (clamp_validity (ca_Certificate ca) (node_template X now nodeID))
          (ca_Certificate ca) (csr_PublicKey request) (ca_PrivateKey ca) = Inr der
      \<and> x_ParseCertificate X der = Inr c"
  using assms
  by (auto simp: IssueNodeCertificate_def result_eqs Let_def
      split: if_splits sum.splits public_key.splits option.splits)

lemma clamp_plain: "plain_template (clamp_validity ca t) \<longleftrightarrow> plain_template t"
  by (simp add: plain_template_def clamp_validity_def Let_def)

lemma templates_plain [simp]:
  "plain_template (ca_template X now)" "plain_template (server_template X now)"
  "plain_template (admin_template X now)" "plain_template (node_template X now nodeID)"
  by (simp_all add: plain_template_def ca_template_def server_template_def admin_template_def
      node_template_def KeyUsageCertSign_def KeyUsageDigitalSignature_def)

lemma node_certificate_made:
  assumes "x509_faithful X" "IssueNodeCertificate X ca now nodeID csrDER = Inr c"
  shows "made_from c (clamp_validity (ca_Certificate ca) (node_template X now nodeID))"
  using node_certificate_template(4) [OF assms(2)] assms(1)
  unfolding x509_faithful_def by (auto simp: clamp_plain)

lemma node_certificate_fields:
  assumes "x509_faithful X" "IssueNodeCertificate X ca now nodeID csrDER = Inr c"
  shows "ct_CommonName c = ''hambo:node:'' @ nodeID" "ct_Organization c = [''hambo:nodes'']"
    "\<not> ct_IsCA c" "ct_ExtKeyUsage c = [ExtKeyUsageClientAuth]"
proof -
  have "same_fields c (node_template X now nodeID)"
    using node_certificate_made [OF assms] clamp_same_fields same_fields_trans
    unfolding made_from_def by blast
  then show "ct_CommonName c = ''hambo:node:'' @ nodeID" "ct_Organization c = [''hambo:nodes'']"
    "\<not> ct_IsCA c" "ct_ExtKeyUsage c = [ExtKeyUsageClientAuth]"
    by (simp_all add: same_fields_def node_template_def)
qed

text \<open>An authority that is valid issues certificates that are valid within its validity.\<close>

lemma made_validity:
  assumes "made_from c (clamp_validity ca t)" and "in_seconds ca"
    and "ct_NotBefore ca \<le> now" "now < ct_NotAfter ca"
    and "ct_NotBefore t \<le> now" "now + seconds 1 \<le> ct_NotAfter t"
  shows "ct_NotBefore ca \<le> ct_NotBefore c" "ct_NotBefore c \<le> now"
    and "now < ct_NotAfter c" "ct_NotAfter c \<le> ct_NotAfter ca"
proof -
  let ?t = "clamp_validity ca t"
  have c: "ct_NotBefore c = whole_second (ct_NotBefore ?t)" "ct_NotAfter c = whole_second (ct_NotAfter ?t)"
    using assms(1) by (simp_all add: made_from_def)
  have "now < ct_NotAfter t" using assms(6) by simp
  note b = clamp_validity_bounds [OF assms(3,4,5) this]
  show "ct_NotBefore ca \<le> ct_NotBefore c"
    using whole_second_mono [OF b(1)] assms(2) by (simp add: c in_seconds_def)
  show "ct_NotBefore c \<le> now" using whole_second_bounds(1) [of "ct_NotBefore ?t"] b(3) by (simp add: c)
  show "ct_NotAfter c \<le> ct_NotAfter ca" using whole_second_bounds(1) [of "ct_NotAfter ?t"] b(2) by (simp add: c)
  have "ct_NotAfter ?t = ct_NotAfter ca \<or> ct_NotAfter ?t = ct_NotAfter t"
    by (simp add: clamp_validity_def Let_def)
  then show "now < ct_NotAfter c"
    using assms(2,4,6) whole_second_bounds(2) [of "ct_NotAfter t"] by (auto simp: c in_seconds_def)
qed

section \<open>Properties\<close>

text \<open>
  Claim C25: a node certificate is issued only for a well-formed, correctly signed request with an
  Ed25519 key, and only while the authority is valid. It is signed for the key of the request,
  names the node and the group of nodes, is a client certificate and no authority, and is
  itself valid now, within the validity of the authority.
\<close>

theorem node_certificate_issued:
  assumes "x509_faithful X" and "IssueNodeCertificate X ca now nodeID csrDER = Inr c"
    and "in_seconds (ca_Certificate ca)" and "now + seconds 1 \<le> x_AddDate X now 0 0 90"
  shows "nodeID \<noteq> [] \<and> ct_CommonName c = ''hambo:node:'' @ nodeID \<and> ct_Organization c = [''hambo:nodes'']
    \<and> \<not> ct_IsCA c \<and> ct_ExtKeyUsage c = [ExtKeyUsageClientAuth]
    \<and> ct_NotBefore (ca_Certificate ca) \<le> ct_NotBefore c \<and> ct_NotBefore c \<le> now
    \<and> now < ct_NotAfter c \<and> ct_NotAfter c \<le> ct_NotAfter (ca_Certificate ca)
    \<and> (\<exists>request k t der.
         x_ParseCertificateRequest X csrDER = Inr request \<and> csr_PublicKey request = Ed25519Public k
         \<and> csr_CheckSignature request = None
         \<and> x_CreateCertificate X t (ca_Certificate ca) (Ed25519Public k) (ca_PrivateKey ca) = Inr der
         \<and> x_ParseCertificate X der = Inr c)"
proof -
  note i = node_certificate_template [OF assms(2)]
  note f = node_certificate_fields [OF assms(1,2)]
  have "ct_NotBefore (node_template X now nodeID) \<le> now"
    "now + seconds 1 \<le> ct_NotAfter (node_template X now nodeID)"
    using assms(4) by (simp_all add: node_template_def)
  note v = made_validity [OF node_certificate_made [OF assms(1,2)] assms(3) i(2,3) this]
  show ?thesis using i(1,4) f v by metis
qed

definition toy_certificate :: certificate where
  "toy_certificate = \<lparr>ct_CommonName = ''hambo:node:a'', ct_Organization = [''hambo:nodes''],
     ct_NotBefore = - minutes 5, ct_NotAfter = hours (24 * 90), ct_BasicConstraintsValid = True, ct_IsCA = False,
     ct_KeyUsage = KeyUsageDigitalSignature, ct_ExtKeyUsage = [ExtKeyUsageClientAuth],
     ct_DNSNames = [], ct_IPAddresses = [], ct_Raw = ''der''\<rparr>"

definition toy_ca_certificate :: certificate where
  "toy_ca_certificate = toy_certificate\<lparr>ct_CommonName := ''Hambo CA'', ct_Organization := [],
     ct_NotAfter := hours (24 * 365 * 5), ct_IsCA := True, ct_KeyUsage := KeyUsageCertSign,
     ct_ExtKeyUsage := [], ct_Raw := ''ca''\<rparr>"

definition toy_x509 :: x509 where
  "toy_x509 = \<lparr>
     x_CreateCertificate = (\<lambda>t p pub priv.
       if made_from toy_certificate t then Inr ''der''
       else if made_from toy_ca_certificate t then Inr ''ca'' else Inl (Msg ''unsupported'')),
     x_ParseCertificate = (\<lambda>der. if der = ''der'' then Inr toy_certificate
       else if der = ''ca'' then Inr toy_ca_certificate else Inl (Msg ''malformed'')),
     x_ParseCertificateRequest = (\<lambda>der. Inr \<lparr>csr_PublicKey = Ed25519Public der, csr_CheckSignature = None\<rparr>),
     x_AddDate = (\<lambda>t y m d. t + hours (24 * (365 * y + 30 * m + d)))\<rparr>"

definition toy_ca :: CA where
  "toy_ca = \<lparr>ca_Certificate = toy_ca_certificate, ca_PrivateKey = Ed25519Private ''key''\<rparr>"

lemma toy_faithful: "x509_faithful toy_x509"
  by (auto simp: x509_faithful_def toy_x509_def split: if_splits)

lemmas toy_simps =
  toy_ca_def toy_ca_certificate_def toy_certificate_def toy_x509_def made_from_def same_fields_def
  whole_second_def

theorem node_certificate_issued_witness:
  "\<exists>c. IssueNodeCertificate toy_x509 toy_ca 1 ''a'' ''csr'' = Inr c \<and> ct_CommonName c = ''hambo:node:a''
     \<and> ct_NotBefore c \<le> 1 \<and> 1 < ct_NotAfter c"
proof -
  have run: "IssueNodeCertificate toy_x509 toy_ca 1 ''a'' ''csr'' = Inr toy_certificate"
    by (simp add: IssueNodeCertificate_def toy_simps clamp_validity_def node_template_def Let_def)
  have "in_seconds (ca_Certificate toy_ca)" by (simp add: in_seconds_def toy_simps)
  then show ?thesis
    using node_certificate_issued [OF toy_faithful run] run by (simp add: toy_x509_def)
qed

text \<open>A parsed certificate keeps the bytes it was parsed from.\<close>

definition keeps_raw :: "x509 \<Rightarrow> bool" where
  "keeps_raw X \<longleftrightarrow> (\<forall>der c. x_ParseCertificate X der = Inr c \<longrightarrow> ct_Raw c = der)"

lemma GenerateCA_loads:
  assumes "x509_faithful X" and "keeps_raw X" and "GenerateCA X (Inr (pub, Ed25519Private k)) now = Inr ca"
  shows "LoadCA X (Inr (ct_Raw (ca_Certificate ca), ca_PrivateKey ca)) = Inr ca"
proof -
  obtain der c where der: "x_CreateCertificate X (ca_template X now) (ca_template X now) pub
        (Ed25519Private k) = Inr der" "x_ParseCertificate X der = Inr c"
    and ca: "ca = \<lparr>ca_Certificate = c, ca_PrivateKey = Ed25519Private k\<rparr>"
    using assms(3) by (auto simp: GenerateCA_def Let_def result_eqs)
  have "made_from c (ca_template X now)"
    using assms(1) der templates_plain(1) unfolding x509_faithful_def by blast
  then have "ct_BasicConstraintsValid c" "ct_IsCA c" "ct_KeyUsage c = KeyUsageCertSign"
    by (simp_all add: made_from_def same_fields_def ca_template_def)
  moreover have "ct_Raw c = der" using assms(2) der(2) by (simp add: keeps_raw_def)
  ultimately show ?thesis using der(2) ca by (simp add: LoadCA_def KeyUsageCertSign_def)
qed

text \<open>
  The authority that is generated can be loaded. From the stored certificate and
  Ed25519 key of a generated authority, \<open>LoadCA\<close> rebuilds that authority; and whatever it loads
  is a certificate with valid basic constraints that may sign certificates, with an Ed25519
  key.
\<close>

theorem generated_ca_loads:
  assumes "x509_faithful X" and "keeps_raw X"
  shows "(GenerateCA X (Inr (pub, Ed25519Private k)) now = Inr ca \<longrightarrow>
      LoadCA X (Inr (ct_Raw (ca_Certificate ca), ca_PrivateKey ca)) = Inr ca)
    \<and> (LoadCA X pair = Inr ca2 \<longrightarrow>
      ct_BasicConstraintsValid (ca_Certificate ca2) \<and> ct_IsCA (ca_Certificate ca2)
      \<and> ct_KeyUsage (ca_Certificate ca2) AND KeyUsageCertSign \<noteq> 0
      \<and> (\<exists>key. ca_PrivateKey ca2 = Ed25519Private key))"
proof (intro conjI impI)
  assume "GenerateCA X (Inr (pub, Ed25519Private k)) now = Inr ca"
  then show "LoadCA X (Inr (ct_Raw (ca_Certificate ca), ca_PrivateKey ca)) = Inr ca"
    by (rule GenerateCA_loads [OF assms])
next
  assume "LoadCA X pair = Inr ca2"
  then show "ct_BasicConstraintsValid (ca_Certificate ca2)" "ct_IsCA (ca_Certificate ca2)"
    "ct_KeyUsage (ca_Certificate ca2) AND KeyUsageCertSign \<noteq> 0"
    "\<exists>key. ca_PrivateKey ca2 = Ed25519Private key"
    by (auto simp: LoadCA_def result_eqs split: if_splits private_key.splits)
qed

theorem generated_ca_loads_witness:
  "LoadCA toy_x509 (Inr (''ca'', Ed25519Private ''key'')) = Inr toy_ca"
proof -
  have "keeps_raw toy_x509"
    by (auto simp: keeps_raw_def toy_x509_def toy_certificate_def toy_ca_certificate_def split: if_splits)
  moreover have "GenerateCA toy_x509 (Inr (Ed25519Public ''p'', Ed25519Private ''key'')) 0 = Inr toy_ca"
    by (simp add: GenerateCA_def toy_simps ca_template_def Let_def)
  ultimately show ?thesis
    using generated_ca_loads [OF toy_faithful, of "Ed25519Public ''p''" "''key''" 0 toy_ca]
    by (simp add: toy_ca_def toy_ca_certificate_def)
qed

end
