(* ===== verification/Http.thy ===== *)
theory Http
  imports State Pki
begin

text \<open>
  The HTTP side of \<open>internal/api\<close>: requests and responses, the JSON helpers of \<open>json.go\<close>, the
  public types of \<open>api/types.go\<close> with their documents, and the middleware. A request is
  what the handlers read of it: the method and the path, the verified certificate chains, the
  Authorization header, the result of \<open>mime.ParseMediaType\<close> on its Content-Type, the node of its
  context, whether its response writer can flush, and its body. The body is given as a function of the limit of \<open>http.MaxBytesReader\<close>: the values a
  JSON decoder finds in it, up to the end or to the first failure.
\<close>

section \<open>Requests and responses\<close>

datatype body_item = BodyValue json | BodyTooLarge | BodyInvalid

record request =
  rq_Method :: string
  rq_Path :: string
  rq_VerifiedChains :: "certificate list list option"
  rq_Authorization :: string
  rq_MediaType :: "string option"
  rq_Body :: "nat \<Rightarrow> body_item list"
  rq_NodeID :: "string option"
  rq_Flusher :: bool

text \<open>\<open>StreamBody nodeID\<close> is the body the watch endpoint goes on writing for a node.\<close>

datatype body =
    NoBody
  | JsonBody json
  | TextBody string
  | PemBody string
  | StreamBody string

record response =
  rs_Status :: nat
  rs_Header :: "(string \<times> string) list"
  rs_Body :: body

definition StatusOK :: nat where "StatusOK = 200"
definition StatusCreated :: nat where "StatusCreated = 201"
definition StatusNoContent :: nat where "StatusNoContent = 204"
definition StatusBadRequest :: nat where "StatusBadRequest = 400"
definition StatusUnauthorized :: nat where "StatusUnauthorized = 401"
definition StatusForbidden :: nat where "StatusForbidden = 403"
definition StatusNotFound :: nat where "StatusNotFound = 404"
definition StatusMethodNotAllowed :: nat where "StatusMethodNotAllowed = 405"
definition StatusConflict :: nat where "StatusConflict = 409"
definition StatusGone :: nat where "StatusGone = 410"
definition StatusRequestEntityTooLarge :: nat where "StatusRequestEntityTooLarge = 413"
definition StatusUnsupportedMediaType :: nat where "StatusUnsupportedMediaType = 415"
definition StatusUnprocessableEntity :: nat where "StatusUnprocessableEntity = 422"
definition StatusInternalServerError :: nat where "StatusInternalServerError = 500"
definition StatusServiceUnavailable :: nat where "StatusServiceUnavailable = 503"

lemmas status_defs =
  StatusOK_def StatusCreated_def StatusNoContent_def StatusBadRequest_def StatusUnauthorized_def
  StatusForbidden_def StatusNotFound_def StatusMethodNotAllowed_def StatusConflict_def
  StatusGone_def StatusRequestEntityTooLarge_def StatusUnsupportedMediaType_def
  StatusUnprocessableEntity_def StatusInternalServerError_def StatusServiceUnavailable_def

section \<open>Writing JSON\<close>

text \<open>\<open>header\<close> holds what the handler has put into the header before.\<close>

definition writeJSON :: "(string \<times> string) list \<Rightarrow> nat \<Rightarrow> json result \<Rightarrow> response" where
  "writeJSON header statusCode data =
     (case data of
        Inl e \<Rightarrow>
          \<lparr>rs_Status = StatusInternalServerError,
           rs_Header = header @ [(''Content-Type'', ''text/plain; charset=utf-8''),
                                 (''X-Content-Type-Options'', ''nosniff'')],
           rs_Body = TextBody (''Internal Server Error'' @ [CHR 0x0A])\<rparr>
      | Inr doc \<Rightarrow>
          \<lparr>rs_Status = statusCode, rs_Header = header @ [(''Content-Type'', ''application/json'')],
           rs_Body = JsonBody doc\<rparr>)"

text \<open>The map of fields is written with its keys sorted, and left out when it is empty.\<close>

definition enc_ErrorResponse :: "string \<Rightarrow> (string \<times> string) list \<Rightarrow> json" where
  "enc_ErrorResponse message fs =
     JObj ((''message'', JStr message)
       # (if fs = [] then []
          else [(''fields'', JObj (map (\<lambda>(k, v). (k, JStr v)) (sort_key fst fs)))]))"

definition writeErrorJSON :: "nat \<Rightarrow> string \<Rightarrow> response" where
  "writeErrorJSON statusCode message =
     writeJSON [] statusCode (Inr (enc_ErrorResponse message []))"

definition writeValidationErrorJSON :: "(string \<times> string) list \<Rightarrow> response" where
  "writeValidationErrorJSON fs =
     writeJSON [] StatusUnprocessableEntity
       (Inr (enc_ErrorResponse ''request validation failed'' fs))"

lemma status_written [simp]:
  "rs_Status (writeErrorJSON st m) = st"
  "rs_Status (writeValidationErrorJSON fs) = StatusUnprocessableEntity"
  "rs_Status (writeJSON h st (Inr d)) = st"
  by (simp_all add: writeErrorJSON_def writeValidationErrorJSON_def writeJSON_def)

lemma status_writeJSON: "rs_Status (writeJSON h st d) = st \<or> rs_Status (writeJSON h st d) = 500"
  by (cases d) (simp_all add: writeJSON_def StatusInternalServerError_def)

section \<open>Reading JSON\<close>

text \<open>
  The request is refused with a response (\<open>Inl\<close>), or its only JSON value decodes (\<open>Inr\<close>).
  \<open>dec\<close> decodes with unknown fields disallowed.
\<close>

definition invalid_json :: response where
  "invalid_json = writeErrorJSON StatusBadRequest ''request body contains invalid JSON''"

definition too_large :: response where
  "too_large = writeErrorJSON StatusRequestEntityTooLarge ''request body is too large''"

definition readJSON :: "(json \<Rightarrow> 'a result) \<Rightarrow> nat \<Rightarrow> request \<Rightarrow> response + 'a" where
  "readJSON dec limit r =
     (if rq_MediaType r \<noteq> Some ''application/json''
      then Inl (writeErrorJSON StatusUnsupportedMediaType ''Content-Type must be application/json'')
      else case rq_Body r limit of
        [] \<Rightarrow> Inl invalid_json
      | BodyTooLarge # _ \<Rightarrow> Inl too_large
      | BodyInvalid # _ \<Rightarrow> Inl invalid_json
      | BodyValue j # rest \<Rightarrow>
          (case dec j of
             Inl e \<Rightarrow> Inl invalid_json
           | Inr v \<Rightarrow>
               (case rest of
                  [] \<Rightarrow> Inr v
                | BodyTooLarge # _ \<Rightarrow> Inl too_large
                | _ \<Rightarrow> Inl invalid_json)))"

lemma readJSON_Inr:
  "readJSON dec limit r = Inr v \<longleftrightarrow>
     rq_MediaType r = Some ''application/json''
     \<and> (\<exists>j. rq_Body r limit = [BodyValue j] \<and> dec j = Inr v)"
  by (auto simp: readJSON_def split: list.splits body_item.splits sum.splits)

lemma readJSON_refuses:
  "readJSON dec limit r = Inl resp \<Longrightarrow> rs_Status resp \<in> {400, 413, 415}"
  by (auto simp: readJSON_def invalid_json_def too_large_def status_defs
      split: list.splits body_item.splits sum.splits if_splits)

section \<open>The streams of the watch endpoint\<close>

text \<open>
  A stream remembers its first error; later writes return it and write nothing. \<open>outcome\<close> is
  what \<open>encoder.Encode\<close> returns for the value.
\<close>

record jsonStream =
  js_written :: "json list"
  js_err :: "error option"

definition stream_headers :: "(string \<times> string) list" where
  "stream_headers =
     [(''Content-Type'', ''application/x-ndjson''), (''Cache-Control'', ''no-cache'')]"

definition startJSONStream :: "request \<Rightarrow> jsonStream option" where
  "startJSONStream r =
     (if \<not> rq_Flusher r then None else Some \<lparr>js_written = [], js_err = None\<rparr>)"

definition stream_Write ::
  "error option \<Rightarrow> json \<Rightarrow> jsonStream \<Rightarrow> error option \<times> jsonStream" where
  "stream_Write outcome value st =
     (case js_err st of
        Some e \<Rightarrow> (Some e, st)
      | None \<Rightarrow>
          (case outcome of
             Some e \<Rightarrow> (Some e, st\<lparr>js_err := Some e\<rparr>)
           | None \<Rightarrow> (None, st\<lparr>js_written := js_written st @ [value]\<rparr>)))"

definition stream_Err :: "jsonStream \<Rightarrow> error option" where
  "stream_Err st = js_err st"

lemma stream_sticky: "js_err st = Some e \<Longrightarrow> stream_Write out v st = (Some e, st)"
  by (simp add: stream_Write_def)

section \<open>The server's environment\<close>

text \<open>
  What the handlers use of the outside: the database operations, the functions of
  \<open>crypto/x509\<close>, the authority, SHA-256, the text of a document (\<open>json.Marshal\<close>), the PEM
  encoding of a certificate, \<open>time.ParseDuration\<close>, the quoting of \<open>%q\<close>, and whether
  \<open>crypto/tls\<close> verifies the certificate of a client against the authority (\<open>ClientCAs\<close>).
\<close>

record 'db env =
  e_B :: "'db bolt"
  e_X :: x509
  e_ca :: CA
  e_sha256 :: "string \<Rightarrow> string"
  e_json_text :: "json \<Rightarrow> string"
  e_pem_certificate :: "string \<Rightarrow> string"
  e_ParseDuration :: "string \<Rightarrow> duration result"
  e_Quote :: "string \<Rightarrow> string"
  e_VerifyClient :: "certificate \<Rightarrow> bool"

type_synonym 'db handler = "request \<Rightarrow> 'db state \<Rightarrow> response \<times> 'db state"

section \<open>Middleware\<close>

definition requireCertificate :: "'db handler \<Rightarrow> 'db handler" where
  "requireCertificate next r s =
     (case rq_VerifiedChains r of
        None \<Rightarrow> (writeErrorJSON StatusUnauthorized ''authentication required'', s)
      | Some [] \<Rightarrow> (writeErrorJSON StatusUnauthorized ''authentication required'', s)
      | Some ([] # _) \<Rightarrow> (writeErrorJSON StatusUnauthorized ''authentication required'', s)
      | Some ((_ # _) # _) \<Rightarrow> next r s)"

text \<open>\<open>r.TLS.VerifiedChains[0][0]\<close>, defined behind \<open>requireCertificate\<close>.\<close>

definition leaf_certificate :: "request \<Rightarrow> certificate" where
  "leaf_certificate r = hd (hd (the (rq_VerifiedChains r)))"

definition authenticated :: "request \<Rightarrow> bool" where
  "authenticated r \<longleftrightarrow> (\<exists>c cs chains. rq_VerifiedChains r = Some ((c # cs) # chains))"

definition requireGroup :: "string \<Rightarrow> 'db handler \<Rightarrow> 'db handler" where
  "requireGroup grp next =
     requireCertificate (\<lambda>r s.
       if grp \<notin> set (ct_Organization (leaf_certificate r))
       then (writeErrorJSON StatusForbidden ''permission denied'', s)
       else next r s)"

definition adminOnly :: "'db handler \<Rightarrow> 'db handler" where
  "adminOnly next = requireGroup ''hambo:admins'' next"

definition nodeOnly :: "'db env \<Rightarrow> 'db handler \<Rightarrow> 'db handler" where
  "nodeOnly E next =
     requireGroup ''hambo:nodes'' (\<lambda>r s.
       let (nodeID, ok) = CutPrefix (ct_CommonName (leaf_certificate r)) ''hambo:node:''
       in if \<not> ok \<or> nodeID = []
          then (writeErrorJSON StatusForbidden ''invalid node identity'', s)
          else case Store.Get (e_B E) nodes_collection nodeID (st_db s) of
            Inl e \<Rightarrow>
              if errors_Is e StoreErrNotFound
              then (writeErrorJSON StatusForbidden ''node is not registered'', s)
              else (writeErrorJSON StatusInternalServerError ''could not check node membership'', s)
          | Inr _ \<Rightarrow> next (r\<lparr>rq_NodeID := Some nodeID\<rparr>) s)"

lemma requireCertificate_cases:
  "requireCertificate next r s =
     (if authenticated r then next r s
      else (writeErrorJSON StatusUnauthorized ''authentication required'', s))"
  by (auto simp: requireCertificate_def authenticated_def split: option.splits list.splits)

lemma requireGroup_cases:
  "requireGroup grp next r s =
     (if \<not> authenticated r
      then (writeErrorJSON StatusUnauthorized ''authentication required'', s)
      else if grp \<notin> set (ct_Organization (leaf_certificate r))
      then (writeErrorJSON StatusForbidden ''permission denied'', s)
      else next r s)"
  by (simp add: requireGroup_def requireCertificate_cases)

text \<open>A node handler runs only for the node its certificate names, if it is registered.\<close>

definition runs_as_node :: "'db env \<Rightarrow> request \<Rightarrow> 'db \<Rightarrow> string \<Rightarrow> bool" where
  "runs_as_node E r db nodeID \<longleftrightarrow>
     authenticated r \<and> ''hambo:nodes'' \<in> set (ct_Organization (leaf_certificate r))
     \<and> ct_CommonName (leaf_certificate r) = ''hambo:node:'' @ nodeID \<and> nodeID \<noteq> []
     \<and> (\<exists>n. Store.Get (e_B E) nodes_collection nodeID db = Inr n)"

lemma nodeOnly_cases:
  obtains (refused) resp where "nodeOnly E next r s = (resp, s)" "rs_Status resp \<in> {401, 403, 500}"
  | (runs) nodeID where "runs_as_node E r (st_db s) nodeID"
      "nodeOnly E next r s = next (r\<lparr>rq_NodeID := Some nodeID\<rparr>) s"
proof -
  obtain nodeID ok where cut: "CutPrefix (ct_CommonName (leaf_certificate r)) ''hambo:node:'' = (nodeID, ok)"
    by (cases "CutPrefix (ct_CommonName (leaf_certificate r)) ''hambo:node:''")
  show thesis
  proof (cases "authenticated r \<and> ''hambo:nodes'' \<in> set (ct_Organization (leaf_certificate r)) \<and> ok
      \<and> nodeID \<noteq> [] \<and> (\<exists>n. Store.Get (e_B E) nodes_collection nodeID (st_db s) = Inr n)")
    case True
    then have "runs_as_node E r (st_db s) nodeID"
      using CutPrefix_True [of _ "''hambo:node:''" nodeID] cut by (auto simp: runs_as_node_def)
    moreover have "nodeOnly E next r s = next (r\<lparr>rq_NodeID := Some nodeID\<rparr>) s"
      using True cut by (auto simp: nodeOnly_def requireGroup_cases)
    ultimately show ?thesis by (rule runs)
  next
    case False
    then have "\<exists>resp. nodeOnly E next r s = (resp, s) \<and> rs_Status resp \<in> {401, 403, 500}"
      using cut by (auto simp: nodeOnly_def requireGroup_cases status_defs split: sum.splits)
    then show ?thesis using refused by blast
  qed
qed

end
