(* ===== verification/Api_Tokens.thy ===== *)
theory Api_Tokens
  imports Http
begin

text \<open>
  \<open>POST /tokens\<close> (\<open>internal/api/tokens.go\<close>): an administrator creates a join token with a
  bounded lifetime. The server stores only the hash of the secret, with the expiry.
\<close>

section \<open>The handler\<close>

definition maxTokenRequestSize :: nat where "maxTokenRequestSize = 1024"
definition defaultTokenTTL :: duration where "defaultTokenTTL = minutes 15"
definition maxTokenTTL :: duration where "maxTokenTTL = hours 24"

record CreateTokenRequest =
  ctr_TTL :: string

definition CreateTokenRequest_fields :: "CreateTokenRequest fields" where
  "CreateTokenRequest_fields =
     [(''ttl'', \<lambda>j q. map_value (\<lambda>x. q\<lparr>ctr_TTL := x\<rparr>) (dec_string j (ctr_TTL q)))]"

definition dec_CreateTokenRequest :: "json \<Rightarrow> CreateTokenRequest result" where
  "dec_CreateTokenRequest = decode_struct True CreateTokenRequest_fields \<lparr>ctr_TTL = []\<rparr>"

definition enc_CreateTokenResponse :: "string \<Rightarrow> instant \<Rightarrow> json result" where
  "enc_CreateTokenResponse tok expires =
     map_value (\<lambda>j. JObj [(''token'', JStr tok), (''expires_at'', j)]) (enc_time expires)"

definition createTokenHandler ::
  "'db env \<Rightarrow> string result \<Rightarrow> instant \<Rightarrow> 'db handler" where
  "createTokenHandler E rnd now r s =
     (case readJSON dec_CreateTokenRequest maxTokenRequestSize r of
        Inl resp \<Rightarrow> (resp, s)
      | Inr request \<Rightarrow>
          (case (if ctr_TTL request \<noteq> [] then e_ParseDuration E (ctr_TTL request)
                 else Inr defaultTokenTTL) of
             Inl e \<Rightarrow>
               (writeValidationErrorJSON [(''ttl'', ''must be a duration such as 15m or 1h'')], s)
           | Inr ttl \<Rightarrow>
               if ttl \<le> 0 \<or> maxTokenTTL < ttl
               then (writeValidationErrorJSON
                       [(''ttl'', ''must be greater than zero and no more than 24h'')], s)
               else case Generate (e_sha256 E) (ct_Raw (ca_Certificate (e_ca E))) rnd of
                 Inl e \<Rightarrow> (writeErrorJSON StatusInternalServerError ''could not create token'', s)
               | Inr generated \<Rightarrow>
                   let expiresAt = now + ttl in
                   (case Create (e_B E) tokens_collection (SecretHash (e_sha256 E) generated)
                           \<lparr>md_ExpiresAt = expiresAt, md_Enrollment = None\<rparr> (st_db s) of
                      (Some e, db') \<Rightarrow>
                        (writeErrorJSON StatusInternalServerError ''could not create token'',
                         s\<lparr>st_db := db'\<rparr>)
                    | (None, db') \<Rightarrow>
                        (writeJSON [(''Cache-Control'', ''no-store'')] StatusCreated
                           (enc_CreateTokenResponse (Format generated) expiresAt),
                         s\<lparr>st_db := db'\<rparr>))))"

section \<open>What it stores\<close>

lemma createToken_cases:
  obtains (refused) resp where "createTokenHandler E rnd now r s = (resp, s)"
      "rs_Status resp \<in> {400, 413, 415, 422, 500}"
  | (created) ttl bs t db' where "rnd = Inr bs" "0 < ttl" "ttl \<le> maxTokenTTL"
      "t = \<lparr>t_CAFingerprint = caFingerprint (e_sha256 E) (ct_Raw (ca_Certificate (e_ca E))),
            t_Secret = b64_EncodeToString bs\<rparr>"
      "Create (e_B E) tokens_collection (SecretHash (e_sha256 E) t)
         \<lparr>md_ExpiresAt = now + ttl, md_Enrollment = None\<rparr> (st_db s) = (None, db')"
      "createTokenHandler E rnd now r s =
         (writeJSON [(''Cache-Control'', ''no-store'')] StatusCreated
            (enc_CreateTokenResponse (Format t) (now + ttl)), s\<lparr>st_db := db'\<rparr>)"
proof (cases "readJSON dec_CreateTokenRequest maxTokenRequestSize r")
  case (Inl resp)
  then show ?thesis
    using refused [of resp] readJSON_refuses [OF Inl] by (auto simp: createTokenHandler_def)
next
  case (Inr request)
  define ttl where "ttl = (if ctr_TTL request \<noteq> [] then e_ParseDuration E (ctr_TTL request)
    else Inr defaultTokenTTL)"
  show ?thesis
  proof (cases "\<exists>d bs. ttl = Inr d \<and> 0 < d \<and> d \<le> maxTokenTTL \<and> rnd = Inr bs")
    case True
    then obtain d bs where d: "ttl = Inr d" "0 < d" "d \<le> maxTokenTTL" "rnd = Inr bs" by blast
    define t where "t = \<lparr>t_CAFingerprint =
      caFingerprint (e_sha256 E) (ct_Raw (ca_Certificate (e_ca E))), t_Secret = b64_EncodeToString bs\<rparr>"
    obtain e db' where cr: "Create (e_B E) tokens_collection (SecretHash (e_sha256 E) t)
         \<lparr>md_ExpiresAt = now + d, md_Enrollment = None\<rparr> (st_db s) = (e, db')"
      by fastforce
    have gen: "Generate (e_sha256 E) (ct_Raw (ca_Certificate (e_ca E))) rnd = Inr t"
      by (simp add: Generate_def generateSecret_def d t_def)
    have run: "createTokenHandler E rnd now r s =
        (case e of
           Some x \<Rightarrow> (writeErrorJSON StatusInternalServerError ''could not create token'', s\<lparr>st_db := db'\<rparr>)
         | None \<Rightarrow> (writeJSON [(''Cache-Control'', ''no-store'')] StatusCreated
               (enc_CreateTokenResponse (Format t) (now + d)), s\<lparr>st_db := db'\<rparr>))"
      using d cr gen Inr ttl_def [symmetric]
      by (simp add: createTokenHandler_def Let_def split: option.splits)
    show ?thesis
    proof (cases e)
      case None
      then show ?thesis using created [OF d(4,2,3) t_def] cr run by simp
    next
      case (Some x)
      have "db' = st_db s" using failed_unchanged(1) [OF cr [unfolded Some]] by simp
      then show ?thesis using refused Some run by (simp add: StatusInternalServerError_def)
    qed
  next
    case False
    then have "\<exists>resp. createTokenHandler E rnd now r s = (resp, s) \<and> rs_Status resp \<in> {422, 500}"
      using Inr ttl_def [symmetric]
      by (cases ttl; cases rnd)
        (auto simp: createTokenHandler_def Generate_def generateSecret_def status_defs)
    then show ?thesis using refused by blast
  qed
qed


context hambo_db
begin

text \<open>A new token is stored unused, and nothing else changes.\<close>

lemma createToken_inv:
  assumes inv: "db_inv B (st_db s)" and E: "e_B E = B"
    and run: "createTokenHandler E rnd now r s = (resp, s')"
  shows "db_inv B (st_db s')" and "st_queue s' = st_queue s" and "st_watcher s' = st_watcher s"
    and "node_tbl B (st_db s') = node_tbl B (st_db s)"
    and "container_tbl B (st_db s') = container_tbl B (st_db s)"
proof -
  have all: "db_inv B (st_db s') \<and> st_queue s' = st_queue s \<and> st_watcher s' = st_watcher s
      \<and> node_tbl B (st_db s') = node_tbl B (st_db s)
      \<and> container_tbl B (st_db s') = container_tbl B (st_db s)"
  proof (cases rule: createToken_cases [of E rnd now r s])
    case (refused resp')
    then show ?thesis using run inv by auto
  next
    case (created ttl bs t db')
    let ?m = "\<lparr>md_ExpiresAt = now + ttl, md_Enrollment = None\<rparr>"
    have tok: "tbl_ok B tokens_collection (st_db s)"
      using inv by (simp add: db_inv_def db_ok_def)
    note c = tokens.Create_ok [OF tok created(5) [unfolded E]]
    have same: "view B db' ''nodes'' = view B (st_db s) ''nodes''"
      "view B db' ''containers'' = view B (st_db s) ''containers''"
      using c(4) by simp_all
    have tables: "node_tbl B db' = node_tbl B (st_db s)"
      "container_tbl B db' = container_tbl B (st_db s)" "db_ok B db'"
      using tbl_frame [of B db' nodes_collection] tbl_frame [of B db' containers_collection]
        same inv c(2) by (auto simp: db_ok_def db_inv_def)
    have "tokens_inv (node_tbl B db') (token_tbl B db')"
      using inv by (auto simp: tokens_inv_def tables(1) c(3) db_inv_def split: if_splits)
    with tables inv have "db_inv B db'" by (simp add: db_inv_def)
    then show ?thesis using created(6) run tables by auto
  qed
  then show "db_inv B (st_db s')" "st_queue s' = st_queue s" "st_watcher s' = st_watcher s"
    "node_tbl B (st_db s') = node_tbl B (st_db s)"
    "container_tbl B (st_db s') = container_tbl B (st_db s)"
    by blast+
qed

end

end
