(* ===== verification/Utf8.thy ===== *)
theory Utf8
  imports Json
begin

text \<open>
  Strings in JSON texts. \<open>encoding/json\<close> writes a byte that starts no rune of valid UTF-8 as the
  replacement character; the decoder reads that character. What the programs take from their
  command lines and from the host's name need not be valid UTF-8, so the documents made of it
  are written with \<open>json_string\<close>.
\<close>

text \<open>The bytes of the rune at the head of the text, 0 when there is none (\<open>utf8.DecodeRune\<close>).\<close>

fun continues :: "nat list \<Rightarrow> bool" where
  "continues bs = list_all (\<lambda>b. 128 \<le> b \<and> b \<le> 191) bs"

definition rune_size :: "nat list \<Rightarrow> nat" where
  "rune_size bs =
     (case bs of
        [] \<Rightarrow> 0
      | b # cs \<Rightarrow>
          if b < 128 then 1
          else if 194 \<le> b \<and> b \<le> 223 then (if 1 \<le> length cs \<and> continues (take 1 cs) then 2 else 0)
          else if 224 \<le> b \<and> b \<le> 239
          then (if 2 \<le> length cs \<and> continues (take 2 cs)
                   \<and> (b = 224 \<longrightarrow> 160 \<le> hd cs) \<and> (b = 237 \<longrightarrow> hd cs \<le> 159) then 3 else 0)
          else if 240 \<le> b \<and> b \<le> 244
          then (if 3 \<le> length cs \<and> continues (take 3 cs)
                   \<and> (b = 240 \<longrightarrow> 144 \<le> hd cs) \<and> (b = 244 \<longrightarrow> hd cs \<le> 143) then 4 else 0)
          else 0)"

definition replacement :: string where
  "replacement = [CHR 0xEF, CHR 0xBF, CHR 0xBD]"

function json_string :: "string \<Rightarrow> string" where
  "json_string [] = []"
| "json_string (c # s) =
     (let n = rune_size (map code (take 4 (c # s)))
      in if n = 0 then replacement @ json_string s
         else c # take (n - 1) s @ json_string (drop (n - 1) s))"
  by pat_completeness auto
termination
  by (relation "measure length") auto

declare json_string.simps [simp del]

lemma json_string_Nil [simp]: "json_string [] = []"
  by (simp add: json_string.simps)

text \<open>What is valid is written as it is.\<close>

definition valid_utf8 :: "string \<Rightarrow> bool" where
  "valid_utf8 s \<longleftrightarrow> json_string s = s"

lemma json_string_valid [simp]: "valid_utf8 s \<Longrightarrow> json_string s = s"
  by (simp add: valid_utf8_def)

lemma json_string_ascii: "list_all (\<lambda>c. code c < 128) s \<Longrightarrow> json_string s = s"
  by (induction s) (simp_all add: json_string.simps rune_size_def)

lemma ascii_valid: "list_all (\<lambda>c. code c < 128) s \<Longrightarrow> valid_utf8 s"
  by (simp add: valid_utf8_def json_string_ascii)

lemma json_string_empty [simp]: "json_string s = [] \<longleftrightarrow> s = []"
  by (cases s) (simp_all add: json_string.simps Let_def replacement_def)

text \<open>A name in a Latin-1 encoding loses its letters; one in UTF-8 keeps them.\<close>

lemma json_string_examples:
  "json_string [CHR ''n'', CHR 0xE9] = CHR ''n'' # replacement"
  "valid_utf8 [CHR ''n'', CHR 0xC3, CHR 0xA9]"
  by code_simp+

end
