(* ===== verification/Api_Join.thy ===== *)
theory Api_Join
  imports Http Utf8
begin

text \<open>
  \<open>POST /nodes/join\<close> (\<open>joinNodeHandler\<close> of \<open>internal/api/nodes.go\<close>): a worker presents the
  secret of a join token with its name and certificate request, and becomes a node. The
  transaction's closure sets the captured variables \<open>response\<close>, \<open>statusCode\<close> and
  \<open>errorMessage\<close>; they are the record \<open>join_vars\<close>. The specification \<open>enrolled\<close> says what a
  committed transaction did to the tables of nodes and tokens.
\<close>

section \<open>The handler\<close>

definition maxJoinNodeRequestSize :: nat where "maxJoinNodeRequestSize = 16 * 1024"

record JoinNodeRequest =
  jr_Name :: string
  jr_CSR :: string

record JoinNodeResponse =
  jn_NodeID :: string
  jn_Certificate :: string

definition JoinNodeRequest_fields :: "JoinNodeRequest fields" where
  "JoinNodeRequest_fields =
     [(''name'', \<lambda>j q. map_value (\<lambda>x. q\<lparr>jr_Name := x\<rparr>) (dec_string j (jr_Name q))),
      (''csr'', \<lambda>j q. map_value (\<lambda>x. q\<lparr>jr_CSR := x\<rparr>) (dec_bytes j))]"

definition dec_JoinNodeRequest :: "json \<Rightarrow> JoinNodeRequest result" where
  "dec_JoinNodeRequest = decode_struct True JoinNodeRequest_fields \<lparr>jr_Name = [], jr_CSR = []\<rparr>"

definition enc_JoinNodeRequest :: "JoinNodeRequest \<Rightarrow> json" where
  "enc_JoinNodeRequest q = JObj [(''name'', JStr (json_string (jr_Name q))), (''csr'', JBytes (jr_CSR q))]"

definition enc_JoinNodeResponse :: "JoinNodeResponse \<Rightarrow> json" where
  "enc_JoinNodeResponse p =
     JObj [(''node_id'', JStr (jn_NodeID p)), (''certificate'', JStr (jn_Certificate p))]"

definition joinNodeRequestHash :: "'db env \<Rightarrow> JoinNodeRequest \<Rightarrow> string result" where
  "joinNodeRequestHash E request =
     map_value (\<lambda>doc. hex_EncodeToString (e_sha256 E (e_json_text E doc)))
       (map_error (Wrap ''encode join request'') (Inr (enc_JoinNodeRequest request)))"

record join_vars =
  jv_response :: JoinNodeResponse
  jv_statusCode :: nat
  jv_errorMessage :: string

definition join_vars0 :: join_vars where
  "join_vars0 =
     \<lparr>jv_response = \<lparr>jn_NodeID = [], jn_Certificate = []\<rparr>, jv_statusCode = StatusOK,
      jv_errorMessage = []\<rparr>"

definition join_fails :: "string \<Rightarrow> sentinel \<Rightarrow> join_vars \<times> 'db result" where
  "join_fails message kind =
     (join_vars0\<lparr>jv_errorMessage := message\<rparr>, Inl (Sentinel kind))"

text \<open>The closure of the transaction; \<open>rnd\<close> are the random bytes of the new node's identifier.\<close>

definition join_tx ::
  "'db env \<Rightarrow> string \<Rightarrow> instant \<Rightarrow> JoinNodeRequest \<Rightarrow> string \<Rightarrow> string \<Rightarrow> 'db
     \<Rightarrow> join_vars \<times> 'db result" where
  "join_tx E rnd now request secretHash requestHash tx =
     (case GetTx (e_B E) tokens_collection secretHash tx of
        Inl e \<Rightarrow>
          if errors_Is e StoreErrNotFound then join_fails ''invalid join token'' ErrUnauthenticated
          else (join_vars0, Inl (Wrap ''look up join token'' e))
      | Inr metadata \<Rightarrow>
          if Expired metadata now then join_fails ''join token expired'' ErrUnauthenticated
          else case md_Enrollment metadata of
            Some enrollment \<Rightarrow>
              if er_RequestHash enrollment \<noteq> requestHash
              then join_fails ''join token already used for a different request'' ErrConflict
              else (case GetTx (e_B E) nodes_collection (er_NodeID enrollment) tx of
                Inl e \<Rightarrow>
                  if errors_Is e StoreErrNotFound
                  then join_fails ''node no longer exists'' ErrNotFound
                  else (join_vars0, Inl (Wrap ''look up enrolled node'' e))
              | Inr _ \<Rightarrow>
                  (join_vars0\<lparr>jv_response := \<lparr>jn_NodeID = er_NodeID enrollment,
                                              jn_Certificate = er_Certificate enrollment\<rparr>\<rparr>,
                   Inr tx))
          | None \<Rightarrow>
              let nodeID = GenerateNodeID rnd in
              (case IssueNodeCertificate (e_X E) (e_ca E) now nodeID (jr_CSR request) of
                 Inl e \<Rightarrow>
                   if errors_Is e ErrInvalidCSR
                   then join_fails ''must contain a valid Ed25519 CSR'' ErrInvalidArgument
                   else (join_vars0, Inl (Wrap ''issue node certificate'' e))
               | Inr certificate \<Rightarrow>
                   (case CreateTx (e_B E) nodes_collection nodeID
                           (zero_Node\<lparr>n_ID := nodeID, n_Name := jr_Name request\<rparr>) tx of
                      Inl e \<Rightarrow> (join_vars0, Inl (Wrap ''create node'' e))
                    | Inr tx1 \<Rightarrow>
                        let enrollment = \<lparr>er_RequestHash = requestHash, er_NodeID = nodeID,
                              er_Certificate = e_pem_certificate E (ct_Raw certificate)\<rparr> in
                        (case UpdateTx (e_B E) tokens_collection secretHash
                                (metadata\<lparr>md_Enrollment := Some enrollment\<rparr>) tx1 of
                           Inl e \<Rightarrow> (join_vars0, Inl (Wrap ''save enrollment result'' e))
                         | Inr tx2 \<Rightarrow>
                             (\<lparr>jv_response = \<lparr>jn_NodeID = er_NodeID enrollment,
                                              jn_Certificate = er_Certificate enrollment\<rparr>,
                               jv_statusCode = StatusCreated, jv_errorMessage = []\<rparr>,
                              Inr tx2)))))"

definition join_answer :: "join_vars \<Rightarrow> error option \<Rightarrow> response" where
  "join_answer v err =
     (case err of
        None \<Rightarrow>
          writeJSON [(''Cache-Control'', ''no-store'')] (jv_statusCode v)
            (Inr (enc_JoinNodeResponse (jv_response v)))
      | Some e \<Rightarrow>
          if errors_Is e ErrUnauthenticated then writeErrorJSON StatusUnauthorized (jv_errorMessage v)
          else if errors_Is e ErrConflict then writeErrorJSON StatusConflict (jv_errorMessage v)
          else if errors_Is e ErrNotFound then writeErrorJSON StatusGone (jv_errorMessage v)
          else if errors_Is e ErrInvalidArgument
          then writeValidationErrorJSON [(''csr'', jv_errorMessage v)]
          else writeErrorJSON StatusInternalServerError ''could not process enrollment'')"

definition joinNodeHandler :: "'db env \<Rightarrow> string \<Rightarrow> instant \<Rightarrow> 'db handler" where
  "joinNodeHandler E rnd now r s =
     (let authorization = Fields (rq_Authorization r) in
      if length authorization \<noteq> 2 \<or> \<not> EqualFold (authorization ! 0) ''Bearer''
      then (writeErrorJSON StatusUnauthorized ''join token required'', s)
      else case readJSON dec_JoinNodeRequest maxJoinNodeRequestSize r of
        Inl resp \<Rightarrow> (resp, s)
      | Inr request \<Rightarrow>
          if TrimSpace (jr_Name request) = []
          then (writeValidationErrorJSON [(''name'', ''must not be empty'')], s)
          else if length (jr_CSR request) = 0
          then (writeValidationErrorJSON [(''csr'', ''must not be empty'')], s)
          else
            let presented = \<lparr>t_CAFingerprint = [], t_Secret = authorization ! 1\<rparr>;
                secretHash = SecretHash (e_sha256 E) presented
            in (case joinNodeRequestHash E request of
                  Inl e \<Rightarrow>
                    (writeErrorJSON StatusInternalServerError ''could not process enrollment'', s)
                | Inr requestHash \<Rightarrow>
                    (case WriteTx (e_B E) join_vars0
                            (join_tx E rnd now request secretHash requestHash) (st_db s) of
                       (v, err, db') \<Rightarrow> (join_answer v err, s\<lparr>st_db := db'\<rparr>))))"

section \<open>The specification of an enrollment\<close>

text \<open>
  What a committed transaction did for the token under \<open>h\<close> and the request hash \<open>rh\<close>: it
  returned the stored result of the same request (200), or it used the token for the first
  time and registered the node (201).
\<close>

definition new_node :: "string \<Rightarrow> string \<Rightarrow> Node" where
  "new_node nodeID name = zero_Node\<lparr>n_ID := nodeID, n_Name := name\<rparr>"

definition retried ::
  "instant \<Rightarrow> string \<Rightarrow> string \<Rightarrow> join_vars \<Rightarrow> (string \<Rightarrow> Node option) \<Rightarrow> (string \<Rightarrow> Metadata option)
     \<Rightarrow> bool" where
  "retried now h rh v N T \<longleftrightarrow>
     (\<exists>m e. T h = Some m \<and> now < md_ExpiresAt m \<and> md_Enrollment m = Some e
        \<and> er_RequestHash e = rh \<and> N (er_NodeID e) \<noteq> None
        \<and> v = \<lparr>jv_response = \<lparr>jn_NodeID = er_NodeID e, jn_Certificate = er_Certificate e\<rparr>,
               jv_statusCode = StatusOK, jv_errorMessage = []\<rparr>)"

definition enrolled ::
  "'db env \<Rightarrow> instant \<Rightarrow> string \<Rightarrow> JoinNodeRequest \<Rightarrow> string \<Rightarrow> string \<Rightarrow> join_vars
     \<Rightarrow> (string \<Rightarrow> Node option) \<Rightarrow> (string \<Rightarrow> Metadata option)
     \<Rightarrow> (string \<Rightarrow> Node option) \<Rightarrow> (string \<Rightarrow> Metadata option) \<Rightarrow> bool" where
  "enrolled E now nodeID q h rh v N T N' T' \<longleftrightarrow>
     (\<exists>m c. T h = Some m \<and> now < md_ExpiresAt m \<and> md_Enrollment m = None
        \<and> IssueNodeCertificate (e_X E) (e_ca E) now nodeID (jr_CSR q) = Inr c
        \<and> N nodeID = None \<and> N' = N(nodeID \<mapsto> new_node nodeID (jr_Name q))
        \<and> T' = T(h \<mapsto> m\<lparr>md_Enrollment := Some \<lparr>er_RequestHash = rh, er_NodeID = nodeID,
                 er_Certificate = e_pem_certificate E (ct_Raw c)\<rparr>\<rparr>)
        \<and> v = \<lparr>jv_response = \<lparr>jn_NodeID = nodeID,
                              jn_Certificate = e_pem_certificate E (ct_Raw c)\<rparr>,
               jv_statusCode = StatusCreated, jv_errorMessage = []\<rparr>)"

lemma tokens_inv_enroll:
  assumes inv: "tokens_inv N T" and "T h = Some m" "md_Enrollment m = None" "N nodeID = None"
    and "er_NodeID e = nodeID"
  shows "tokens_inv (N(nodeID \<mapsto> n)) (T(h \<mapsto> m\<lparr>md_Enrollment := Some e\<rparr>))"
proof -
  have known: "N (er_NodeID x) \<noteq> None" if "T g = Some y" "md_Enrollment y = Some x" for g x y
    using inv that unfolding tokens_inv_def by blast
  have uniq: "g = k" if "T g = Some y" "T k = Some z" "md_Enrollment y = Some a"
      "md_Enrollment z = Some b" "er_NodeID a = er_NodeID b" for g k y z a b
    using inv that unfolding tokens_inv_def by blast
  have new: "er_NodeID x \<noteq> nodeID" if "T g = Some y" "md_Enrollment y = Some x" for g x y
    using known [OF that] assms(4) by auto
  show ?thesis
    unfolding tokens_inv_def
    using known new uniq assms(2,5) by (auto split: if_splits) (metis+)
qed

lemma enrolled_inv:
  assumes "enrolled E now nodeID q h rh v N T N' T'" and "nodes_inv N" and "tokens_inv N T"
  shows "nodes_inv N'" and "tokens_inv N' T'" and "dom N \<subseteq> dom N'"
proof -
  from assms(1) obtain m c where e: "T h = Some m" "md_Enrollment m = None" "N nodeID = None"
    "IssueNodeCertificate (e_X E) (e_ca E) now nodeID (jr_CSR q) = Inr c"
    "N' = N(nodeID \<mapsto> new_node nodeID (jr_Name q))"
    "T' = T(h \<mapsto> m\<lparr>md_Enrollment := Some \<lparr>er_RequestHash = rh, er_NodeID = nodeID,
             er_Certificate = e_pem_certificate E (ct_Raw c)\<rparr>\<rparr>)"
    unfolding enrolled_def by blast
  have "nodeID \<noteq> []" using node_certificate_template(1) [OF e(4)] .
  then show "nodes_inv N'" using assms(2) e(5) by (auto simp: new_node_def intro: nodes_inv_upd)
  show "tokens_inv N' T'" unfolding e(5,6) by (rule tokens_inv_enroll [OF assms(3) e(1,2,3)]) simp
  show "dom N \<subseteq> dom N'" using e(5) by auto
qed

section \<open>What the transaction commits\<close>

context hambo_db
begin

lemma join_tx_spec:
  assumes inv: "db_inv B tx" and E: "e_B E = B"
    and run: "join_tx E rnd now q h rh tx = (v, Inr tx')"
  shows "retried now h rh v (node_tbl B tx) (token_tbl B tx)
        \<and> tx' = tx
      \<or> enrolled E now (GenerateNodeID rnd) q h rh v (node_tbl B tx) (token_tbl B tx)
          (node_tbl B tx') (token_tbl B tx')
        \<and> container_tbl B tx' = container_tbl B tx \<and> db_ok B tx'"
proof -
  have ok: "tbl_ok B nodes_collection tx" "tbl_ok B containers_collection tx"
    "tbl_ok B tokens_collection tx"
    using inv by (simp_all add: db_inv_def db_ok_def)
  obtain m where m: "token_tbl B tx h = Some m"
    using run ok(3) E
    by (cases "token_tbl B tx h") (auto simp: join_tx_def join_fails_def tokens.GetTx_tbl)
  have live: "now < md_ExpiresAt m"
    using run ok(3) E m
    by (auto simp: join_tx_def join_fails_def tokens.GetTx_tbl Expired_def split: if_splits)
  note start = join_tx_def tokens.GetTx_tbl [OF ok(3)] E m live Expired_def
  show ?thesis
  proof (cases "md_Enrollment m")
    case (Some e)
    have "retried now h rh v (node_tbl B tx) (token_tbl B tx) \<and> tx' = tx"
      using run Some m live ok
      by (auto simp: start join_fails_def nodes.GetTx_tbl retried_def join_vars0_def
          split: if_splits option.splits)
    then show ?thesis ..
  next
    case None
    let ?id = "GenerateNodeID rnd"
    from run None obtain c tx1 where
      c: "IssueNodeCertificate (e_X E) (e_ca E) now ?id (jr_CSR q) = Inr c"
      and create: "CreateTx B nodes_collection ?id (new_node ?id (jr_Name q)) tx = Inr tx1"
      and update: "UpdateTx B tokens_collection h (m\<lparr>md_Enrollment := Some \<lparr>er_RequestHash = rh,
        er_NodeID = ?id, er_Certificate = e_pem_certificate E (ct_Raw c)\<rparr>\<rparr>) tx1 = Inr tx'"
      and v: "v = \<lparr>jv_response = \<lparr>jn_NodeID = ?id,
            jn_Certificate = e_pem_certificate E (ct_Raw c)\<rparr>,
          jv_statusCode = StatusCreated, jv_errorMessage = []\<rparr>"
      by (auto simp: start join_fails_def new_node_def Let_def split: sum.splits if_splits)
    note cr = nodes.CreateTx_tbl [OF ok(1) create]
    have keep1: "token_tbl B tx1 = token_tbl B tx" "container_tbl B tx1 = container_tbl B tx"
      "tbl_ok B tokens_collection tx1" "tbl_ok B containers_collection tx1"
      using cr(4) ok tbl_frame [of B tx1 tokens_collection tx]
        tbl_frame [of B tx1 containers_collection tx] by simp_all
    note up = tokens.UpdateTx_tbl [OF keep1(3) update]
    have keep2: "node_tbl B tx' = node_tbl B tx1" "container_tbl B tx' = container_tbl B tx1"
      "tbl_ok B nodes_collection tx'" "tbl_ok B containers_collection tx'"
      using up(4) cr(2) keep1(4) tbl_frame [of B tx' nodes_collection tx1]
        tbl_frame [of B tx' containers_collection tx1] by simp_all
    have "enrolled E now ?id q h rh v (node_tbl B tx) (token_tbl B tx)
        (node_tbl B tx') (token_tbl B tx')"
      unfolding enrolled_def
      using m live None c cr(1,3) keep1 keep2 up(3) v by auto
    moreover have "db_ok B tx'" using keep2 up(2) by (simp add: db_ok_def)
    ultimately show ?thesis using keep1 keep2 by simp
  qed
qed

lemma join_write_committed:
  assumes inv: "db_inv B db" and E: "e_B E = B"
    and run: "WriteTx B join_vars0 (join_tx E rnd now q h rh) db = (v, None, db')"
  shows "retried now h rh v (node_tbl B db) (token_tbl B db)
        \<and> node_tbl B db' = node_tbl B db \<and> token_tbl B db' = token_tbl B db
      \<or> enrolled E now (GenerateNodeID rnd) q h rh v (node_tbl B db) (token_tbl B db)
          (node_tbl B db') (token_tbl B db')"
    and "container_tbl B db' = container_tbl B db" and "db_inv B db'"
proof -
  from run obtain tx tx' where same: "view B tx = view B db" "view B db' = view B tx'"
    and tx: "join_tx E rnd now q h rh tx = (v, Inr tx')"
    by (auto simp: WriteTx_def split: prod.splits dest!: update_committed)
  have inv': "db_inv B tx" using inv db_inv_view [OF same(1)] by simp
  note t = tbl_view_eq [OF same(1), of nodes_collection] tbl_view_eq [OF same(1), of containers_collection]
    tbl_view_eq [OF same(1), of tokens_collection] tbl_view_eq [OF same(2), of nodes_collection]
    tbl_view_eq [OF same(2), of containers_collection] tbl_view_eq [OF same(2), of tokens_collection]
  note spec = join_tx_spec [OF inv' E tx]
  show "retried now h rh v (node_tbl B db) (token_tbl B db)
        \<and> node_tbl B db' = node_tbl B db \<and> token_tbl B db' = token_tbl B db
      \<or> enrolled E now (GenerateNodeID rnd) q h rh v (node_tbl B db) (token_tbl B db)
          (node_tbl B db') (token_tbl B db')"
    using spec t by auto
  show "container_tbl B db' = container_tbl B db" using spec t by auto
  have "db_inv B tx'"
    using spec
  proof (elim disjE conjE)
    assume "tx' = tx"
    then show ?thesis using inv' by simp
  next
    assume en: "enrolled E now (GenerateNodeID rnd) q h rh v (node_tbl B tx) (token_tbl B tx)
        (node_tbl B tx') (token_tbl B tx')"
      and "container_tbl B tx' = container_tbl B tx" "db_ok B tx'"
    then show ?thesis
      using enrolled_inv [OF en] inv' containers_inv_nodes by (auto simp: db_inv_def)
  qed
  then show "db_inv B db'" using db_inv_view [OF same(2)] by simp
qed

end

section \<open>What the handler does\<close>

text \<open>A request that reaches the transaction, with the secret it presents.\<close>

definition join_request :: "request \<Rightarrow> string \<Rightarrow> JoinNodeRequest \<Rightarrow> bool" where
  "join_request r secret q \<longleftrightarrow>
     (\<exists>bearer. Fields (rq_Authorization r) = [bearer, secret] \<and> EqualFold bearer ''Bearer'')
     \<and> readJSON dec_JoinNodeRequest maxJoinNodeRequestSize r = Inr q
     \<and> TrimSpace (jr_Name q) \<noteq> [] \<and> jr_CSR q \<noteq> []"

definition secret_hash :: "'db env \<Rightarrow> string \<Rightarrow> string" where
  "secret_hash E secret = hex_EncodeToString (e_sha256 E secret)"

definition request_hash :: "'db env \<Rightarrow> JoinNodeRequest \<Rightarrow> string" where
  "request_hash E q = hex_EncodeToString (e_sha256 E (e_json_text E (enc_JoinNodeRequest q)))"

lemma joinNode_cases:
  obtains (refused) resp where "joinNodeHandler E rnd now r s = (resp, s)"
      "rs_Status resp \<in> {400, 401, 413, 415, 422}"
  | (runs) secret q v err db' where "join_request r secret q"
      "WriteTx (e_B E) join_vars0
         (join_tx E rnd now q (secret_hash E secret) (request_hash E q)) (st_db s) = (v, err, db')"
      "joinNodeHandler E rnd now r s = (join_answer v err, s\<lparr>st_db := db'\<rparr>)"
proof (cases "\<exists>secret q. join_request r secret q")
  case True
  then obtain secret q bearer where a: "Fields (rq_Authorization r) = [bearer, secret]"
    "EqualFold bearer ''Bearer''" "readJSON dec_JoinNodeRequest maxJoinNodeRequestSize r = Inr q"
    "TrimSpace (jr_Name q) \<noteq> []" "jr_CSR q \<noteq> []"
    by (auto simp: join_request_def)
  obtain v err db' where w: "WriteTx (e_B E) join_vars0
       (join_tx E rnd now q (secret_hash E secret) (request_hash E q)) (st_db s) = (v, err, db')"
    by (metis prod.exhaust)
  show ?thesis
    by (rule runs [OF _ w])
      (use a w in \<open>simp_all add: join_request_def joinNodeHandler_def Let_def joinNodeRequestHash_def
        SecretHash_def secret_hash_def request_hash_def\<close>)
next
  case False
  then have "\<exists>resp. joinNodeHandler E rnd now r s = (resp, s)
      \<and> rs_Status resp \<in> {400, 401, 413, 415, 422}"
    using readJSON_refuses [of dec_JoinNodeRequest maxJoinNodeRequestSize r]
    by (cases "Fields (rq_Authorization r)" rule: remdups_adj.cases)
      (auto simp: joinNodeHandler_def join_request_def Let_def status_defs numeral_2_eq_2
        length_Suc_conv split: sum.splits if_splits)
  then show ?thesis using refused by blast
qed

context hambo_db
begin

lemma joinNode_inv:
  assumes inv: "db_inv B (st_db s)" and E: "e_B E = B"
    and run: "joinNodeHandler E rnd now r s = (resp, s')"
  shows "db_inv B (st_db s')" and "st_queue s' = st_queue s" and "st_watcher s' = st_watcher s"
    and "container_tbl B (st_db s') = container_tbl B (st_db s)"
proof -
  have "db_inv B (st_db s') \<and> st_queue s' = st_queue s \<and> st_watcher s' = st_watcher s
      \<and> container_tbl B (st_db s') = container_tbl B (st_db s)"
  proof (cases rule: joinNode_cases [of E rnd now r s])
    case (refused resp')
    then show ?thesis using run inv by auto
  next
    case (runs secret q v err db')
    have "db_inv B db' \<and> container_tbl B db' = container_tbl B (st_db s)"
    proof (cases err)
      case None
      show ?thesis
        using join_write_committed(2,3) [OF inv E runs(2) [unfolded None E]] by simp
    next
      case (Some e)
      show ?thesis using failed_unchanged(4) [OF runs(2) [unfolded Some]] inv by simp
    qed
    then show ?thesis using run runs(3) by auto
  qed
  then show "db_inv B (st_db s')" "st_queue s' = st_queue s" "st_watcher s' = st_watcher s"
    "container_tbl B (st_db s') = container_tbl B (st_db s)" by blast+
qed

text \<open>The answers that need no write, as the stored token decides them.\<close>

lemma join_tx_decided:
  assumes inv: "db_inv B tx" and E: "e_B E = B"
  shows "token_tbl B tx h = None \<Longrightarrow>
      join_tx E rnd now q h rh tx = join_fails ''invalid join token'' ErrUnauthenticated"
    and "token_tbl B tx h = Some m \<Longrightarrow> md_ExpiresAt m \<le> now \<Longrightarrow>
      join_tx E rnd now q h rh tx = join_fails ''join token expired'' ErrUnauthenticated"
    and "token_tbl B tx h = Some m \<Longrightarrow> now < md_ExpiresAt m \<Longrightarrow> md_Enrollment m = Some e \<Longrightarrow>
      er_RequestHash e \<noteq> rh \<Longrightarrow>
      join_tx E rnd now q h rh tx =
        join_fails ''join token already used for a different request'' ErrConflict"
    and "token_tbl B tx h = Some m \<Longrightarrow> now < md_ExpiresAt m \<Longrightarrow> md_Enrollment m = Some e \<Longrightarrow>
      er_RequestHash e = rh \<Longrightarrow>
      join_tx E rnd now q h rh tx =
        (\<lparr>jv_response = \<lparr>jn_NodeID = er_NodeID e, jn_Certificate = er_Certificate e\<rparr>,
          jv_statusCode = StatusOK, jv_errorMessage = []\<rparr>, Inr tx)"
proof -
  have ok: "tbl_ok B nodes_collection tx" "tbl_ok B tokens_collection tx"
    using inv by (simp_all add: db_inv_def db_ok_def)
  note start = join_tx_def tokens.GetTx_tbl [OF ok(2)] E Expired_def
  show "token_tbl B tx h = None \<Longrightarrow>
      join_tx E rnd now q h rh tx = join_fails ''invalid join token'' ErrUnauthenticated"
    by (simp add: start)
  show "token_tbl B tx h = Some m \<Longrightarrow> md_ExpiresAt m \<le> now \<Longrightarrow>
      join_tx E rnd now q h rh tx = join_fails ''join token expired'' ErrUnauthenticated"
    by (simp add: start)
  show "token_tbl B tx h = Some m \<Longrightarrow> now < md_ExpiresAt m \<Longrightarrow> md_Enrollment m = Some e \<Longrightarrow>
      er_RequestHash e \<noteq> rh \<Longrightarrow>
      join_tx E rnd now q h rh tx =
        join_fails ''join token already used for a different request'' ErrConflict"
    by (simp add: start)
  assume m: "token_tbl B tx h = Some m" "now < md_ExpiresAt m" "md_Enrollment m = Some e"
    "er_RequestHash e = rh"
  have "tokens_inv (node_tbl B tx) (token_tbl B tx)" using inv by (simp add: db_inv_def)
  then have "node_tbl B tx (er_NodeID e) \<noteq> None"
    unfolding tokens_inv_def using m(1,3) by blast
  then show "join_tx E rnd now q h rh tx =
        (\<lparr>jv_response = \<lparr>jn_NodeID = er_NodeID e, jn_Certificate = er_Certificate e\<rparr>,
          jv_statusCode = StatusOK, jv_errorMessage = []\<rparr>, Inr tx)"
    using m by (auto simp: start nodes.GetTx_tbl [OF ok(1)] join_vars0_def split: option.splits)
qed

end

end
