(* ===== verification/Api_Status.thy ===== *)
theory Api_Status
  imports Http
begin

text \<open>
  \<open>POST /nodes/self/session\<close> and \<open>POST /nodes/self/status\<close> (\<open>createNodeSessionHandler\<close> and
  \<open>reportNodeStatusHandler\<close> of \<open>internal/api/nodes.go\<close>): a worker opens a reporting session
  and reports what it observed of its containers. The specification of an accepted report is
  the function \<open>absorb\<close> on the table of containers, which moves every container forward in
  the order of the lifecycle.
\<close>

section \<open>Sessions\<close>

definition start_session :: "string \<Rightarrow> Node \<Rightarrow> Node result" where
  "start_session sessionID current =
     Inr (current\<lparr>n_StatusSessionID := sessionID, n_StatusSequence := 0, n_RuntimeReady := False\<rparr>)"

definition enc_CreateNodeSessionResponse :: "string \<Rightarrow> json" where
  "enc_CreateNodeSessionResponse sessionID = JObj [(''session_id'', JStr sessionID)]"

definition createNodeSessionHandler :: "'db env \<Rightarrow> string \<Rightarrow> 'db handler" where
  "createNodeSessionHandler E rnd r s =
     (case rq_NodeID r of
        None \<Rightarrow> (writeErrorJSON StatusInternalServerError ''could not create node session'', s)
      | Some nodeID \<Rightarrow>
          let sessionID = hex_EncodeToString rnd in
          (case Modify (e_B E) nodes_collection nodeID (start_session sessionID) (st_db s) of
             (Some e, db') \<Rightarrow>
               ((if errors_Is e StoreErrNotFound
                 then writeErrorJSON StatusNotFound ''node not found''
                 else writeErrorJSON StatusInternalServerError ''could not create node session''),
                s\<lparr>st_db := db'\<rparr>)
           | (None, db') \<Rightarrow>
               (writeJSON [(''Cache-Control'', ''no-store'')] StatusCreated
                  (Inr (enc_CreateNodeSessionResponse sessionID)),
                s\<lparr>st_db := db'\<rparr>)))"

section \<open>Status reports\<close>

definition maxStatusRequestSize :: nat where "maxStatusRequestSize = 1024 * 1024"

record ContainerStatusReport =
  rp_ID :: string
  rp_State :: State
  rp_ExitCode :: "go_int option"
  rp_Reason :: string
  rp_Message :: string

record ReportNodeStatusRequest =
  rn_SessionID :: string
  rn_Sequence :: uint64
  rn_RuntimeReady :: bool
  rn_Containers :: "ContainerStatusReport list"

definition ContainerStatusReport_fields :: "ContainerStatusReport fields" where
  "ContainerStatusReport_fields =
     [(''id'', \<lambda>j p. map_value (\<lambda>x. p\<lparr>rp_ID := x\<rparr>) (dec_string j (rp_ID p))),
      (''state'', \<lambda>j p. map_value (\<lambda>x. p\<lparr>rp_State := x\<rparr>) (dec_string j (rp_State p))),
      (''exit_code'', \<lambda>j p. map_value (\<lambda>x. p\<lparr>rp_ExitCode := x\<rparr>) (dec_int_ptr j)),
      (''reason'', \<lambda>j p. map_value (\<lambda>x. p\<lparr>rp_Reason := x\<rparr>) (dec_string j (rp_Reason p))),
      (''message'', \<lambda>j p. map_value (\<lambda>x. p\<lparr>rp_Message := x\<rparr>) (dec_string j (rp_Message p)))]"

definition dec_ContainerStatusReport :: "json \<Rightarrow> ContainerStatusReport result" where
  "dec_ContainerStatusReport =
     decode_struct True ContainerStatusReport_fields
       \<lparr>rp_ID = [], rp_State = [], rp_ExitCode = None, rp_Reason = [], rp_Message = []\<rparr>"

definition ReportNodeStatusRequest_fields :: "ReportNodeStatusRequest fields" where
  "ReportNodeStatusRequest_fields =
     [(''session_id'',
         \<lambda>j q. map_value (\<lambda>x. q\<lparr>rn_SessionID := x\<rparr>) (dec_string j (rn_SessionID q))),
      (''sequence'', \<lambda>j q. map_value (\<lambda>x. q\<lparr>rn_Sequence := x\<rparr>) (dec_uint j (rn_Sequence q))),
      (''runtime_ready'',
         \<lambda>j q. map_value (\<lambda>x. q\<lparr>rn_RuntimeReady := x\<rparr>) (dec_bool j (rn_RuntimeReady q))),
      (''containers'',
         \<lambda>j q. map_value (\<lambda>x. q\<lparr>rn_Containers := x\<rparr>) (dec_slice dec_ContainerStatusReport j))]"

definition dec_ReportNodeStatusRequest :: "json \<Rightarrow> ReportNodeStatusRequest result" where
  "dec_ReportNodeStatusRequest =
     decode_struct True ReportNodeStatusRequest_fields
       \<lparr>rn_SessionID = [], rn_Sequence = 0, rn_RuntimeReady = False, rn_Containers = []\<rparr>"

text \<open>The loop over the reported containers: the first problem, if any.\<close>

fun report_problem :: "'db env \<Rightarrow> ContainerStatusReport list \<Rightarrow> (string \<times> string) option" where
  "report_problem E [] = None"
| "report_problem E (report # reports) =
     (if TrimSpace (rp_ID report) = []
      then Some (''containers'', ''container ID must not be empty'')
      else if rp_State report \<noteq> StatePending \<and> rp_State report \<noteq> StateRunning
              \<and> rp_State report \<noteq> StateExited
      then Some (''containers'', ''container '' @ e_Quote E (rp_ID report)
                   @ '' has an unsupported state '' @ e_Quote E (rp_State report))
      else if rp_ExitCode report \<noteq> None \<and> rp_State report \<noteq> StateExited
      then Some (''containers'', ''container '' @ e_Quote E (rp_ID report)
                   @ '': exit code requires exited state'')
      else report_problem E reports)"

definition backward_transition :: "State \<Rightarrow> State \<Rightarrow> bool" where
  "backward_transition current reported \<longleftrightarrow>
     (current = StateExited \<and> reported \<noteq> StateExited)
     \<or> (current = StateRunning \<and> reported = StatePending)"

definition observe :: "ContainerStatusReport \<Rightarrow> Container \<Rightarrow> Container" where
  "observe report current =
     current\<lparr>c_State := rp_State report, c_ExitCode := rp_ExitCode report,
             c_Reason := rp_Reason report, c_Message := rp_Message report\<rparr>"

text \<open>The body of the loop of the transaction, for one report.\<close>

definition apply_report ::
  "'db bolt \<Rightarrow> string \<Rightarrow> ContainerStatusReport \<Rightarrow> 'db \<Rightarrow> 'db result" where
  "apply_report B nodeID report tx =
     (case GetTx B containers_collection (rp_ID report) tx of
        Inl e \<Rightarrow> if errors_Is e StoreErrNotFound then Inr tx else Inl e
      | Inr current \<Rightarrow>
          if c_NodeID current \<noteq> nodeID
          then Inl (Wrap ''container is not assigned to the reporting node''
                 (Sentinel ErrPermissionDenied))
          else if backward_transition (c_State current) (rp_State report) then Inr tx
          else UpdateTx B containers_collection (rp_ID report) (observe report current) tx)"

definition status_tx ::
  "'db bolt \<Rightarrow> string \<Rightarrow> instant \<Rightarrow> ReportNodeStatusRequest \<Rightarrow> 'db \<Rightarrow> unit \<times> 'db result" where
  "status_tx B nodeID now request tx =
     ((),
      bind_result (GetTx B nodes_collection nodeID tx) (\<lambda>currentNode.
        if rn_SessionID request \<noteq> n_StatusSessionID currentNode then Inl (Sentinel ErrConflict)
        else if rn_Sequence request \<le> n_StatusSequence currentNode then Inr tx
        else
          bind_result (fold_result (apply_report B nodeID) (rn_Containers request) tx) (\<lambda>tx'.
            UpdateTx B nodes_collection nodeID
              (currentNode\<lparr>n_LastSeenAt := Some now,
                           n_RuntimeReady := rn_RuntimeReady request,
                           n_StatusSequence := rn_Sequence request\<rparr>) tx')))"

definition status_answer :: "error option \<Rightarrow> response" where
  "status_answer err =
     (case err of
        None \<Rightarrow> \<lparr>rs_Status = StatusNoContent, rs_Header = [], rs_Body = NoBody\<rparr>
      | Some e \<Rightarrow>
          if errors_Is e ErrConflict
          then writeErrorJSON StatusConflict
                 ''node reporting session is no longer current; create a new session''
          else if errors_Is e ErrPermissionDenied
          then writeErrorJSON StatusForbidden ''cannot update a container not assigned to this node''
          else if errors_Is e StoreErrNotFound
          then writeErrorJSON StatusNotFound ''node not found''
          else writeErrorJSON StatusInternalServerError ''could not record node status'')"

definition reportNodeStatusHandler :: "'db env \<Rightarrow> instant \<Rightarrow> 'db handler" where
  "reportNodeStatusHandler E now r s =
     (case rq_NodeID r of
        None \<Rightarrow> (writeErrorJSON StatusInternalServerError ''could not process node status'', s)
      | Some nodeID \<Rightarrow>
          (case readJSON dec_ReportNodeStatusRequest maxStatusRequestSize r of
             Inl resp \<Rightarrow> (resp, s)
           | Inr request \<Rightarrow>
               if TrimSpace (rn_SessionID request) = []
               then (writeValidationErrorJSON [(''session_id'', ''must not be empty'')], s)
               else if rn_Sequence request = 0
               then (writeValidationErrorJSON [(''sequence'', ''must be greater than zero'')], s)
               else case report_problem E (rn_Containers request) of
                 Some problem \<Rightarrow> (writeValidationErrorJSON [problem], s)
               | None \<Rightarrow>
                   (case WriteTx (e_B E) () (status_tx (e_B E) nodeID now request) (st_db s) of
                      (_, err, db') \<Rightarrow> (status_answer err, s\<lparr>st_db := db'\<rparr>))))"

section \<open>The specification of a report\<close>

text \<open>What the loop of validation lets through.\<close>

definition valid_report :: "ContainerStatusReport \<Rightarrow> bool" where
  "valid_report p \<longleftrightarrow>
     TrimSpace (rp_ID p) \<noteq> [] \<and> lifecycle_of (rp_State p) \<noteq> None
     \<and> (rp_ExitCode p \<noteq> None \<longrightarrow> rp_State p = StateExited)"

lemma report_problem_None: "report_problem E ps = None \<longleftrightarrow> (\<forall>p \<in> set ps. valid_report p)"
  by (induction ps) (auto simp: valid_report_def lifecycle_of_def)

text \<open>The guard of the code is the order of the lifecycle.\<close>

lemma backward_lifecycle:
  assumes "lifecycle_of current = Some a" "lifecycle_of reported = Some b"
  shows "backward_transition current reported \<longleftrightarrow> b < a"
  using assms
  by (auto simp: backward_transition_def lifecycle_of_def less_lifecycle_def split: if_splits)

definition advance :: "ContainerStatusReport \<Rightarrow> Container \<Rightarrow> Container" where
  "advance p c =
     (if the (lifecycle_of (rp_State p)) < the (lifecycle_of (c_State c)) then c else observe p c)"

text \<open>
  The reports applied to the table in their order: \<open>None\<close> when one of them names a container
  of another node; a report of an unknown container changes nothing.
\<close>

fun absorb ::
  "string \<Rightarrow> ContainerStatusReport list \<Rightarrow> (string \<Rightarrow> Container option)
     \<Rightarrow> (string \<Rightarrow> Container option) option" where
  "absorb nodeID [] C = Some C"
| "absorb nodeID (p # ps) C =
     (case C (rp_ID p) of
        None \<Rightarrow> absorb nodeID ps C
      | Some c \<Rightarrow>
          if c_NodeID c \<noteq> nodeID then None
          else absorb nodeID ps (C(rp_ID p \<mapsto> advance p c)))"

lemma advance_simps [simp]:
  "c_ID (advance p c) = c_ID c" "c_Name (advance p c) = c_Name c"
  "c_NodeID (advance p c) = c_NodeID c" "c_Image (advance p c) = c_Image c"
  "c_CreatedAt (advance p c) = c_CreatedAt c"
  "c_DeletionRequestedAt (advance p c) = c_DeletionRequestedAt c"
  by (simp_all add: advance_def observe_def)

lemma advance_forward:
  assumes "lifecycle_of (rp_State p) \<noteq> None" and "lifecycle_of (c_State c) = Some a"
  shows "\<exists>b. lifecycle_of (c_State (advance p c)) = Some b \<and> a \<le> b"
  using assms by (auto simp: advance_def observe_def not_less)

lemma absorb_inv:
  assumes "absorb nodeID ps C = Some C'" and "containers_inv N C" and "\<forall>p \<in> set ps. valid_report p"
    and "N nodeID \<noteq> None" "nodeID \<noteq> []"
  shows "containers_inv N C'"
  using assms
proof (induction ps arbitrary: C)
  case Nil
  then show ?case by simp
next
  case (Cons p ps)
  show ?case
  proof (cases "C (rp_ID p)")
    case None
    then show ?thesis using Cons by simp
  next
    case (Some c)
    with Cons.prems(1) have node: "c_NodeID c = nodeID"
      and rest: "absorb nodeID ps (C(rp_ID p \<mapsto> advance p c)) = Some C'"
      by (simp_all split: if_splits)
    from Cons.prems(2) Some have old: "lifecycle_of (c_State c) \<noteq> None"
      "c_ExitCode c \<noteq> None \<longrightarrow> c_State c = StateExited"
      unfolding containers_inv_def by blast+
    have "containers_inv N (C(rp_ID p \<mapsto> advance p c))"
      by (rule containers_inv_upd [OF Cons.prems(2) Some])
        (use old node Cons.prems(3-5) in \<open>auto simp: advance_def observe_def valid_report_def\<close>)
    then show ?thesis by (rule Cons.IH [OF rest]) (use Cons.prems(3-5) in auto)
  qed
qed

text \<open>No container is lost or moved to another node, and none goes back in its lifecycle.\<close>

definition moves_forward :: "Container \<Rightarrow> Container \<Rightarrow> bool" where
  "moves_forward c c' \<longleftrightarrow>
     c_ID c' = c_ID c \<and> c_Name c' = c_Name c \<and> c_Image c' = c_Image c \<and> c_NodeID c' = c_NodeID c
     \<and> c_CreatedAt c' = c_CreatedAt c \<and> c_DeletionRequestedAt c' = c_DeletionRequestedAt c
     \<and> (\<exists>a b. lifecycle_of (c_State c) = Some a \<and> lifecycle_of (c_State c') = Some b \<and> a \<le> b)"

lemma moves_forward_trans: "moves_forward a b \<Longrightarrow> moves_forward b c \<Longrightarrow> moves_forward a c"
  unfolding moves_forward_def by fastforce

lemma absorb_forward:
  assumes "absorb nodeID ps C = Some C'" and "\<forall>k c. C k = Some c \<longrightarrow> lifecycle_of (c_State c) \<noteq> None"
    and "\<forall>p \<in> set ps. valid_report p"
  shows "dom C' = dom C" and "C k = Some c \<Longrightarrow> \<exists>c'. C' k = Some c' \<and> moves_forward c c'"
    and "C k = Some c \<Longrightarrow> c_NodeID c \<noteq> nodeID \<Longrightarrow> C' k = Some c"
proof -
  have "dom C' = dom C \<and> (\<forall>k c. C k = Some c \<longrightarrow>
      (\<exists>c'. C' k = Some c' \<and> moves_forward c c') \<and> (c_NodeID c \<noteq> nodeID \<longrightarrow> C' k = Some c))"
    using assms
  proof (induction ps arbitrary: C)
    case Nil
    then show ?case by (fastforce simp: moves_forward_def)
  next
    case (Cons p ps)
    show ?case
    proof (cases "C (rp_ID p)")
      case None
      then show ?thesis using Cons by simp
    next
      case (Some d)
      let ?C = "C(rp_ID p \<mapsto> advance p d)"
      from Cons.prems(1) Some have node: "c_NodeID d = nodeID" and rest: "absorb nodeID ps ?C = Some C'"
        by (simp_all split: if_splits)
      obtain a where a: "lifecycle_of (c_State d) = Some a" using Cons.prems(2) Some by blast
      have valid: "lifecycle_of (rp_State p) \<noteq> None" using Cons.prems(3) by (simp add: valid_report_def)
      obtain b where b: "lifecycle_of (c_State (advance p d)) = Some b" "a \<le> b"
        using advance_forward [OF valid a] by blast
      have fwd: "moves_forward d (advance p d)" using a b by (simp add: moves_forward_def)
      have all: "\<forall>k c. ?C k = Some c \<longrightarrow> lifecycle_of (c_State c) \<noteq> None"
        using Cons.prems(2) b(1) by auto
      have ih: "dom C' = dom ?C" "\<And>k c. ?C k = Some c \<Longrightarrow> (\<exists>c'. C' k = Some c' \<and> moves_forward c c')"
        "\<And>k c. ?C k = Some c \<Longrightarrow> c_NodeID c \<noteq> nodeID \<Longrightarrow> C' k = Some c"
        using Cons.IH [OF rest all] Cons.prems(3) by auto
      have "(\<exists>c'. C' k = Some c' \<and> moves_forward c c') \<and> (c_NodeID c \<noteq> nodeID \<longrightarrow> C' k = Some c)"
        if k: "C k = Some c" for k c
      proof (cases "k = rp_ID p")
        case True
        then have c: "c = d" using k Some by simp
        obtain c' where "C' k = Some c'" "moves_forward (advance p d) c'"
          using ih(2) [of k "advance p d"] True by auto
        then show ?thesis using moves_forward_trans [OF fwd] node c by blast
      next
        case False
        then have "?C k = Some c" using k by simp
        then show ?thesis using ih(2,3) by blast
      qed
      then show ?thesis using ih(1) Some by (auto simp: insert_absorb)
    qed
  qed
  then show "dom C' = dom C" "C k = Some c \<Longrightarrow> \<exists>c'. C' k = Some c' \<and> moves_forward c c'"
    "C k = Some c \<Longrightarrow> c_NodeID c \<noteq> nodeID \<Longrightarrow> C' k = Some c" by blast+
qed

text \<open>A report of a container of another node refuses the whole list.\<close>

lemma absorb_foreign:
  "p \<in> set ps \<Longrightarrow> C (rp_ID p) = Some c \<Longrightarrow> c_NodeID c \<noteq> nodeID \<Longrightarrow> absorb nodeID ps C = None"
proof (induction ps arbitrary: C)
  case Nil
  then show ?case by simp
next
  case (Cons q ps)
  show ?case
  proof (cases "C (rp_ID q)")
    case None
    then show ?thesis using Cons by auto
  next
    case (Some d)
    then show ?thesis using Cons by (cases "rp_ID q = rp_ID p") auto
  qed
qed

section \<open>What the transaction commits\<close>

text \<open>
  What a committed report did: nothing, when its sequence number is not newer, or the
  reports were absorbed and the node was seen.
\<close>

definition seen :: "instant \<Rightarrow> ReportNodeStatusRequest \<Rightarrow> Node \<Rightarrow> Node" where
  "seen now q n =
     n\<lparr>n_LastSeenAt := Some now, n_RuntimeReady := rn_RuntimeReady q,
       n_StatusSequence := rn_Sequence q\<rparr>"

definition reported ::
  "instant \<Rightarrow> string \<Rightarrow> ReportNodeStatusRequest \<Rightarrow> (string \<Rightarrow> Node option)
     \<Rightarrow> (string \<Rightarrow> Container option) \<Rightarrow> (string \<Rightarrow> Node option) \<Rightarrow> (string \<Rightarrow> Container option)
     \<Rightarrow> bool" where
  "reported now nodeID q N C N' C' \<longleftrightarrow>
     (\<exists>n. N nodeID = Some n \<and> n_StatusSessionID n = rn_SessionID q
        \<and> (rn_Sequence q \<le> n_StatusSequence n \<and> N' = N \<and> C' = C
           \<or> n_StatusSequence n < rn_Sequence q \<and> absorb nodeID (rn_Containers q) C = Some C'
             \<and> N' = N(nodeID \<mapsto> seen now q n)))"

context hambo_db
begin

lemma apply_report_tbl:
  assumes ok: "db_ok B tx" and valid: "valid_report p"
    and states: "\<forall>k c. container_tbl B tx k = Some c \<longrightarrow> lifecycle_of (c_State c) \<noteq> None"
    and run: "apply_report B nodeID p tx = Inr tx'"
  shows "absorb nodeID (p # ps) (container_tbl B tx) = absorb nodeID ps (container_tbl B tx')"
    and "db_ok B tx'" and "node_tbl B tx' = node_tbl B tx" and "token_tbl B tx' = token_tbl B tx"
    and "\<forall>k c. container_tbl B tx' k = Some c \<longrightarrow> lifecycle_of (c_State c) \<noteq> None"
proof -
  from ok have cok: "tbl_ok B containers_collection tx" by (simp add: db_ok_def)
  note get = containers.GetTx_tbl [OF cok, of "rp_ID p"]
  have "absorb nodeID (p # ps) (container_tbl B tx) = absorb nodeID ps (container_tbl B tx')
    \<and> db_ok B tx' \<and> node_tbl B tx' = node_tbl B tx \<and> token_tbl B tx' = token_tbl B tx
    \<and> (\<forall>k c. container_tbl B tx' k = Some c \<longrightarrow> lifecycle_of (c_State c) \<noteq> None)"
  proof (cases "container_tbl B tx (rp_ID p)")
    case None
    then have "tx' = tx" using run get by (simp add: apply_report_def)
    then show ?thesis using None ok states by simp
  next
    case (Some c)
    then have node: "c_NodeID c = nodeID"
      using run get by (auto simp: apply_report_def split: if_splits)
    have "lifecycle_of (c_State c) \<noteq> None" "lifecycle_of (rp_State p) \<noteq> None"
      using states Some valid by (simp_all add: valid_report_def)
    then obtain a b where ab: "lifecycle_of (c_State c) = Some a" "lifecycle_of (rp_State p) = Some b"
      by blast
    show ?thesis
    proof (cases "b < a")
      case True
      then have "tx' = tx" using run get Some node backward_lifecycle [OF ab]
        by (simp add: apply_report_def)
      moreover have "advance p c = c" using True ab by (simp add: advance_def)
      ultimately show ?thesis using Some node ok states by (simp add: fun_upd_idem)
    next
      case False
      then have up: "UpdateTx B containers_collection (rp_ID p) (observe p c) tx = Inr tx'"
        using run get Some node backward_lifecycle [OF ab] by (simp add: apply_report_def)
      note u = containers.UpdateTx_tbl [OF cok up]
      have adv: "advance p c = observe p c" using False ab by (simp add: advance_def)
      have "view B tx' ''nodes'' = view B tx ''nodes''" "view B tx' ''tokens'' = view B tx ''tokens''"
        using u(4) by simp_all
      then show ?thesis
        using u(2,3) ok Some node adv states ab(2)
          tbl_frame [of B tx' nodes_collection tx] tbl_frame [of B tx' tokens_collection tx]
        by (auto simp: db_ok_def observe_def)
    qed
  qed
  then show "absorb nodeID (p # ps) (container_tbl B tx) = absorb nodeID ps (container_tbl B tx')"
    "db_ok B tx'" "node_tbl B tx' = node_tbl B tx" "token_tbl B tx' = token_tbl B tx"
    "\<forall>k c. container_tbl B tx' k = Some c \<longrightarrow> lifecycle_of (c_State c) \<noteq> None" by blast+
qed

text \<open>The loop of the transaction implements \<open>absorb\<close>.\<close>

lemma apply_reports_tbl:
  assumes "db_ok B tx" and "\<forall>p \<in> set ps. valid_report p"
    and "\<forall>k c. container_tbl B tx k = Some c \<longrightarrow> lifecycle_of (c_State c) \<noteq> None"
    and "fold_result (apply_report B nodeID) ps tx = Inr tx'"
  shows "absorb nodeID ps (container_tbl B tx) = Some (container_tbl B tx') \<and> db_ok B tx'
    \<and> node_tbl B tx' = node_tbl B tx \<and> token_tbl B tx' = token_tbl B tx"
  using assms
proof (induction ps arbitrary: tx)
  case Nil
  then show ?case by simp
next
  case (Cons p ps)
  then obtain tx1 where one: "apply_report B nodeID p tx = Inr tx1"
    and rest: "fold_result (apply_report B nodeID) ps tx1 = Inr tx'"
    by (auto simp: bind_result_eq_Inr)
  have valid: "valid_report p" "\<forall>p \<in> set ps. valid_report p" using Cons.prems(2) by simp_all
  note step = apply_report_tbl [OF Cons.prems(1) valid(1) Cons.prems(3) one]
  from Cons.IH [OF step(2) valid(2) step(5) rest] step(1,3,4) show ?case by simp
qed

lemma status_tx_spec:
  assumes inv: "db_inv B tx" and valid: "\<forall>p \<in> set (rn_Containers q). valid_report p"
    and run: "status_tx B nodeID now q tx = ((), Inr tx')"
  shows "reported now nodeID q (node_tbl B tx) (container_tbl B tx)
      (node_tbl B tx') (container_tbl B tx')"
    and "token_tbl B tx' = token_tbl B tx" and "db_inv B tx'"
proof -
  have ok: "db_ok B tx" and nok: "tbl_ok B nodes_collection tx"
    and ninv: "nodes_inv (node_tbl B tx)" and cinv: "containers_inv (node_tbl B tx) (container_tbl B tx)"
    using inv by (simp_all add: db_inv_def db_ok_def)
  have states: "\<forall>k c. container_tbl B tx k = Some c \<longrightarrow> lifecycle_of (c_State c) \<noteq> None"
    using cinv unfolding containers_inv_def by blast
  obtain n where n: "node_tbl B tx nodeID = Some n"
    using run nodes.GetTx_tbl [OF nok, of nodeID]
    by (cases "node_tbl B tx nodeID") (auto simp: status_tx_def)
  have session: "n_StatusSessionID n = rn_SessionID q"
    using run nodes.GetTx_tbl [OF nok, of nodeID] n by (auto simp: status_tx_def split: if_splits)
  have id: "n_ID n = nodeID" "nodeID \<noteq> []" using ninv n by (auto simp: nodes_inv_def)
  have "reported now nodeID q (node_tbl B tx) (container_tbl B tx) (node_tbl B tx') (container_tbl B tx')
      \<and> token_tbl B tx' = token_tbl B tx \<and> db_inv B tx'"
  proof (cases "rn_Sequence q \<le> n_StatusSequence n")
    case True
    then have "tx' = tx"
      using run nodes.GetTx_tbl [OF nok, of nodeID] n session by (simp add: status_tx_def)
    then show ?thesis using True n session inv by (simp add: reported_def)
  next
    case False
    with run n session nodes.GetTx_tbl [OF nok, of nodeID] obtain tx1 where
      loop: "fold_result (apply_report B nodeID) (rn_Containers q) tx = Inr tx1"
      and up: "UpdateTx B nodes_collection nodeID (seen now q n) tx1 = Inr tx'"
      by (auto simp: status_tx_def seen_def bind_result_eq_Inr)
    note l = apply_reports_tbl [OF ok valid states loop]
    then have nok1: "tbl_ok B nodes_collection tx1" by (simp add: db_ok_def)
    note u = nodes.UpdateTx_tbl [OF nok1 up]
    have same: "view B tx' ''containers'' = view B tx1 ''containers''"
      "view B tx' ''tokens'' = view B tx1 ''tokens''"
      using u(4) by simp_all
    have t: "container_tbl B tx' = container_tbl B tx1" "token_tbl B tx' = token_tbl B tx"
      "db_ok B tx'" "node_tbl B tx' = (node_tbl B tx)(nodeID \<mapsto> seen now q n)"
      using same l u(2,3) tbl_frame [of B tx' containers_collection tx1]
        tbl_frame [of B tx' tokens_collection tx1] by (simp_all add: db_ok_def)
    have rep: "reported now nodeID q (node_tbl B tx) (container_tbl B tx)
        (node_tbl B tx') (container_tbl B tx')"
      using False n session l t by (auto simp: reported_def not_le)
    have dom: "dom (node_tbl B tx) \<subseteq> dom (node_tbl B tx')" using t(4) by auto
    have "containers_inv (node_tbl B tx) (container_tbl B tx')"
      using absorb_inv [OF _ cinv valid, of nodeID "container_tbl B tx'"] l t(1) n id by simp
    then have "containers_inv (node_tbl B tx') (container_tbl B tx')"
      using dom by (rule containers_inv_nodes)
    moreover have "nodes_inv (node_tbl B tx')"
      unfolding t(4) using ninv id by (intro nodes_inv_upd) (auto simp: seen_def)
    moreover have "tokens_inv (node_tbl B tx') (token_tbl B tx')"
      using inv dom tokens_inv_nodes unfolding t(2) by (auto simp: db_inv_def)
    ultimately show ?thesis using rep t by (simp add: db_inv_def)
  qed
  then show "reported now nodeID q (node_tbl B tx) (container_tbl B tx)
      (node_tbl B tx') (container_tbl B tx')" "token_tbl B tx' = token_tbl B tx" "db_inv B tx'"
    by blast+
qed

lemma status_write_committed:
  assumes inv: "db_inv B db" and valid: "\<forall>p \<in> set (rn_Containers q). valid_report p"
    and run: "WriteTx B () (status_tx B nodeID now q) db = (u, None, db')"
  shows "reported now nodeID q (node_tbl B db) (container_tbl B db)
      (node_tbl B db') (container_tbl B db')"
    and "token_tbl B db' = token_tbl B db" and "db_inv B db'"
proof -
  from run obtain tx tx' where same: "view B tx = view B db" "view B db' = view B tx'"
    and tx: "status_tx B nodeID now q tx = ((), Inr tx')"
    by (auto simp: WriteTx_def split: prod.splits dest!: update_committed)
  have inv': "db_inv B tx" using inv db_inv_view [OF same(1)] by simp
  note t = tbl_view_eq [OF same(1), of nodes_collection] tbl_view_eq [OF same(1), of containers_collection]
    tbl_view_eq [OF same(1), of tokens_collection] tbl_view_eq [OF same(2), of nodes_collection]
    tbl_view_eq [OF same(2), of containers_collection] tbl_view_eq [OF same(2), of tokens_collection]
  note spec = status_tx_spec [OF inv' valid tx]
  show "reported now nodeID q (node_tbl B db) (container_tbl B db) (node_tbl B db') (container_tbl B db')"
    "token_tbl B db' = token_tbl B db" using spec t by simp_all
  show "db_inv B db'" using spec(3) db_inv_view [OF same(2)] by simp
qed

end

section \<open>The cases of a request\<close>

definition status_request :: "request \<Rightarrow> string \<Rightarrow> ReportNodeStatusRequest \<Rightarrow> bool" where
  "status_request r nodeID q \<longleftrightarrow>
     rq_NodeID r = Some nodeID
     \<and> readJSON dec_ReportNodeStatusRequest maxStatusRequestSize r = Inr q
     \<and> TrimSpace (rn_SessionID q) \<noteq> [] \<and> rn_Sequence q \<noteq> 0
     \<and> (\<forall>p \<in> set (rn_Containers q). valid_report p)"

lemma reportNodeStatus_cases:
  obtains (refused) resp where "reportNodeStatusHandler E now r s = (resp, s)"
      "rs_Status resp \<in> {400, 413, 415, 422, 500}"
  | (runs) nodeID q err db' where "status_request r nodeID q"
      "WriteTx (e_B E) () (status_tx (e_B E) nodeID now q) (st_db s) = ((), err, db')"
      "reportNodeStatusHandler E now r s = (status_answer err, s\<lparr>st_db := db'\<rparr>)"
proof (cases "\<exists>nodeID q. status_request r nodeID q")
  case True
  then obtain nodeID q where req: "status_request r nodeID q" by blast
  obtain err db' where w: "WriteTx (e_B E) () (status_tx (e_B E) nodeID now q) (st_db s)
      = ((), err, db')" by (metis old.unit.exhaust prod.exhaust)
  have "report_problem E (rn_Containers q) = None"
    using req report_problem_None [of E "rn_Containers q"] by (simp add: status_request_def)
  then have "reportNodeStatusHandler E now r s = (status_answer err, s\<lparr>st_db := db'\<rparr>)"
    using req w by (simp add: status_request_def reportNodeStatusHandler_def)
  then show ?thesis by (rule runs [OF req w])
next
  case False
  then have "\<exists>resp. reportNodeStatusHandler E now r s = (resp, s)
      \<and> rs_Status resp \<in> {400, 413, 415, 422, 500}"
    using readJSON_refuses [of dec_ReportNodeStatusRequest maxStatusRequestSize r]
      report_problem_None [of E]
    by (auto simp: reportNodeStatusHandler_def status_request_def status_defs
        split: option.splits sum.splits)
  then show ?thesis using refused by blast
qed

lemma createNodeSession_cases:
  obtains (failed) resp where "createNodeSessionHandler E rnd r s = (resp, s)"
      "rs_Status resp \<in> {404, 500}"
  | (created) nodeID db' where "rq_NodeID r = Some nodeID"
      "Modify (e_B E) nodes_collection nodeID (start_session (hex_EncodeToString rnd)) (st_db s)
         = (None, db')"
      "createNodeSessionHandler E rnd r s =
         (writeJSON [(''Cache-Control'', ''no-store'')] StatusCreated
            (Inr (enc_CreateNodeSessionResponse (hex_EncodeToString rnd))), s\<lparr>st_db := db'\<rparr>)"
proof (cases "rq_NodeID r")
  case None
  then show ?thesis using failed by (simp add: createNodeSessionHandler_def status_defs)
next
  case (Some nodeID)
  obtain err db' where m: "Modify (e_B E) nodes_collection nodeID
      (start_session (hex_EncodeToString rnd)) (st_db s) = (err, db')" by fastforce
  show ?thesis
  proof (cases err)
    case None
    then show ?thesis using created [OF Some] m Some by (simp add: createNodeSessionHandler_def Let_def)
  next
    case (Some e)
    have "db' = st_db s" by (rule failed_unchanged(2) [OF m [unfolded Some]])
    then show ?thesis
      using failed m Some \<open>rq_NodeID r = Some nodeID\<close>
      by (auto simp: createNodeSessionHandler_def Let_def status_defs)
  qed
qed

context hambo_db
begin

lemma reportNodeStatus_inv:
  assumes inv: "db_inv B (st_db s)" and E: "e_B E = B"
    and run: "reportNodeStatusHandler E now r s = (resp, s')"
  shows "db_inv B (st_db s')" and "st_queue s' = st_queue s" and "st_watcher s' = st_watcher s"
    and "token_tbl B (st_db s') = token_tbl B (st_db s)"
proof -
  have "db_inv B (st_db s') \<and> st_queue s' = st_queue s \<and> st_watcher s' = st_watcher s
      \<and> token_tbl B (st_db s') = token_tbl B (st_db s)"
  proof (cases rule: reportNodeStatus_cases [of E now r s])
    case (refused resp')
    then show ?thesis using run inv by auto
  next
    case (runs nodeID q err db')
    have valid: "\<forall>p \<in> set (rn_Containers q). valid_report p"
      using runs(1) by (simp add: status_request_def)
    have "db_inv B db' \<and> token_tbl B db' = token_tbl B (st_db s)"
    proof (cases err)
      case None
      show ?thesis
        using status_write_committed(2,3) [OF inv valid runs(2) [unfolded None E]] by simp
    next
      case (Some e)
      show ?thesis using failed_unchanged(4) [OF runs(2) [unfolded Some]] inv by simp
    qed
    then show ?thesis using run runs(3) by auto
  qed
  then show "db_inv B (st_db s')" "st_queue s' = st_queue s" "st_watcher s' = st_watcher s"
    "token_tbl B (st_db s') = token_tbl B (st_db s)" by blast+
qed

lemma session_started:
  assumes inv: "db_inv B db"
    and run: "Modify B nodes_collection nodeID (start_session sid) db = (None, db')"
  shows "\<exists>n. node_tbl B db nodeID = Some n
      \<and> node_tbl B db' = (node_tbl B db)(nodeID \<mapsto> n\<lparr>n_StatusSessionID := sid, n_StatusSequence := 0,
            n_RuntimeReady := False\<rparr>)"
    and "container_tbl B db' = container_tbl B db" and "token_tbl B db' = token_tbl B db"
    and "db_inv B db'"
proof -
  have ok: "tbl_ok B nodes_collection db" using inv by (simp add: db_inv_def db_ok_def)
  note m = nodes.Modify_ok [OF ok run]
  obtain n where n: "node_tbl B db nodeID = Some n"
    "node_tbl B db' = (node_tbl B db)(nodeID \<mapsto> n\<lparr>n_StatusSessionID := sid, n_StatusSequence := 0,
            n_RuntimeReady := False\<rparr>)"
    using m(1) by (auto simp: start_session_def)
  have same: "view B db' ''containers'' = view B db ''containers''"
    "view B db' ''tokens'' = view B db ''tokens''"
    using m(3) by simp_all
  then show t: "container_tbl B db' = container_tbl B db" "token_tbl B db' = token_tbl B db"
    using tbl_frame [of B db' containers_collection] tbl_frame [of B db' tokens_collection] by simp_all
  have "db_ok B db'"
    using same m(2) inv tbl_frame [of B db' containers_collection]
      tbl_frame [of B db' tokens_collection] by (simp add: db_ok_def db_inv_def)
  moreover have "nodes_inv (node_tbl B db')"
    using inv n by (auto simp: db_inv_def nodes_inv_def)
  moreover have "dom (node_tbl B db) \<subseteq> dom (node_tbl B db')" using n(2) by auto
  ultimately show "db_inv B db'"
    using inv t containers_inv_nodes tokens_inv_nodes by (auto simp: db_inv_def)
  show "\<exists>n. node_tbl B db nodeID = Some n
      \<and> node_tbl B db' = (node_tbl B db)(nodeID \<mapsto> n\<lparr>n_StatusSessionID := sid, n_StatusSequence := 0,
            n_RuntimeReady := False\<rparr>)" using n by blast
qed

lemma createNodeSession_inv:
  assumes inv: "db_inv B (st_db s)" and E: "e_B E = B"
    and run: "createNodeSessionHandler E rnd r s = (resp, s')"
  shows "db_inv B (st_db s')" and "st_queue s' = st_queue s" and "st_watcher s' = st_watcher s"
    and "container_tbl B (st_db s') = container_tbl B (st_db s)"
    and "token_tbl B (st_db s') = token_tbl B (st_db s)"
proof -
  have "db_inv B (st_db s') \<and> st_queue s' = st_queue s \<and> st_watcher s' = st_watcher s
      \<and> container_tbl B (st_db s') = container_tbl B (st_db s)
      \<and> token_tbl B (st_db s') = token_tbl B (st_db s)"
  proof (cases rule: createNodeSession_cases [of E rnd r s])
    case (created nodeID db')
    then show ?thesis using run session_started(2-4) [OF inv created(2) [unfolded E]] by auto
  qed (use run inv in auto)
  then show "db_inv B (st_db s')" "st_queue s' = st_queue s" "st_watcher s' = st_watcher s"
    "container_tbl B (st_db s') = container_tbl B (st_db s)"
    "token_tbl B (st_db s') = token_tbl B (st_db s)" by blast+
qed

end

end
