(* ===== verification/Api_Containers.thy ===== *)
theory Api_Containers
  imports Http
begin

text \<open>
  \<open>POST /containers\<close> (\<open>internal/api/containers.go\<close>): an administrator creates a container.
  Its name must be free; the container is stored pending and without a node, and its
  identifier is added to the scheduling queue after the transaction committed. The handler is
  two steps: up to the end of the transaction, and what follows it.
\<close>

section \<open>The handler\<close>

definition maxContainerRequestSize :: nat where "maxContainerRequestSize = 16 * 1024"

record CreateContainerRequest =
  cq_Name :: string
  cq_Image :: string

definition CreateContainerRequest_fields :: "CreateContainerRequest fields" where
  "CreateContainerRequest_fields =
     [(''name'', \<lambda>j q. map_value (\<lambda>x. q\<lparr>cq_Name := x\<rparr>) (dec_string j (cq_Name q))),
      (''image'', \<lambda>j q. map_value (\<lambda>x. q\<lparr>cq_Image := x\<rparr>) (dec_string j (cq_Image q)))]"

definition dec_CreateContainerRequest :: "json \<Rightarrow> CreateContainerRequest result" where
  "dec_CreateContainerRequest =
     decode_struct True CreateContainerRequest_fields \<lparr>cq_Name = [], cq_Image = []\<rparr>"

text \<open>\<open>publicapi.ContainerResponse\<close> has the fields and the member names of the stored container.\<close>

definition enc_ContainerResponse :: "Container \<Rightarrow> json result" where
  "enc_ContainerResponse c =
     bind_result (enc_time (c_CreatedAt c)) (\<lambda>created.
     bind_result (omit_time ''deletion_requested_at'' (c_DeletionRequestedAt c)) (\<lambda>deletion.
     Inr (JObj
       ([(''id'', JStr (c_ID c)), (''name'', JStr (c_Name c)), (''image'', JStr (c_Image c))]
        @ omit_string ''node_id'' (c_NodeID c)
        @ [(''state'', JStr (c_State c))]
        @ omit_int ''exit_code'' (c_ExitCode c)
        @ omit_string ''reason'' (c_Reason c)
        @ omit_string ''message'' (c_Message c)
        @ [(''created_at'', created)]
        @ deletion))))"

definition container_problems :: "CreateContainerRequest \<Rightarrow> (string \<times> string) list" where
  "container_problems request =
     (if cq_Name request = [] then [(''name'', ''must not be empty'')] else [])
     @ (if cq_Image request = [] then [(''image'', ''must not be empty'')] else [])"

text \<open>\<open>errNameExists\<close> is made anew by each call; the sentinel \<open>ErrNameExists\<close> stands for it.\<close>

fun name_exists :: "string \<Rightarrow> Container Entry list \<Rightarrow> bool" where
  "name_exists name [] = False"
| "name_exists name (e # es) = (if c_Name (Value e) = name then True else name_exists name es)"

definition container_tx :: "'db bolt \<Rightarrow> Container \<Rightarrow> 'db \<Rightarrow> unit \<times> 'db result" where
  "container_tx B created tx =
     ((),
      bind_result (ListTx B containers_collection tx) (\<lambda>entries.
        if name_exists (c_Name created) entries then Inl (Sentinel ErrNameExists)
        else CreateTx B containers_collection (c_ID created) created tx))"

definition new_container :: "string \<Rightarrow> string \<Rightarrow> string \<Rightarrow> instant \<Rightarrow> Container" where
  "new_container cid name img now =
     zero_Container\<lparr>c_ID := cid, c_Name := name, c_Image := img, c_State := StatePending,
       c_CreatedAt := now\<rparr>"

text \<open>
  The handler up to the end of its transaction: it has answered (\<open>Inl\<close>), or the container is
  committed (\<open>Inr\<close>) and the rest of the handler is still to come. Other goroutines may run in
  between.
\<close>

definition createContainer_commit ::
  "'db env \<Rightarrow> string \<Rightarrow> instant \<Rightarrow> request \<Rightarrow> 'db state \<Rightarrow> (response + Container) \<times> 'db state" where
  "createContainer_commit E rnd now r s =
     (case readJSON dec_CreateContainerRequest maxContainerRequestSize r of
        Inl resp \<Rightarrow> (Inl resp, s)
      | Inr request0 \<Rightarrow>
          let request = \<lparr>cq_Name = TrimSpace (cq_Name request0),
                         cq_Image = TrimSpace (cq_Image request0)\<rparr>;
              fs = container_problems request
          in if fs \<noteq> [] then (Inl (writeValidationErrorJSON fs), s)
             else
               let created = new_container (GenerateContainerID rnd) (cq_Name request)
                     (cq_Image request) now
               in (case WriteTx (e_B E) () (container_tx (e_B E) created) (st_db s) of
                     (_, Some e, db') \<Rightarrow>
                       (Inl (if errors_Is e ErrNameExists
                         then writeErrorJSON StatusConflict ''container name already exists''
                         else writeErrorJSON StatusInternalServerError ''could not create container''),
                        s\<lparr>st_db := db'\<rparr>)
                   | (_, None, db') \<Rightarrow> (Inr created, s\<lparr>st_db := db'\<rparr>)))"

text \<open>What follows the transaction.\<close>

definition createContainer_finish :: "Container \<Rightarrow> 'db state \<Rightarrow> response \<times> 'db state" where
  "createContainer_finish created s =
     (writeJSON [] StatusCreated (enc_ContainerResponse created),
      s\<lparr>st_queue := fst (Add (c_ID created) (st_queue s))\<rparr>)"

definition createContainerHandler :: "'db env \<Rightarrow> string \<Rightarrow> instant \<Rightarrow> 'db handler" where
  "createContainerHandler E rnd now r s =
     (case createContainer_commit E rnd now r s of
        (Inl resp, s') \<Rightarrow> (resp, s')
      | (Inr created, s') \<Rightarrow> createContainer_finish created s')"

lemmas createContainer_defs =
  createContainerHandler_def createContainer_commit_def createContainer_finish_def

section \<open>What it stores\<close>

lemma name_exists_iff: "name_exists name es \<longleftrightarrow> (\<exists>e \<in> set es. c_Name (Value e) = name)"
  by (induction es) auto

lemma enc_ContainerResponse_stored: "enc_ContainerResponse c = marshal_Container c"
  by (simp add: enc_ContainerResponse_def marshal_Container_def)

text \<open>The name of the new container is free in \<open>C\<close>.\<close>

definition name_free :: "string \<Rightarrow> (string \<Rightarrow> Container option) \<Rightarrow> bool" where
  "name_free name C \<longleftrightarrow> (\<forall>k c. C k = Some c \<longrightarrow> c_Name c \<noteq> name)"

context hambo_db
begin

lemma container_tx_spec:
  assumes ok: "db_ok B tx"
  shows "\<not> name_free (c_Name c) (container_tbl B tx) \<Longrightarrow>
      container_tx B c tx = ((), Inl (Sentinel ErrNameExists))"
    and "container_tx B c tx = ((), Inr tx') \<Longrightarrow>
      name_free (c_Name c) (container_tbl B tx) \<and> container_tbl B tx (c_ID c) = None
      \<and> container_tbl B tx' = (container_tbl B tx)(c_ID c \<mapsto> c)
      \<and> node_tbl B tx' = node_tbl B tx \<and> token_tbl B tx' = token_tbl B tx \<and> db_ok B tx'"
proof -
  from ok have cok: "tbl_ok B containers_collection tx" by (simp add: db_ok_def)
  from containers.ListTx_tbl [OF cok] obtain es where es: "ListTx B containers_collection tx = Inr es"
    "map_of (pairs es) = container_tbl B tx" "distinct (map Key es)" by blast
  have free: "name_exists (c_Name c) es \<longleftrightarrow> \<not> name_free (c_Name c) (container_tbl B tx)"
  proof -
    have "(k, d) \<in> set (pairs es) \<longleftrightarrow> container_tbl B tx k = Some d" for k d
      unfolding es(2) [symmetric]
      by (rule distinct_map_of_iff [symmetric]) (use es(3) in \<open>simp add: pairs_def comp_def\<close>)
    then show ?thesis
      unfolding name_exists_iff name_free_def by (force simp: pairs_def)
  qed
  show "container_tx B c tx = ((), Inl (Sentinel ErrNameExists))"
    if "\<not> name_free (c_Name c) (container_tbl B tx)"
    using that free es(1) by (simp add: container_tx_def)
  assume run: "container_tx B c tx = ((), Inr tx')"
  then have cr: "CreateTx B containers_collection (c_ID c) c tx = Inr tx'"
    and nf: "name_free (c_Name c) (container_tbl B tx)"
    using free es(1) by (auto simp: container_tx_def split: if_splits)
  note u = containers.CreateTx_tbl [OF cok cr]
  have "view B tx' ''nodes'' = view B tx ''nodes''" "view B tx' ''tokens'' = view B tx ''tokens''"
    using u(4) by simp_all
  then show "name_free (c_Name c) (container_tbl B tx) \<and> container_tbl B tx (c_ID c) = None
      \<and> container_tbl B tx' = (container_tbl B tx)(c_ID c \<mapsto> c)
      \<and> node_tbl B tx' = node_tbl B tx \<and> token_tbl B tx' = token_tbl B tx \<and> db_ok B tx'"
    using u nf ok tbl_frame [of B tx' nodes_collection tx] tbl_frame [of B tx' tokens_collection tx]
    by (simp add: db_ok_def)
qed

lemma container_write_committed:
  assumes inv: "db_inv B db" and new: "c_State c = StatePending" "c_ExitCode c = None" "c_NodeID c = []"
    and run: "WriteTx B () (container_tx B c) db = (u, None, db')"
  shows "name_free (c_Name c) (container_tbl B db)" and "container_tbl B db (c_ID c) = None"
    and "container_tbl B db' = (container_tbl B db)(c_ID c \<mapsto> c)"
    and "node_tbl B db' = node_tbl B db" and "token_tbl B db' = token_tbl B db" and "db_inv B db'"
proof -
  from run obtain tx tx' where same: "view B tx = view B db" "view B db' = view B tx'"
    and tx: "container_tx B c tx = ((), Inr tx')"
    by (auto simp: WriteTx_def split: prod.splits dest!: update_committed)
  have inv': "db_inv B tx" using inv db_inv_view [OF same(1)] by simp
  then have ok: "db_ok B tx" by (simp add: db_inv_def)
  note t = tbl_view_eq [OF same(1), of nodes_collection] tbl_view_eq [OF same(1), of containers_collection]
    tbl_view_eq [OF same(1), of tokens_collection] tbl_view_eq [OF same(2), of nodes_collection]
    tbl_view_eq [OF same(2), of containers_collection] tbl_view_eq [OF same(2), of tokens_collection]
  note spec = container_tx_spec(2) [OF ok tx]
  show "name_free (c_Name c) (container_tbl B db)" "container_tbl B db (c_ID c) = None"
    "container_tbl B db' = (container_tbl B db)(c_ID c \<mapsto> c)"
    "node_tbl B db' = node_tbl B db" "token_tbl B db' = token_tbl B db"
    using spec t by simp_all
  have "db_inv B tx'"
    using inv' spec containers_inv_new [of "node_tbl B tx" "container_tbl B tx" c "c_ID c"] new
    by (auto simp: db_inv_def name_free_def)
  then show "db_inv B db'" using db_inv_view [OF same(2)] by simp
qed

end

section \<open>The cases of a request\<close>

definition container_request :: "request \<Rightarrow> string \<Rightarrow> string \<Rightarrow> bool" where
  "container_request r name img \<longleftrightarrow>
     (\<exists>q. readJSON dec_CreateContainerRequest maxContainerRequestSize r = Inr q
        \<and> name = TrimSpace (cq_Name q) \<and> img = TrimSpace (cq_Image q))
     \<and> name \<noteq> [] \<and> img \<noteq> []"

lemma createContainer_commit_cases:
  obtains (refused) resp where "createContainer_commit E rnd now r s = (Inl resp, s)"
      "rs_Status resp \<in> {400, 413, 415, 422}"
  | (failed) name img c e where "container_request r name img"
      "c = new_container (GenerateContainerID rnd) name img now"
      "WriteTx (e_B E) () (container_tx (e_B E) c) (st_db s) = ((), Some e, st_db s)"
      "createContainer_commit E rnd now r s =
        (Inl (if errors_Is e ErrNameExists
          then writeErrorJSON StatusConflict ''container name already exists''
          else writeErrorJSON StatusInternalServerError ''could not create container''), s)"
  | (created) name img c db' where "container_request r name img"
      "c = new_container (GenerateContainerID rnd) name img now"
      "WriteTx (e_B E) () (container_tx (e_B E) c) (st_db s) = ((), None, db')"
      "createContainer_commit E rnd now r s = (Inr c, s\<lparr>st_db := db'\<rparr>)"
proof (cases "readJSON dec_CreateContainerRequest maxContainerRequestSize r")
  case (Inl resp)
  then show ?thesis
    using refused [of resp] readJSON_refuses [OF Inl] by (auto simp: createContainer_commit_def)
next
  case (Inr q)
  let ?name = "TrimSpace (cq_Name q)" and ?image = "TrimSpace (cq_Image q)"
  let ?c = "new_container (GenerateContainerID rnd) ?name ?image now"
  obtain err db' where w: "WriteTx (e_B E) () (container_tx (e_B E) ?c) (st_db s) = ((), err, db')"
    by (metis old.unit.exhaust prod.exhaust)
  show ?thesis
  proof (cases "?name \<noteq> [] \<and> ?image \<noteq> []")
    case False
    then show ?thesis
      using refused Inr by (auto simp: createContainer_commit_def Let_def container_problems_def
          status_defs)
  next
    case True
    then have req: "container_request r ?name ?image" using Inr by (auto simp: container_request_def)
    show ?thesis
    proof (cases err)
      case None
      then show ?thesis
        using created [OF req refl] w True Inr
        by (simp add: createContainer_commit_def Let_def container_problems_def)
    next
      case (Some e)
      have "db' = st_db s" by (rule failed_unchanged(4) [OF w [unfolded Some]])
      then show ?thesis
        using failed [OF req refl] w True Inr Some
        by (simp add: createContainer_commit_def Let_def container_problems_def)
    qed
  qed
qed

lemma createContainer_cases:
  obtains (refused) resp where "createContainerHandler E rnd now r s = (resp, s)"
      "rs_Status resp \<in> {400, 413, 415, 422}"
  | (failed) name img c e db' where "container_request r name img"
      "c = new_container (GenerateContainerID rnd) name img now"
      "WriteTx (e_B E) () (container_tx (e_B E) c) (st_db s) = ((), Some e, db')"
      "createContainerHandler E rnd now r s =
        ((if errors_Is e ErrNameExists
          then writeErrorJSON StatusConflict ''container name already exists''
          else writeErrorJSON StatusInternalServerError ''could not create container''), s)"
  | (created) name img c db' where "container_request r name img"
      "c = new_container (GenerateContainerID rnd) name img now"
      "WriteTx (e_B E) () (container_tx (e_B E) c) (st_db s) = ((), None, db')"
      "createContainerHandler E rnd now r s =
        (writeJSON [] StatusCreated (enc_ContainerResponse c),
         s\<lparr>st_db := db', st_queue := fst (Add (c_ID c) (st_queue s))\<rparr>)"
  by (cases rule: createContainer_commit_cases [of E rnd now r s])
    (use refused failed created in \<open>force simp: createContainerHandler_def createContainer_finish_def\<close>)+

context hambo_db
begin

lemma createContainer_inv:
  assumes inv: "db_inv B (st_db s)" and E: "e_B E = B"
    and run: "createContainerHandler E rnd now r s = (resp, s')"
  shows "db_inv B (st_db s')" and "queue_inv (st_queue s) \<Longrightarrow> queue_inv (st_queue s')"
    and "st_watcher s' = st_watcher s"
    and "node_tbl B (st_db s') = node_tbl B (st_db s)"
    and "container_tbl B (st_db s) k = Some d \<Longrightarrow> container_tbl B (st_db s') k = Some d"
proof -
  have "db_inv B (st_db s') \<and> (queue_inv (st_queue s) \<longrightarrow> queue_inv (st_queue s'))
      \<and> st_watcher s' = st_watcher s \<and> node_tbl B (st_db s') = node_tbl B (st_db s)
      \<and> (container_tbl B (st_db s) k = Some d \<longrightarrow> container_tbl B (st_db s') k = Some d)"
  proof (cases rule: createContainer_cases [of E rnd now r s])
    case (created name img c db')
    have c: "c_State c = StatePending" "c_ExitCode c = None" "c_NodeID c = []"
      using created(2) by (simp_all add: new_container_def zero_Container_def)
    note w = container_write_committed [OF inv c created(3) [unfolded E]]
    show ?thesis using created(4) run w queue_inv_Add by auto
  qed (use run inv in auto)
  then show "db_inv B (st_db s')" "queue_inv (st_queue s) \<Longrightarrow> queue_inv (st_queue s')"
    "st_watcher s' = st_watcher s" "node_tbl B (st_db s') = node_tbl B (st_db s)"
    "container_tbl B (st_db s) k = Some d \<Longrightarrow> container_tbl B (st_db s') k = Some d" by blast+
qed

end

end
