(* ===== verification/Api_Watch.thy ===== *)
theory Api_Watch
  imports Http
begin

text \<open>
  \<open>GET /nodes/self/watch\<close> (\<open>watchNodeHandler\<close> of \<open>internal/api/nodes.go\<close>): the stream of the
  assignments of one node. \<open>watchNodeHandler\<close> is what happens before the loop; the loop is the
  step relation \<open>watch_step\<close>, one rule for each way a statement of its body can go, on the
  point the handler is at (\<open>watch_phase\<close>) and the stream. The database and the watcher are
  shared with the other goroutines and may change between any two steps.
\<close>

section \<open>Before the loop\<close>

definition watchNodeHandler :: "'db handler" where
  "watchNodeHandler r s =
     (case rq_NodeID r of
        None \<Rightarrow> (writeErrorJSON StatusInternalServerError ''could not watch node assignments'', s)
      | Some nodeID \<Rightarrow>
          (case startJSONStream r of
             None \<Rightarrow> (writeErrorJSON StatusInternalServerError ''could not start node watch'', s)
           | Some stream \<Rightarrow>
               (\<lparr>rs_Status = StatusOK, rs_Header = stream_headers, rs_Body = StreamBody nodeID\<rparr>, s)))"

section \<open>The snapshot\<close>

record ContainerAssignment =
  as_ID :: string
  as_Name :: string
  as_Image :: string
  as_DeletionRequestedAt :: "instant option"

definition assignment_of :: "Container \<Rightarrow> ContainerAssignment" where
  "assignment_of c =
     \<lparr>as_ID = c_ID c, as_Name = c_Name c, as_Image = c_Image c,
      as_DeletionRequestedAt = c_DeletionRequestedAt c\<rparr>"

fun collect_assignments ::
  "string \<Rightarrow> Container Entry list \<Rightarrow> ContainerAssignment list \<Rightarrow> ContainerAssignment list" where
  "collect_assignments nodeID [] out = out"
| "collect_assignments nodeID (e # es) out =
     (let c = Value e
      in if c_NodeID c \<noteq> nodeID then collect_assignments nodeID es out
         else collect_assignments nodeID es (out @ [assignment_of c]))"

definition enc_ContainerAssignment :: "ContainerAssignment \<Rightarrow> json result" where
  "enc_ContainerAssignment a =
     map_value
       (\<lambda>deletion. JObj
          ([(''id'', JStr (as_ID a)), (''name'', JStr (as_Name a)), (''image'', JStr (as_Image a))]
           @ deletion))
       (omit_time ''deletion_requested_at'' (as_DeletionRequestedAt a))"

definition enc_NodeWatchResponse :: "ContainerAssignment list \<Rightarrow> json result" where
  "enc_NodeWatchResponse response =
     map_value (\<lambda>js. JObj [(''containers'', JArr js)]) (map_result enc_ContainerAssignment response)"

section \<open>The loop\<close>

datatype watch_phase =
    LoopTop
  | Registered chan
  | Loaded chan "ContainerAssignment list"
  | Waiting chan
  | Returned

record watch_run =
  wr_node :: string
  wr_stream :: jsonStream
  wr_phase :: watch_phase

definition start_run :: "string \<Rightarrow> watch_run" where
  "start_run nodeID =
     \<lparr>wr_node = nodeID, wr_stream = \<lparr>js_written = [], js_err = None\<rparr>, wr_phase = LoopTop\<rparr>"

inductive watch_step ::
  "'db bolt \<Rightarrow> 'db \<Rightarrow> NodeWatcher \<Rightarrow> watch_run \<Rightarrow> NodeWatcher \<Rightarrow> watch_run \<Rightarrow> bool"
  for B :: "'db bolt" and db :: 'db where
  top_done: "wr_phase h = LoopTop \<Longrightarrow> watch_step B db w h w (h\<lparr>wr_phase := Returned\<rparr>)"
| top_watch: "wr_phase h = LoopTop \<Longrightarrow> Watch (wr_node h) w = (Inr ch, w') \<Longrightarrow>
    watch_step B db w h w' (h\<lparr>wr_phase := Registered ch\<rparr>)"
| top_fails: "wr_phase h = LoopTop \<Longrightarrow> Watch (wr_node h) w = (Inl e, w') \<Longrightarrow>
    watch_step B db w h w' (h\<lparr>wr_phase := Returned\<rparr>)"
| load: "wr_phase h = Registered ch \<Longrightarrow> list_entries B containers_collection db = Inr entries \<Longrightarrow>
    watch_step B db w h w (h\<lparr>wr_phase := Loaded ch (collect_assignments (wr_node h) entries [])\<rparr>)"
| load_fails: "wr_phase h = Registered ch \<Longrightarrow> list_entries B containers_collection db = Inl e \<Longrightarrow>
    watch_step B db w h w (h\<lparr>wr_phase := Returned\<rparr>)"
| sends: "wr_phase h = Loaded ch response \<Longrightarrow> enc_NodeWatchResponse response = Inr doc \<Longrightarrow>
    stream_Write None doc (wr_stream h) = (None, st) \<Longrightarrow>
    watch_step B db w h w (h\<lparr>wr_stream := st, wr_phase := Waiting ch\<rparr>)"
| send_fails: "wr_phase h = Loaded ch response \<Longrightarrow>
    stream_Write (Some e) doc (wr_stream h) = (Some e', st) \<Longrightarrow>
    watch_step B db w h w (h\<lparr>wr_stream := st, wr_phase := Returned\<rparr>)"
| wakes: "wr_phase h = Waiting ch \<Longrightarrow> chan_closed w ch \<Longrightarrow>
    watch_step B db w h w (h\<lparr>wr_phase := LoopTop\<rparr>)"
| wait_done: "wr_phase h = Waiting ch \<Longrightarrow> watch_step B db w h w (h\<lparr>wr_phase := Returned\<rparr>)"

inductive_cases watch_stepE: "watch_step B db w h w' h'"

section \<open>What a snapshot holds\<close>

definition assigned_to ::
  "string \<Rightarrow> (string \<Rightarrow> Container option) \<Rightarrow> ContainerAssignment set" where
  "assigned_to nodeID C = {assignment_of c | k c. C k = Some c \<and> c_NodeID c = nodeID}"

lemma collect_assignments_append:
  "collect_assignments nodeID es out =
     out @ map (\<lambda>e. assignment_of (Value e)) (filter (\<lambda>e. c_NodeID (Value e) = nodeID) es)"
  by (induction es arbitrary: out) (simp_all add: Let_def)

lemma assigned_to_iff:
  "a \<in> assigned_to nodeID C \<longleftrightarrow>
     (\<exists>k c. C k = Some c \<and> c_NodeID c = nodeID \<and> assignment_of c = a)"
  by (auto simp: assigned_to_def)

lemma collect_assignments_set:
  assumes "map_of (pairs es) = C" "distinct (map Key es)"
  shows "set (collect_assignments nodeID es []) = assigned_to nodeID C"
proof (rule set_eqI)
  fix a
  have "a \<in> set (collect_assignments nodeID es [])
      \<longleftrightarrow> (\<exists>e \<in> set es. c_NodeID (Value e) = nodeID \<and> assignment_of (Value e) = a)"
    by (auto simp: collect_assignments_append)
  also have "\<dots> \<longleftrightarrow> a \<in> assigned_to nodeID C"
    unfolding assigned_to_iff assms(1) [symmetric]
    using pairs_key [OF assms(2)] pairs_entry [of es] by metis
  finally show "a \<in> set (collect_assignments nodeID es []) \<longleftrightarrow> a \<in> assigned_to nodeID C" .
qed

lemma assigned_to_same:
  assumes "dom C' = dom C"
    and "\<And>k c. C k = Some c \<Longrightarrow>
      \<exists>d. C' k = Some d \<and> c_NodeID d = c_NodeID c \<and> assignment_of d = assignment_of c"
  shows "assigned_to nodeID C' = assigned_to nodeID C"
proof (rule set_eqI)
  fix a
  have conv: "\<exists>c. C k = Some c \<and> c_NodeID d = c_NodeID c \<and> assignment_of d = assignment_of c"
    if "C' k = Some d" for k d
  proof -
    have "k \<in> dom C" using that assms(1) by auto
    then obtain c where "C k = Some c" by auto
    with assms(2) [OF this] that show ?thesis by auto
  qed
  show "a \<in> assigned_to nodeID C' \<longleftrightarrow> a \<in> assigned_to nodeID C"
  proof
    assume "a \<in> assigned_to nodeID C'"
    then obtain k d where "C' k = Some d" "c_NodeID d = nodeID" "assignment_of d = a"
      unfolding assigned_to_iff by blast
    with conv show "a \<in> assigned_to nodeID C" unfolding assigned_to_iff by metis
  next
    assume "a \<in> assigned_to nodeID C"
    then obtain k c where "C k = Some c" "c_NodeID c = nodeID" "assignment_of c = a"
      unfolding assigned_to_iff by blast
    with assms(2) show "a \<in> assigned_to nodeID C'" unfolding assigned_to_iff by metis
  qed
qed

lemma assigned_to_other:
  assumes "c_NodeID c \<noteq> nodeID" and "\<And>d. C k = Some d \<Longrightarrow> c_NodeID d \<noteq> nodeID"
  shows "assigned_to nodeID (C(k \<mapsto> c)) = assigned_to nodeID C"
proof (rule set_eqI)
  fix a
  have "(C(k \<mapsto> c)) j = Some d \<and> c_NodeID d = nodeID \<longleftrightarrow> C j = Some d \<and> c_NodeID d = nodeID" for j d
    using assms by (cases "j = k") auto
  then show "a \<in> assigned_to nodeID (C(k \<mapsto> c)) \<longleftrightarrow> a \<in> assigned_to nodeID C"
    unfolding assigned_to_iff by metis
qed

end
