(* ===== verification/Scheduler.thy ===== *)
theory Scheduler
  imports State
begin

text \<open>
  \<open>internal/scheduler\<close>: the single worker that assigns pending containers to nodes.
  \<open>assign\<close> is a write transaction followed by a notification; the transaction's closure sets
  the two captured variables \<open>retry\<close> and \<open>assignedNodeID\<close>. \<open>now\<close> is what \<open>time.Now().UTC()\<close>
  returns. \<open>run_round\<close> is one round of the loop of \<open>Run\<close>.
\<close>

section \<open>Choosing a node\<close>

definition counts_assigned :: "Container \<Rightarrow> bool" where
  "counts_assigned c \<longleftrightarrow> c_NodeID c \<noteq> [] \<and> c_State c \<noteq> StateExited"

fun count_loop :: "Container Entry list \<Rightarrow> (string \<Rightarrow> nat) \<Rightarrow> (string \<Rightarrow> nat)" where
  "count_loop [] counts = counts"
| "count_loop (e # es) counts =
     (let c = Value e
      in if counts_assigned c
         then count_loop es (counts(c_NodeID c := Suc (counts (c_NodeID c))))
         else count_loop es counts)"

definition eligible :: "instant \<Rightarrow> Node \<Rightarrow> bool" where
  "eligible now n \<longleftrightarrow> IsReachable n now \<and> n_RuntimeReady n"

fun select_loop ::
  "instant \<Rightarrow> (string \<Rightarrow> nat) \<Rightarrow> Node Entry list \<Rightarrow> string \<times> nat \<Rightarrow> string \<times> nat" where
  "select_loop now counts [] sel = sel"
| "select_loop now counts (e # es) (selectedNodeID, selectedCount) =
     (let n = Value e
      in if \<not> IsReachable n now \<or> \<not> n_RuntimeReady n
         then select_loop now counts es (selectedNodeID, selectedCount)
         else let count = counts (n_ID n)
              in if selectedNodeID = [] \<or> count < selectedCount
                 then select_loop now counts es (n_ID n, count)
                 else select_loop now counts es (selectedNodeID, selectedCount))"

section \<open>Assigning one container\<close>

definition no_nodes_reason :: string where
  "no_nodes_reason = ''NoReachableNodes''"

definition no_nodes_message :: string where
  "no_nodes_message = ''No reachable node is available. Scheduler will retry.''"

text \<open>The closure of the transaction: (retry, assignedNodeID) and the database.\<close>

definition assign_tx ::
  "'db bolt \<Rightarrow> instant \<Rightarrow> string \<Rightarrow> 'db \<Rightarrow> (bool \<times> string) \<times> 'db result" where
  "assign_tx B now containerID tx =
     (case GetTx B containers_collection containerID tx of
        Inl e \<Rightarrow>
          if errors_Is e StoreErrNotFound then ((False, []), Inr tx) else ((False, []), Inl e)
      | Inr current \<Rightarrow>
          if c_NodeID current \<noteq> [] \<or> c_DeletionRequestedAt current \<noteq> None
             \<or> c_State current \<noteq> StatePending
          then ((False, []), Inr tx)
          else case ListTx B nodes_collection tx of
            Inl e \<Rightarrow> ((False, []), Inl e)
          | Inr nodes \<Rightarrow>
              (case ListTx B containers_collection tx of
                 Inl e \<Rightarrow> ((False, []), Inl e)
               | Inr containers \<Rightarrow>
                   let counts = count_loop containers (\<lambda>_. 0);
                       selectedNodeID = fst (select_loop now counts nodes ([], 0))
                   in if selectedNodeID = [] then
                        if c_Reason current = no_nodes_reason \<and> c_Message current = no_nodes_message
                        then ((True, []), Inr tx)
                        else ((True, []),
                              UpdateTx B containers_collection containerID
                                (current\<lparr>c_Reason := no_nodes_reason,
                                         c_Message := no_nodes_message\<rparr>) tx)
                      else
                        case UpdateTx B containers_collection containerID
                               (current\<lparr>c_NodeID := selectedNodeID, c_Reason := [],
                                        c_Message := []\<rparr>) tx of
                          Inl e \<Rightarrow> ((False, []), Inl e)
                        | Inr tx' \<Rightarrow> ((False, selectedNodeID), Inr tx')))"

definition assign_write ::
  "'db bolt \<Rightarrow> instant \<Rightarrow> string \<Rightarrow> 'db \<Rightarrow> (bool \<times> string) \<times> error option \<times> 'db" where
  "assign_write B now containerID db = WriteTx B (False, []) (assign_tx B now containerID) db"

text \<open>What follows the transaction; \<open>None\<close> is the panic of closing a closed channel.\<close>

definition assign_finish ::
  "(bool \<times> string) \<times> error option \<Rightarrow> NodeWatcher \<Rightarrow> (error option \<times> NodeWatcher) option" where
  "assign_finish outcome w =
     (case outcome of
        (_, Some e) \<Rightarrow> Some (Some e, w)
      | ((retry, assignedNodeID), None) \<Rightarrow>
          let last = (if retry then Some (Sentinel ErrNoReachableNodes) else None)
          in if assignedNodeID = [] then Some (last, w)
             else case Notify assignedNodeID w of
               None \<Rightarrow> None
             | Some (Some e, w') \<Rightarrow> Some (Some e, w')
             | Some (None, w') \<Rightarrow> Some (last, w'))"

definition assign ::
  "'db bolt \<Rightarrow> instant \<Rightarrow> string \<Rightarrow> 'db state \<Rightarrow> (error option \<times> 'db state) option" where
  "assign B now containerID s =
     (case assign_write B now containerID (st_db s) of
        (captured, err, db') \<Rightarrow>
          map_option (\<lambda>(e, w'). (e, s\<lparr>st_db := db', st_watcher := w'\<rparr>))
            (assign_finish (captured, err) (st_watcher s)))"

section \<open>The loop\<close>

definition retryDelay :: duration where
  "retryDelay = seconds 10"

text \<open>The containers that still need an assignment, added to the queue at startup.\<close>

fun hydrate_loop :: "Container Entry list \<Rightarrow> MemoryQueue \<Rightarrow> MemoryQueue" where
  "hydrate_loop [] q = q"
| "hydrate_loop (e # es) q =
     (let c = Value e
      in if c_NodeID c = [] \<and> c_State c = StatePending \<and> c_DeletionRequestedAt c = None
         then hydrate_loop es (fst (Add (Key e) q))
         else hydrate_loop es q)"

definition run_start :: "'db bolt \<Rightarrow> 'db state \<Rightarrow> error option \<times> 'db state" where
  "run_start B s =
     (case list_entries B containers_collection (st_db s) of
        Inl e \<Rightarrow> (Some (Wrap ''load pending containers'' e), s)
      | Inr entries \<Rightarrow> (None, s\<lparr>st_queue := hydrate_loop entries (st_queue s)\<rparr>))"

text \<open>
  One round. \<open>Waits\<close>: \<open>Get\<close> has nothing to return yet. \<open>Stops\<close>: the queue shuts down. \<open>Panics\<close>:
  a panic. \<open>Round\<close>: the name that was handled, the error of \<open>assign\<close>, the goroutine that
  \<open>AddAfter\<close> started, and the state after \<open>Done\<close>.
\<close>

datatype 'db round =
    Waits
  | Stops
  | Panics
  | Round string "error option" "(string \<times> duration) option" "'db state"

definition run_round :: "'db bolt \<Rightarrow> instant \<Rightarrow> 'db state \<Rightarrow> 'db round" where
  "run_round B now s =
     (case Get (st_queue s) of
        (None, _) \<Rightarrow> Waits
      | (Some (containerID, True), _) \<Rightarrow> Stops
      | (Some (containerID, False), q) \<Rightarrow>
          (case assign B now containerID (s\<lparr>st_queue := q\<rparr>) of
             None \<Rightarrow> Panics
           | Some (err, s') \<Rightarrow>
               let timer = (if err = None then None
                            else AddAfter containerID retryDelay (st_queue s'))
               in Round containerID err timer
                    (s'\<lparr>st_queue := fst (Done containerID (st_queue s'))\<rparr>)))"

section \<open>The choice is the first of the least loaded\<close>

lemma count_loop_spec:
  "count_loop es counts n =
     counts n + length (filter (\<lambda>e. counts_assigned (Value e) \<and> c_NodeID (Value e) = n) es)"
  by (induction es arbitrary: counts) (auto simp: Let_def)

definition load :: "Container Entry list \<Rightarrow> string \<Rightarrow> nat" where
  "load es n = length (filter (\<lambda>e. counts_assigned (Value e) \<and> c_NodeID (Value e) = n) es)"

lemma count_loop_load: "count_loop es (\<lambda>_. 0) = load es"
  by (rule ext) (simp add: count_loop_spec load_def)

text \<open>
  The result of the loop, started with a candidate \<open>m\<close> of count \<open>k\<close> (or none, \<open>m = []\<close>):
  either the candidate stays, and every eligible node counts at least as much, or some
  eligible node of the list takes its place that counts strictly less than everything
  before it and not more than anything after it.
\<close>

definition chosen ::
  "instant \<Rightarrow> (string \<Rightarrow> nat) \<Rightarrow> Node Entry list \<Rightarrow> string \<Rightarrow> bool" where
  "chosen now counts es m \<longleftrightarrow>
     (\<exists>xs e ys. es = xs @ e # ys \<and> n_ID (Value e) = m \<and> eligible now (Value e)
        \<and> (\<forall>x \<in> set xs. eligible now (Value x) \<longrightarrow> counts m < counts (n_ID (Value x)))
        \<and> (\<forall>y \<in> set ys. eligible now (Value y) \<longrightarrow> counts m \<le> counts (n_ID (Value y))))"

lemma chosen_Cons:
  "chosen now counts es m \<Longrightarrow>
     (eligible now (Value e) \<longrightarrow> counts m < counts (n_ID (Value e))) \<Longrightarrow>
     chosen now counts (e # es) m"
  unfolding chosen_def by (elim exE conjE, rule_tac x = "e # xs" in exI) auto

lemma chosen_here:
  "eligible now (Value e) \<Longrightarrow>
     (\<forall>y \<in> set es. eligible now (Value y) \<longrightarrow> counts (n_ID (Value e)) \<le> counts (n_ID (Value y))) \<Longrightarrow>
     chosen now counts (e # es) (n_ID (Value e))"
  unfolding chosen_def by (rule exI [where x = "[]"]) auto

lemma select_loop_candidate:
  assumes "m \<noteq> []" and "k = counts m" and "\<forall>e \<in> set es. n_ID (Value e) \<noteq> []"
  shows "(fst (select_loop now counts es (m, k)) = m
            \<and> (\<forall>e \<in> set es. eligible now (Value e) \<longrightarrow> k \<le> counts (n_ID (Value e))))
       \<or> (counts (fst (select_loop now counts es (m, k))) < k
            \<and> chosen now counts es (fst (select_loop now counts es (m, k))))"
  using assms
proof (induction es arbitrary: m k)
  case Nil
  then show ?case by simp
next
  case (Cons e es)
  let ?n = "n_ID (Value e)"
  have ids: "\<forall>e \<in> set es. n_ID (Value e) \<noteq> []" and n: "?n \<noteq> []"
    using Cons.prems(3) by simp_all
  show ?case
  proof (cases "eligible now (Value e) \<and> counts ?n < k")
    case True
    then have step: "select_loop now counts (e # es) (m, k) = select_loop now counts es (?n, counts ?n)"
      by (simp add: eligible_def Let_def)
    show ?thesis
      unfolding step using Cons.IH [OF n refl ids] True
      by (auto intro: chosen_here chosen_Cons)
  next
    case False
    then have step: "select_loop now counts (e # es) (m, k) = select_loop now counts es (m, k)"
      using Cons.prems(1) by (auto simp: eligible_def Let_def)
    show ?thesis
      unfolding step using Cons.IH [OF Cons.prems(1,2) ids] False
      by (auto intro: chosen_Cons)
  qed
qed

lemma select_loop_start:
  assumes "\<forall>e \<in> set es. n_ID (Value e) \<noteq> []"
  shows "(fst (select_loop now counts es ([], k)) = [] \<and> (\<forall>e \<in> set es. \<not> eligible now (Value e)))
       \<or> chosen now counts es (fst (select_loop now counts es ([], k)))"
  using assms
proof (induction es)
  case Nil
  then show ?case by simp
next
  case (Cons e es)
  let ?n = "n_ID (Value e)"
  show ?case
  proof (cases "eligible now (Value e)")
    case True
    then have step: "select_loop now counts (e # es) ([], k) = select_loop now counts es (?n, counts ?n)"
      by (simp add: eligible_def Let_def)
    have "?n \<noteq> []" "\<forall>e \<in> set es. n_ID (Value e) \<noteq> []" using Cons.prems by simp_all
    from select_loop_candidate [OF this(1) refl this(2), where now = now and counts = counts] True show ?thesis
      unfolding step by (auto intro: chosen_here chosen_Cons)
  next
    case False
    then have step: "select_loop now counts (e # es) ([], k) = select_loop now counts es ([], k)"
      by (auto simp: eligible_def Let_def)
    show ?thesis
      unfolding step using Cons False by (auto intro: chosen_Cons)
  qed
qed

lemma chosen_least:
  "chosen now counts es m \<Longrightarrow> e \<in> set es \<Longrightarrow> eligible now (Value e) \<Longrightarrow>
     counts m \<le> counts (n_ID (Value e))"
  unfolding chosen_def by (elim exE conjE) (auto intro: less_imp_le_nat)

lemma chosen_member:
  "chosen now counts es m \<Longrightarrow> \<exists>e \<in> set es. n_ID (Value e) = m \<and> eligible now (Value e)"
  unfolding chosen_def by auto

section \<open>The specification of an assignment\<close>

definition waiting :: "Container \<Rightarrow> bool" where
  "waiting c \<longleftrightarrow>
     c_NodeID c = [] \<and> c_DeletionRequestedAt c = None \<and> c_State c = StatePending"

definition assigned_count :: "(string \<Rightarrow> Container option) \<Rightarrow> string \<Rightarrow> nat" where
  "assigned_count C n = card {k. \<exists>c. C k = Some c \<and> counts_assigned c \<and> c_NodeID c = n}"

text \<open>The node of least count, and of least identifier among those.\<close>

definition best_node ::
  "instant \<Rightarrow> (string \<Rightarrow> Node option) \<Rightarrow> (string \<Rightarrow> nat) \<Rightarrow> string \<Rightarrow> bool" where
  "best_node now N cnt m \<longleftrightarrow>
     (\<exists>n. N m = Some n \<and> eligible now n)
     \<and> (\<forall>k n. N k = Some n \<longrightarrow> eligible now n \<longrightarrow> cnt m < cnt k \<or> cnt m = cnt k \<and> m \<le> k)"

lemma load_card:
  assumes "map_of (pairs es) = C" and "distinct (map Key es)"
  shows "load es n = assigned_count C n"
proof -
  let ?P = "\<lambda>e. counts_assigned (Value e) \<and> c_NodeID (Value e) = n"
  have dist: "distinct (map Key (filter ?P es))" using assms(2) by (rule distinct_map_filter)
  have "{k. \<exists>c. C k = Some c \<and> counts_assigned c \<and> c_NodeID c = n} = set (map Key (filter ?P es))"
    using pairs_key [OF assms(2)] pairs_entry [of es] unfolding assms(1) [symmetric] by force
  then have "assigned_count C n = card (set (map Key (filter ?P es)))"
    by (simp only: assigned_count_def)
  also have "\<dots> = length (filter ?P es)"
    using distinct_card [OF dist] by simp
  finally show ?thesis by (simp add: load_def)
qed

lemma chosen_best:
  assumes "map_of (pairs es) = N" "nodes_inv N" "sorted (map Key es)" "distinct (map Key es)"
    and "chosen now cnt es m"
  shows "best_node now N cnt m"
proof -
  from assms(5) obtain xs e ys where es: "es = xs @ e # ys" and m: "n_ID (Value e) = m"
    and el: "eligible now (Value e)"
    and before: "\<forall>x \<in> set xs. eligible now (Value x) \<longrightarrow> cnt m < cnt (n_ID (Value x))"
    and after: "\<forall>y \<in> set ys. eligible now (Value y) \<longrightarrow> cnt m \<le> cnt (n_ID (Value y))"
    unfolding chosen_def by blast
  have id: "n_ID (Value x) = Key x" if "x \<in> set es" for x
    using pairs_key [OF assms(4) that] assms(1,2) by (auto simp: nodes_inv_def)
  have key: "Key e = m" using id [of e] m es by simp
  have up: "m \<le> Key y" if "y \<in> set ys" for y
    using assms(3) that es key by (auto simp: sorted_append)
  have "\<exists>n. N m = Some n \<and> eligible now n"
    using pairs_key [OF assms(4), of e] es key el assms(1) by auto
  moreover have "cnt m < cnt k \<or> cnt m = cnt k \<and> m \<le> k"
    if "N k = Some n" "eligible now n" for k n
  proof -
    from that(1) assms(1) obtain x where x: "x \<in> set es" "Key x = k" "Value x = n"
      using pairs_entry [of es k n] by auto
    with es consider "x \<in> set xs" | "x = e" | "x \<in> set ys" by auto
    then show ?thesis
    proof cases
      case 1
      then show ?thesis using before that(2) x id by auto
    next
      case 2
      then show ?thesis using key x by simp
    next
      case 3
      then show ?thesis using after up that(2) x id by (auto simp: le_less)
    qed
  qed
  ultimately show ?thesis by (simp add: best_node_def)
qed

end
