(* ===== verification/Assign.thy ===== *)
theory Assign
  imports Scheduler "HOL-Library.Code_Target_Numeral"
begin

text \<open>
  What an assignment does to the database: the transaction of \<open>assign\<close> against the
  specification \<open>best_node\<close>, the invariant it keeps, and the rounds of the scheduler's loop.
\<close>

section \<open>The transaction\<close>

context hambo_db
begin

lemma GetTx_missing: "tbl_ok B containers_collection tx \<Longrightarrow> container_tbl B tx k = None \<Longrightarrow>
    \<exists>e. GetTx B containers_collection k tx = Inl e \<and> errors_Is e StoreErrNotFound"
  by (simp add: containers.GetTx_tbl)

text \<open>A container that is gone or no longer waits is left alone.\<close>

lemma assign_tx_skips:
  assumes "db_ok B tx" and "\<And>c. container_tbl B tx k = Some c \<Longrightarrow> \<not> waiting c"
  shows "assign_tx B now k tx = ((False, []), Inr tx)"
proof (cases "container_tbl B tx k")
  case None
  then show ?thesis
    using assms(1) by (simp add: assign_tx_def db_ok_def containers.GetTx_tbl)
next
  case (Some c)
  then show ?thesis
    using assms(1) assms(2) [OF Some]
    by (auto simp: assign_tx_def db_ok_def containers.GetTx_tbl waiting_def)
qed

text \<open>For a waiting container the transaction writes one of two records.\<close>

lemma assign_tx_waiting:
  assumes ok: "db_ok B tx" and ids: "nodes_inv (node_tbl B tx)"
    and c: "container_tbl B tx k = Some c" and w: "waiting c"
  shows "(\<forall>j n. node_tbl B tx j = Some n \<longrightarrow> \<not> eligible now n)
      \<and> assign_tx B now k tx =
          ((True, []),
           if c_Reason c = no_nodes_reason \<and> c_Message c = no_nodes_message then Inr tx
           else UpdateTx B containers_collection k
                  (c\<lparr>c_Reason := no_nodes_reason, c_Message := no_nodes_message\<rparr>) tx)
    \<or> (\<exists>m. m \<noteq> [] \<and> best_node now (node_tbl B tx) (assigned_count (container_tbl B tx)) m
        \<and> assign_tx B now k tx =
            (case UpdateTx B containers_collection k
                    (c\<lparr>c_NodeID := m, c_Reason := [], c_Message := []\<rparr>) tx of
               Inl e \<Rightarrow> ((False, []), Inl e)
             | Inr tx' \<Rightarrow> ((False, m), Inr tx')))"
proof -
  from nodes.ListTx_tbl [of tx] ok obtain ns where ns: "ListTx B nodes_collection tx = Inr ns"
    "map_of (pairs ns) = node_tbl B tx" "sorted (map Key ns)" "distinct (map Key ns)"
    by (auto simp: db_ok_def)
  from containers.ListTx_tbl [of tx] ok obtain cs where cs:
    "ListTx B containers_collection tx = Inr cs"
    "map_of (pairs cs) = container_tbl B tx" "distinct (map Key cs)"
    by (auto simp: db_ok_def)
  let ?sel = "fst (select_loop now (load cs) ns ([], 0))"
  have load: "load cs = assigned_count (container_tbl B tx)"
    using load_card [OF cs(2,3)] by (rule ext)
  have id: "n_ID (Value e) = Key e \<and> Key e \<noteq> []" if "e \<in> set ns" for e
    using pairs_key [OF ns(4) that] ns(2) ids by (auto simp: nodes_inv_def)
  have unfolded: "assign_tx B now k tx =
      (if ?sel = [] then
         ((True, []), if c_Reason c = no_nodes_reason \<and> c_Message c = no_nodes_message then Inr tx
          else UpdateTx B containers_collection k
                 (c\<lparr>c_Reason := no_nodes_reason, c_Message := no_nodes_message\<rparr>) tx)
       else case UpdateTx B containers_collection k
                   (c\<lparr>c_NodeID := ?sel, c_Reason := [], c_Message := []\<rparr>) tx of
              Inl e \<Rightarrow> ((False, []), Inl e)
            | Inr tx' \<Rightarrow> ((False, ?sel), Inr tx'))"
    using ok c w ns(1) cs(1)
    by (simp add: assign_tx_def db_ok_def containers.GetTx_tbl waiting_def count_loop_load Let_def)
  from select_loop_start [of ns now "load cs" 0] id
  consider "?sel = []" "\<forall>e \<in> set ns. \<not> eligible now (Value e)" | "chosen now (load cs) ns ?sel"
    by auto
  then show ?thesis
  proof cases
    case 1
    have "\<not> eligible now n" if "node_tbl B tx j = Some n" for j n
      using 1(2) pairs_entry [of ns j n] that ns(2) by auto
    then show ?thesis unfolding unfolded using 1(1) by auto
  next
    case 2
    have "best_node now (node_tbl B tx) (assigned_count (container_tbl B tx)) ?sel"
      using chosen_best [OF ns(2) ids ns(3,4) 2] load by simp
    moreover have "?sel \<noteq> []" using chosen_member [OF 2] id by auto
    ultimately show ?thesis unfolding unfolded by auto
  qed
qed

end

section \<open>The specification of a committed assignment\<close>

text \<open>
  The tables before (\<open>N\<close>, \<open>C\<close>) and after (\<open>N'\<close>, \<open>C'\<close>) an assignment of the container \<open>k\<close>, with
  the two captured variables: nothing to do; no node to choose; or the best node chosen.
\<close>

definition assignment ::
  "instant \<Rightarrow> string \<Rightarrow> bool \<times> string \<Rightarrow> (string \<Rightarrow> Node option) \<Rightarrow> (string \<Rightarrow> Container option)
     \<Rightarrow> (string \<Rightarrow> Container option) \<Rightarrow> bool" where
  "assignment now k captured N C C' \<longleftrightarrow>
     (\<forall>c. C k = Some c \<longrightarrow> \<not> waiting c) \<and> captured = (False, []) \<and> C' = C
     \<or> (\<exists>c. C k = Some c \<and> waiting c \<and> (\<forall>j n. N j = Some n \<longrightarrow> \<not> eligible now n)
          \<and> captured = (True, [])
          \<and> C' = C(k \<mapsto> c\<lparr>c_Reason := no_nodes_reason, c_Message := no_nodes_message\<rparr>))
     \<or> (\<exists>c m. C k = Some c \<and> waiting c \<and> m \<noteq> [] \<and> best_node now N (assigned_count C) m
          \<and> captured = (False, m)
          \<and> C' = C(k \<mapsto> c\<lparr>c_NodeID := m, c_Reason := [], c_Message := []\<rparr>))"

lemma assignment_inv:
  assumes "assignment now k captured N C C'" and "containers_inv N C"
  shows "containers_inv N C'"
proof -
  have upd: "containers_inv N (C(k \<mapsto> c'))"
    if "C k = Some c" "waiting c" "c_ID c' = c_ID c" "c_Name c' = c_Name c"
      "c_State c' = c_State c" "c_ExitCode c' = c_ExitCode c"
      "c_NodeID c' = [] \<or> N (c_NodeID c') \<noteq> None" for c c'
  proof -
    have "c_ExitCode c \<noteq> None \<longrightarrow> c_State c = StateExited"
      using assms(2) that(1) unfolding containers_inv_def by blast
    then show ?thesis
      by (intro containers_inv_upd [OF assms(2), of k c]) (use that in \<open>auto simp: waiting_def\<close>)
  qed
  from assms(1) show ?thesis
    unfolding assignment_def
  proof (elim disjE exE conjE)
    assume "C' = C"
    then show ?thesis using assms(2) by simp
  next
    fix c assume "C k = Some c" "waiting c"
      "C' = C(k \<mapsto> c\<lparr>c_Reason := no_nodes_reason, c_Message := no_nodes_message\<rparr>)"
    then show ?thesis using upd by (simp add: waiting_def)
  next
    fix c m assume "C k = Some c" "waiting c" "best_node now N (assigned_count C) m"
      "C' = C(k \<mapsto> c\<lparr>c_NodeID := m, c_Reason := [], c_Message := []\<rparr>)"
    then show ?thesis using upd [of c] by (auto simp: best_node_def)
  qed
qed

text \<open>Once a container has a node, no assignment gives it another.\<close>

lemma assignment_sticky:
  "assignment now k captured N C C' \<Longrightarrow> C j = Some c \<Longrightarrow> c_NodeID c \<noteq> [] \<Longrightarrow> C' j = Some c"
  unfolding assignment_def by (auto simp: waiting_def)

context hambo_db
begin

lemma assign_tx_spec:
  assumes inv: "db_inv B tx" and run: "assign_tx B now k tx = (captured, Inr tx')"
  shows "assignment now k captured (node_tbl B tx) (container_tbl B tx) (container_tbl B tx')"
    and "node_tbl B tx' = node_tbl B tx" and "token_tbl B tx' = token_tbl B tx"
    and "db_inv B tx'"
proof -
  have ok: "db_ok B tx" and nodes: "nodes_inv (node_tbl B tx)"
    and cok: "tbl_ok B containers_collection tx"
    and cinv: "containers_inv (node_tbl B tx) (container_tbl B tx)"
    using inv by (auto simp: db_inv_def db_ok_def)
  have upd: "db_ok B tx' \<and> node_tbl B tx' = node_tbl B tx \<and> token_tbl B tx' = token_tbl B tx
      \<and> container_tbl B tx' = (container_tbl B tx)(k \<mapsto> c)"
    if "UpdateTx B containers_collection k c tx = Inr tx'" for c
  proof -
    note u = containers.UpdateTx_tbl [OF cok that]
    have "view B tx' ''nodes'' = view B tx ''nodes''" "view B tx' ''tokens'' = view B tx ''tokens''"
      using u(4) by simp_all
    then show ?thesis
      using tbl_frame [of B tx' nodes_collection tx] tbl_frame [of B tx' tokens_collection tx]
        u(2,3) ok by (simp add: db_ok_def)
  qed
  have all: "assignment now k captured (node_tbl B tx) (container_tbl B tx) (container_tbl B tx')
      \<and> db_ok B tx' \<and> node_tbl B tx' = node_tbl B tx \<and> token_tbl B tx' = token_tbl B tx"
  proof (cases "\<exists>c. container_tbl B tx k = Some c \<and> waiting c")
    case False
    then have "assign_tx B now k tx = ((False, []), Inr tx)"
      using assign_tx_skips [OF ok] by blast
    with run False ok show ?thesis by (auto simp: assignment_def)
  next
    case True
    then obtain c where c: "container_tbl B tx k = Some c" "waiting c" by blast
    from assign_tx_waiting [OF ok nodes c, of now] show ?thesis
    proof (elim disjE exE conjE)
      assume none: "\<forall>j n. node_tbl B tx j = Some n \<longrightarrow> \<not> eligible now n"
        and eq: "assign_tx B now k tx = ((True, []),
           if c_Reason c = no_nodes_reason \<and> c_Message c = no_nodes_message then Inr tx
           else UpdateTx B containers_collection k
                  (c\<lparr>c_Reason := no_nodes_reason, c_Message := no_nodes_message\<rparr>) tx)"
      show ?thesis
      proof (cases "c_Reason c = no_nodes_reason \<and> c_Message c = no_nodes_message")
        case True
        then have "c\<lparr>c_Reason := no_nodes_reason, c_Message := no_nodes_message\<rparr> = c" by simp
        with True eq run none c ok show ?thesis
          by (auto simp: assignment_def fun_upd_idem)
      next
        case False
        with eq run none c upd show ?thesis by (auto simp: assignment_def)
      qed
    next
      fix m assume "m \<noteq> []"
        "best_node now (node_tbl B tx) (assigned_count (container_tbl B tx)) m"
        "assign_tx B now k tx =
            (case UpdateTx B containers_collection k
                    (c\<lparr>c_NodeID := m, c_Reason := [], c_Message := []\<rparr>) tx of
               Inl e \<Rightarrow> ((False, []), Inl e)
             | Inr tx' \<Rightarrow> ((False, m), Inr tx'))"
      then show ?thesis
        using run c upd [of "c\<lparr>c_NodeID := m, c_Reason := [], c_Message := []\<rparr>"]
        by (auto simp: assignment_def split: sum.splits)
    qed
  qed
  then show "assignment now k captured (node_tbl B tx) (container_tbl B tx) (container_tbl B tx')"
    and "node_tbl B tx' = node_tbl B tx" and "token_tbl B tx' = token_tbl B tx"
    by blast+
  with all inv assignment_inv [OF _ cinv] show "db_inv B tx'" by (simp add: db_inv_def)
qed

lemma assign_write_committed:
  assumes inv: "db_inv B db" and run: "assign_write B now k db = (captured, None, db')"
  shows "assignment now k captured (node_tbl B db) (container_tbl B db) (container_tbl B db')"
    and "node_tbl B db' = node_tbl B db" and "token_tbl B db' = token_tbl B db"
    and "db_inv B db'"
proof -
  from run obtain tx tx' where same: "view B tx = view B db" "view B db' = view B tx'"
    and tx: "assign_tx B now k tx = (captured, Inr tx')"
    by (auto simp: assign_write_def WriteTx_def split: prod.splits dest!: update_committed)
  have inv': "db_inv B tx" using inv db_inv_view [OF same(1)] by simp
  note spec = assign_tx_spec [OF inv' tx]
  note a = tbl_view_eq [OF same(1), of nodes_collection] tbl_view_eq [OF same(1), of containers_collection]
    tbl_view_eq [OF same(1), of tokens_collection] tbl_view_eq [OF same(2), of nodes_collection]
    tbl_view_eq [OF same(2), of containers_collection] tbl_view_eq [OF same(2), of tokens_collection]
  show "assignment now k captured (node_tbl B db) (container_tbl B db) (container_tbl B db')"
    "node_tbl B db' = node_tbl B db" "token_tbl B db' = token_tbl B db"
    using spec(1-3) a by simp_all
  show "db_inv B db'" using spec(4) db_inv_view [OF same(2)] by simp
qed

lemma assign_write_inv:
  assumes "db_inv B db" and "assign_write B now k db = (captured, e, db')"
  shows "db_inv B db'"
proof (cases e)
  case None
  then show ?thesis using assign_write_committed(4) assms by blast
next
  case (Some err)
  then show ?thesis using assms failed_unchanged(4) by (fastforce simp: assign_write_def)
qed

text \<open>No captured variable survives a failure of the closure itself.\<close>

lemma assign_total:
  assumes "watcher_inv (st_watcher s)"
  shows "\<exists>e s'. assign B now k s = Some (e, s') \<and> watcher_inv (st_watcher s')
    \<and> st_queue s' = st_queue s"
proof -
  obtain r m e db' where w: "assign_write B now k (st_db s) = ((r, m), e, db')"
    by (metis prod.exhaust)
  obtain e' w' where n: "Notify m (st_watcher s) = Some (e', w')" "watcher_inv w'"
    using Notify_total [OF assms] watcher_inv_Notify [OF assms] by blast
  show ?thesis
    using w n assms by (cases e; cases e') (auto simp: assign_def assign_finish_def Let_def)
qed

end

text \<open>Nothing keeps the storage from taking the transaction of the container under \<open>k\<close>.\<close>

definition storable :: "'db bolt \<Rightarrow> string \<Rightarrow> (string \<Rightarrow> Container option) \<Rightarrow> bool" where
  "storable B k C \<longleftrightarrow>
     db_works B \<and> puts_work B
     \<and> (\<forall>c. C k = Some c \<longrightarrow> k \<noteq> [] \<and> length k \<le> maxKeySize \<and> (\<exists>d. marshal_Container c = Inr d))"

lemma marshal_reason:
  "marshal_Container c = Inr d \<Longrightarrow> \<exists>d. marshal_Container (c\<lparr>c_Reason := r, c_Message := m\<rparr>) = Inr d"
  "marshal_Container c = Inr d \<Longrightarrow>
     \<exists>d. marshal_Container (c\<lparr>c_NodeID := n, c_Reason := r, c_Message := m\<rparr>) = Inr d"
  by (auto simp: marshal_Container_def result_eqs)

lemma failed_write: "WriteTx B c0 fn db = (c, Some e, db') \<Longrightarrow> \<exists>x. e = Wrap ''write transaction'' x"
  by (auto simp: WriteTx_def split: prod.splits option.splits)

context hambo_db
begin

lemma assign_tx_works:
  assumes inv: "db_inv B tx" and ok: "storable B k (container_tbl B tx)"
  shows "\<exists>captured tx'. assign_tx B now k tx = (captured, Inr tx')"
proof (cases "\<exists>c. container_tbl B tx k = Some c \<and> waiting c")
  case False
  then show ?thesis using assign_tx_skips [of tx k now] inv by (auto simp: db_inv_def)
next
  case True
  then obtain c where c: "container_tbl B tx k = Some c" "waiting c" by blast
  have db: "db_ok B tx" "tbl_ok B containers_collection tx" "nodes_inv (node_tbl B tx)"
    using inv by (simp_all add: db_inv_def db_ok_def)
  obtain d where d: "marshal_Container c = Inr d" and k: "k \<noteq> []" "length k \<le> maxKeySize" and p: "puts_work B"
    using ok c(1) by (auto simp: storable_def)
  have put: "\<exists>tx'. UpdateTx B containers_collection k c' tx = Inr tx'" if "\<exists>d. marshal_Container c' = Inr d" for c'
    using that containers.UpdateTx_works [OF p db(2) c(1) k] by auto
  show ?thesis
    using assign_tx_waiting [OF db(1,3) c, of now] put [OF marshal_reason(1) [OF d]]
      put [OF marshal_reason(2) [OF d]]
    by (auto split: sum.splits) (metis sum.distinct(1))+
qed

lemma assign_write_works:
  assumes inv: "db_inv B db" and ok: "storable B k (container_tbl B db)"
  shows "\<exists>captured db'. assign_write B now k db = (captured, None, db')"
proof -
  have works: "db_works B" using ok by (simp add: storable_def)
  obtain tx where tx: "view B tx = view B db" and run: "\<And>c tx'. assign_tx B now k tx = (c, Inr tx') \<Longrightarrow>
      \<exists>db'. WriteTx B (False, []) (assign_tx B now k) db = (c, None, db') \<and> view B db' = view B tx'"
    by (rule WriteTx_works [OF works, of db "assign_tx B now k" "(False, [])"]) blast
  have "storable B k (container_tbl B tx)" using ok tbl_view_eq [OF tx, of containers_collection] by simp
  moreover have "db_inv B tx" using inv db_inv_view [OF tx] by simp
  ultimately obtain captured tx' where "assign_tx B now k tx = (captured, Inr tx')"
    using assign_tx_works by blast
  from run [OF this] show ?thesis by (auto simp: assign_write_def)
qed

end

section \<open>The rounds of the loop\<close>

lemma Done_Get_queue:
  assumes "queue_inv q" and "Get q = (Some (k, False), q1)"
  shows "queue_inv (fst (Done k q1))" and "processing (fst (Done k q1)) = processing q"
    and "dirty (fst (Done k q1)) = dirty q - {k}"
  using mq.round_inv [OF assms] by simp_all

lemma hydrate_adds:
  assumes "\<not> shuttingDown q" and "queue_inv q"
  shows "dirty (hydrate_loop es q)
      = dirty q \<union> {Key e | e. e \<in> set es \<and> waiting (Value e)}"
    and "queue_inv (hydrate_loop es q)"
  using assms
proof (induction es arbitrary: q)
  case Nil
  {
    case 1
    then show ?case by simp
  next
    case 2
    then show ?case by simp
  }
next
  case (Cons e es)
  {
    case 1
    then show ?case
      using Cons.IH(1) [of q] Cons.IH(1) [of "fst (Add (Key e) q)"] mq.add_open [of q "Key e"]
        queue_inv_Add [of q "Key e"]
      by (auto simp: Let_def waiting_def)
  next
    case 2
    then show ?case
      using Cons.IH(2) [of q] Cons.IH(2) [of "fst (Add (Key e) q)"] queue_inv_Add [of q "Key e"]
      by (simp add: Let_def)
  }
qed

section \<open>Properties\<close>

text \<open>
  Claim C7: an assignment does what its specification says, or nothing. If \<open>assign\<close> does not fail
  with a storage error: a container that is gone, assigned, deleted or not pending is left
  alone; with no eligible node the reason is recorded and the retry error returned; otherwise
  the container gets the eligible node with the fewest live containers, of least identifier
  among those, and its watchers' channel is closed. A storage error, which is the error of the
  write transaction, changes nothing, and there is none when the database begins, stores and
  commits what it is given and the container can be encoded.
\<close>

theorem assign_spec:
  assumes "hambo_db B" and "db_inv B (st_db s)" and "watcher_inv (st_watcher s)"
    and "assign B now k s = Some (err, s')"
  shows "st_queue s' = st_queue s \<and>
    ((\<exists>retry m. assignment now k (retry, m) (node_tbl B (st_db s)) (container_tbl B (st_db s))
          (container_tbl B (st_db s'))
        \<and> node_tbl B (st_db s') = node_tbl B (st_db s) \<and> token_tbl B (st_db s') = token_tbl B (st_db s)
        \<and> err = (if retry then Some (Sentinel ErrNoReachableNodes) else None)
        \<and> (if m = [] then st_watcher s' = st_watcher s
           else \<forall>ch. w_nodes (st_watcher s) m = Some ch \<longrightarrow> chan_closed (st_watcher s') ch))
     \<or> (\<exists>e. err = Some (Wrap ''write transaction'' e)) \<and> st_db s' = st_db s \<and> st_watcher s' = st_watcher s
       \<and> \<not> storable B k (container_tbl B (st_db s)))"
proof -
  obtain retry m e db' where w: "assign_write B now k (st_db s) = ((retry, m), e, db')"
    by (metis prod.exhaust)
  have fin: "\<exists>w'. assign_finish ((retry, m), e) (st_watcher s) = Some (err, w')
      \<and> s' = s\<lparr>st_db := db', st_watcher := w'\<rparr>"
    using assms(4) w by (auto simp: assign_def)
  then obtain w' where fin: "assign_finish ((retry, m), e) (st_watcher s) = Some (err, w')"
    and s': "s' = s\<lparr>st_db := db', st_watcher := w'\<rparr>" by blast
  show ?thesis
  proof (cases e)
    case (Some x)
    have "db' = st_db s"
      by (rule failed_unchanged(4) [OF w [unfolded Some assign_write_def]])
    moreover have "\<exists>y. x = Wrap ''write transaction'' y"
      by (rule failed_write [OF w [unfolded Some assign_write_def]])
    moreover have "\<not> storable B k (container_tbl B (st_db s))"
      using hambo_db.assign_write_works [OF assms(1,2), of k now] w Some by auto
    ultimately show ?thesis using fin s' Some by (auto simp: assign_finish_def)
  next
    case None
    note c = hambo_db.assign_write_committed [OF assms(1,2) w [unfolded None]]
    have "err = (if retry then Some (Sentinel ErrNoReachableNodes) else None)
        \<and> (if m = [] then w' = st_watcher s
           else \<forall>ch. w_nodes (st_watcher s) m = Some ch \<longrightarrow> chan_closed w' ch)"
    proof (cases "m = []")
      case True
      then show ?thesis using fin None by (simp add: assign_finish_def Let_def)
    next
      case False
      then have "\<exists>x. Notify m (st_watcher s) = Some (None, x)"
        using Notify_total [OF assms(3), of m] by (auto simp: Notify_def split: option.splits if_splits)
      then have n: "Notify m (st_watcher s) = Some (None, w')"
        and "err = (if retry then Some (Sentinel ErrNoReachableNodes) else None)"
        using fin None False by (auto simp: assign_finish_def Let_def)
      then show ?thesis using nw.notify_closes [OF n] False by simp
    qed
    with c have "assignment now k (retry, m) (node_tbl B (st_db s)) (container_tbl B (st_db s))
          (container_tbl B (st_db s'))
        \<and> node_tbl B (st_db s') = node_tbl B (st_db s) \<and> token_tbl B (st_db s') = token_tbl B (st_db s)
        \<and> err = (if retry then Some (Sentinel ErrNoReachableNodes) else None)
        \<and> (if m = [] then st_watcher s' = st_watcher s
           else \<forall>ch. w_nodes (st_watcher s) m = Some ch \<longrightarrow> chan_closed (st_watcher s') ch)"
      by (simp add: s')
    note committed = this
    have "st_queue s' = st_queue s" by (simp add: s')
    then show ?thesis
      by (rule conjI [OF _ disjI1]) (rule exI [of _ retry], rule exI [of _ m], rule committed)
  qed
qed

text \<open>An instance: one node that was just seen, one pending container, an open channel.\<close>

definition toy_state :: "mem_db state" where
  "toy_state = \<lparr>
     st_db = [(''nodes'', [(''n'', JObj [(''id'', JStr ''n''), (''runtime_ready'', JBool True),
                                         (''last_seen_at'', JTime 0)])]),
              (''containers'', [(''c'', JObj [(''id'', JStr ''c''), (''state'', JStr ''pending'')])]),
              (''tokens'', [])],
     st_queue = fst (Add ''c'' NewMemoryQueue),
     st_watcher = snd (Watch ''n'' NewNodeWatcher)\<rparr>"

lemma toy_nodes:
  "node_tbl mem_bolt (st_db toy_state) =
     [''n'' \<mapsto> zero_Node\<lparr>n_ID := ''n'', n_RuntimeReady := True, n_LastSeenAt := Some 0\<rparr>]"
  by (rule ext)
    (simp add: tbl_def mem_view toy_state_def unmarshal_Node_def codec_simps)

lemma toy_containers:
  "container_tbl mem_bolt (st_db toy_state) = [''c'' \<mapsto> zero_Container\<lparr>c_ID := ''c'', c_State := StatePending\<rparr>]"
  by (rule ext)
    (simp add: tbl_def mem_view toy_state_def unmarshal_Container_def codec_simps StatePending_def)

lemma toy_inv: "db_inv mem_bolt (st_db toy_state)"
proof -
  have "db_ok mem_bolt (st_db toy_state)"
    by (auto simp: db_ok_def tbl_ok_def mem_view toy_state_def unmarshal_Node_def
        unmarshal_Container_def codec_simps)
  moreover have "token_tbl mem_bolt (st_db toy_state) = Map.empty"
    by (rule ext) (simp add: tbl_def mem_view toy_state_def)
  ultimately show ?thesis
    by (auto simp: db_inv_def toy_nodes toy_containers nodes_inv_def containers_inv_def tokens_inv_def
        zero_Node_def zero_Container_def split: if_splits)
qed

lemma toy_watcher: "watcher_inv (st_watcher toy_state)"
  by (simp add: toy_state_def watcher_inv_Watch watcher_inv_New)

lemma toy_hambo: "hambo_db mem_bolt"
  by unfold_locales

theorem assign_spec_witness:
  "\<exists>retry m s'. assignment 1 ''c'' (retry, m) (node_tbl mem_bolt (st_db toy_state))
       (container_tbl mem_bolt (st_db toy_state)) (container_tbl mem_bolt (st_db s'))
     \<and> assign mem_bolt 1 ''c'' toy_state = Some (None, s')"
proof -
  obtain err s' where run: "assign mem_bolt 1 ''c'' toy_state = Some (err, s')"
    using mem_db.assign_total [OF toy_watcher] by blast
  have "map_option fst (assign mem_bolt 1 ''c'' toy_state) = Some None" by code_simp
  then have err: "err = None" using run by simp
  show ?thesis
    using assign_spec [OF toy_hambo toy_inv toy_watcher run] run err by auto
qed

text \<open>
  A round of the scheduler never panics and gives every name back. With nothing being
  processed, a round waits only if no name is dirty; otherwise it handles a dirty name, which
  is then neither dirty nor processed, and starts a retry timer of ten seconds exactly when
  the assignment returned an error. The stored data keep their invariant.
\<close>

theorem scheduler_round:
  assumes "hambo_db B" and "db_inv B (st_db s)" and "queue_inv (st_queue s)"
    and "watcher_inv (st_watcher s)" and "processing (st_queue s) = {}"
  shows "case run_round B now s of
      Panics \<Rightarrow> False
    | Stops \<Rightarrow> shuttingDown (st_queue s)
    | Waits \<Rightarrow> \<not> shuttingDown (st_queue s) \<and> dirty (st_queue s) = {}
    | Round k err timer s' \<Rightarrow>
        k \<in> dirty (st_queue s) \<and> dirty (st_queue s') = dirty (st_queue s) - {k}
        \<and> processing (st_queue s') = {} \<and> queue_inv (st_queue s') \<and> db_inv B (st_db s')
        \<and> watcher_inv (st_watcher s')
        \<and> timer = (if err = None then None else Some (k, seconds 10))"
proof (cases rule: Get_cases [of "st_queue s"])
  case waits
  then have "dirty (st_queue s) = {}" using assms(3,5) by (auto simp: queue_inv_def)
  then show ?thesis using waits by (simp add: run_round_def)
next
  case shut
  then show ?thesis by (simp add: run_round_def)
next
  case (item x xs)
  let ?q = "(st_queue s)\<lparr>items := xs, dirty := dirty (st_queue s) - {x},
         processing := insert x (processing (st_queue s))\<rparr>"
  let ?s = "s\<lparr>st_queue := ?q\<rparr>"
  obtain err s' where a: "assign B now x ?s = Some (err, s')" "watcher_inv (st_watcher s')"
    "st_queue s' = ?q"
    using hambo_db.assign_total [OF assms(1), of ?s now x] assms(4) by auto
  obtain captured e db' where w: "assign_write B now x (st_db s) = (captured, e, db')"
    by (metis prod.exhaust)
  then have "db_inv B db'" by (rule hambo_db.assign_write_inv [OF assms(1,2)])
  moreover have "st_db s' = db'" using a(1) w by (auto simp: assign_def)
  ultimately have db: "db_inv B (st_db s')" by simp
  have q: "x \<in> dirty (st_queue s)" using assms(3) item(1) by (auto simp: queue_inv_def)
  note d = Done_Get_queue [OF assms(3) item(3)]
  show ?thesis
    using item(2,3) a db q d assms(5)
    by (simp add: run_round_def Let_def AddAfter_def retryDelay_def)
qed

theorem scheduler_round_witness:
  "run_round mem_bolt 1 toy_state \<noteq> Panics \<and> run_round mem_bolt 1 toy_state \<noteq> Waits"
proof -
  have "queue_inv (st_queue toy_state)" "processing (st_queue toy_state) = {}"
    "dirty (st_queue toy_state) = {''c''}"
    using queue_inv_Add [OF queue_inv_New, of "''c''"]
    by (simp_all add: toy_state_def Add_def NewMemoryQueue_def)
  then show ?thesis
    using scheduler_round [OF toy_hambo toy_inv _ toy_watcher, of 1] by (auto split: round.splits)
qed

end
