(* ===== verification/Paths.thy ===== *)
theory Paths
  imports Go_Strings
begin

text \<open>
  The paths of URLs: \<open>path.Clean\<close> of a rooted path, the path \<open>URL.JoinPath\<close> makes of a server's
  address and the elements of a route, and \<open>cleanPath\<close> of \<open>http.ServeMux\<close>. A path is the one
  sent: a percent sign that hides a slash or a dot stays in it.
\<close>

fun clean_elements :: "string list \<Rightarrow> string list \<Rightarrow> string list" where
  "clean_elements [] kept = rev kept"
| "clean_elements (e # es) kept =
     (if e = [] \<or> e = ''.'' then clean_elements es kept
      else if e = ''..'' then clean_elements es (tl kept)
      else clean_elements es (e # kept))"

definition path_Clean :: "string \<Rightarrow> string" where
  "path_Clean p =
     (case clean_elements (Split (CHR ''/'') p) [] of
        [] \<Rightarrow> ''/''
      | es \<Rightarrow> concat (map (\<lambda>e. CHR ''/'' # e) es))"

definition JoinPath :: "string \<Rightarrow> string \<Rightarrow> string" where
  "JoinPath base elements = path_Clean (''/'' @ base @ ''/'' @ elements)"

definition cleanPath :: "string \<Rightarrow> string" where
  "cleanPath p =
     (if p = [] then ''/''
      else let np = path_Clean (if hd p = CHR ''/'' then p else CHR ''/'' # p)
           in if last p = CHR ''/'' \<and> np \<noteq> ''/'' then np @ ''/'' else np)"

text \<open>The routes of the API are clean, and are reached at a server whose address has no path of its own.\<close>

lemma clean_routes [simp]:
  "cleanPath ''/ca'' = ''/ca''"
  "cleanPath ''/nodes/join'' = ''/nodes/join''"
  "cleanPath ''/nodes/self/watch'' = ''/nodes/self/watch''"
  "cleanPath ''/nodes/self/session'' = ''/nodes/self/session''"
  "cleanPath ''/nodes/self/status'' = ''/nodes/self/status''"
  "cleanPath ''/health'' = ''/health''"
  "cleanPath ''/tokens'' = ''/tokens''"
  "cleanPath ''/containers'' = ''/containers''"
  by code_simp+

lemma join_routes:
  assumes "base = [] \<or> base = ''/''"
  shows
    "JoinPath base ''ca'' = ''/ca''"
    "JoinPath base ''nodes/join'' = ''/nodes/join''"
    "JoinPath base ''nodes/self/watch'' = ''/nodes/self/watch''"
    "JoinPath base ''nodes/self/session'' = ''/nodes/self/session''"
    "JoinPath base ''nodes/self/status'' = ''/nodes/self/status''"
    "JoinPath base ''health'' = ''/health''"
    "JoinPath base ''tokens'' = ''/tokens''"
    "JoinPath base ''containers'' = ''/containers''"
proof -
  have "list_all (\<lambda>p. JoinPath [] p = CHR ''/'' # p \<and> JoinPath ''/'' p = CHR ''/'' # p)
    [''ca'', ''nodes/join'', ''nodes/self/watch'', ''nodes/self/session'', ''nodes/self/status'', ''health'', ''tokens'', ''containers'']"
    by code_simp
  then show
    "JoinPath base ''ca'' = ''/ca''"
    "JoinPath base ''nodes/join'' = ''/nodes/join''"
    "JoinPath base ''nodes/self/watch'' = ''/nodes/self/watch''"
    "JoinPath base ''nodes/self/session'' = ''/nodes/self/session''"
    "JoinPath base ''nodes/self/status'' = ''/nodes/self/status''"
    "JoinPath base ''health'' = ''/health''"
    "JoinPath base ''tokens'' = ''/tokens''"
    "JoinPath base ''containers'' = ''/containers''"
    using assms by auto
qed

text \<open>What a path loses.\<close>

lemma cleanPath_examples:
  "cleanPath ''//health'' = ''/health''" "cleanPath ''/nodes/../health'' = ''/health''"
  "cleanPath ''/health/'' = ''/health/''" "JoinPath ''/hambo/'' ''nodes/join'' = ''/hambo/nodes/join''"
  by code_simp+

end
