(* ===== verification/Server.thy ===== *)
theory Server
  imports Api_Tokens Api_Join Api_Status Api_Containers Api_Watch Assign Paths
begin

text \<open>
  The server put together: opening the collections (\<open>run\<close> of \<open>cmd/hambo-server/serve.go\<close> and
  \<open>newServer\<close> of \<open>internal/api/server.go\<close>), the remaining handlers (\<open>ca.go\<close>, \<open>handlers.go\<close>)
  and the routing table (\<open>routes.go\<close>). \<open>serve\<close> answers one request; a pattern with \<open>GET\<close> also
  takes \<open>HEAD\<close>, and a path whose methods do not match falls to the pattern \<open>/\<close>, as in
  \<open>http.ServeMux\<close>, which sends a path that is not clean elsewhere by itself. \<open>rng\<close> holds what the handler draws:
  sixteen random bytes for an identifier, the bytes of a token secret, and the time.
\<close>

section \<open>Opening the collections\<close>

definition newServer :: "'db bolt \<Rightarrow> 'db \<Rightarrow> Metadata collection result \<times> 'db" where
  "newServer B db =
     (case NewCollection B ''tokens'' marshal_Metadata unmarshal_Metadata db of
        (r, db') \<Rightarrow> (map_error (Wrap ''open token collection'') r, db'))"

text \<open>
  The part of \<open>run\<close> from the opened database to the server: three collections, the queue and
  the watcher.
\<close>

definition open_state :: "'db bolt \<Rightarrow> 'db \<Rightarrow> ('db state) result \<times> 'db" where
  "open_state B db =
     (case NewCollection B ''nodes'' marshal_Node unmarshal_Node db of
        (Inl e, db1) \<Rightarrow> (Inl (Wrap ''open nodes collection'' e), db1)
      | (Inr _, db1) \<Rightarrow>
          (case NewCollection B ''containers'' marshal_Container unmarshal_Container db1 of
             (Inl e, db2) \<Rightarrow> (Inl (Wrap ''open containers collection'' e), db2)
           | (Inr _, db2) \<Rightarrow>
               (case newServer B db2 of
                  (Inl e, db3) \<Rightarrow> (Inl (Wrap ''create API server'' e), db3)
                | (Inr _, db3) \<Rightarrow>
                    (Inr \<lparr>st_db = db3, st_queue = NewMemoryQueue, st_watcher = NewNodeWatcher\<rparr>, db3))))"

section \<open>The remaining handlers\<close>

definition getCAHandler :: "'db env \<Rightarrow> 'db handler" where
  "getCAHandler E r s =
     (\<lparr>rs_Status = StatusOK,
       rs_Header = [(''Content-Type'', ''application/pem-certificate-chain'')],
       rs_Body = PemBody (e_pem_certificate E (ct_Raw (ca_Certificate (e_ca E))))\<rparr>, s)"

definition healthHandler :: "'db handler" where
  "healthHandler r s = (writeJSON [] StatusOK (Inr (JObj [(''status'', JStr ''ok'')])), s)"

definition NotFoundHandler :: "'db handler" where
  "NotFoundHandler r s =
     (\<lparr>rs_Status = StatusNotFound,
       rs_Header = [(''Content-Type'', ''text/plain; charset=utf-8''),
                    (''X-Content-Type-Options'', ''nosniff'')],
       rs_Body = TextBody (''404 page not found'' @ [CHR 0x0A])\<rparr>, s)"

section \<open>The routes\<close>

record rng =
  g_id :: string
  g_secret :: "string result"
  g_now :: instant

text \<open>
  What \<open>net/http\<close> answers before any handler, to every client: to \<open>OPTIONS *\<close> and other requests
  for \<open>*\<close>; to a \<open>CONNECT\<close> without a path, which matches no pattern (other paths of \<open>CONNECT\<close> are
  not cleaned); and, for a path that is not clean, a redirect to the clean one (since Go 1.26
  with status 307; the query, which the model leaves out, is kept).
\<close>

definition StatusTemporaryRedirect :: nat where "StatusTemporaryRedirect = 307"

definition redirect_answer :: "request \<Rightarrow> response" where
  "redirect_answer r =
     \<lparr>rs_Status = StatusTemporaryRedirect,
      rs_Header = (''Location'', cleanPath (rq_Path r))
        # (if rq_Method r = ''GET'' \<or> rq_Method r = ''HEAD''
           then [(''Content-Type'', ''text/html; charset=utf-8'')] else []),
      rs_Body = (if rq_Method r = ''GET''
        then TextBody (''<a href='' @ [CHR 0x22] @ cleanPath (rq_Path r) @ [CHR 0x22]
               @ ''>Temporary Redirect</a>.'' @ [CHR 0x0A, CHR 0x0A])
        else NoBody)\<rparr>"

definition standard_answer :: "request \<Rightarrow> response option" where
  "standard_answer r =
     (if rq_Path r = ''*''
      then Some \<lparr>rs_Status = (if rq_Method r = ''OPTIONS'' then StatusOK else StatusBadRequest),
                 rs_Header = (if rq_Method r = ''OPTIONS'' then [] else [(''Connection'', ''close'')]),
                 rs_Body = NoBody\<rparr>
      else if rq_Method r = ''CONNECT''
      then (if rq_Path r = []
            then Some \<lparr>rs_Status = StatusNotFound,
                       rs_Header = [(''Content-Type'', ''text/plain; charset=utf-8''),
                                    (''X-Content-Type-Options'', ''nosniff'')],
                       rs_Body = TextBody (''404 page not found'' @ [CHR 0x0A])\<rparr>
            else None)
      else if cleanPath (rq_Path r) \<noteq> rq_Path r then Some (redirect_answer r)
      else None)"

lemma standard_answer_None:
  "cleanPath (rq_Path r) = rq_Path r \<Longrightarrow> rq_Path r \<noteq> ''*'' \<Longrightarrow> rq_Method r \<noteq> ''CONNECT'' \<Longrightarrow>
     standard_answer r = None"
  by (simp add: standard_answer_def)

datatype route =
    NetHttp | GetCA | JoinNode | WatchNode | CreateNodeSession | ReportNodeStatus | Health
  | CreateToken | CreateContainer | Fallback

definition match_pattern :: "string \<Rightarrow> string \<Rightarrow> request \<Rightarrow> bool" where
  "match_pattern verb path r \<longleftrightarrow>
     rq_Path r = path \<and> (rq_Method r = verb \<or> verb = ''GET'' \<and> rq_Method r = ''HEAD'')"

definition route_of :: "request \<Rightarrow> route" where
  "route_of r =
     (if standard_answer r \<noteq> None then NetHttp
      else if match_pattern ''GET'' ''/ca'' r then GetCA
      else if match_pattern ''POST'' ''/nodes/join'' r then JoinNode
      else if match_pattern ''GET'' ''/nodes/self/watch'' r then WatchNode
      else if match_pattern ''POST'' ''/nodes/self/session'' r then CreateNodeSession
      else if match_pattern ''POST'' ''/nodes/self/status'' r then ReportNodeStatus
      else if match_pattern ''GET'' ''/health'' r then Health
      else if match_pattern ''POST'' ''/tokens'' r then CreateToken
      else if match_pattern ''POST'' ''/containers'' r then CreateContainer
      else Fallback)"

definition addRoutes :: "'db env \<Rightarrow> rng \<Rightarrow> route \<Rightarrow> 'db handler" where
  "addRoutes E g rt =
     (case rt of
        NetHttp \<Rightarrow> (\<lambda>r s. (the (standard_answer r), s))
      | GetCA \<Rightarrow> getCAHandler E
      | JoinNode \<Rightarrow> joinNodeHandler E (g_id g) (g_now g)
      | WatchNode \<Rightarrow> nodeOnly E watchNodeHandler
      | CreateNodeSession \<Rightarrow> nodeOnly E (createNodeSessionHandler E (g_id g))
      | ReportNodeStatus \<Rightarrow> nodeOnly E (reportNodeStatusHandler E (g_now g))
      | Health \<Rightarrow> requireCertificate healthHandler
      | CreateToken \<Rightarrow> adminOnly (createTokenHandler E (g_secret g) (g_now g))
      | CreateContainer \<Rightarrow> adminOnly (createContainerHandler E (g_id g) (g_now g))
      | Fallback \<Rightarrow> requireCertificate NotFoundHandler)"

definition serve :: "'db env \<Rightarrow> rng \<Rightarrow> 'db handler" where
  "serve E g r s = addRoutes E g (route_of r) r s"

text \<open>The route of a request for a path of the API.\<close>

lemma route_of_clean:
  "cleanPath (rq_Path r) = rq_Path r \<Longrightarrow> rq_Path r \<noteq> ''*'' \<Longrightarrow> rq_Method r \<noteq> ''CONNECT'' \<Longrightarrow>
     route_of r =
       (if match_pattern ''GET'' ''/ca'' r then GetCA
        else if match_pattern ''POST'' ''/nodes/join'' r then JoinNode
        else if match_pattern ''GET'' ''/nodes/self/watch'' r then WatchNode
        else if match_pattern ''POST'' ''/nodes/self/session'' r then CreateNodeSession
        else if match_pattern ''POST'' ''/nodes/self/status'' r then ReportNodeStatus
        else if match_pattern ''GET'' ''/health'' r then Health
        else if match_pattern ''POST'' ''/tokens'' r then CreateToken
        else if match_pattern ''POST'' ''/containers'' r then CreateContainer
        else Fallback)"
  by (simp add: route_of_def standard_answer_None)

section \<open>A request in two steps\<close>

text \<open>
  A request that creates a container stops between its transaction and the queue; every other
  one is a single access to the shared state. The answer (\<open>Inl\<close>) or the committed container.
\<close>

definition admin_request :: "request \<Rightarrow> bool" where
  "admin_request r \<longleftrightarrow>
     authenticated r \<and> ''hambo:admins'' \<in> set (ct_Organization (leaf_certificate r))"

definition serve_commit ::
  "'db env \<Rightarrow> rng \<Rightarrow> request \<Rightarrow> 'db state \<Rightarrow> (response + Container) \<times> 'db state" where
  "serve_commit E g r s =
     (if route_of r = CreateContainer \<and> admin_request r
      then createContainer_commit E (g_id g) (g_now g) r s
      else (case serve E g r s of (resp, s') \<Rightarrow> (Inl resp, s')))"

text \<open>With nothing in between the two steps are the request.\<close>

lemma serve_two_steps:
  "serve E g r s =
     (case serve_commit E g r s of
        (Inl resp, s') \<Rightarrow> (resp, s')
      | (Inr created, s') \<Rightarrow> createContainer_finish created s')"
  by (simp add: serve_commit_def serve_def addRoutes_def adminOnly_def requireGroup_cases
      admin_request_def createContainerHandler_def split: prod.splits sum.splits)

section \<open>What a request may change\<close>

text \<open>A request starts without a node in its context: only \<open>nodeOnly\<close> sets it.\<close>

lemma nodeOnly_preserves:
  assumes "\<And>r' resp' s''. next r' s = (resp', s'') \<Longrightarrow> P s''" and "P s"
    and "nodeOnly E next r s = (resp, s')"
  shows "P s'"
  using assms by (cases rule: nodeOnly_cases [of E "next" r s]) auto

lemma requireGroup_preserves:
  assumes "\<And>r' resp' s''. next r' s = (resp', s'') \<Longrightarrow> P s''" and "P s"
    and "requireGroup grp next r s = (resp, s')"
  shows "P s'"
  using assms by (auto simp: requireGroup_cases split: if_splits)

lemma requireCertificate_preserves:
  assumes "\<And>r' resp' s''. next r' s = (resp', s'') \<Longrightarrow> P s''" and "P s"
    and "requireCertificate next r s = (resp, s')"
  shows "P s'"
  using assms by (auto simp: requireCertificate_cases split: if_splits)

definition state_inv :: "'db bolt \<Rightarrow> 'db state \<Rightarrow> bool" where
  "state_inv B s \<longleftrightarrow> db_inv B (st_db s) \<and> queue_inv (st_queue s) \<and> watcher_inv (st_watcher s)"

text \<open>What no request does: drop a container, a node, or an assignment, or undo a state.\<close>

definition grows :: "'db bolt \<Rightarrow> 'db \<Rightarrow> 'db \<Rightarrow> bool" where
  "grows B db db' \<longleftrightarrow>
     dom (node_tbl B db) \<subseteq> dom (node_tbl B db')
     \<and> (\<forall>k c. container_tbl B db k = Some c \<longrightarrow>
          (\<exists>c'. container_tbl B db' k = Some c' \<and> moves_forward c c'))
     \<and> (\<forall>k c'. container_tbl B db' k = Some c' \<longrightarrow> container_tbl B db k = None \<longrightarrow> c_NodeID c' = [])"

lemma containers_inv_states:
  "containers_inv N C \<Longrightarrow> C k = Some c \<Longrightarrow> \<exists>a. lifecycle_of (c_State c) = Some a"
  unfolding containers_inv_def by blast

lemma moves_forward_refl: "containers_inv N C \<Longrightarrow> C k = Some c \<Longrightarrow> moves_forward c c"
  using containers_inv_states by (fastforce simp: moves_forward_def)

text \<open>
  One request, or the first step of it, seen from the shared state: a new container is in the
  queue or one of the committed ones \<open>K\<close>.
\<close>

definition commit_ok :: "'db bolt \<Rightarrow> string set \<Rightarrow> 'db state \<Rightarrow> 'db state \<Rightarrow> bool" where
  "commit_ok B K s s' \<longleftrightarrow>
     state_inv B s' \<and> grows B (st_db s) (st_db s') \<and> st_watcher s' = st_watcher s
     \<and> processing (st_queue s') = processing (st_queue s)
     \<and> shuttingDown (st_queue s') = shuttingDown (st_queue s)
     \<and> dirty (st_queue s) \<subseteq> dirty (st_queue s')
     \<and> (\<forall>k. container_tbl B (st_db s) k = None \<longrightarrow> container_tbl B (st_db s') k \<noteq> None \<longrightarrow>
          shuttingDown (st_queue s) \<or> k \<in> dirty (st_queue s') \<union> K)"

abbreviation request_ok :: "'db bolt \<Rightarrow> 'db state \<Rightarrow> 'db state \<Rightarrow> bool" where
  "request_ok B \<equiv> commit_ok B {}"

lemmas request_ok_def = commit_ok_def

lemma commit_ok_weaken: "commit_ok B {} s s' \<Longrightarrow> commit_ok B K s s'"
  by (auto simp: commit_ok_def)

lemma grows_same_containers:
  assumes "db_inv B db" and "container_tbl B db' = container_tbl B db"
    and "dom (node_tbl B db) \<subseteq> dom (node_tbl B db')"
  shows "grows B db db'"
  using assms moves_forward_refl [of "node_tbl B db" "container_tbl B db"]
  by (auto simp: grows_def db_inv_def)

lemma request_ok_refl: "state_inv B s \<Longrightarrow> request_ok B s s"
  by (simp add: request_ok_def state_inv_def grows_same_containers)

context hambo_db
begin

lemma createToken_ok:
  assumes "state_inv B s" "e_B E = B" "createTokenHandler E sec now r s = (resp, s')"
  shows "request_ok B s s'"
proof -
  have inv: "db_inv B (st_db s)" using assms(1) by (simp add: state_inv_def)
  note c = createToken_inv [OF inv assms(2,3)]
  show ?thesis
    using assms(1) c(1-3,5) grows_same_containers [OF inv c(5)] c(4)
    by (simp add: request_ok_def state_inv_def)
qed

lemma createNodeSession_ok:
  assumes "state_inv B s" "e_B E = B" "createNodeSessionHandler E rnd r s = (resp, s')"
  shows "request_ok B s s'"
proof -
  have inv: "db_inv B (st_db s)" using assms(1) by (simp add: state_inv_def)
  note c = createNodeSession_inv [OF inv assms(2,3)]
  have "dom (node_tbl B (st_db s)) \<subseteq> dom (node_tbl B (st_db s'))"
  proof (cases rule: createNodeSession_cases [of E rnd r s])
    case (created nodeID db')
    then show ?thesis
      using session_started(1) [OF inv created(2) [unfolded assms(2)]] assms(3) by auto
  qed (use assms(3) in auto)
  then show ?thesis
    using assms(1) c(1-4) grows_same_containers [OF inv c(4)]
    by (simp add: request_ok_def state_inv_def)
qed

lemma joinNode_ok:
  assumes "state_inv B s" "e_B E = B" "joinNodeHandler E rnd now r s = (resp, s')"
  shows "request_ok B s s'"
proof -
  have inv: "db_inv B (st_db s)" using assms(1) by (simp add: state_inv_def)
  note c = joinNode_inv [OF inv assms(2,3)]
  have "dom (node_tbl B (st_db s)) \<subseteq> dom (node_tbl B (st_db s'))"
  proof (cases rule: joinNode_cases [of E rnd now r s])
    case (runs secret q v err db')
    show ?thesis
    proof (cases err)
      case None
      have "nodes_inv (node_tbl B (st_db s))" "tokens_inv (node_tbl B (st_db s)) (token_tbl B (st_db s))"
        using inv by (simp_all add: db_inv_def)
      then show ?thesis
        using join_write_committed(1) [OF inv assms(2) runs(2) [unfolded None assms(2)]]
          enrolled_inv(3) runs(3) assms(3) by fastforce
    next
      case (Some e)
      show ?thesis
        using failed_unchanged(4) [OF runs(2) [unfolded Some]] runs(3) assms(3) by auto
    qed
  qed (use assms(3) in auto)
  then show ?thesis
    using assms(1) c(1-4) grows_same_containers [OF inv c(4)]
    by (simp add: request_ok_def state_inv_def)
qed

lemma createContainer_ok:
  assumes "state_inv B s" "e_B E = B" "createContainerHandler E rnd now r s = (resp, s')"
  shows "request_ok B s s'"
proof -
  have inv: "db_inv B (st_db s)" using assms(1) by (simp add: state_inv_def)
  have cinv: "containers_inv (node_tbl B (st_db s)) (container_tbl B (st_db s))"
    using inv by (simp add: db_inv_def)
  note c = createContainer_inv [OF inv assms(2,3)]
  have "grows B (st_db s) (st_db s')
      \<and> processing (st_queue s') = processing (st_queue s)
      \<and> shuttingDown (st_queue s') = shuttingDown (st_queue s)
      \<and> dirty (st_queue s) \<subseteq> dirty (st_queue s')
      \<and> (\<forall>k. container_tbl B (st_db s) k = None \<longrightarrow> container_tbl B (st_db s') k \<noteq> None \<longrightarrow>
          shuttingDown (st_queue s) \<or> k \<in> dirty (st_queue s'))"
  proof (cases rule: createContainer_cases [of E rnd now r s])
    case (created name img d db')
    have d: "c_State d = StatePending" "c_ExitCode d = None" "c_NodeID d = []"
      using created(2) by (simp_all add: new_container_def zero_Container_def)
    note w = container_write_committed [OF inv d created(3) [unfolded assms(2)]]
    have s': "st_db s' = db'" "st_queue s' = fst (Add (c_ID d) (st_queue s))"
      using created(4) assms(3) by auto
    have "grows B (st_db s) (st_db s')"
      unfolding grows_def s' w(3,4)
      using w(2) d(3) moves_forward_refl [OF cinv] by auto
    then show ?thesis
      unfolding s' w(3) by (auto simp: Add_def Let_def)
  qed (use assms(3) grows_same_containers [OF inv] in auto)
  then show ?thesis
    using assms(1) c(1-3) by (simp add: request_ok_def state_inv_def)
qed

lemma reported_grows:
  assumes inv: "db_inv B db" and valid: "\<forall>p \<in> set (rn_Containers q). valid_report p"
    and rep: "reported now nodeID q (node_tbl B db) (container_tbl B db)
      (node_tbl B db') (container_tbl B db')"
  shows "grows B db db'"
proof -
  have cinv: "containers_inv (node_tbl B db) (container_tbl B db)"
    using inv by (simp add: db_inv_def)
  from rep show ?thesis
    unfolding reported_def
  proof (elim exE conjE disjE)
    assume "node_tbl B db' = node_tbl B db" "container_tbl B db' = container_tbl B db"
    then show ?thesis using grows_same_containers [OF inv] by simp
  next
    fix n
    assume ab: "absorb nodeID (rn_Containers q) (container_tbl B db) = Some (container_tbl B db')"
      and n': "node_tbl B db' = (node_tbl B db)(nodeID \<mapsto> seen now q n)"
    have st: "\<forall>k c. container_tbl B db k = Some c \<longrightarrow> lifecycle_of (c_State c) \<noteq> None"
      using containers_inv_states [OF cinv] by fastforce
    note f = absorb_forward [OF ab st valid]
    have "container_tbl B db' k = None" if "container_tbl B db k = None" for k
      using f(1) that by (metis domIff)
    then show ?thesis using f(2) n' by (auto simp: grows_def)
  qed
qed

lemma reported_dom:
  assumes inv: "db_inv B db" and valid: "\<forall>p \<in> set (rn_Containers q). valid_report p"
    and rep: "reported now nodeID q (node_tbl B db) (container_tbl B db) N' C'"
  shows "dom C' = dom (container_tbl B db)"
proof -
  have "\<forall>k c. container_tbl B db k = Some c \<longrightarrow> lifecycle_of (c_State c) \<noteq> None"
    using inv containers_inv_states unfolding db_inv_def by fastforce
  then show ?thesis
    using rep absorb_forward(1) [of nodeID "rn_Containers q" "container_tbl B db" C'] valid
    unfolding reported_def by auto
qed

lemma reportNodeStatus_ok:
  assumes "state_inv B s" "e_B E = B" "reportNodeStatusHandler E now r s = (resp, s')"
  shows "request_ok B s s'"
proof -
  have inv: "db_inv B (st_db s)" using assms(1) by (simp add: state_inv_def)
  note c = reportNodeStatus_inv [OF inv assms(2,3)]
  have "grows B (st_db s) (st_db s')
      \<and> dom (container_tbl B (st_db s')) = dom (container_tbl B (st_db s))"
  proof (cases rule: reportNodeStatus_cases [of E now r s])
    case (runs nodeID q err db')
    have valid: "\<forall>p \<in> set (rn_Containers q). valid_report p"
      using runs(1) by (simp add: status_request_def)
    have s': "st_db s' = db'" using runs(3) assms(3) by auto
    show ?thesis
    proof (cases err)
      case None
      note w = status_write_committed(1) [OF inv valid runs(2) [unfolded None assms(2)]]
      show ?thesis
        unfolding s' using reported_grows [OF inv valid w] reported_dom [OF inv valid w] by simp
    next
      case (Some e)
      show ?thesis
        using failed_unchanged(4) [OF runs(2) [unfolded Some]] s' grows_same_containers [OF inv]
        by simp
    qed
  qed (use assms(3) grows_same_containers [OF inv] in auto)
  then show ?thesis
    using assms(1) c(1-3) by (auto simp: request_ok_def state_inv_def)
qed

lemma serve_ok:
  assumes inv: "state_inv B s" and E: "e_B E = B" and run: "serve E g r s = (resp, s')"
  shows "request_ok B s s'"
proof -
  note refl = request_ok_refl [OF inv]
  note node = nodeOnly_preserves [where P = "request_ok B s" and s = s, OF _ refl]
  note admin = requireGroup_preserves [where P = "request_ok B s" and s = s, OF _ refl]
  note cert = requireCertificate_preserves [where P = "request_ok B s" and s = s, OF _ refl]
  have watch: "watchNodeHandler r' s = (resp', s'') \<Longrightarrow> s'' = s" for r' resp' s''
    by (auto simp: watchNodeHandler_def split: option.splits)
  show ?thesis
  proof (cases "route_of r")
    case NetHttp
    then show ?thesis using run refl by (auto simp: serve_def addRoutes_def)
  next
    case GetCA
    then show ?thesis using run refl by (auto simp: serve_def addRoutes_def getCAHandler_def)
  next
    case JoinNode
    then show ?thesis using run joinNode_ok [OF inv E] by (simp add: serve_def addRoutes_def)
  next
    case WatchNode
    then show ?thesis using run node [of watchNodeHandler] watch refl
      by (simp add: serve_def addRoutes_def) blast
  next
    case CreateNodeSession
    then show ?thesis using run node createNodeSession_ok [OF inv E]
      by (simp add: serve_def addRoutes_def) blast
  next
    case ReportNodeStatus
    then show ?thesis using run node reportNodeStatus_ok [OF inv E]
      by (simp add: serve_def addRoutes_def) blast
  next
    case Health
    then show ?thesis using run refl
      by (auto simp: serve_def addRoutes_def healthHandler_def requireCertificate_cases split: if_splits)
  next
    case CreateToken
    then show ?thesis using run admin createToken_ok [OF inv E]
      by (simp add: serve_def addRoutes_def adminOnly_def) blast
  next
    case CreateContainer
    then show ?thesis using run admin createContainer_ok [OF inv E]
      by (simp add: serve_def addRoutes_def adminOnly_def) blast
  next
    case Fallback
    then show ?thesis using run refl
      by (auto simp: serve_def addRoutes_def NotFoundHandler_def requireCertificate_cases split: if_splits)
  qed
qed

text \<open>The first step of a request; the container it committed waits to be put into the queue.\<close>

lemma createContainer_commit_ok:
  assumes inv: "state_inv B s" and E: "e_B E = B"
    and run: "createContainer_commit E rnd now r s = (Inr c, s')"
  shows "commit_ok B {c_ID c} s s'"
proof (cases rule: createContainer_commit_cases [of E rnd now r s])
  case (created name img c' db')
  have db: "db_inv B (st_db s)" and cinv: "containers_inv (node_tbl B (st_db s)) (container_tbl B (st_db s))"
    using inv by (simp_all add: state_inv_def db_inv_def)
  have c: "c_State c = StatePending" "c_ExitCode c = None" "c_NodeID c = []" "c' = c" "s' = s\<lparr>st_db := db'\<rparr>"
    using created(2,4) run by (simp_all add: new_container_def zero_Container_def)
  note w = container_write_committed [OF db c(1-3) created(3) [unfolded E c(4)]]
  have "grows B (st_db s) db'"
    unfolding grows_def w(3,4)
    using w(2) c(3) moves_forward_refl [OF cinv] by auto
  then show ?thesis using inv w(3,6) by (auto simp: c commit_ok_def state_inv_def)
qed (use run in auto)

lemma serve_commit_ok:
  assumes "state_inv B s" and "e_B E = B" and "serve_commit E g r s = (out, s')"
  shows "commit_ok B (case out of Inl resp \<Rightarrow> {} | Inr c \<Rightarrow> {c_ID c}) s s'"
proof (cases out)
  case (Inr c)
  then have "createContainer_commit E (g_id g) (g_now g) r s = (Inr c, s')"
    using assms(3) by (auto simp: serve_commit_def split: if_splits prod.splits)
  then show ?thesis using createContainer_commit_ok [OF assms(1,2)] Inr by simp
next
  case (Inl resp)
  then have "serve E g r s = (resp, s')"
    using assms(3) unfolding serve_two_steps [of E g r s] by (simp split: sum.splits)
  then show ?thesis using serve_ok [OF assms(1,2)] Inl by simp
qed

text \<open>Opening the database: the buckets exist afterwards, and no document changes.\<close>

lemma NewCollection_ok:
  assumes "NewCollection B name enc dec db = (Inr col, db')"
  shows "view B db' = (view B db)(name := Some (case view B db name of None \<Rightarrow> Map.empty | Some m \<Rightarrow> m))"
  using assms
  by (auto simp: NewCollection_def split: prod.splits option.splits
      dest!: update_committed create_bucket_view)

lemma open_state_view:
  assumes "open_state B db = (Inr s, db')"
  shows "\<forall>n \<in> {''nodes'', ''containers'', ''tokens''}. view B (st_db s) n
      = Some (case view B db n of None \<Rightarrow> Map.empty | Some m \<Rightarrow> m)"
    and "st_queue s = NewMemoryQueue" and "st_watcher s = NewNodeWatcher"
proof -
  from assms obtain c1 db1 c2 db2 c3 db3 where
    "NewCollection B ''nodes'' marshal_Node unmarshal_Node db = (Inr c1, db1)"
    "NewCollection B ''containers'' marshal_Container unmarshal_Container db1 = (Inr c2, db2)"
    "NewCollection B ''tokens'' marshal_Metadata unmarshal_Metadata db2 = (Inr c3, db3)"
    and s: "s = \<lparr>st_db = db3, st_queue = NewMemoryQueue, st_watcher = NewNodeWatcher\<rparr>"
    by (auto simp: open_state_def newServer_def map_error_def split: prod.splits sum.splits)
  note v = this(1-3) [THEN NewCollection_ok]
  show "\<forall>n \<in> {''nodes'', ''containers'', ''tokens''}. view B (st_db s) n
      = Some (case view B db n of None \<Rightarrow> Map.empty | Some m \<Rightarrow> m)"
    by (simp add: s v)
  show "st_queue s = NewMemoryQueue" "st_watcher s = NewNodeWatcher" by (simp_all add: s)
qed

lemma open_state_tbl:
  assumes "open_state B db = (Inr s, db')"
    and "col_bucket c \<in> {''nodes'', ''containers'', ''tokens''}"
  shows "tbl B c (st_db s) = tbl B c db"
    and "view B db (col_bucket c) = None \<or> tbl_ok B c db \<Longrightarrow> tbl_ok B c (st_db s)"
proof -
  have v: "view B (st_db s) (col_bucket c)
      = Some (case view B db (col_bucket c) of None \<Rightarrow> Map.empty | Some m \<Rightarrow> m)"
    using open_state_view(1) [OF assms(1)] assms(2) by blast
  show "tbl B c (st_db s) = tbl B c db"
    by (rule ext) (simp add: tbl_def v split: option.split)
  show "tbl_ok B c (st_db s)" if "view B db (col_bucket c) = None \<or> tbl_ok B c db"
    using that v by (auto simp: tbl_ok_def)
qed

lemma open_state_inv:
  assumes run: "open_state B db = (Inr s, db')" and db: "db_inv B db \<or> view B db = Map.empty"
  shows "state_inv B s" and "st_queue s = NewMemoryQueue" and "st_watcher s = NewNodeWatcher"
proof -
  have t: "node_tbl B (st_db s) = node_tbl B db" "container_tbl B (st_db s) = container_tbl B db"
    "token_tbl B (st_db s) = token_tbl B db"
    by (rule open_state_tbl(1) [OF run]; simp)+
  have "db_ok B (st_db s)"
    unfolding db_ok_def
    by (intro conjI; rule open_state_tbl(2) [OF run])
      (use db in \<open>auto simp: db_ok_def db_inv_def\<close>)
  moreover have "nodes_inv (node_tbl B db) \<and> containers_inv (node_tbl B db) (container_tbl B db)
      \<and> tokens_inv (node_tbl B db) (token_tbl B db)"
    using db
  proof
    assume "view B db = Map.empty"
    then have "node_tbl B db = Map.empty" "container_tbl B db = Map.empty" "token_tbl B db = Map.empty"
      by (simp_all add: tbl_def fun_eq_iff)
    then show ?thesis by (simp add: nodes_inv_def containers_inv_def tokens_inv_def)
  qed (simp add: db_inv_def)
  ultimately have "db_inv B (st_db s)" by (simp add: db_inv_def t)
  then show "state_inv B s" and "st_queue s = NewMemoryQueue" and "st_watcher s = NewNodeWatcher"
    using open_state_view(2,3) [OF run]
    by (simp_all add: state_inv_def queue_inv_New watcher_inv_New)
qed

end

end
