(* ===== verification/System.thy ===== *)
theory System
  imports Server
begin

text \<open>
  The running server: requests, the scheduler's goroutine with the goroutines its retries
  start, and one watch stream, over the shared state. A request is one step, but for the one
  that creates a container: its transaction and the call of \<open>Add\<close> that follows are two, and any
  number of such handlers may stand between them. The transaction of an assignment and the
  notification that follows it are two steps as well. The scheduler's goroutine is at one of the points of \<open>sched_phase\<close>. The
  server may be stopped and started again on the same database at any time (\<open>restart\<close>):
  the queue, the watcher, the timers, the handlers and the streams are lost.
\<close>

section \<open>The steps\<close>

datatype sched_phase =
    Starting
  | Ready
  | Assigning string
  | Committed string "(bool \<times> string) \<times> error option"
  | Finishing string "error option"
  | Stopped

record 'db system =
  sy_state :: "'db state"
  sy_sched :: sched_phase
  sy_timers :: "(string \<times> duration) list"
  sy_adding :: "Container list"
  sy_watch :: watch_run

definition boot :: "'db state \<Rightarrow> string \<Rightarrow> 'db system" where
  "boot s nodeID =
     \<lparr>sy_state = s, sy_sched = Starting, sy_timers = [], sy_adding = [], sy_watch = start_run nodeID\<rparr>"

abbreviation sy_db :: "'db system \<Rightarrow> 'db" where "sy_db y \<equiv> st_db (sy_state y)"
abbreviation sy_queue :: "'db system \<Rightarrow> MemoryQueue" where "sy_queue y \<equiv> st_queue (sy_state y)"
abbreviation sy_watcher :: "'db system \<Rightarrow> NodeWatcher" where
  "sy_watcher y \<equiv> st_watcher (sy_state y)"

definition set_queue :: "MemoryQueue \<Rightarrow> 'db system \<Rightarrow> 'db system" where
  "set_queue q y = y\<lparr>sy_state := (sy_state y)\<lparr>st_queue := q\<rparr>\<rparr>"

definition set_watcher :: "NodeWatcher \<Rightarrow> 'db system \<Rightarrow> 'db system" where
  "set_watcher w y = y\<lparr>sy_state := (sy_state y)\<lparr>st_watcher := w\<rparr>\<rparr>"

definition set_db :: "'db \<Rightarrow> 'db system \<Rightarrow> 'db system" where
  "set_db db y = y\<lparr>sy_state := (sy_state y)\<lparr>st_db := db\<rparr>\<rparr>"

inductive sys_step :: "'db env \<Rightarrow> 'db system \<Rightarrow> 'db system \<Rightarrow> bool" for E :: "'db env" where
  request: "serve_commit E g r (sy_state y) = (Inl resp, s') \<Longrightarrow> sys_step E y (y\<lparr>sy_state := s'\<rparr>)"
| create_commits: "serve_commit E g r (sy_state y) = (Inr c, s') \<Longrightarrow>
    sys_step E y (y\<lparr>sy_state := s', sy_adding := c # sy_adding y\<rparr>)"
| create_adds: "sy_adding y = cs @ c # ds \<Longrightarrow> createContainer_finish c (sy_state y) = (resp, s') \<Longrightarrow>
    sys_step E y (y\<lparr>sy_state := s', sy_adding := cs @ ds\<rparr>)"
| sched_start: "sy_sched y = Starting \<Longrightarrow> run_start (e_B E) (sy_state y) = (None, s') \<Longrightarrow>
    sys_step E y (y\<lparr>sy_state := s', sy_sched := Ready\<rparr>)"
| sched_fails: "sy_sched y = Starting \<Longrightarrow> run_start (e_B E) (sy_state y) = (Some e, s') \<Longrightarrow>
    sys_step E y (y\<lparr>sy_state := s', sy_sched := Stopped\<rparr>)"
| sched_get: "sy_sched y = Ready \<Longrightarrow> Queue.Get (sy_queue y) = (Some (k, False), q) \<Longrightarrow>
    sys_step E y ((set_queue q y)\<lparr>sy_sched := Assigning k\<rparr>)"
| sched_stop: "sy_sched y = Ready \<Longrightarrow> Queue.Get (sy_queue y) = (Some (k, True), q) \<Longrightarrow>
    sys_step E y ((set_queue q y)\<lparr>sy_sched := Stopped\<rparr>)"
| sched_commit: "sy_sched y = Assigning k \<Longrightarrow>
    assign_write (e_B E) now k (sy_db y) = (captured, err, db') \<Longrightarrow>
    sys_step E y ((set_db db' y)\<lparr>sy_sched := Committed k (captured, err)\<rparr>)"
| sched_notify: "sy_sched y = Committed k outcome \<Longrightarrow>
    assign_finish outcome (sy_watcher y) = Some (err, w) \<Longrightarrow>
    sys_step E y ((set_watcher w y)\<lparr>sy_sched := Finishing k err\<rparr>)"
| sched_done: "sy_sched y = Finishing k err \<Longrightarrow>
    timer = (if err = None then None else AddAfter k retryDelay (sy_queue y)) \<Longrightarrow>
    sys_step E y ((set_queue (fst (Done k (sy_queue y))) y)
      \<lparr>sy_sched := Ready,
       sy_timers := (case timer of None \<Rightarrow> sy_timers y | Some t \<Rightarrow> t # sy_timers y)\<rparr>)"
| timer_fires: "sy_timers y = ts @ (k, d) # us \<Longrightarrow>
    sys_step E y ((set_queue (fst (Add k (sy_queue y))) y)\<lparr>sy_timers := ts @ us\<rparr>)"
| timer_stops: "sy_timers y = ts @ t # us \<Longrightarrow> shutdownCh_closed (sy_queue y) \<Longrightarrow>
    sys_step E y (y\<lparr>sy_timers := ts @ us\<rparr>)"
| shutdown: "Shutdown (sy_queue y) = Some (q, wk) \<Longrightarrow> sys_step E y (set_queue q y)"
| watch_steps: "watch_step (e_B E) (sy_db y) (sy_watcher y) (sy_watch y) w h \<Longrightarrow>
    sys_step E y ((set_watcher w y)\<lparr>sy_watch := h\<rparr>)"
| other_watch: "Watch n (sy_watcher y) = (r, w) \<Longrightarrow> sys_step E y (set_watcher w y)"
| new_watch: "sys_step E y (y\<lparr>sy_watch := start_run n\<rparr>)"
| restart: "open_state (e_B E) (sy_db y) = (Inr s, db') \<Longrightarrow> sys_step E y (boot s n)"

text \<open>Reachable from the first start on a database without buckets.\<close>

inductive sys_reach :: "'db env \<Rightarrow> 'db system \<Rightarrow> bool" for E :: "'db env" where
  start: "view (e_B E) db = Map.empty \<Longrightarrow> open_state (e_B E) db = (Inr s, db') \<Longrightarrow>
    sys_reach E (boot s n)"
| step: "sys_reach E y \<Longrightarrow> sys_step E y z \<Longrightarrow> sys_reach E z"

lemma system_simps [simp]:
  "sy_state (set_queue q y) = (sy_state y)\<lparr>st_queue := q\<rparr>"
  "sy_state (set_watcher w y) = (sy_state y)\<lparr>st_watcher := w\<rparr>"
  "sy_state (set_db db y) = (sy_state y)\<lparr>st_db := db\<rparr>"
  "sy_sched (set_queue q y) = sy_sched y" "sy_sched (set_watcher w y) = sy_sched y"
  "sy_sched (set_db db y) = sy_sched y"
  "sy_timers (set_queue q y) = sy_timers y" "sy_timers (set_watcher w y) = sy_timers y"
  "sy_timers (set_db db y) = sy_timers y"
  "sy_adding (set_queue q y) = sy_adding y" "sy_adding (set_watcher w y) = sy_adding y"
  "sy_adding (set_db db y) = sy_adding y"
  "sy_watch (set_queue q y) = sy_watch y" "sy_watch (set_watcher w y) = sy_watch y"
  "sy_watch (set_db db y) = sy_watch y"
  by (simp_all add: set_queue_def set_watcher_def set_db_def)

lemma boot_simps [simp]:
  "sy_state (boot s n) = s" "sy_sched (boot s n) = Starting" "sy_timers (boot s n) = []"
  "sy_adding (boot s n) = []"
  "sy_watch (boot s n) = start_run n"
  by (simp_all add: boot_def)

section \<open>The invariants\<close>

text \<open>The name the scheduler is working on.\<close>

fun working_on :: "sched_phase \<Rightarrow> string set" where
  "working_on (Assigning k) = {k}"
| "working_on (Committed k out) = {k}"
| "working_on (Finishing k err) = {k}"
| "working_on Starting = {}"
| "working_on Ready = {}"
| "working_on Stopped = {}"

definition base_inv :: "'db env \<Rightarrow> 'db system \<Rightarrow> bool" where
  "base_inv E y \<longleftrightarrow>
     state_inv (e_B E) (sy_state y) \<and> processing (sy_queue y) = working_on (sy_sched y)"

text \<open>
  Where a container that waits for a node is remembered: in the queue, in a timer, by the
  handler that has committed it and is about to add it to the queue, or by the scheduler,
  which is about to try it or has failed to assign it.
\<close>

fun will_retry :: "sched_phase \<Rightarrow> string set" where
  "will_retry (Assigning k) = {k}"
| "will_retry (Committed k ((retry, m), err)) = (if retry \<or> err \<noteq> None then {k} else {})"
| "will_retry (Finishing k err) = (if err \<noteq> None then {k} else {})"
| "will_retry Starting = {}"
| "will_retry Ready = {}"
| "will_retry Stopped = {}"

definition remembered :: "'db system \<Rightarrow> string set" where
  "remembered y = dirty (sy_queue y) \<union> fst ` set (sy_timers y) \<union> c_ID ` set (sy_adding y)
     \<union> will_retry (sy_sched y)"

definition waiting_set :: "(string \<Rightarrow> Container option) \<Rightarrow> string set" where
  "waiting_set C = {k. \<exists>c. C k = Some c \<and> waiting c}"

definition no_lost :: "'db env \<Rightarrow> 'db system \<Rightarrow> bool" where
  "no_lost E y \<longleftrightarrow>
     (sy_sched y \<noteq> Starting \<and> sy_sched y \<noteq> Stopped \<and> \<not> shuttingDown (sy_queue y) \<longrightarrow>
      waiting_set (container_tbl (e_B E) (sy_db y)) \<subseteq> remembered y)"

text \<open>What a request leaves waiting was waiting before, or is new and remembered.\<close>

lemma request_waiting:
  assumes ok: "commit_ok B K s s'" and inv: "state_inv B s"
  shows "waiting_set (container_tbl B (st_db s')) \<subseteq>
    waiting_set (container_tbl B (st_db s)) \<union>
    (if shuttingDown (st_queue s) then UNIV else dirty (st_queue s') \<union> K)"
proof
  fix k
  let ?C = "container_tbl B (st_db s)" and ?C' = "container_tbl B (st_db s')"
  assume "k \<in> waiting_set ?C'"
  then obtain c' where c': "?C' k = Some c'" "waiting c'" by (auto simp: waiting_set_def)
  show "k \<in> waiting_set ?C \<union> (if shuttingDown (st_queue s) then UNIV else dirty (st_queue s') \<union> K)"
  proof (cases "?C k")
    case None
    then show ?thesis using ok c' by (auto simp: request_ok_def)
  next
    case (Some c)
    then obtain d where d: "?C' k = Some d" "moves_forward c d"
      using ok unfolding request_ok_def grows_def by blast
    then have "c_NodeID c = []" "c_DeletionRequestedAt c = None"
      using c' by (auto simp: waiting_def moves_forward_def)
    moreover have "c_NodeID c = [] \<longrightarrow> c_State c = StatePending"
      using inv Some unfolding state_inv_def db_inv_def containers_inv_def by blast
    ultimately have "waiting c" by (simp add: waiting_def)
    then show ?thesis using Some by (auto simp: waiting_set_def)
  qed
qed

lemma finish_simps:
  assumes "createContainer_finish c s = (resp, s')"
  shows "st_db s' = st_db s" "st_watcher s' = st_watcher s" "st_queue s' = fst (Add (c_ID c) (st_queue s))"
  using assms by (auto simp: createContainer_finish_def)

lemma assignment_waiting:
  assumes "assignment now k captured N C C'"
  shows "waiting_set C' \<subseteq> (if fst captured then waiting_set C else waiting_set C - {k})"
  using assms unfolding assignment_def
  by (elim disjE exE conjE) (auto simp: waiting_set_def waiting_def split: if_splits)

context hambo_db
begin

lemma run_start_Inr:
  assumes inv: "db_inv B (st_db s)" and run: "run_start B s = (None, s')"
  shows "\<exists>es. s' = s\<lparr>st_queue := hydrate_loop es (st_queue s)\<rparr>
    \<and> {Key e | e. e \<in> set es \<and> waiting (Value e)} = waiting_set (container_tbl B (st_db s))"
proof -
  from run obtain es where es: "list_entries B containers_collection (st_db s) = Inr es"
    and s': "s' = s\<lparr>st_queue := hydrate_loop es (st_queue s)\<rparr>"
    by (auto simp: run_start_def split: sum.splits)
  obtain tx where "b_Begin B (st_db s) = Inr tx"
    using es by (auto simp: list_entries_def db_View_def bind_result_eq_Inr)
  then have "map_of (pairs es) = container_tbl B (st_db s)" "distinct (map Key es)"
    using containers.list_entries_tbl [of "st_db s"] inv es by (auto simp: db_inv_def db_ok_def)
  then have "{Key e | e. e \<in> set es \<and> waiting (Value e)} = waiting_set (container_tbl B (st_db s))"
    using pairs_key [of es] pairs_entry [of es] unfolding waiting_set_def by fastforce
  then show ?thesis using s' by blast
qed

lemma hydrate_queue:
  assumes "queue_inv q"
  shows "queue_inv (hydrate_loop es q)" and "processing (hydrate_loop es q) = processing q"
    and "shuttingDown (hydrate_loop es q) = shuttingDown q"
    and "\<not> shuttingDown q \<Longrightarrow> {Key e | e. e \<in> set es \<and> waiting (Value e)} \<subseteq> dirty (hydrate_loop es q)"
proof -
  have all: "queue_inv (hydrate_loop es q) \<and> processing (hydrate_loop es q) = processing q
      \<and> shuttingDown (hydrate_loop es q) = shuttingDown q"
    using assms
  proof (induction es arbitrary: q)
    case (Cons e es)
    then show ?case
      using Cons.IH [of q] Cons.IH [of "fst (Add (Key e) q)"] queue_inv_Add [of q "Key e"]
        mq.add_active [of "Key e" q] mq.add_keeps_closed [of "Key e" q]
      by (simp add: Let_def)
  qed simp
  then show "queue_inv (hydrate_loop es q)" "processing (hydrate_loop es q) = processing q"
    "shuttingDown (hydrate_loop es q) = shuttingDown q" by blast+
  show "\<not> shuttingDown q \<Longrightarrow> {Key e | e. e \<in> set es \<and> waiting (Value e)} \<subseteq> dirty (hydrate_loop es q)"
    using hydrate_adds(1) assms by blast
qed

lemma watch_step_watcher:
  "watch_step B db w h w' h' \<Longrightarrow> watcher_inv w \<Longrightarrow> watcher_inv w'"
  by (induction rule: watch_step.induct) (use watcher_inv_Watch in \<open>metis snd_conv\<close>)+

lemma base_inv_step:
  assumes "sys_step E y z" and E: "e_B E = B" and "base_inv E y"
  shows "base_inv E z"
  using assms(1,3)
proof cases
  case (request g r resp s')
  then have "request_ok B (sy_state y) s'"
    using serve_commit_ok [OF _ E request(2)] assms(3) E by (simp add: base_inv_def)
  then show ?thesis using request assms(3) E by (auto simp: base_inv_def request_ok_def)
next
  case (create_commits g r c s')
  then have "commit_ok B {c_ID c} (sy_state y) s'"
    using serve_commit_ok [OF _ E create_commits(2)] assms(3) E by (simp add: base_inv_def)
  then show ?thesis using create_commits assms(3) E by (auto simp: base_inv_def commit_ok_def)
next
  case (create_adds cs c ds resp s')
  then show ?thesis
    using assms(3) finish_simps [OF create_adds(3)] mq.inv_add [of "sy_queue y" "c_ID c"]
      mq.add_active [of "c_ID c" "sy_queue y"]
    by (simp add: base_inv_def state_inv_def)
next
  case (sched_start s')
  have inv: "state_inv B (sy_state y)" using assms(3) E by (simp add: base_inv_def)
  then obtain es where "s' = (sy_state y)\<lparr>st_queue := hydrate_loop es (sy_queue y)\<rparr>"
    using run_start_Inr sched_start(3) E by (fastforce simp: state_inv_def)
  then show ?thesis
    using sched_start assms(3) hydrate_queue [of "sy_queue y" es]
    by (simp add: base_inv_def state_inv_def)
next
  case (sched_fails e s')
  then have "s' = sy_state y" by (auto simp: run_start_def split: sum.splits)
  then show ?thesis using sched_fails assms(3) by (simp add: base_inv_def)
next
  case (sched_get k q)
  then show ?thesis
    using assms(3) mq.inv_get [of "sy_queue y"] mq.get_item [of "sy_queue y" k q]
    by (simp add: base_inv_def state_inv_def)
next
  case (sched_stop k q)
  have "q = sy_queue y" using sched_stop(3) by (cases rule: Get_cases [of "sy_queue y"]) auto
  then show ?thesis using sched_stop assms(3) by (simp add: base_inv_def state_inv_def)
next
  case (sched_commit k now captured err db')
  then show ?thesis
    using assms(3) assign_write_inv [of "sy_db y" now k captured err db'] E
    by (simp add: base_inv_def state_inv_def)
next
  case (sched_notify k out err w)
  have "watcher_inv w"
    using sched_notify(3) assms(3) watcher_inv_Notify
    by (auto simp: assign_finish_def Let_def base_inv_def state_inv_def
        split: prod.splits option.splits if_splits)
  then show ?thesis using sched_notify assms(3) by (simp add: base_inv_def state_inv_def)
next
  case (sched_done k err timer)
  then show ?thesis
    using assms(3) mq.inv_finish [of "sy_queue y" k] mq.finish_active [of k "sy_queue y"]
    by (auto simp: base_inv_def state_inv_def)
next
  case (timer_fires ts k d us)
  then show ?thesis
    using assms(3) mq.inv_add [of "sy_queue y" k] mq.add_active [of k "sy_queue y"]
    by (simp add: base_inv_def state_inv_def)
next
  case (shutdown q wk)
  have "processing q = processing (sy_queue y)"
    using shutdown(2) by (auto simp: Shutdown_def split: if_splits)
  then show ?thesis
    using shutdown assms(3) queue_inv_Shutdown by (auto simp: base_inv_def state_inv_def)
next
  case (watch_steps w h)
  then show ?thesis
    using assms(3) watch_step_watcher E by (auto simp: base_inv_def state_inv_def)
next
  case (other_watch n r w)
  then show ?thesis
    using assms(3) watcher_inv_Watch [of "sy_watcher y" n] by (simp add: base_inv_def state_inv_def)
next
  case (restart s db' n)
  have "state_inv B s \<and> st_queue s = NewMemoryQueue"
    using open_state_inv [of "sy_db y" s db'] restart(2) E assms(3)
    by (simp add: base_inv_def state_inv_def)
  then show ?thesis using restart(1) E by (simp add: base_inv_def NewMemoryQueue_def)
qed (use assms(3) in \<open>simp_all add: base_inv_def\<close>)

lemma sys_reach_base: "sys_reach E y \<Longrightarrow> e_B E = B \<Longrightarrow> base_inv E y"
proof (induction rule: sys_reach.induct)
  case (start db s db' n)
  then have "state_inv B s \<and> st_queue s = NewMemoryQueue"
    using open_state_inv [of db s db'] by auto
  then show ?case using start by (simp add: base_inv_def NewMemoryQueue_def)
next
  case (step y z)
  then show ?case using base_inv_step by blast
qed

lemma no_lost_step:
  assumes "sys_step E y z" and E: "e_B E = B" and base: "base_inv E y" and "no_lost E y"
  shows "no_lost E z"
  using assms(1,4)
proof cases
  case (request g r resp s')
  have inv: "state_inv B (sy_state y)" using base E by (simp add: base_inv_def)
  have ok: "request_ok B (sy_state y) s'" using serve_commit_ok [OF inv E request(2)] by simp
  have "shuttingDown (st_queue s') = shuttingDown (sy_queue y)" "dirty (sy_queue y) \<subseteq> dirty (st_queue s')"
    using ok by (simp_all add: request_ok_def)
  then show ?thesis
    using request(1) request_waiting [OF ok inv] assms(4) E
    by (auto simp: no_lost_def remembered_def split: if_splits)
next
  case (create_commits g r c s')
  have inv: "state_inv B (sy_state y)" using base E by (simp add: base_inv_def)
  have ok: "commit_ok B {c_ID c} (sy_state y) s'"
    using serve_commit_ok [OF inv E create_commits(2)] by simp
  have "shuttingDown (st_queue s') = shuttingDown (sy_queue y)" "dirty (sy_queue y) \<subseteq> dirty (st_queue s')"
    using ok by (simp_all add: commit_ok_def)
  then show ?thesis
    using create_commits(1) request_waiting [OF ok inv] assms(4) E
    by (auto simp: no_lost_def remembered_def split: if_splits)
next
  case (create_adds cs c ds resp s')
  have "queue_inv (sy_queue y)" using base by (simp add: base_inv_def state_inv_def)
  note a = mq.add_open [OF this, of "c_ID c"] mq.add_keeps_closed [of "c_ID c" "sy_queue y"]
  show ?thesis
    using create_adds(1,2) finish_simps [OF create_adds(3)] assms(4) a
    by (auto simp: no_lost_def remembered_def)
next
  case (sched_start s')
  have inv: "state_inv B (sy_state y)" using base E by (simp add: base_inv_def)
  then obtain es where s': "s' = (sy_state y)\<lparr>st_queue := hydrate_loop es (sy_queue y)\<rparr>"
    and w: "{Key e | e. e \<in> set es \<and> waiting (Value e)} = waiting_set (container_tbl B (sy_db y))"
    using run_start_Inr sched_start(3) E by (fastforce simp: state_inv_def)
  have "queue_inv (sy_queue y)" using inv by (simp add: state_inv_def)
  note h = hydrate_queue [OF this, of es]
  show ?thesis
    using sched_start(1) s' w E h(3,4) by (auto simp: no_lost_def remembered_def)
next
  case (sched_get k q)
  have "queue_inv (sy_queue y)" using base by (simp add: base_inv_def state_inv_def)
  note i = mq.get_item [OF this sched_get(3)]
  show ?thesis
    using sched_get assms(4) i by (auto simp: no_lost_def remembered_def)
next
  case (sched_commit k now captured err db')
  obtain retry m where cap: "captured = (retry, m)" by (cases captured)
  have inv: "db_inv B (sy_db y)" using base E by (simp add: base_inv_def state_inv_def)
  have "waiting_set (container_tbl B db') \<subseteq> waiting_set (container_tbl B (sy_db y))
      \<and> (\<not> retry \<longrightarrow> err = None \<longrightarrow> k \<notin> waiting_set (container_tbl B db'))"
  proof (cases err)
    case None
    note a = assign_write_committed(1) [OF inv sched_commit(3) [unfolded None E]]
    show ?thesis using assignment_waiting [OF a] cap by (auto split: if_splits)
  next
    case (Some e)
    then have "db' = sy_db y"
      using failed_unchanged(4) sched_commit(3) unfolding assign_write_def by fastforce
    then show ?thesis using Some by simp
  qed
  then show ?thesis
    using sched_commit(1,2) assms(4) E cap by (auto simp: no_lost_def remembered_def)
next
  case (sched_notify k out err w)
  obtain retry m e where out: "out = ((retry, m), e)" by (metis prod.exhaust)
  have "retry \<or> e \<noteq> None \<Longrightarrow> err \<noteq> None"
    using sched_notify(3) unfolding out
    by (auto simp: assign_finish_def Let_def split: option.splits if_splits prod.splits)
  then show ?thesis
    using sched_notify(1,2) assms(4) out by (auto simp: no_lost_def remembered_def split: if_splits)
next
  case (sched_done k err timer)
  have d: "dirty (fst (Done k (sy_queue y))) = dirty (sy_queue y)"
    "shuttingDown (fst (Done k (sy_queue y))) = shuttingDown (sy_queue y)"
    by (rule mq.finish_pending, rule mq.finish_closed)
  have "timer = (if err = None then None
      else if shuttingDown (sy_queue y) then None else Some (k, retryDelay))"
    using sched_done(3) by (simp add: AddAfter_def)
  then show ?thesis
    using sched_done(1,2) assms(4) d
    by (auto simp: no_lost_def remembered_def split: option.splits if_splits)
next
  case (timer_fires ts k d us)
  have "queue_inv (sy_queue y)" using base by (simp add: base_inv_def state_inv_def)
  note a = mq.add_open [OF this, of k] mq.add_keeps_closed [of k "sy_queue y"]
  show ?thesis
    using timer_fires assms(4) a by (auto simp: no_lost_def remembered_def)
next
  case (timer_stops ts t us)
  have "queue_inv (sy_queue y)" using base by (simp add: base_inv_def state_inv_def)
  then have "shuttingDown (sy_queue y)" using timer_stops(3) by (simp add: queue_inv_def)
  then show ?thesis using timer_stops(1) by (simp add: no_lost_def)
next
  case (shutdown q wk)
  then show ?thesis by (auto simp: Shutdown_def no_lost_def remembered_def split: if_splits)
next
  case (restart s db' n)
  then show ?thesis by (simp add: no_lost_def)
qed (use assms(4) in \<open>simp_all add: no_lost_def remembered_def\<close>)

lemma sys_reach_no_lost: "sys_reach E y \<Longrightarrow> e_B E = B \<Longrightarrow> no_lost E y"
proof (induction rule: sys_reach.induct)
  case (start db s db' n)
  then show ?case by (simp add: no_lost_def)
next
  case (step y z)
  then show ?case using no_lost_step sys_reach_base by blast
qed

end

section \<open>The watch stream\<close>

text \<open>The node whose notification is still to come.\<close>

fun to_notify :: "sched_phase \<Rightarrow> string option" where
  "to_notify (Committed k ((retry, m), None)) = (if m = [] then None else Some m)"
| "to_notify ph = None"

text \<open>
  A snapshot is current, or the channel that was registered before it was taken is closed,
  or the notification that closes it is still to come.
\<close>

definition fresh ::
  "NodeWatcher \<Rightarrow> (string \<Rightarrow> Container option) \<Rightarrow> string option \<Rightarrow> string \<Rightarrow> chan
     \<Rightarrow> ContainerAssignment list \<Rightarrow> bool" where
  "fresh w C pend n ch response \<longleftrightarrow>
     chan_closed w ch \<or> pend = Some n \<or> set response = assigned_to n C"

definition feed_ok ::
  "NodeWatcher \<Rightarrow> (string \<Rightarrow> Container option) \<Rightarrow> string option \<Rightarrow> watch_run \<Rightarrow> bool" where
  "feed_ok w C pend h \<longleftrightarrow>
     (case wr_phase h of
        LoopTop \<Rightarrow> True
      | Returned \<Rightarrow> True
      | Registered ch \<Rightarrow> wr_node h \<noteq> [] \<and> nw.live w (wr_node h) ch
      | Loaded ch response \<Rightarrow>
          wr_node h \<noteq> [] \<and> nw.live w (wr_node h) ch \<and> fresh w C pend (wr_node h) ch response
      | Waiting ch \<Rightarrow>
          wr_node h \<noteq> [] \<and> nw.live w (wr_node h) ch
          \<and> (\<exists>sent doc response. js_written (wr_stream h) = sent @ [doc]
               \<and> enc_NodeWatchResponse response = Inr doc
               \<and> fresh w C pend (wr_node h) ch response))"

lemma feed_ok_start: "feed_ok w C pend (start_run n)"
  by (simp add: feed_ok_def start_run_def)

text \<open>The facts of the feed change, the handler does not move.\<close>

lemma feed_ok_mono:
  assumes "feed_ok w C pend h"
    and "\<And>ch. wr_node h \<noteq> [] \<Longrightarrow> nw.live w (wr_node h) ch \<Longrightarrow> nw.live w' (wr_node h) ch"
    and "\<And>ch response. wr_node h \<noteq> [] \<Longrightarrow> nw.live w (wr_node h) ch \<Longrightarrow>
      fresh w C pend (wr_node h) ch response \<Longrightarrow> fresh w' C' pend' (wr_node h) ch response"
  shows "feed_ok w' C' pend' h"
proof (cases "wr_phase h")
  case (Waiting ch)
  then obtain sent doc response where "js_written (wr_stream h) = sent @ [doc]"
    "enc_NodeWatchResponse response = Inr doc" "wr_node h \<noteq> []" "nw.live w (wr_node h) ch"
    "fresh w C pend (wr_node h) ch response"
    using assms(1) by (auto simp: feed_ok_def)
  then show ?thesis using Waiting assms(2,3) by (auto simp: feed_ok_def)
qed (use assms in \<open>auto simp: feed_ok_def\<close>)

lemma feed_ok_same:
  assumes "feed_ok w C pend h" and "\<And>n. n \<noteq> [] \<Longrightarrow> assigned_to n C' = assigned_to n C"
  shows "feed_ok w C' pend h"
  by (rule feed_ok_mono [OF assms(1)]) (use assms(2) in \<open>auto simp: fresh_def\<close>)

lemma feed_ok_commit:
  assumes "feed_ok w C None h" and "\<And>n. n \<noteq> [] \<Longrightarrow> pend \<noteq> Some n \<Longrightarrow> assigned_to n C' = assigned_to n C"
  shows "feed_ok w C' pend h"
  by (rule feed_ok_mono [OF assms(1)]) (use assms(2) in \<open>auto simp: fresh_def\<close>)

lemma feed_ok_watch:
  assumes "watcher_inv w" and "feed_ok w C pend h"
  shows "feed_ok (snd (Watch n w)) C pend h"
  by (rule feed_ok_mono [OF assms(2)])
    (use nw.live_watch [OF assms(1)] in \<open>auto simp: fresh_def nw.watch_closed\<close>)

lemma feed_ok_notify:
  assumes inv: "watcher_inv w" and "feed_ok w C (Some m) h" and m: "m \<noteq> []"
    and run: "Notify m w = Some (e, w')"
  shows "feed_ok w' C None h"
proof -
  have e: "e = None" using run m by (auto simp: Notify_def split: option.splits if_splits)
  show ?thesis
  proof (rule feed_ok_mono [OF assms(2)])
    show "nw.live w' (wr_node h) ch" if "nw.live w (wr_node h) ch" for ch
      using nw.live_notify [OF inv that run] e by simp
    show "fresh w' C None (wr_node h) ch response"
      if "nw.live w (wr_node h) ch" "fresh w C (Some m) (wr_node h) ch response" for ch response
      using that nw.notify_keeps [OF inv run] nw.notified_closed [OF inv that(1)] run e
      by (auto simp: fresh_def)
  qed
qed

lemma assignment_assigned_to:
  assumes "assignment now k captured N C C'" and "n \<noteq> []" and "snd captured \<noteq> n"
  shows "assigned_to n C' = assigned_to n C"
  using assms unfolding assignment_def
  by (elim disjE exE conjE)
    (auto intro!: assigned_to_other simp: waiting_def)

lemma request_assigned_to:
  assumes "commit_ok B K s s'" and "n \<noteq> []"
  shows "assigned_to n (container_tbl B (st_db s')) = assigned_to n (container_tbl B (st_db s))"
proof (rule set_eqI)
  fix a
  let ?C = "container_tbl B (st_db s)" and ?C' = "container_tbl B (st_db s')"
  have keep: "\<exists>c'. ?C' k = Some c' \<and> c_NodeID c' = c_NodeID c \<and> assignment_of c' = assignment_of c"
    if "?C k = Some c" for k c
  proof -
    have "\<exists>c'. ?C' k = Some c' \<and> moves_forward c c'"
      using that assms(1) by (simp add: request_ok_def grows_def)
    then show ?thesis by (auto simp: moves_forward_def assignment_of_def)
  qed
  have new: "?C k \<noteq> None" if "?C' k = Some c'" "c_NodeID c' = n" for k c'
    using that assms unfolding request_ok_def grows_def by blast
  show "a \<in> assigned_to n ?C' \<longleftrightarrow> a \<in> assigned_to n ?C"
  proof
    assume "a \<in> assigned_to n ?C'"
    then obtain k c' where c': "?C' k = Some c'" "c_NodeID c' = n" "assignment_of c' = a"
      unfolding assigned_to_iff by blast
    then obtain c where "?C k = Some c" using new by blast
    with keep [OF this] c' show "a \<in> assigned_to n ?C" unfolding assigned_to_iff by auto
  next
    assume "a \<in> assigned_to n ?C"
    then obtain k c where "?C k = Some c" "c_NodeID c = n" "assignment_of c = a"
      unfolding assigned_to_iff by blast
    with keep [OF this(1)] show "a \<in> assigned_to n ?C'" unfolding assigned_to_iff by auto
  qed
qed

definition sys_feed :: "'db env \<Rightarrow> 'db system \<Rightarrow> bool" where
  "sys_feed E y \<longleftrightarrow>
     feed_ok (sy_watcher y) (container_tbl (e_B E) (sy_db y)) (to_notify (sy_sched y)) (sy_watch y)"

context hambo_db
begin

lemma feed_ok_watch_step:
  assumes "watch_step B db w h w' h'" and inv: "watcher_inv w" and db: "db_inv B db"
    and "feed_ok w (container_tbl B db) pend h"
  shows "feed_ok w' (container_tbl B db) pend h'"
  using assms(1,4)
proof cases
  case (top_watch ch)
  then have "wr_node h \<noteq> []" by (auto simp: Watch_def)
  then show ?thesis using top_watch nw.live_watched by (auto simp: feed_ok_def)
next
  case (load ch entries)
  obtain tx where "b_Begin B db = Inr tx"
    using load(4) by (auto simp: list_entries_def db_View_def bind_result_eq_Inr)
  then have "map_of (pairs entries) = container_tbl B db" "distinct (map Key entries)"
    using containers.list_entries_tbl [of db] db load(4) by (auto simp: db_inv_def db_ok_def)
  then show ?thesis
    using load assms(4) collect_assignments_set
    by (auto simp: feed_ok_def fresh_def)
next
  case (sends ch response doc st)
  then have "js_written st = js_written (wr_stream h) @ [doc]"
    by (auto simp: stream_Write_def split: option.splits)
  then show ?thesis using sends assms(4) by (auto simp: feed_ok_def)
qed (simp_all add: feed_ok_def)

lemma sys_feed_step:
  assumes "sys_step E y z" and E: "e_B E = B" and base: "base_inv E y" and "sys_feed E y"
  shows "sys_feed E z"
  using assms(1,4)
proof cases
  case (request g r resp s')
  have inv: "state_inv B (sy_state y)" using base E by (simp add: base_inv_def)
  have ok: "request_ok B (sy_state y) s'" using serve_commit_ok [OF inv E request(2)] by simp
  then have "st_watcher s' = sy_watcher y" by (simp add: request_ok_def)
  then show ?thesis
    using request(1) assms(4) E feed_ok_same [OF _ request_assigned_to [OF ok]]
    by (simp add: sys_feed_def)
next
  case (create_commits g r c s')
  have inv: "state_inv B (sy_state y)" using base E by (simp add: base_inv_def)
  have ok: "commit_ok B {c_ID c} (sy_state y) s'"
    using serve_commit_ok [OF inv E create_commits(2)] by simp
  then have "st_watcher s' = sy_watcher y" by (simp add: commit_ok_def)
  then show ?thesis
    using create_commits(1) assms(4) E feed_ok_same [OF _ request_assigned_to [OF ok]]
    by (simp add: sys_feed_def)
next
  case (create_adds cs c ds resp s')
  then show ?thesis using assms(4) finish_simps [OF create_adds(3)] by (simp add: sys_feed_def)
next
  case (sched_start s')
  have "st_db s' = sy_db y \<and> st_watcher s' = sy_watcher y"
    using sched_start(3) by (auto simp: run_start_def split: sum.splits)
  then show ?thesis using sched_start(1,2) assms(4) by (simp add: sys_feed_def)
next
  case (sched_fails e s')
  have "st_db s' = sy_db y \<and> st_watcher s' = sy_watcher y"
    using sched_fails(3) by (auto simp: run_start_def split: sum.splits)
  then show ?thesis using sched_fails(1,2) assms(4) by (simp add: sys_feed_def)
next
  case (sched_commit k now captured err db')
  obtain retry m where cap: "captured = (retry, m)" by (cases captured)
  have inv: "db_inv B (sy_db y)" using base E by (simp add: base_inv_def state_inv_def)
  have old: "feed_ok (sy_watcher y) (container_tbl B (sy_db y)) None (sy_watch y)"
    using assms(4) sched_commit(2) E by (simp add: sys_feed_def)
  have "feed_ok (sy_watcher y) (container_tbl B db') (to_notify (Committed k (captured, err)))
      (sy_watch y)"
  proof (cases err)
    case None
    note a = assign_write_committed(1) [OF inv sched_commit(3) [unfolded None E]]
    show ?thesis
      by (rule feed_ok_commit [OF old assignment_assigned_to [OF a]]) (auto simp: None cap)
  next
    case (Some e)
    then have "db' = sy_db y"
      using failed_unchanged(4) sched_commit(3) unfolding assign_write_def by fastforce
    then show ?thesis using old Some cap by simp
  qed
  then show ?thesis using sched_commit(1) E by (simp add: sys_feed_def)
next
  case (sched_notify k out err w)
  obtain retry m e where out: "out = ((retry, m), e)" by (metis prod.exhaust)
  have inv: "watcher_inv (sy_watcher y)" using base by (simp add: base_inv_def state_inv_def)
  have old: "feed_ok (sy_watcher y) (container_tbl B (sy_db y)) (to_notify (Committed k out)) (sy_watch y)"
    using assms(4) sched_notify(2) E by (simp add: sys_feed_def)
  have "feed_ok w (container_tbl B (sy_db y)) None (sy_watch y)"
  proof (cases "e = None \<and> m \<noteq> []")
    case True
    then obtain e' where "Notify m (sy_watcher y) = Some (e', w)"
      using sched_notify(3) unfolding out
      by (auto simp: assign_finish_def Let_def split: option.splits)
    then show ?thesis using feed_ok_notify [OF inv] old True out by simp
  next
    case False
    then have "w = sy_watcher y" "to_notify (Committed k out) = None"
      using sched_notify(3) unfolding out
      by (cases e; auto simp: assign_finish_def Let_def split: if_splits)+
    then show ?thesis using old by simp
  qed
  then show ?thesis using sched_notify(1) E by (simp add: sys_feed_def)
next
  case (watch_steps w h)
  have "watcher_inv (sy_watcher y)" "db_inv B (sy_db y)"
    using base E by (simp_all add: base_inv_def state_inv_def)
  then show ?thesis
    using watch_steps assms(4) feed_ok_watch_step E by (simp add: sys_feed_def)
next
  case (other_watch n r w)
  have "watcher_inv (sy_watcher y)" using base by (simp add: base_inv_def state_inv_def)
  then show ?thesis
    using other_watch assms(4) feed_ok_watch [of "sy_watcher y" _ _ _ n] by (simp add: sys_feed_def)
next
  case (restart s db' n)
  then show ?thesis by (simp add: sys_feed_def feed_ok_start)
next
  case (new_watch n)
  then show ?thesis by (simp add: sys_feed_def feed_ok_start)
qed (use assms(4) in \<open>simp_all add: sys_feed_def\<close>)

lemma sys_reach_feed: "sys_reach E y \<Longrightarrow> e_B E = B \<Longrightarrow> sys_feed E y"
proof (induction rule: sys_reach.induct)
  case (start db s db' n)
  then show ?case by (simp add: sys_feed_def feed_ok_start)
next
  case (step y z)
  then show ?case using sys_feed_step sys_reach_base by blast
qed

end

section \<open>What lasts\<close>

text \<open>
  How a container may change over any number of steps: it keeps its identifier, name, image and
  creation time, it never loses or changes a node once it has one, and it never goes back in
  its lifecycle.
\<close>

definition evolves :: "Container \<Rightarrow> Container \<Rightarrow> bool" where
  "evolves c c' \<longleftrightarrow>
     c_ID c' = c_ID c \<and> c_Name c' = c_Name c \<and> c_Image c' = c_Image c
     \<and> c_CreatedAt c' = c_CreatedAt c
     \<and> (c_NodeID c \<noteq> [] \<longrightarrow> c_NodeID c' = c_NodeID c)
     \<and> (\<exists>a b. lifecycle_of (c_State c) = Some a \<and> lifecycle_of (c_State c') = Some b \<and> a \<le> b)"

lemma evolves_trans: "evolves a b \<Longrightarrow> evolves b c \<Longrightarrow> evolves a c"
  unfolding evolves_def by fastforce

lemma moves_forward_evolves: "moves_forward c c' \<Longrightarrow> evolves c c'"
  by (simp add: evolves_def moves_forward_def)

lemma assignment_evolves:
  assumes a: "assignment now k captured N C C'" and inv: "containers_inv N C" and c: "C j = Some c"
  shows "\<exists>c'. C' j = Some c' \<and> evolves c c'"
proof -
  obtain l where l: "lifecycle_of (c_State c) = Some l" using containers_inv_states [OF inv c] by blast
  then have same: "evolves c c" by (simp add: evolves_def)
  show ?thesis
  proof (cases "j = k \<and> waiting c")
    case False
    then have "C' j = Some c" using a c unfolding assignment_def by auto
    then show ?thesis using same by blast
  next
    case True
    then have "\<exists>c'. C' j = Some c' \<and> c_ID c' = c_ID c \<and> c_Name c' = c_Name c \<and> c_Image c' = c_Image c
        \<and> c_CreatedAt c' = c_CreatedAt c \<and> c_State c' = c_State c"
      using a c unfolding assignment_def by (elim disjE exE conjE) auto
    then show ?thesis using True l by (auto simp: evolves_def waiting_def)
  qed
qed

context hambo_db
begin

lemma sys_step_evolves:
  assumes "sys_step E y z" and E: "e_B E = B" and base: "base_inv E y"
    and c: "container_tbl B (sy_db y) k = Some c"
  shows "\<exists>c'. container_tbl B (sy_db z) k = Some c' \<and> evolves c c'"
proof -
  have inv: "state_inv B (sy_state y)" using base E by (simp add: base_inv_def)
  then have cinv: "containers_inv (node_tbl B (sy_db y)) (container_tbl B (sy_db y))"
    by (simp add: state_inv_def db_inv_def)
  have same: "evolves c c" using containers_inv_states [OF cinv c] by (auto simp: evolves_def)
  from assms(1) show ?thesis
  proof cases
    case (request g r resp s')
    have "request_ok B (sy_state y) s'" using serve_commit_ok [OF inv E request(2)] by simp
    then have "\<exists>c'. container_tbl B (st_db s') k = Some c' \<and> moves_forward c c'"
      using c by (simp add: request_ok_def grows_def)
    then show ?thesis using request(1) moves_forward_evolves by auto
  next
    case (create_commits g r d s')
    have "commit_ok B {c_ID d} (sy_state y) s'" using serve_commit_ok [OF inv E create_commits(2)] by simp
    then have "\<exists>c'. container_tbl B (st_db s') k = Some c' \<and> moves_forward c c'"
      using c by (simp add: commit_ok_def grows_def)
    then show ?thesis using create_commits(1) moves_forward_evolves by auto
  next
    case (create_adds cs d ds resp s')
    then show ?thesis using c same finish_simps [OF create_adds(3)] by simp
  next
    case (sched_start s')
    then have "st_db s' = sy_db y" by (auto simp: run_start_def split: sum.splits)
    then show ?thesis using sched_start(1) c same by simp
  next
    case (sched_fails e s')
    then have "st_db s' = sy_db y" by (auto simp: run_start_def split: sum.splits)
    then show ?thesis using sched_fails(1) c same by simp
  next
    case (sched_commit j now captured err db')
    have db: "db_inv B (sy_db y)" using inv by (simp add: state_inv_def)
    have "\<exists>c'. container_tbl B db' k = Some c' \<and> evolves c c'"
    proof (cases err)
      case None
      show ?thesis
        using assignment_evolves [OF assign_write_committed(1) [OF db sched_commit(3) [unfolded None E]] cinv c] .
    next
      case (Some e)
      have "db' = sy_db y"
        by (rule failed_unchanged(4) [OF sched_commit(3) [unfolded Some assign_write_def]])
      then show ?thesis using c same by simp
    qed
    then show ?thesis using sched_commit(1) by simp
  next
    case (restart s db' n)
    have "container_tbl B (st_db s) = container_tbl B (sy_db y)"
      by (rule open_state_tbl(1) [OF restart(2) [unfolded E]]) simp
    then show ?thesis using restart(1) c same by simp
  qed (use c same in auto)
qed

lemma sys_steps_evolve:
  assumes "(sys_step E)\<^sup>*\<^sup>* y z" and E: "e_B E = B" and "base_inv E y"
    and "container_tbl B (sy_db y) k = Some c"
  shows "\<exists>c'. container_tbl B (sy_db z) k = Some c' \<and> evolves c c'"
  using assms(1,3,4)
proof (induction arbitrary: rule: rtranclp_induct)
  case base
  then have "containers_inv (node_tbl B (sy_db y)) (container_tbl B (sy_db y))"
    using E by (simp add: base_inv_def state_inv_def db_inv_def)
  then show ?case
    using base(2) containers_inv_states by (fastforce simp: evolves_def)
next
  case (step u v)
  then obtain c' where c': "container_tbl B (sy_db u) k = Some c'" "evolves c c'" by blast
  have "base_inv E u"
    using step(1,4)
  proof (induction rule: rtranclp_induct)
    case (step a b)
    then show ?case using base_inv_step [OF step(2) E] by blast
  qed
  with sys_step_evolves [OF step(2) E _ c'(1)] c'(2) evolves_trans show ?case by blast
qed

end

end
