(* ===== verification/Example.thy ===== *)
theory Example
  imports Server "HOL-Library.Code_Target_Numeral"
begin

text \<open>
  A concrete environment, for the instances the properties are applied to: the in-memory
  database, an \<open>x509\<close> that makes a certificate only from the templates of the program, and
  small stand-ins for the other functions. The states \<open>ex0\<close>, \<open>ex1\<close>, ... are those after the
  opening of an empty database, after a token was created, after a node joined, and so on.
\<close>

section \<open>The environment\<close>

text \<open>The certificate of a common name: the authority's, or a node's.\<close>

definition ex_certificate :: "string \<Rightarrow> certificate" where
  "ex_certificate cn =
     (if cn = ''Hambo CA''
      then \<lparr>ct_CommonName = cn, ct_Organization = [], ct_NotBefore = 0, ct_NotAfter = hours 1000,
            ct_BasicConstraintsValid = True, ct_IsCA = True, ct_KeyUsage = KeyUsageCertSign,
            ct_ExtKeyUsage = [], ct_DNSNames = [], ct_IPAddresses = [], ct_Raw = cn\<rparr>
      else \<lparr>ct_CommonName = cn, ct_Organization = [''hambo:nodes''], ct_NotBefore = 0,
            ct_NotAfter = hours 1000, ct_BasicConstraintsValid = True, ct_IsCA = False,
            ct_KeyUsage = KeyUsageDigitalSignature, ct_ExtKeyUsage = [ExtKeyUsageClientAuth],
            ct_DNSNames = [], ct_IPAddresses = [], ct_Raw = cn\<rparr>)"

definition ex_x509 :: x509 where
  "ex_x509 = \<lparr>
     x_CreateCertificate = (\<lambda>t p pub priv.
       if made_from (ex_certificate (ct_CommonName t)) t then Inr (ct_CommonName t)
       else Inl (Msg ''x509: unsupported template'')),
     x_ParseCertificate = (\<lambda>der. Inr (ex_certificate der)),
     x_ParseCertificateRequest = (\<lambda>der.
       if der = ''csr'' then Inr \<lparr>csr_PublicKey = Ed25519Public ''pub'', csr_CheckSignature = None\<rparr>
       else Inl (Msg ''x509: malformed request'')),
     x_AddDate = (\<lambda>t y m d. t + hours (24 * (365 * y + 30 * m + d)))\<rparr>"

lemma ex_x509_faithful: "x509_faithful ex_x509"
  by (auto simp: x509_faithful_def ex_x509_def split: if_splits)

definition ex_ca :: CA where
  "ex_ca = \<lparr>ca_Certificate = ex_certificate ''Hambo CA'', ca_PrivateKey = Ed25519Private ''key''\<rparr>"

definition ex_env :: "mem_db env" where
  "ex_env = \<lparr>
     e_B = mem_bolt, e_X = ex_x509, e_ca = ex_ca,
     e_sha256 = (\<lambda>s. s),
     e_json_text = (\<lambda>j. case j of JObj ((k, JStr s) # ms) \<Rightarrow> s | _ \<Rightarrow> []),
     e_pem_certificate = (\<lambda>raw. ''PEM '' @ raw),
     e_ParseDuration = (\<lambda>s. if s = ''1h'' then Inr (hours 1) else Inl (Msg ''time: invalid duration'')),
     e_Quote = (\<lambda>s. s),
     e_VerifyClient = (\<lambda>c. ct_ExtKeyUsage c = [ExtKeyUsageClientAuth])\<rparr>"

lemma ex_env_B [simp]: "e_B ex_env = mem_bolt"
  by (simp add: ex_env_def)

lemma ex_hambo: "hambo_db mem_bolt" "hambo_db (e_B ex_env)"
  by simp_all unfold_locales

section \<open>Requests\<close>

definition admin_certificate :: certificate where
  "admin_certificate =
     (ex_certificate ''admin'')\<lparr>ct_Organization := [''hambo:admins'']\<rparr>"

definition ex_request :: "string \<Rightarrow> string \<Rightarrow> certificate list list option \<Rightarrow> json \<Rightarrow> request" where
  "ex_request verb path certs j =
     \<lparr>rq_Method = verb, rq_Path = path, rq_VerifiedChains = certs,
      rq_Authorization = ''Bearer cw'', rq_MediaType = Some ''application/json'',
      rq_Body = (\<lambda>n. [BodyValue j]), rq_NodeID = None, rq_Flusher = True\<rparr>"

definition token_req :: request where
  "token_req = ex_request ''POST'' ''/tokens'' (Some [[admin_certificate]]) (JObj [])"

definition join_req :: "string \<Rightarrow> request" where
  "join_req name = ex_request ''POST'' ''/nodes/join'' None
     (JObj [(''name'', JStr name), (''csr'', JBytes ''csr'')])"

definition ex0 :: "mem_db state" where
  "ex0 = \<lparr>st_db = [(''tokens'', []), (''containers'', []), (''nodes'', [])],
     st_queue = NewMemoryQueue, st_watcher = NewNodeWatcher\<rparr>"

lemma ex0_open: "open_state mem_bolt [] = (Inr ex0, st_db ex0)"
  by (simp add: open_state_def newServer_def NewCollection_def db_Update_def ex0_def)

lemma ex0_inv: "state_inv mem_bolt ex0"
  by (rule mem_db.open_state_inv(1) [OF ex0_open]) (simp add: mem_view fun_eq_iff)

definition node_chain :: "string \<Rightarrow> certificate list list option" where
  "node_chain nodeID = Some [[ex_certificate (''hambo:node:'' @ nodeID)]]"

definition container_req :: "string \<Rightarrow> request" where
  "container_req name = ex_request ''POST'' ''/containers'' (Some [[admin_certificate]])
     (JObj [(''name'', JStr name), (''image'', JStr ''i'')])"

definition session_req :: request where
  "session_req = ex_request ''POST'' ''/nodes/self/session'' (node_chain ''6e'') JNull"

definition status_req :: "int \<Rightarrow> json list \<Rightarrow> request" where
  "status_req sequence reports = ex_request ''POST'' ''/nodes/self/status'' (node_chain ''6e'')
     (JObj [(''session_id'', JStr ''78''), (''sequence'', JInt sequence),
            (''runtime_ready'', JBool True), (''containers'', JArr reports)])"

definition ex_rng :: "string \<Rightarrow> instant \<Rightarrow> rng" where
  "ex_rng rnd now = \<lparr>g_id = rnd, g_secret = Inr rnd, g_now = now\<rparr>"

section \<open>The states\<close>

text \<open>A token, a node, its session, a report, a container, its assignment and its run.\<close>

definition unused :: json where
  "unused = JObj [(''expires_at'', JTime 900000000000)]"

definition used :: json where
  "used = JObj [(''expires_at'', JTime 900000000000),
     (''enrollment'', JObj [(''request_hash'', JStr ''77''), (''node_id'', JStr ''6e''),
        (''certificate'', JStr ''PEM hambo:node:6e'')])]"

definition node_doc :: "bool \<Rightarrow> (string \<times> json) list \<Rightarrow> int \<Rightarrow> json" where
  "node_doc ready ms sequence =
     JObj ([(''id'', JStr ''6e''), (''name'', JStr ''w''), (''runtime_ready'', JBool ready)]
       @ ms @ [(''status_sequence'', JInt sequence)])"

definition container_doc :: "(string \<times> json) list \<Rightarrow> string \<Rightarrow> json" where
  "container_doc ms st =
     JObj ([(''id'', JStr ''63''), (''name'', JStr ''web''), (''image'', JStr ''i'')]
       @ ms @ [(''state'', JStr st), (''created_at'', JTime 4)])"

definition ex_db :: "json \<Rightarrow> (string \<times> json) list \<Rightarrow> (string \<times> json) list \<Rightarrow> mem_db" where
  "ex_db tok cs ns = [(''tokens'', [(''6377'', tok)]), (''containers'', cs), (''nodes'', ns)]"

definition ex1 :: "mem_db state" where
  "ex1 = ex0\<lparr>st_db := ex_db unused [] []\<rparr>"

definition ex2 :: "mem_db state" where
  "ex2 = ex0\<lparr>st_db := ex_db used [] [(''6e'', node_doc False [] 0)]\<rparr>"

definition ex3 :: "mem_db state" where
  "ex3 = ex0\<lparr>st_db := ex_db used [] [(''6e'',
     node_doc False [(''status_session_id'', JStr ''78'')] 0)]\<rparr>"

definition ready_node :: "(string \<times> json) list" where
  "ready_node = [(''6e'', node_doc True
     [(''last_seen_at'', JTime 3), (''status_session_id'', JStr ''78'')] 1)]"

definition ex4 :: "mem_db state" where
  "ex4 = ex0\<lparr>st_db := ex_db used [] ready_node\<rparr>"

definition ex5 :: "mem_db state" where
  "ex5 = ex0\<lparr>st_db := ex_db used [(''63'', container_doc [] ''pending'')] ready_node,
     st_queue := fst (Add ''63'' NewMemoryQueue)\<rparr>"

lemma served:
  assumes "state_inv mem_bolt s" and "st_watcher s = st_watcher s'"
    and "st_db (snd (serve ex_env g r s)) = st_db s'"
    and "st_queue (snd (serve ex_env g r s)) = st_queue s'"
  shows "snd (serve ex_env g r s) = s' \<and> state_inv mem_bolt s'"
proof -
  obtain resp t where run: "serve ex_env g r s = (resp, t)" by fastforce
  have ok: "request_ok mem_bolt s t" using mem_db.serve_ok [OF assms(1) ex_env_B run] .
  then have "t = s'"
    using run assms(2-4) by (simp add: request_ok_def)
  then show ?thesis using ok run by (simp add: request_ok_def)
qed

lemma ex_watcher [simp]:
  "st_watcher ex0 = NewNodeWatcher" "st_watcher ex1 = NewNodeWatcher"
  "st_watcher ex2 = NewNodeWatcher" "st_watcher ex3 = NewNodeWatcher"
  "st_watcher ex4 = NewNodeWatcher" "st_watcher ex5 = NewNodeWatcher"
  by (simp_all add: ex0_def ex1_def ex2_def ex3_def ex4_def ex5_def)

lemma ex1_served: "snd (serve ex_env (ex_rng ''s'' 0) token_req ex0) = ex1
    \<and> state_inv mem_bolt ex1"
  by (rule served [OF ex0_inv, where g = "ex_rng ''s'' 0" and r = "token_req"]; 
      (simp; fail)?; code_simp)

lemmas ex1_inv = ex1_served [THEN conjunct2]

lemma ex2_served: "snd (serve ex_env (ex_rng ''n'' 1) (join_req ''w'') ex1) = ex2
    \<and> state_inv mem_bolt ex2"
  by (rule served [OF ex1_inv, where g = "ex_rng ''n'' 1" and r = "join_req ''w''"]; 
      (simp; fail)?; code_simp)

lemmas ex2_inv = ex2_served [THEN conjunct2]

lemma ex3_served: "snd (serve ex_env (ex_rng ''x'' 2) session_req ex2) = ex3
    \<and> state_inv mem_bolt ex3"
  by (rule served [OF ex2_inv, where g = "ex_rng ''x'' 2" and r = "session_req"]; 
      (simp; fail)?; code_simp)

lemmas ex3_inv = ex3_served [THEN conjunct2]

lemma ex4_served: "snd (serve ex_env (ex_rng [] 3) (status_req 1 []) ex3) = ex4
    \<and> state_inv mem_bolt ex4"
  by (rule served [OF ex3_inv, where g = "ex_rng [] 3" and r = "status_req 1 []"]; 
      (simp; fail)?; code_simp)

lemmas ex4_inv = ex4_served [THEN conjunct2]

lemma ex5_served:
  "snd (serve ex_env (ex_rng ''c'' 4) (container_req ''web'') ex4) = ex5
    \<and> state_inv mem_bolt ex5"
  by (rule served [OF ex4_inv, where g = "ex_rng ''c'' 4" and r = "container_req ''web''"]; 
      (simp; fail)?; code_simp)

lemmas ex5_inv = ex5_served [THEN conjunct2]

text \<open>The scheduler assigns the container.\<close>

definition ex6 :: "mem_db state" where
  "ex6 = ex5\<lparr>st_db := ex_db used
     [(''63'', container_doc [(''node_id'', JStr ''6e'')] ''pending'')] ready_node\<rparr>"

definition assigned_container :: Container where
  "assigned_container = (new_container ''63'' ''web'' ''i'' 4)\<lparr>c_NodeID := ''6e''\<rparr>"

lemma ex6_assigned: "assign_write mem_bolt 5 ''63'' (st_db ex5) = ((False, ''6e''), None, st_db ex6)"
  by code_simp

lemma ex6_inv: "state_inv mem_bolt ex6"
  using ex5_inv mem_db.assign_write_inv [OF _ ex6_assigned]
  by (simp add: state_inv_def ex6_def ex5_def)

lemma ex6_container: "container_tbl mem_bolt (st_db ex6) ''63'' = Some assigned_container"
  by code_simp

end
