(* ===== verification/Runs.thy ===== *)
theory Runs
  imports System Example
begin

text \<open>
  Runs of the system on the example environment, step by step: the states the properties of
  the running system are applied to.
\<close>

definition y_ready :: "mem_db state \<Rightarrow> mem_db system" where
  "y_ready s = (boot s ''6e'')\<lparr>sy_sched := Ready\<rparr>"

lemma y_ready_simps [simp]:
  "sy_state (y_ready s) = s" "sy_sched (y_ready s) = Ready" "sy_timers (y_ready s) = []"
  "sy_adding (y_ready s) = []"
  "sy_watch (y_ready s) = start_run ''6e''"
  by (simp_all add: y_ready_def)

lemma reach0: "sys_reach ex_env (y_ready ex0)"
proof -
  have "view mem_bolt [] = Map.empty" by (simp add: mem_view fun_eq_iff)
  then have "sys_reach ex_env (boot ex0 ''6e'')"
    by (intro sys_reach.start [of _ "[]"]) (simp_all add: ex0_open)
  moreover have "run_start (e_B ex_env) (sy_state (boot ex0 ''6e'')) = (None, ex0)"
    by (simp add: run_start_def list_entries_def db_View_def ex0_def mem_content_def mem_list_def)
  ultimately have "sys_reach ex_env ((boot ex0 ''6e'')\<lparr>sy_state := ex0, sy_sched := Ready\<rparr>)"
    by (intro sys_reach.step [OF _ sys_step.sched_start]) simp_all
  then show ?thesis by (simp add: y_ready_def boot_def)
qed

text \<open>A whole request is a step, or two with nothing in between.\<close>

lemma request_steps:
  assumes "serve E g r (sy_state y) = (resp, s')"
  shows "(sys_step E)\<^sup>*\<^sup>* y (y\<lparr>sy_state := s'\<rparr>)"
proof (cases "serve_commit E g r (sy_state y)")
  case (Pair out s1)
  show ?thesis
  proof (cases out)
    case (Inl resp1)
    then have "serve_commit E g r (sy_state y) = (Inl resp, s')"
      using assms Pair by (simp add: serve_two_steps)
    then show ?thesis by (blast intro: sys_step.request)
  next
    case (Inr c)
    let ?u = "y\<lparr>sy_state := s1, sy_adding := c # sy_adding y\<rparr>"
    have "sys_step E y ?u" using Pair Inr by (auto intro: sys_step.create_commits)
    moreover have "createContainer_finish c s1 = (resp, s')"
      using assms Pair Inr by (simp add: serve_two_steps)
    then have "sys_step E ?u (?u\<lparr>sy_state := s', sy_adding := [] @ sy_adding y\<rparr>)"
      by (intro sys_step.create_adds) simp_all
    ultimately show ?thesis by auto
  qed
qed

lemma steps_reach: "(sys_step E)\<^sup>*\<^sup>* y z \<Longrightarrow> sys_reach E y \<Longrightarrow> sys_reach E z"
  by (induction rule: rtranclp_induct) (auto intro: sys_reach.step)

lemma request_reach:
  assumes "sys_reach ex_env (y_ready s)" and "snd (serve ex_env g r s) = s'"
  shows "sys_reach ex_env (y_ready s')"
proof -
  have "serve ex_env g r (sy_state (y_ready s)) = (fst (serve ex_env g r s), s')"
    using assms(2) by (metis prod.collapse y_ready_simps(1))
  from steps_reach [OF request_steps [OF this] assms(1)]
  show ?thesis by (simp add: y_ready_def boot_def)
qed

lemma reach5: "sys_reach ex_env (y_ready ex5)"
  using reach0 ex1_served ex2_served ex3_served ex4_served ex5_served request_reach by blast

lemma ex5_parts:
  "st_queue ex5 = fst (Add ''63'' NewMemoryQueue)" "st_watcher ex5 = NewNodeWatcher"
  by (simp_all add: ex5_def ex0_def)

section \<open>A watch stream that waits\<close>

definition w_one :: NodeWatcher where
  "w_one = snd (Watch ''6e'' NewNodeWatcher)"

definition sent_nothing :: json where
  "sent_nothing = JObj [(''containers'', JArr [])]"

definition y_waiting :: "mem_db system" where
  "y_waiting = (y_ready (ex5\<lparr>st_watcher := w_one\<rparr>))\<lparr>sy_watch :=
     \<lparr>wr_node = ''6e'', wr_stream = \<lparr>js_written = [sent_nothing], js_err = None\<rparr>,
      wr_phase = Waiting 0\<rparr>\<rparr>"

lemma watch_reach:
  assumes "sys_reach E y" and "watch_step (e_B E) (sy_db y) (sy_watcher y) (sy_watch y) w h"
  shows "sys_reach E ((set_watcher w y)\<lparr>sy_watch := h\<rparr>)"
  by (rule sys_reach.step [OF assms(1) sys_step.watch_steps [OF assms(2)]])

lemma reach_waiting: "sys_reach ex_env y_waiting"
proof -
  let ?h1 = "(start_run ''6e'')\<lparr>wr_phase := Registered 0\<rparr>"
  let ?y1 = "(set_watcher w_one (y_ready ex5))\<lparr>sy_watch := ?h1\<rparr>"
  let ?y2 = "?y1\<lparr>sy_watch := ?h1\<lparr>wr_phase := Loaded 0 []\<rparr>\<rparr>"
  have "watch_step mem_bolt (st_db ex5) NewNodeWatcher (start_run ''6e'') w_one ?h1"
    by (rule watch_step.top_watch) (simp_all add: start_run_def Watch_def NewNodeWatcher_def w_one_def)
  then have r1: "sys_reach ex_env ?y1"
    using watch_reach [OF reach5, of w_one ?h1] by (simp add: ex5_parts)
  have "map_value (\<lambda>es. collect_assignments ''6e'' es []) (list_entries mem_bolt containers_collection (st_db ex5))
      = Inr []" by code_simp
  then obtain es where es: "list_entries mem_bolt containers_collection (st_db ex5) = Inr es"
    "collect_assignments ''6e'' es [] = []" by (auto simp: map_value_eq_Inr)
  have "watch_step mem_bolt (st_db ex5) w_one ?h1 w_one
      (?h1\<lparr>wr_phase := Loaded 0 (collect_assignments (wr_node ?h1) es [])\<rparr>)"
    by (rule watch_step.load) (simp_all add: es(1))
  then have "watch_step mem_bolt (st_db ex5) w_one ?h1 w_one (?h1\<lparr>wr_phase := Loaded 0 []\<rparr>)"
    using es(2) by (simp add: start_run_def)
  then have r2: "sys_reach ex_env ?y2"
    using watch_reach [OF r1, of w_one "?h1\<lparr>wr_phase := Loaded 0 []\<rparr>"]
    by (simp add: set_watcher_def)
  have "watch_step mem_bolt (st_db ex5) w_one (sy_watch ?y2) w_one
      ((sy_watch ?y2)\<lparr>wr_stream := \<lparr>js_written = [sent_nothing], js_err = None\<rparr>, wr_phase := Waiting 0\<rparr>)"
    by (rule watch_step.sends [of _ _ "[]" sent_nothing])
      (simp_all add: enc_NodeWatchResponse_def sent_nothing_def stream_Write_def start_run_def)
  then have "sys_reach ex_env ((set_watcher w_one ?y2)\<lparr>sy_watch := (sy_watch ?y2)\<lparr>wr_stream :=
      \<lparr>js_written = [sent_nothing], js_err = None\<rparr>, wr_phase := Waiting 0\<rparr>\<rparr>)"
    by (intro watch_reach [OF r2]) simp
  moreover have "(set_watcher w_one ?y2)\<lparr>sy_watch := (sy_watch ?y2)\<lparr>wr_stream :=
      \<lparr>js_written = [sent_nothing], js_err = None\<rparr>, wr_phase := Waiting 0\<rparr>\<rparr> = y_waiting"
    by (simp add: y_waiting_def set_watcher_def y_ready_def start_run_def)
  ultimately show ?thesis by simp
qed

section \<open>The assignment it waits for\<close>

definition q_taken :: MemoryQueue where
  "q_taken = snd (Queue.Get (fst (Add ''63'' NewMemoryQueue)))"

lemma queue_get: "Queue.Get (fst (Add ''63'' NewMemoryQueue)) = (Some (''63'', False), q_taken)"
  by (simp add: q_taken_def Get_def Add_def NewMemoryQueue_def Let_def)

definition y_assigning :: "mem_db system" where
  "y_assigning = (set_queue q_taken y_waiting)\<lparr>sy_sched := Assigning ''63''\<rparr>"

lemma step_assigning: "sys_step ex_env y_waiting y_assigning"
  unfolding y_assigning_def
  by (rule sys_step.sched_get) (simp_all add: y_waiting_def ex5_parts queue_get)

definition y_committed :: "mem_db system" where
  "y_committed = (set_db (st_db ex6) y_assigning)\<lparr>sy_sched := Committed ''63'' ((False, ''6e''), None)\<rparr>"

lemma step_committed: "sys_step ex_env y_assigning y_committed"
  unfolding y_committed_def
  by (rule sys_step.sched_commit [where now = 5])
    (simp_all add: y_assigning_def y_waiting_def ex6_assigned)

lemma reach_committed: "sys_reach ex_env y_committed"
  using reach_waiting step_assigning step_committed sys_reach.step by blast

section \<open>An assignment without a node\<close>

definition no_node_db :: mem_db where
  "no_node_db = ex_db used [(''63'', JObj [(''id'', JStr ''63''), (''name'', JStr ''web''),
     (''image'', JStr ''i''), (''state'', JStr ''pending''), (''reason'', JStr no_nodes_reason),
     (''message'', JStr no_nodes_message), (''created_at'', JTime 4)])] ready_node"

lemma no_node_assigned:
  "assign_write mem_bolt 3600000000000 ''63'' (st_db ex5) = ((True, []), None, no_node_db)"
  by code_simp

lemma no_node_finish:
  "assign_finish ((True, []), None) w = Some (Some (Sentinel ErrNoReachableNodes), w)"
  by (simp add: assign_finish_def Let_def)

definition y_retrying :: "mem_db system" where
  "y_retrying = (set_queue (fst (Done ''63'' q_taken)) (set_db no_node_db y_waiting))
     \<lparr>sy_sched := Ready, sy_timers := [(''63'', retryDelay)]\<rparr>"

lemma reach_retrying: "sys_reach ex_env y_retrying"
proof -
  let ?y1 = "(set_db no_node_db y_assigning)\<lparr>sy_sched := Committed ''63'' ((True, []), None)\<rparr>"
  have r1: "sys_reach ex_env ?y1"
    by (rule sys_reach.step [OF sys_reach.step [OF reach_waiting step_assigning]
          sys_step.sched_commit [where now = 3600000000000]])
      (simp_all add: y_assigning_def y_waiting_def no_node_assigned)
  let ?y2 = "(set_watcher w_one ?y1)\<lparr>sy_sched := Finishing ''63'' (Some (Sentinel ErrNoReachableNodes))\<rparr>"
  have r2: "sys_reach ex_env ?y2"
    by (rule sys_reach.step [OF r1 sys_step.sched_notify [where k = "''63''" and outcome = "((True, []), None)"]])
      (simp_all add: no_node_finish y_assigning_def y_waiting_def)
  have "\<not> shuttingDown q_taken" by (simp add: q_taken_def Get_def Add_def NewMemoryQueue_def Let_def)
  then have "sys_reach ex_env ((set_queue (fst (Done ''63'' (sy_queue ?y2))) ?y2)
      \<lparr>sy_sched := Ready, sy_timers := [(''63'', retryDelay)]\<rparr>)"
    using sys_reach.step [OF r2 sys_step.sched_done [of ?y2 "''63''" _ "Some (''63'', retryDelay)"]]
    by (simp add: AddAfter_def y_assigning_def y_waiting_def)
  moreover have "(set_queue (fst (Done ''63'' (sy_queue ?y2))) ?y2)
      \<lparr>sy_sched := Ready, sy_timers := [(''63'', retryDelay)]\<rparr> = y_retrying"
    by (simp add: y_retrying_def y_assigning_def y_waiting_def set_queue_def set_db_def set_watcher_def
        y_ready_def)
  ultimately show ?thesis by simp
qed

end
