(* ===== verification/Lasting.thy ===== *)
theory Lasting
  imports Runs
begin

text \<open>
  What outlasts the steps of the running server and its restarts: nodes stay registered, a used
  token keeps its result, and the record of a node changes only by requests of the node itself.
\<close>

section \<open>One request\<close>

text \<open>
  A request of the node \<open>k\<close> that was accepted and changed its record \<open>n\<close>: it opened a session,
  or reported in the current one with a new number.
\<close>

definition own_update :: "'db env \<Rightarrow> request \<Rightarrow> response \<Rightarrow> 'db \<Rightarrow> string \<Rightarrow> Node \<Rightarrow> bool" where
  "own_update E r resp db k n \<longleftrightarrow>
     runs_as_node E r db k
     \<and> (route_of r = CreateNodeSession \<and> rs_Status resp = 201
        \<or> route_of r = ReportNodeStatus \<and> rs_Status resp = 204
          \<and> (\<exists>q. status_request (r\<lparr>rq_NodeID := Some k\<rparr>) k q \<and> rn_SessionID q = n_StatusSessionID n
                \<and> n_StatusSequence n < rn_Sequence q))"

context hambo_db
begin

lemma report_record:
  assumes inv: "db_inv B (st_db s)" and E: "e_B E = B"
    and run: "reportNodeStatusHandler E now r s = (resp, s')"
    and n: "node_tbl B (st_db s) k = Some n" "node_tbl B (st_db s') k \<noteq> Some n"
  shows "rs_Status resp = 204 \<and> (\<exists>q. status_request r k q \<and> rn_SessionID q = n_StatusSessionID n
    \<and> n_StatusSequence n < rn_Sequence q)"
proof (cases rule: reportNodeStatus_cases [of E now r s])
  case (refused resp')
  then show ?thesis using run n by simp
next
  case (runs nodeID q err db')
  have valid: "\<forall>p \<in> set (rn_Containers q). valid_report p" using runs(1) by (simp add: status_request_def)
  have s': "st_db s' = db'" "resp = status_answer err" using run runs(3) by auto
  show ?thesis
  proof (cases err)
    case None
    note w = status_write_committed(1) [OF inv valid runs(2) [unfolded None E]]
    then have "nodeID = k" using n s' unfolding reported_def by (metis fun_upd_other)
    then show ?thesis
      using w n runs(1) s' None by (auto simp: reported_def status_answer_def status_defs)
  next
    case (Some e)
    then show ?thesis using failed_unchanged(4) [OF runs(2) [unfolded Some]] s' n by simp
  qed
qed

lemma session_record:
  assumes inv: "db_inv B (st_db s)" and E: "e_B E = B"
    and run: "createNodeSessionHandler E rnd r s = (resp, s')"
    and n: "node_tbl B (st_db s) k = Some n" "node_tbl B (st_db s') k \<noteq> Some n"
  shows "rs_Status resp = 201 \<and> rq_NodeID r = Some k"
proof (cases rule: createNodeSession_cases [of E rnd r s])
  case (failed resp')
  then show ?thesis using run n by simp
next
  case (created nodeID db')
  then show ?thesis
    using session_started(1) [OF inv created(2) [unfolded E]] run n
    by (auto simp: status_defs split: if_splits)
qed

lemma join_record:
  assumes inv: "db_inv B (st_db s)" and E: "e_B E = B"
    and run: "joinNodeHandler E rnd now r s = (resp, s')"
  shows "node_tbl B (st_db s) k = Some n \<Longrightarrow> node_tbl B (st_db s') k = Some n"
    and "token_tbl B (st_db s) h = Some m \<Longrightarrow> md_Enrollment m = Some e \<Longrightarrow> token_tbl B (st_db s') h = Some m"
proof -
  have "(node_tbl B (st_db s) k = Some n \<longrightarrow> node_tbl B (st_db s') k = Some n)
    \<and> (token_tbl B (st_db s) h = Some m \<longrightarrow> md_Enrollment m = Some e \<longrightarrow> token_tbl B (st_db s') h = Some m)"
  proof (cases rule: joinNode_cases [of E rnd now r s])
    case (runs secret q v err db')
    then have s': "st_db s' = db'" using run by auto
    show ?thesis
    proof (cases err)
      case None
      show ?thesis
        using join_write_committed(1) [OF inv E runs(2) [unfolded None E]]
        unfolding s' by (auto simp: enrolled_def)
    next
      case (Some x)
      then show ?thesis using failed_unchanged(4) [OF runs(2) [unfolded Some]] s' by simp
    qed
  qed (use run in auto)
  then show "node_tbl B (st_db s) k = Some n \<Longrightarrow> node_tbl B (st_db s') k = Some n"
    and "token_tbl B (st_db s) h = Some m \<Longrightarrow> md_Enrollment m = Some e \<Longrightarrow> token_tbl B (st_db s') h = Some m"
    by blast+
qed

lemma token_record:
  assumes inv: "db_inv B (st_db s)" and E: "e_B E = B"
    and run: "createTokenHandler E rnd now r s = (resp, s')"
  shows "token_tbl B (st_db s) h = Some m \<Longrightarrow> token_tbl B (st_db s') h = Some m"
proof (cases rule: createToken_cases [of E rnd now r s])
  case (created ttl bs t db')
  have "tbl_ok B tokens_collection (st_db s)" using inv by (simp add: db_inv_def db_ok_def)
  from tokens.Create_ok [OF this created(5) [unfolded E]]
  show "token_tbl B (st_db s) h = Some m \<Longrightarrow> token_tbl B (st_db s') h = Some m"
    using run created(6) by auto
qed (use run in auto)

lemma serve_record:
  assumes inv: "state_inv B s" and E: "e_B E = B" and run: "serve E g r s = (resp, s')"
    and n: "node_tbl B (st_db s) k = Some n"
  shows "node_tbl B (st_db s') k = Some n \<or> own_update E r resp (st_db s) k n"
proof (rule ccontr)
  assume "\<not> ?thesis"
  then have changed: "node_tbl B (st_db s') k \<noteq> Some n" and other: "\<not> own_update E r resp (st_db s) k n" by auto
  have db: "db_inv B (st_db s)" using inv by (simp add: state_inv_def)
  have "s' \<noteq> s" using changed n by auto
  then have moved: "s' = s \<Longrightarrow> False" by simp
  note run' = run [unfolded serve_def addRoutes_def]
  have node: "\<exists>nodeID. runs_as_node E r (st_db s) nodeID \<and> next (r\<lparr>rq_NodeID := Some nodeID\<rparr>) s = (resp, s')"
    if "nodeOnly E next r s = (resp, s')" for "next"
    using that moved by (cases rule: nodeOnly_cases [of E "next" r s]) auto
  have admin: "next r s = (resp, s')" if "adminOnly next r s = (resp, s')" for "next"
    using that moved by (auto simp: adminOnly_def requireGroup_cases split: if_splits)
  show False
  proof (cases "route_of r")
    case JoinNode
    then show False using run' join_record(1) [OF db E _ n] changed by auto
  next
    case CreateNodeSession
    then obtain nodeID where "runs_as_node E r (st_db s) nodeID"
      "createNodeSessionHandler E (g_id g) (r\<lparr>rq_NodeID := Some nodeID\<rparr>) s = (resp, s')"
      using run' node by auto
    with session_record [OF db E this(2) n changed] CreateNodeSession other
    show False by (auto simp: own_update_def)
  next
    case ReportNodeStatus
    then obtain nodeID where "runs_as_node E r (st_db s) nodeID"
      "reportNodeStatusHandler E (g_now g) (r\<lparr>rq_NodeID := Some nodeID\<rparr>) s = (resp, s')"
      using run' node by auto
    with report_record [OF db E this(2) n changed] ReportNodeStatus other
    show False by (auto simp: own_update_def status_request_def)
  next
    case WatchNode
    then obtain nodeID where "watchNodeHandler (r\<lparr>rq_NodeID := Some nodeID\<rparr>) s = (resp, s')"
      using run' node by auto
    then show False using moved by (auto simp: watchNodeHandler_def split: option.splits)
  next
    case CreateToken
    then show False
      using run' admin createToken_inv(4) [OF db E] changed n by fastforce
  next
    case CreateContainer
    then show False
      using run' admin createContainer_inv(4) [OF db E] changed n by fastforce
  qed (use run' moved in \<open>auto simp: getCAHandler_def healthHandler_def NotFoundHandler_def
      requireCertificate_cases split: if_splits\<close>)
qed

lemma serve_used_token:
  assumes inv: "state_inv B s" and E: "e_B E = B" and run: "serve E g r s = (resp, s')"
    and m: "token_tbl B (st_db s) h = Some m" "md_Enrollment m = Some e"
  shows "token_tbl B (st_db s') h = Some m"
proof -
  have db: "db_inv B (st_db s)" using inv by (simp add: state_inv_def)
  note run' = run [unfolded serve_def addRoutes_def]
  have node: "token_tbl B (st_db s') h = Some m" if "nodeOnly E next r s = (resp, s')"
    and "\<And>r' resp s'. next r' s = (resp, s') \<Longrightarrow> token_tbl B (st_db s') h = Some m" for "next"
    using that m by (cases rule: nodeOnly_cases [of E "next" r s]) auto
  have admin: "token_tbl B (st_db s') h = Some m" if "adminOnly next r s = (resp, s')"
    and "\<And>r' resp s'. next r' s = (resp, s') \<Longrightarrow> token_tbl B (st_db s') h = Some m" for "next"
    using that m by (auto simp: adminOnly_def requireGroup_cases split: if_splits)
  have created: "token_tbl B (st_db s'') h = Some m"
    if "createContainerHandler E (g_id g) (g_now g) r'' s = (resp'', s'')" for r'' resp'' s''
  proof (cases rule: createContainer_cases [of E "g_id g" "g_now g" r'' s])
    case (created name img c db')
    then have "c_State c = StatePending" "c_ExitCode c = None" "c_NodeID c = []"
      by (simp_all add: new_container_def zero_Container_def)
    from container_write_committed(5) [OF db this created(3) [unfolded E]]
    show ?thesis using that created(4) m by auto
  qed (use that m in auto)
  show ?thesis
  proof (cases "route_of r")
    case JoinNode
    then show ?thesis using run' join_record(2) [OF db E _ m] by auto
  next
    case CreateNodeSession
    then show ?thesis using run' node createNodeSession_inv(5) [OF db E] m by fastforce
  next
    case ReportNodeStatus
    then show ?thesis using run' node reportNodeStatus_inv(4) [OF db E] m by fastforce
  next
    case WatchNode
    then show ?thesis using run' m
      by (auto intro!: node simp: watchNodeHandler_def split: option.splits)
  next
    case CreateToken
    then show ?thesis using run' admin token_record [OF db E _ m(1)] by fastforce
  next
    case CreateContainer
    then show ?thesis using run' admin created by fastforce
  qed (use run' m in \<open>auto simp: getCAHandler_def healthHandler_def NotFoundHandler_def
      requireCertificate_cases split: if_splits\<close>)
qed

section \<open>Any number of steps\<close>

text \<open>A step leaves the nodes and the tokens as they are, or it is a request.\<close>

lemma sys_step_tables:
  assumes "sys_step E y z" and E: "e_B E = B" and base: "base_inv E y"
  shows "(node_tbl B (sy_db z) = node_tbl B (sy_db y) \<and> token_tbl B (sy_db z) = token_tbl B (sy_db y))
    \<or> (\<exists>g r resp s'. serve E g r (sy_state y) = (resp, s') \<and> z = y\<lparr>sy_state := s'\<rparr>)"
proof -
  have inv: "state_inv B (sy_state y)" and db: "db_inv B (sy_db y)"
    using base E by (simp_all add: base_inv_def state_inv_def)
  from assms(1) show ?thesis
  proof cases
    case (request g r resp s')
    then have "serve E g r (sy_state y) = (resp, s')" by (simp add: serve_two_steps)
    then show ?thesis using request(1) by blast
  next
    case (create_commits g r c s')
    then have run: "createContainer_commit E (g_id g) (g_now g) r (sy_state y) = (Inr c, s')"
      by (auto simp: serve_commit_def split: if_splits prod.splits)
    show ?thesis
    proof (cases rule: createContainer_commit_cases [of E "g_id g" "g_now g" r "sy_state y"])
      case (created name img d db')
      then have "c_State d = StatePending" "c_ExitCode d = None" "c_NodeID d = []"
        by (simp_all add: new_container_def zero_Container_def)
      from container_write_committed(4,5) [OF db this created(3) [unfolded E]]
      show ?thesis using run created(4) create_commits(1) by auto
    qed (use run in auto)
  next
    case (create_adds cs c ds resp s')
    then show ?thesis using finish_simps [OF create_adds(3)] by simp
  next
    case (sched_start s')
    then have "st_db s' = sy_db y" by (auto simp: run_start_def split: sum.splits)
    then show ?thesis using sched_start(1) by simp
  next
    case (sched_fails e s')
    then have "st_db s' = sy_db y" by (auto simp: run_start_def split: sum.splits)
    then show ?thesis using sched_fails(1) by simp
  next
    case (sched_commit k now captured err db')
    show ?thesis
    proof (cases err)
      case None
      show ?thesis
        using assign_write_committed(2,3) [OF db sched_commit(3) [unfolded None E]] sched_commit(1) by simp
    next
      case (Some e)
      have "db' = sy_db y"
        by (rule failed_unchanged(4) [OF sched_commit(3) [unfolded Some assign_write_def]])
      then show ?thesis using sched_commit(1) by simp
    qed
  next
    case (restart s db' n)
    have "node_tbl B (st_db s) = node_tbl B (sy_db y)" "token_tbl B (st_db s) = token_tbl B (sy_db y)"
      by (rule open_state_tbl(1) [OF restart(2) [unfolded E]]; simp)+
    then show ?thesis using restart(1) by simp
  qed simp_all
qed

lemma sys_steps_base:
  assumes "(sys_step E)\<^sup>*\<^sup>* y z" and E: "e_B E = B" and "base_inv E y"
  shows "base_inv E z"
  using assms(1,3)
proof (induction rule: rtranclp_induct)
  case (step u v)
  then show ?case using base_inv_step [OF step(2) E] by blast
qed

lemma served_base:
  assumes base: "base_inv E y" and E: "e_B E = B" and run: "serve E g r (sy_state y) = (resp, s')"
  shows "base_inv E (y\<lparr>sy_state := s'\<rparr>)"
proof -
  have "state_inv B (sy_state y)" using base E by (simp add: base_inv_def)
  then show ?thesis
    using serve_ok [OF _ E run] base E by (auto simp: base_inv_def request_ok_def)
qed

text \<open>A used token stays as it is, and a node stays registered.\<close>

lemma sys_steps_used_token:
  assumes "(sys_step E)\<^sup>*\<^sup>* y z" and E: "e_B E = B" and "base_inv E y"
    and "token_tbl B (sy_db y) h = Some m" and m: "md_Enrollment m = Some e"
  shows "token_tbl B (sy_db z) h = Some m"
  using assms(1,3,4)
proof (induction rule: rtranclp_induct)
  case (step u v)
  have base: "base_inv E u" by (rule sys_steps_base [OF step(1) E step(4)])
  then have inv: "state_inv B (sy_state u)" using E by (simp add: base_inv_def)
  show ?case
    using sys_step_tables [OF step(2) E base] step(3) [OF step(4,5)] serve_used_token [OF inv E _ _ m]
    by auto
qed

lemma sys_steps_node:
  assumes "(sys_step E)\<^sup>*\<^sup>* y z" and E: "e_B E = B" and "base_inv E y"
    and "node_tbl B (sy_db y) k \<noteq> None"
  shows "node_tbl B (sy_db z) k \<noteq> None"
  using assms(1,3,4)
proof (induction rule: rtranclp_induct)
  case (step u v)
  have base: "base_inv E u" by (rule sys_steps_base [OF step(1) E step(4)])
  then have inv: "state_inv B (sy_state u)" using E by (simp add: base_inv_def)
  have "dom (node_tbl B (st_db (sy_state u))) \<subseteq> dom (node_tbl B (st_db s'))"
    if "serve E g r (sy_state u) = (resp, s')" for g r resp s'
    using serve_ok [OF inv E that] by (simp add: request_ok_def grows_def)
  then show ?case
    using sys_step_tables [OF step(2) E base] step(3) [OF step(4,5)] by fastforce
qed simp

text \<open>The record of a node is the same, or at some point the node itself has changed it.\<close>

lemma sys_steps_record:
  assumes "(sys_step E)\<^sup>*\<^sup>* y z" and E: "e_B E = B" and "base_inv E y"
    and "node_tbl B (sy_db y) k = Some n"
  shows "node_tbl B (sy_db z) k = Some n
    \<or> (\<exists>u g r resp s'. (sys_step E)\<^sup>*\<^sup>* y u \<and> node_tbl B (sy_db u) k = Some n
        \<and> serve E g r (sy_state u) = (resp, s') \<and> own_update E r resp (sy_db u) k n
        \<and> (sys_step E)\<^sup>*\<^sup>* (u\<lparr>sy_state := s'\<rparr>) z)"
  using assms(1,3,4)
proof (induction rule: rtranclp_induct)
  case (step u v)
  have base: "base_inv E u" by (rule sys_steps_base [OF step(1) E step(4)])
  then have inv: "state_inv B (sy_state u)" using E by (simp add: base_inv_def)
  from step(3) [OF step(4,5)] show ?case
  proof
    assume n: "node_tbl B (sy_db u) k = Some n"
    from sys_step_tables [OF step(2) E base] show ?thesis
    proof
      assume "\<exists>g r resp s'. serve E g r (sy_state u) = (resp, s') \<and> v = u\<lparr>sy_state := s'\<rparr>"
      then obtain g r resp s' where run: "serve E g r (sy_state u) = (resp, s')"
        and v: "v = u\<lparr>sy_state := s'\<rparr>" by blast
      show ?thesis
        using serve_record [OF inv E run n]
      proof
        assume "own_update E r resp (sy_db u) k n"
        moreover have "(sys_step E)\<^sup>*\<^sup>* (u\<lparr>sy_state := s'\<rparr>) v" unfolding v ..
        ultimately show ?thesis using step(1) n run by blast
      qed (simp add: v)
    qed (use n in simp)
  next
    assume "\<exists>w g r resp s'. (sys_step E)\<^sup>*\<^sup>* y w \<and> node_tbl B (sy_db w) k = Some n
        \<and> serve E g r (sy_state w) = (resp, s') \<and> own_update E r resp (sy_db w) k n
        \<and> (sys_step E)\<^sup>*\<^sup>* (w\<lparr>sy_state := s'\<rparr>) u"
    then show ?thesis using step(2) by (meson rtranclp.rtrancl_into_rtrancl)
  qed
qed simp

end

end
