(* ===== verification/Join_Guarantees.thy ===== *)
theory Join_Guarantees
  imports Lasting
begin

text \<open>
  What the enrollment of a node guarantees: how the stored token decides the answer, that a
  token enrolls one node, that a retry gets the same answer, and that the issued certificate
  lets the new node in.
\<close>

section \<open>Lemmas\<close>

lemma join_run:
  assumes "join_request r secret q"
  obtains v err db' where
    "WriteTx (e_B E) join_vars0 (join_tx E rnd now q (secret_hash E secret) (request_hash E q)) (st_db s)
       = (v, err, db')"
    "joinNodeHandler E rnd now r s = (join_answer v err, s\<lparr>st_db := db'\<rparr>)"
proof (cases rule: joinNode_cases [of E rnd now r s])
  case (runs secret' q' v err db')
  have "secret' = secret \<and> q' = q" using runs(1) assms by (auto simp: join_request_def)
  then show ?thesis using runs(2,3) that by blast
next
  case (refused resp)
  obtain v err db' where w: "WriteTx (e_B E) join_vars0
      (join_tx E rnd now q (secret_hash E secret) (request_hash E q)) (st_db s) = (v, err, db')"
    by (metis prod.exhaust)
  show ?thesis
    by (rule that [OF w])
      (use assms w in \<open>auto simp: join_request_def joinNodeHandler_def Let_def joinNodeRequestHash_def
        SecretHash_def secret_hash_def request_hash_def\<close>)
qed

lemma join_answer_None:
  "join_answer v None =
     \<lparr>rs_Status = jv_statusCode v,
      rs_Header = [(''Cache-Control'', ''no-store''), (''Content-Type'', ''application/json'')],
      rs_Body = JsonBody (enc_JoinNodeResponse (jv_response v))\<rparr>"
  by (simp add: join_answer_def writeJSON_def)

lemma join_answer_Some: "rs_Status (join_answer v (Some e)) \<in> {401, 409, 410, 422, 500}"
  by (simp add: join_answer_def status_defs)

lemma join_success:
  assumes "hambo_db (e_B E)" and "state_inv (e_B E) s" and "joinNodeHandler E rnd now r s = (resp, s')"
    and "rs_Status resp \<in> {200, 201}"
  obtains secret q v where "join_request r secret q"
    "rs_Status resp = jv_statusCode v"
    "rs_Body resp = JsonBody (enc_JoinNodeResponse (jv_response v))"
    "retried now (secret_hash E secret) (request_hash E q) v
        (node_tbl (e_B E) (st_db s)) (token_tbl (e_B E) (st_db s))
        \<and> node_tbl (e_B E) (st_db s') = node_tbl (e_B E) (st_db s)
        \<and> token_tbl (e_B E) (st_db s') = token_tbl (e_B E) (st_db s)
      \<or> enrolled E now (GenerateNodeID rnd) q (secret_hash E secret) (request_hash E q) v
          (node_tbl (e_B E) (st_db s)) (token_tbl (e_B E) (st_db s))
          (node_tbl (e_B E) (st_db s')) (token_tbl (e_B E) (st_db s'))"
proof (cases rule: joinNode_cases [of E rnd now r s])
  case (refused resp')
  then show ?thesis using assms(3,4) by auto
next
  case (runs secret q v err db')
  then have resp: "resp = join_answer v err" and s': "st_db s' = db'" using assms(3) by auto
  have err: "err = None" using assms(4) join_answer_Some [of v "the err"] unfolding resp by (cases err) auto
  have inv: "db_inv (e_B E) (st_db s)" using assms(2) by (simp add: state_inv_def)
  show ?thesis
    by (rule that [OF runs(1), of v])
      (use hambo_db.join_write_committed(1) [OF assms(1) inv refl runs(2) [unfolded err]] in
        \<open>simp_all add: resp err join_answer_None s'\<close>)
qed

text \<open>A first join in a reachable state, and what it leaves behind.\<close>

lemma first_join:
  assumes "hambo_db (e_B E)" and "sys_reach E y"
    and run: "joinNodeHandler E rnd now r (sy_state y) = (resp, s1)" and "rs_Status resp = 201"
    and "join_request r secret q"
  obtains v :: join_vars and m :: Metadata and e :: EnrollmentResult and c :: certificate where
    "rs_Body resp = JsonBody (enc_JoinNodeResponse (jv_response v))"
    "jv_response v = \<lparr>jn_NodeID = er_NodeID e, jn_Certificate = er_Certificate e\<rparr>"
    "token_tbl (e_B E) (st_db s1) (secret_hash E secret) = Some m" "md_Enrollment m = Some e"
    "base_inv E (y\<lparr>sy_state := s1\<rparr>)"
    "IssueNodeCertificate (e_X E) (e_ca E) now (GenerateNodeID rnd) (jr_CSR q) = Inr c"
    "er_NodeID e = GenerateNodeID rnd" "er_Certificate e = e_pem_certificate E (ct_Raw c)"
    "node_tbl (e_B E) (sy_db y) (GenerateNodeID rnd) = None"
    "node_tbl (e_B E) (st_db s1) (GenerateNodeID rnd) \<noteq> None"
proof -
  have base: "base_inv E y" by (rule hambo_db.sys_reach_base [OF assms(1,2) refl])
  then have inv: "state_inv (e_B E) (sy_state y)" by (simp add: base_inv_def)
  have base1: "base_inv E (y\<lparr>sy_state := s1\<rparr>)"
    using hambo_db.joinNode_ok [OF assms(1) inv refl run] base
    by (auto simp: base_inv_def request_ok_def)
  obtain v where "rs_Status resp = jv_statusCode v"
    and body: "rs_Body resp = JsonBody (enc_JoinNodeResponse (jv_response v))"
    and "retried now (secret_hash E secret) (request_hash E q) v
        (node_tbl (e_B E) (sy_db y)) (token_tbl (e_B E) (sy_db y))
      \<or> enrolled E now (GenerateNodeID rnd) q (secret_hash E secret) (request_hash E q) v
          (node_tbl (e_B E) (sy_db y)) (token_tbl (e_B E) (sy_db y))
          (node_tbl (e_B E) (st_db s1)) (token_tbl (e_B E) (st_db s1))"
    by (rule join_success [OF assms(1) inv run]) (use assms(4,5) in \<open>auto simp: join_request_def\<close>)
  then obtain m c where "IssueNodeCertificate (e_X E) (e_ca E) now (GenerateNodeID rnd) (jr_CSR q) = Inr c"
    "node_tbl (e_B E) (sy_db y) (GenerateNodeID rnd) = None"
    "node_tbl (e_B E) (st_db s1) (GenerateNodeID rnd) \<noteq> None"
    "token_tbl (e_B E) (st_db s1) (secret_hash E secret) = Some (m\<lparr>md_Enrollment :=
       Some \<lparr>er_RequestHash = request_hash E q, er_NodeID = GenerateNodeID rnd,
         er_Certificate = e_pem_certificate E (ct_Raw c)\<rparr>\<rparr>)"
    "jv_response v = \<lparr>jn_NodeID = GenerateNodeID rnd, jn_Certificate = e_pem_certificate E (ct_Raw c)\<rparr>"
    using assms(4) by (auto simp: retried_def enrolled_def status_defs)
  from that [OF body _ this(4) _ base1 this(1) _ _ this(2,3)] this(5) show thesis by simp
qed

text \<open>A join with a token that has a result.\<close>

lemma join_when_used:
  assumes "hambo_db (e_B E)" and "state_inv (e_B E) s"
    and "joinNodeHandler E rnd now r s = (resp, s')" and "join_request r secret q"
    and used: "token_tbl (e_B E) (st_db s) (secret_hash E secret) = Some m" "md_Enrollment m = Some e"
  shows "rs_Status resp \<noteq> 201 \<and> same_data (e_B E) (st_db s) (st_db s')
    \<and> (rs_Status resp = 200 \<longrightarrow> rs_Body resp = JsonBody (enc_JoinNodeResponse
        \<lparr>jn_NodeID = er_NodeID e, jn_Certificate = er_Certificate e\<rparr>))"
proof -
  let ?B = "e_B E" and ?h = "secret_hash E secret"
  have inv: "db_inv ?B (st_db s)" using assms(2) by (simp add: state_inv_def)
  obtain v err db' where w: "WriteTx ?B join_vars0
      (join_tx E rnd now q ?h (request_hash E q)) (st_db s) = (v, err, db')"
    and run: "joinNodeHandler E rnd now r s = (join_answer v err, s\<lparr>st_db := db'\<rparr>)"
    by (rule join_run [OF assms(4)])
  show ?thesis
  proof (cases err)
    case (Some x)
    then show ?thesis
      using failed_unchanged(4) [OF w [unfolded Some]] run assms(3) join_answer_Some [of v x] by auto
  next
    case None
    note c = hambo_db.join_write_committed [OF assms(1) inv refl w [unfolded None]]
    from c(1) have "retried now ?h (request_hash E q) v (node_tbl ?B (st_db s)) (token_tbl ?B (st_db s))
        \<and> node_tbl ?B db' = node_tbl ?B (st_db s) \<and> token_tbl ?B db' = token_tbl ?B (st_db s)"
      using used by (auto simp: enrolled_def)
    then show ?thesis
      using c(2) run assms(3) None used
      by (auto simp: same_data_def join_answer_None retried_def status_defs)
  qed
qed

text \<open>A certificate of a registered node lets it in, then and later.\<close>

lemma certificate_admits:
  assumes "hambo_db (e_B E)" and "db_works (e_B E)" and steps: "(sys_step E)\<^sup>*\<^sup>* y z" and base: "base_inv E y"
    and "node_tbl (e_B E) (sy_db y) nodeID \<noteq> None \<and> nodeID \<noteq> []
      \<and> ct_CommonName c = ''hambo:node:'' @ nodeID \<and> ct_Organization c = [''hambo:nodes'']"
    and "rq_VerifiedChains r = Some ((c # rest) # others)"
  shows "nodeOnly E next r (sy_state z) = next (r\<lparr>rq_NodeID := Some nodeID\<rparr>) (sy_state z)"
proof -
  have "node_tbl (e_B E) (sy_db z) nodeID \<noteq> None"
    by (rule hambo_db.sys_steps_node [OF assms(1) steps refl base]) (use assms(5) in simp)
  moreover have "db_inv (e_B E) (sy_db z)"
    using hambo_db.sys_steps_base [OF assms(1) steps refl base] by (simp add: base_inv_def state_inv_def)
  ultimately obtain n where "Store.Get (e_B E) nodes_collection nodeID (sy_db z) = Inr n"
    using hambo_db.get_node [OF assms(1,2)] by fastforce
  then show ?thesis
    using assms(5,6) by (simp add: nodeOnly_def requireGroup_cases authenticated_def leaf_certificate_def)
qed

text \<open>The answer that the stored token decides; \<open>None\<close> when the token is live and unused.\<close>

definition decided_answer ::
  "instant \<Rightarrow> string \<Rightarrow> Metadata option \<Rightarrow> response option" where
  "decided_answer now rh token =
     (case token of
        None \<Rightarrow> Some (writeErrorJSON StatusUnauthorized ''invalid join token'')
      | Some m \<Rightarrow>
          if md_ExpiresAt m \<le> now
          then Some (writeErrorJSON StatusUnauthorized ''join token expired'')
          else case md_Enrollment m of
            None \<Rightarrow> None
          | Some e \<Rightarrow>
              if er_RequestHash e \<noteq> rh
              then Some (writeErrorJSON StatusConflict
                     ''join token already used for a different request'')
              else Some (writeJSON [(''Cache-Control'', ''no-store'')] StatusOK
                     (Inr (enc_JoinNodeResponse
                       \<lparr>jn_NodeID = er_NodeID e, jn_Certificate = er_Certificate e\<rparr>))))"
lemma join_decided_run:
  assumes "hambo_db (e_B E)" and "db_works (e_B E)" and "db_inv (e_B E) (st_db s)"
    and "join_request r secret q"
    and "decided_answer now (request_hash E q) (token_tbl (e_B E) (st_db s) (secret_hash E secret))
      = Some answer"
  shows "\<exists>db'. joinNodeHandler E rnd now r s = (answer, s\<lparr>st_db := db'\<rparr>)
    \<and> view (e_B E) db' = view (e_B E) (st_db s)"
proof -
  let ?B = "e_B E" and ?h = "secret_hash E secret" and ?rh = "request_hash E q"
  let ?fn = "join_tx E rnd now q ?h ?rh"
  have bolt: "bolt_api ?B" using assms(1) by (simp add: hambo_db_def)
  obtain tx where tx: "view ?B tx = view ?B (st_db s)"
    and err: "\<And>c e. ?fn tx = (c, Inl e) \<Longrightarrow>
      WriteTx ?B join_vars0 ?fn (st_db s) = (c, Some (Wrap ''write transaction'' e), st_db s)"
    and ok: "\<And>c tx'. ?fn tx = (c, Inr tx') \<Longrightarrow>
      \<exists>db'. WriteTx ?B join_vars0 ?fn (st_db s) = (c, None, db') \<and> view ?B db' = view ?B tx'"
    by (rule bolt_api.WriteTx_works [OF bolt assms(2), of "st_db s" ?fn join_vars0]) blast
  have inv: "db_inv ?B tx" using assms(3) db_inv_view [OF tx] by simp
  have tok: "token_tbl ?B tx = token_tbl ?B (st_db s)"
    using same_data_view [OF tx] by (simp add: same_data_def)
  note cases = hambo_db.join_tx_decided [OF assms(1) inv refl, of ?h]
  obtain v e db' where w: "WriteTx ?B join_vars0 ?fn (st_db s) = (v, e, db')"
    and run: "joinNodeHandler E rnd now r s = (join_answer v e, s\<lparr>st_db := db'\<rparr>)"
    by (rule join_run [OF assms(4)])
  have "join_answer v e = answer \<and> view ?B db' = view ?B (st_db s)"
  proof (cases "token_tbl ?B (st_db s) ?h")
    case None
    with cases(1) [of rnd now q ?rh] tok
    have f: "?fn tx = join_fails ''invalid join token'' ErrUnauthenticated" by simp
    show ?thesis
      using err [OF f [unfolded join_fails_def]] w None assms(5)
      by (auto simp: decided_answer_def join_answer_def)
  next
    case (Some m)
    note tm = Some [folded tok]
    show ?thesis
    proof (cases "md_ExpiresAt m \<le> now")
      case True
      have f: "?fn tx = join_fails ''join token expired'' ErrUnauthenticated"
        by (rule cases(2) [OF tm True])
      show ?thesis
        using err [OF f [unfolded join_fails_def]] w Some True assms(5)
        by (auto simp: decided_answer_def join_answer_def)
    next
      case False
      then obtain x where x: "md_Enrollment m = Some x"
        using assms(5) Some by (cases "md_Enrollment m") (auto simp: decided_answer_def)
      have live: "now < md_ExpiresAt m" using False by simp
      show ?thesis
      proof (cases "er_RequestHash x = ?rh")
        case True
        note f = cases(4) [OF tm live x True, of rnd q]
        show ?thesis
          using ok [OF f] w Some False x True tx assms(5)
          by (auto simp: decided_answer_def join_answer_None writeJSON_def)
      next
        case neq: False
        have f: "?fn tx = join_fails ''join token already used for a different request'' ErrConflict"
          by (rule cases(3) [OF tm live x neq])
        show ?thesis
          using err [OF f [unfolded join_fails_def]] w Some False x neq assms(5)
          by (auto simp: decided_answer_def join_answer_def)
      qed
    qed
  qed
  then show ?thesis using run by blast
qed

text \<open>The requests of the instances.\<close>

lemma join_req_w: "join_request (join_req ''w'') ''cw'' \<lparr>jr_Name = ''w'', jr_CSR = ''csr''\<rparr>"
proof -
  have "Fields (rq_Authorization (join_req ''w'')) = [''Bearer'', ''cw'']" by code_simp
  moreover have "readJSON dec_JoinNodeRequest maxJoinNodeRequestSize (join_req ''w'')
      = Inr \<lparr>jr_Name = ''w'', jr_CSR = ''csr''\<rparr>" by code_simp
  moreover have "EqualFold ''Bearer'' ''Bearer''" "TrimSpace ''w'' \<noteq> []" by code_simp+
  ultimately show ?thesis by (simp add: join_request_def)
qed

lemma join_req_v: "join_request (join_req ''v'') ''cw'' \<lparr>jr_Name = ''v'', jr_CSR = ''csr''\<rparr>"
proof -
  have "Fields (rq_Authorization (join_req ''v'')) = [''Bearer'', ''cw'']" by code_simp
  moreover have "readJSON dec_JoinNodeRequest maxJoinNodeRequestSize (join_req ''v'')
      = Inr \<lparr>jr_Name = ''v'', jr_CSR = ''csr''\<rparr>" by code_simp
  moreover have "EqualFold ''Bearer'' ''Bearer''" "TrimSpace ''v'' \<noteq> []" by code_simp+
  ultimately show ?thesis by (simp add: join_request_def)
qed

lemma ex2_decides:
  "decided_answer 5 (request_hash ex_env \<lparr>jr_Name = ''w'', jr_CSR = ''csr''\<rparr>)
      (token_tbl mem_bolt (st_db ex2) (secret_hash ex_env ''cw'')) =
     Some (writeJSON [(''Cache-Control'', ''no-store'')] StatusOK
       (Inr (enc_JoinNodeResponse \<lparr>jn_NodeID = ''6e'', jn_Certificate = ''PEM hambo:node:6e''\<rparr>)))"
  "decided_answer 5 (request_hash ex_env \<lparr>jr_Name = ''v'', jr_CSR = ''csr''\<rparr>)
      (token_tbl mem_bolt (st_db ex2) (secret_hash ex_env ''cw'')) =
     Some (writeErrorJSON StatusConflict ''join token already used for a different request'')"
  by code_simp+

lemma ex2_joined:
  "joinNodeHandler ex_env ''n'' 1 (join_req ''w'') ex1 =
     (fst (joinNodeHandler ex_env ''n'' 1 (join_req ''w'') ex1), ex2)"
  "rs_Status (fst (joinNodeHandler ex_env ''n'' 1 (join_req ''w'') ex1)) = 201"
proof -
  have "serve ex_env (ex_rng ''n'' 1) (join_req ''w'') ex1
      = joinNodeHandler ex_env ''n'' 1 (join_req ''w'') ex1"
    by (simp add: serve_def route_of_clean match_pattern_def join_req_def ex_request_def addRoutes_def
        ex_rng_def)
  then show "joinNodeHandler ex_env ''n'' 1 (join_req ''w'') ex1 =
     (fst (joinNodeHandler ex_env ''n'' 1 (join_req ''w'') ex1), ex2)"
    using ex2_served by (metis prod.collapse)
  show "rs_Status (fst (joinNodeHandler ex_env ''n'' 1 (join_req ''w'') ex1)) = 201"
    by code_simp
qed

lemma reach1: "sys_reach ex_env (y_ready ex1)"
  using reach0 ex1_served request_reach by blast

lemma served_steps:
  assumes "snd (serve ex_env g r s) = s'"
  shows "(sys_step ex_env)\<^sup>*\<^sup>* (y_ready s) (y_ready s')"
proof -
  have "serve ex_env g r (sy_state (y_ready s)) = (fst (serve ex_env g r s), s')"
    using assms by (metis prod.collapse y_ready_simps(1))
  from request_steps [OF this] show ?thesis by (simp add: y_ready_def boot_def)
qed

lemma steps_2_5: "(sys_step ex_env)\<^sup>*\<^sup>* ((y_ready ex1)\<lparr>sy_state := ex2\<rparr>) (y_ready ex5)"
proof -
  have "(y_ready ex1)\<lparr>sy_state := ex2\<rparr> = y_ready ex2" by (simp add: y_ready_def boot_def)
  moreover note served_steps [OF ex3_served [THEN conjunct1]]
  moreover note served_steps [OF ex4_served [THEN conjunct1]]
  moreover note served_steps [OF ex5_served [THEN conjunct1]]
  ultimately show ?thesis by (metis rtranclp_trans)
qed

section \<open>Properties\<close>

text \<open>
  Claim C8: a join that succeeds answers with the stored result of the same request (200), or
  uses the token for the first time (201): then the token was live and unused, the request's
  certificate request was signed, exactly one node was registered, under a fresh identifier
  and with the requested name, and the token holds the result with the hash of the request.
\<close>

theorem join_commits:
  assumes "hambo_db (e_B E)" and "state_inv (e_B E) s" and "joinNodeHandler E rnd now r s = (resp, s')"
    and "rs_Status resp \<in> {200, 201}"
  shows "\<exists>secret q v. join_request r secret q
    \<and> rs_Body resp = JsonBody (enc_JoinNodeResponse (jv_response v))
    \<and> (rs_Status resp = 200
         \<and> retried now (secret_hash E secret) (request_hash E q) v
             (node_tbl (e_B E) (st_db s)) (token_tbl (e_B E) (st_db s))
         \<and> same_data (e_B E) (st_db s) (st_db s')
       \<or> rs_Status resp = 201
         \<and> enrolled E now (GenerateNodeID rnd) q (secret_hash E secret) (request_hash E q) v
             (node_tbl (e_B E) (st_db s)) (token_tbl (e_B E) (st_db s))
             (node_tbl (e_B E) (st_db s')) (token_tbl (e_B E) (st_db s')))"
proof -
  have inv: "db_inv (e_B E) (st_db s)" using assms(2) by (simp add: state_inv_def)
  have cs: "container_tbl (e_B E) (st_db s') = container_tbl (e_B E) (st_db s)"
    by (rule hambo_db.joinNode_inv(4) [OF assms(1) inv refl assms(3)])
  obtain secret q v where j: "join_request r secret q" "rs_Status resp = jv_statusCode v"
    "rs_Body resp = JsonBody (enc_JoinNodeResponse (jv_response v))"
    "retried now (secret_hash E secret) (request_hash E q) v
        (node_tbl (e_B E) (st_db s)) (token_tbl (e_B E) (st_db s))
        \<and> node_tbl (e_B E) (st_db s') = node_tbl (e_B E) (st_db s)
        \<and> token_tbl (e_B E) (st_db s') = token_tbl (e_B E) (st_db s)
      \<or> enrolled E now (GenerateNodeID rnd) q (secret_hash E secret) (request_hash E q) v
          (node_tbl (e_B E) (st_db s)) (token_tbl (e_B E) (st_db s))
          (node_tbl (e_B E) (st_db s')) (token_tbl (e_B E) (st_db s'))"
    by (rule join_success [OF assms])
  have "(retried now (secret_hash E secret) (request_hash E q) v
        (node_tbl (e_B E) (st_db s)) (token_tbl (e_B E) (st_db s)) \<longrightarrow> jv_statusCode v = 200)
      \<and> (enrolled E now (GenerateNodeID rnd) q (secret_hash E secret) (request_hash E q) v
          (node_tbl (e_B E) (st_db s)) (token_tbl (e_B E) (st_db s))
          (node_tbl (e_B E) (st_db s')) (token_tbl (e_B E) (st_db s')) \<longrightarrow> jv_statusCode v = 201)"
    by (auto simp: retried_def enrolled_def status_defs)
  then show ?thesis using j cs by (auto simp: same_data_def)
qed

theorem join_commits_witness:
  "\<exists>secret q v. join_request (join_req ''w'') secret q
     \<and> enrolled ex_env 1 (GenerateNodeID ''n'') q (secret_hash ex_env secret) (request_hash ex_env q) v
         (node_tbl mem_bolt (st_db ex1)) (token_tbl mem_bolt (st_db ex1))
         (node_tbl mem_bolt (st_db ex2)) (token_tbl mem_bolt (st_db ex2))"
  using join_commits [OF ex_hambo(2) _ ex2_joined(1)] ex1_inv ex2_joined(2) by auto

text \<open>
  Claim C10: the stored token decides every answer but a first enrollment: an unknown or expired
  token is refused (401), a token used for a different request is a conflict (409), and the
  same request gets the stored node and certificate (200). In none of these cases is
  anything stored.
\<close>

theorem join_decided:
  assumes "hambo_db (e_B E)" and "db_works (e_B E)" and "state_inv (e_B E) s"
    and "join_request r secret q"
    and "decided_answer now (request_hash E q) (token_tbl (e_B E) (st_db s) (secret_hash E secret))
      = Some answer"
  shows "\<exists>s'. joinNodeHandler E rnd now r s = (answer, s') \<and> same_data (e_B E) (st_db s) (st_db s')"
  using join_decided_run [OF assms(1,2) _ assms(4,5), where rnd = rnd] assms(3) same_data_view
  by (fastforce simp: state_inv_def)

theorem join_decided_witness:
  "(\<exists>s'. joinNodeHandler ex_env ''z'' 5 (join_req ''w'') ex2 =
       (writeJSON [(''Cache-Control'', ''no-store'')] StatusOK
          (Inr (enc_JoinNodeResponse \<lparr>jn_NodeID = ''6e'', jn_Certificate = ''PEM hambo:node:6e''\<rparr>)), s')
     \<and> same_data mem_bolt (st_db ex2) (st_db s'))
   \<and> (\<exists>s'. joinNodeHandler ex_env ''z'' 5 (join_req ''v'') ex2 =
       (writeErrorJSON StatusConflict ''join token already used for a different request'', s')
     \<and> same_data mem_bolt (st_db ex2) (st_db s'))"
  using join_decided [OF ex_hambo(2) _ _ join_req_w, where s = ex2 and rnd = "''z''" and now = 5]
    join_decided [OF ex_hambo(2) _ _ join_req_v, where s = ex2 and rnd = "''z''" and now = 5]
    mem_bolt_works ex2_inv ex2_decides by simp

text \<open>
  Claim C11: a token enrolls one node. After a join answered 201, and whatever the server did
  since (requests, assignments, restarts, in any order), no join with the same secret registers
  anything: whatever its body, its time and its identifier are, it is not answered 201, the
  stored data stay as they are, and if it succeeds it is answered with the first node and
  certificate.
\<close>

theorem token_enrolls_once:
  assumes "hambo_db (e_B E)" and "sys_reach E y"
    and "joinNodeHandler E rnd now r (sy_state y) = (resp, s1)" and "rs_Status resp = 201"
    and "join_request r secret q"
    and "(sys_step E)\<^sup>*\<^sup>* (y\<lparr>sy_state := s1\<rparr>) z"
    and "joinNodeHandler E rnd2 now2 r2 (sy_state z) = (resp2, s2)" and "join_request r2 secret q2"
  shows "rs_Status resp2 \<noteq> 201 \<and> same_data (e_B E) (sy_db z) (st_db s2)
    \<and> (rs_Status resp2 = 200 \<longrightarrow> rs_Body resp2 = rs_Body resp)"
proof -
  let ?h = "secret_hash E secret"
  obtain v :: join_vars and m :: Metadata and e :: EnrollmentResult where v: "rs_Body resp = JsonBody (enc_JoinNodeResponse (jv_response v))"
    "jv_response v = \<lparr>jn_NodeID = er_NodeID e, jn_Certificate = er_Certificate e\<rparr>"
    and used: "token_tbl (e_B E) (st_db s1) ?h = Some m" "md_Enrollment m = Some e"
    and base: "base_inv E (y\<lparr>sy_state := s1\<rparr>)"
    by (rule first_join [OF assms(1-5)]) blast
  note base_z = hambo_db.sys_steps_base [OF assms(1,6) refl base]
  have used_z: "token_tbl (e_B E) (sy_db z) ?h = Some m"
    by (rule hambo_db.sys_steps_used_token [OF assms(1,6) refl base]) (simp_all add: used)
  from join_when_used [OF assms(1) _ assms(7,8) used_z used(2)] base_z v show ?thesis
    by (auto simp: base_inv_def)
qed

theorem token_enrolls_once_witness:
  "rs_Status (fst (joinNodeHandler ex_env ''z'' 5 (join_req ''v'') ex5)) \<noteq> 201
   \<and> same_data mem_bolt (st_db ex5) (st_db (snd (joinNodeHandler ex_env ''z'' 5 (join_req ''v'') ex5)))"
proof -
  obtain resp2 s2 where run: "joinNodeHandler ex_env ''z'' 5 (join_req ''v'') ex5 = (resp2, s2)"
    by fastforce
  have "joinNodeHandler ex_env ''n'' 1 (join_req ''w'') (sy_state (y_ready ex1))
      = (fst (joinNodeHandler ex_env ''n'' 1 (join_req ''w'') ex1), ex2)"
    using ex2_joined(1) by simp
  from token_enrolls_once [OF ex_hambo(2) reach1 this ex2_joined(2) join_req_w steps_2_5 _ join_req_v]
  show ?thesis using run by simp
qed

text \<open>
  Claim C12: the certificate a join issues lets the new node in, for good. If \<open>crypto/x509\<close>
  makes certificates with the fields of their templates and a parsed certificate holds the bytes
  it was parsed from, then a join answered 201 returns the PEM text of an encoded certificate
  that reads as a client certificate with the name of the returned node and the group of nodes
  and without the rights of an authority; the node is new; and whatever the server does from
  then on, every request made with that certificate passes \<open>nodeOnly\<close> as that node.
\<close>

theorem join_certificate_admits:
  assumes "hambo_db (e_B E)" and "db_works (e_B E)" and "x509_faithful (e_X E)"
    and "\<And>der c. x_ParseCertificate (e_X E) der = Inr c \<Longrightarrow> ct_Raw c = der"
    and "sys_reach E y" and "joinNodeHandler E rnd now r (sy_state y) = (resp, s1)"
    and "rs_Status resp = 201"
  shows "\<exists>nodeID der c. rs_Body resp = JsonBody (enc_JoinNodeResponse
        \<lparr>jn_NodeID = nodeID, jn_Certificate = e_pem_certificate E der\<rparr>)
    \<and> x_ParseCertificate (e_X E) der = Inr c
    \<and> ct_CommonName c = ''hambo:node:'' @ nodeID \<and> ct_Organization c = [''hambo:nodes'']
    \<and> \<not> ct_IsCA c \<and> ct_ExtKeyUsage c = [ExtKeyUsageClientAuth]
    \<and> node_tbl (e_B E) (sy_db y) nodeID = None
    \<and> (\<forall>z r' rest others next. (sys_step E)\<^sup>*\<^sup>* (y\<lparr>sy_state := s1\<rparr>) z \<longrightarrow>
         rq_VerifiedChains r' = Some ((c # rest) # others) \<longrightarrow>
         nodeOnly E next r' (sy_state z) = next (r'\<lparr>rq_NodeID := Some nodeID\<rparr>) (sy_state z))"
proof -
  obtain secret q where "join_request r secret q"
    by (rule join_success [OF assms(1) _ assms(6)])
      (use assms(5,7) hambo_db.sys_reach_base [OF assms(1) assms(5)] in \<open>auto simp: base_inv_def\<close>)
  from first_join [OF assms(1,5-7) this] obtain v :: join_vars and c :: certificate where
    v: "rs_Body resp = JsonBody (enc_JoinNodeResponse (jv_response v))"
    "jv_response v = \<lparr>jn_NodeID = GenerateNodeID rnd, jn_Certificate = e_pem_certificate E (ct_Raw c)\<rparr>"
    and c: "IssueNodeCertificate (e_X E) (e_ca E) now (GenerateNodeID rnd) (jr_CSR q) = Inr c"
    and new: "node_tbl (e_B E) (sy_db y) (GenerateNodeID rnd) = None"
    and stored: "node_tbl (e_B E) (st_db s1) (GenerateNodeID rnd) \<noteq> None"
    and base: "base_inv E (y\<lparr>sy_state := s1\<rparr>)" by metis
  note f = node_certificate_fields [OF assms(3) c]
  obtain der where "x_ParseCertificate (e_X E) der = Inr c"
    using node_certificate_template(4) [OF c] by blast
  then have parsed: "x_ParseCertificate (e_X E) (ct_Raw c) = Inr c" using assms(4) by auto
  have "nodeOnly E next r' (sy_state z) = next (r'\<lparr>rq_NodeID := Some (GenerateNodeID rnd)\<rparr>) (sy_state z)"
    if "(sys_step E)\<^sup>*\<^sup>* (y\<lparr>sy_state := s1\<rparr>) z" "rq_VerifiedChains r' = Some ((c # rest) # others)"
    for z r' rest others "next"
    by (rule certificate_admits [OF assms(1,2) that(1) base _ that(2)])
      (use stored f node_certificate_template(1) [OF c] in auto)
  then show ?thesis
    by (intro exI [of _ "GenerateNodeID rnd"] exI [of _ "ct_Raw c"] exI [of _ c])
      (use v parsed f new in auto)
qed

theorem join_certificate_admits_witness:
  "\<exists>c. ct_CommonName c = ''hambo:node:6e'' \<and> \<not> ct_IsCA c
     \<and> (\<forall>r' rest others next. rq_VerifiedChains r' = Some ((c # rest) # others) \<longrightarrow>
         nodeOnly ex_env next r' ex5 = next (r'\<lparr>rq_NodeID := Some ''6e''\<rparr>) ex5)"
proof -
  have works: "db_works (e_B ex_env)" by (simp add: mem_bolt_works)
  have faithful: "x509_faithful (e_X ex_env)" using ex_x509_faithful by (simp add: ex_env_def)
  have raw: "x_ParseCertificate (e_X ex_env) der = Inr c \<Longrightarrow> ct_Raw c = der" for der c
    by (auto simp: ex_env_def ex_x509_def ex_certificate_def)
  have run: "joinNodeHandler ex_env ''n'' 1 (join_req ''w'') (sy_state (y_ready ex1))
      = (fst (joinNodeHandler ex_env ''n'' 1 (join_req ''w'') ex1), ex2)"
    using ex2_joined(1) by simp
  obtain nodeID der c where
    b: "rs_Body (fst (joinNodeHandler ex_env ''n'' 1 (join_req ''w'') ex1)) = JsonBody (enc_JoinNodeResponse
        \<lparr>jn_NodeID = nodeID, jn_Certificate = e_pem_certificate ex_env der\<rparr>)"
    and c: "ct_CommonName c = ''hambo:node:'' @ nodeID" "\<not> ct_IsCA c"
      "\<forall>z r' rest others next. (sys_step ex_env)\<^sup>*\<^sup>* ((y_ready ex1)\<lparr>sy_state := ex2\<rparr>) z \<longrightarrow>
         rq_VerifiedChains r' = Some ((c # rest) # others) \<longrightarrow>
         nodeOnly ex_env next r' (sy_state z) = next (r'\<lparr>rq_NodeID := Some nodeID\<rparr>) (sy_state z)"
    using join_certificate_admits [OF ex_hambo(2) works faithful raw reach1 run ex2_joined(2)] by blast
  have "rs_Body (fst (joinNodeHandler ex_env ''n'' 1 (join_req ''w'') ex1)) = JsonBody (enc_JoinNodeResponse
        \<lparr>jn_NodeID = ''6e'', jn_Certificate = ''PEM hambo:node:6e''\<rparr>)" by code_simp
  with b have "nodeID = ''6e''" by (simp add: enc_JoinNodeResponse_def)
  moreover have "rq_VerifiedChains r' = Some ((c # rest) # others) \<Longrightarrow>
      nodeOnly ex_env next r' ex5 = next (r'\<lparr>rq_NodeID := Some nodeID\<rparr>) ex5" for r' rest others "next"
    using c(3) steps_2_5 y_ready_simps(1) by metis
  ultimately show ?thesis using c(1,2) by (intro exI [of _ c]) auto
qed

end
