(* ===== verification/Node_Guarantees.thy ===== *)
theory Node_Guarantees
  imports Lasting
begin

text \<open>
  What the reporting of a node guarantees: an accepted report is absorbed, an outdated one
  changes nothing, a new session shuts out the old one, and no report touches a container of
  another node or moves one back in its lifecycle.
\<close>

section \<open>Lemmas\<close>

lemma status_run:
  assumes "status_request r nodeID q"
  obtains err db' where
    "WriteTx (e_B E) () (status_tx (e_B E) nodeID now q) (st_db s) = ((), err, db')"
    "reportNodeStatusHandler E now r s = (status_answer err, s\<lparr>st_db := db'\<rparr>)"
proof (cases rule: reportNodeStatus_cases [of E now r s])
  case (runs nodeID' q' err db')
  have "nodeID' = nodeID \<and> q' = q" using runs(1) assms by (auto simp: status_request_def)
  then show ?thesis using runs(2,3) that by blast
next
  case (refused resp)
  obtain err db' where w: "WriteTx (e_B E) () (status_tx (e_B E) nodeID now q) (st_db s) = ((), err, db')"
    by (metis old.unit.exhaust prod.exhaust)
  have "report_problem E (rn_Containers q) = None"
    using assms report_problem_None [of E "rn_Containers q"] by (simp add: status_request_def)
  then have "reportNodeStatusHandler E now r s = (status_answer err, s\<lparr>st_db := db'\<rparr>)"
    using assms w by (simp add: status_request_def reportNodeStatusHandler_def)
  then show ?thesis using that w by blast
qed

lemma status_answer_Some: "rs_Status (status_answer (Some e)) \<in> {403, 404, 409, 500}"
  by (simp add: status_answer_def status_defs)

lemma report_success:
  assumes "hambo_db (e_B E)" and "state_inv (e_B E) s" and "reportNodeStatusHandler E now r s = (resp, s')"
    and "rs_Status resp = 204"
  obtains nodeID q where "status_request r nodeID q"
    "reported now nodeID q (node_tbl (e_B E) (st_db s)) (container_tbl (e_B E) (st_db s))
       (node_tbl (e_B E) (st_db s')) (container_tbl (e_B E) (st_db s'))"
    "token_tbl (e_B E) (st_db s') = token_tbl (e_B E) (st_db s)"
proof (cases rule: reportNodeStatus_cases [of E now r s])
  case (refused resp')
  then show ?thesis using assms(3,4) by auto
next
  case (runs nodeID q err db')
  have inv: "db_inv (e_B E) (st_db s)" using assms(2) by (simp add: state_inv_def)
  have valid: "\<forall>p \<in> set (rn_Containers q). valid_report p"
    using runs(1) by (simp add: status_request_def)
  have err: "err = None"
    using assms(3,4) runs(3) status_answer_Some [of "the err"] by (cases err) auto
  show ?thesis
    by (rule that [OF runs(1)])
      (use hambo_db.status_write_committed [OF assms(1) inv valid runs(2) [unfolded err]]
        assms(3) runs(3) in auto)
qed

text \<open>What the transaction of a report does on stored data that the session decides.\<close>

lemma report_decided:
  assumes "hambo_db (e_B E)" and "db_works (e_B E)" and "db_inv (e_B E) (st_db s)"
    and "status_request r nodeID q" and "node_tbl (e_B E) (st_db s) nodeID = Some n"
  shows "rn_SessionID q \<noteq> n_StatusSessionID n \<Longrightarrow>
      reportNodeStatusHandler E now r s = (status_answer (Some (Sentinel ErrConflict)), s)"
    and "rn_SessionID q = n_StatusSessionID n \<Longrightarrow> rn_Sequence q \<le> n_StatusSequence n \<Longrightarrow>
      \<exists>db'. reportNodeStatusHandler E now r s = (status_answer None, s\<lparr>st_db := db'\<rparr>)
        \<and> view (e_B E) db' = view (e_B E) (st_db s)"
proof -
  let ?B = "e_B E" and ?fn = "status_tx (e_B E) nodeID now q"
  have bolt: "bolt_api ?B" using assms(1) by (simp add: hambo_db_def)
  obtain tx where tx: "view ?B tx = view ?B (st_db s)"
    and err: "\<And>c e. ?fn tx = (c, Inl e) \<Longrightarrow>
      WriteTx ?B () ?fn (st_db s) = (c, Some (Wrap ''write transaction'' e), st_db s)"
    and ok: "\<And>c tx'. ?fn tx = (c, Inr tx') \<Longrightarrow>
      \<exists>db'. WriteTx ?B () ?fn (st_db s) = (c, None, db') \<and> view ?B db' = view ?B tx'"
    by (rule bolt_api.WriteTx_works [OF bolt assms(2), of "st_db s" ?fn "()"]) blast
  have inv: "db_inv ?B tx" using assms(3) db_inv_view [OF tx] by simp
  have n: "node_tbl ?B tx nodeID = Some n"
    using same_data_view [OF tx] assms(5) by (simp add: same_data_def)
  have get: "GetTx ?B nodes_collection nodeID tx = Inr n"
    by (rule hambo_db.get_node_tx [OF assms(1) inv n])
  obtain e db' where w: "WriteTx ?B () ?fn (st_db s) = ((), e, db')"
    and run: "reportNodeStatusHandler E now r s = (status_answer e, s\<lparr>st_db := db'\<rparr>)"
    by (rule status_run [OF assms(4)])
  show "reportNodeStatusHandler E now r s = (status_answer (Some (Sentinel ErrConflict)), s)"
    if "rn_SessionID q \<noteq> n_StatusSessionID n"
  proof -
    have "?fn tx = ((), Inl (Sentinel ErrConflict))" using that get by (simp add: status_tx_def)
    from err [OF this] w run show ?thesis by (simp add: status_answer_def)
  qed
  show "\<exists>db'. reportNodeStatusHandler E now r s = (status_answer None, s\<lparr>st_db := db'\<rparr>)
        \<and> view ?B db' = view ?B (st_db s)"
    if "rn_SessionID q = n_StatusSessionID n" "rn_Sequence q \<le> n_StatusSequence n"
  proof -
    have "?fn tx = ((), Inr tx)" using that get by (simp add: status_tx_def)
    from ok [OF this] w run tx show ?thesis by auto
  qed
qed

section \<open>Sessions\<close>

text \<open>
  The node \<open>k\<close> is outside scheduling and only reports of the session \<open>sid\<close> are let through.
\<close>

definition fenced :: "'db env \<Rightarrow> string \<Rightarrow> string \<Rightarrow> 'db state \<Rightarrow> bool" where
  "fenced E k sid s \<longleftrightarrow>
     (\<exists>n. node_tbl (e_B E) (st_db s) k = Some n \<and> (\<forall>t. \<not> eligible t n))
     \<and> (\<forall>r q now. status_request r k q \<longrightarrow> rn_SessionID q \<noteq> sid \<longrightarrow>
          (\<exists>resp. reportNodeStatusHandler E now r s = (resp, s) \<and> rs_Status resp = 409))"

lemma record_fences:
  assumes "hambo_db (e_B E)" and "db_works (e_B E)" and "state_inv (e_B E) s"
    and n: "node_tbl (e_B E) (st_db s) k = Some n" "n_StatusSessionID n = sid" "\<not> n_RuntimeReady n"
  shows "fenced E k sid s"
proof -
  have "db_inv (e_B E) (st_db s)" using assms(3) by (simp add: state_inv_def)
  from report_decided(1) [OF assms(1,2) this _ n(1)] n show ?thesis
    by (auto simp: fenced_def eligible_def status_answer_def status_defs)
qed

lemma session_opened:
  assumes "hambo_db (e_B E)" and "sys_reach E y"
    and run: "createNodeSessionHandler E rnd r (sy_state y) = (resp, s1)" and "rs_Status resp = 201"
    and "rq_NodeID r = Some nodeID"
  obtains n :: Node where "node_tbl (e_B E) (st_db s1) nodeID = Some n"
    "n_StatusSessionID n = hex_EncodeToString rnd" "n_StatusSequence n = 0" "\<not> n_RuntimeReady n"
    "base_inv E (y\<lparr>sy_state := s1\<rparr>)"
proof (cases rule: createNodeSession_cases [of E rnd r "sy_state y"])
  case (failed resp')
  then show ?thesis using run assms(4) by auto
next
  case (created nodeID' db')
  have base: "base_inv E y" by (rule hambo_db.sys_reach_base [OF assms(1,2) refl])
  then have inv: "state_inv (e_B E) (sy_state y)" by (simp add: base_inv_def)
  then have db: "db_inv (e_B E) (sy_db y)" by (simp add: state_inv_def)
  have s1: "st_db s1 = db'" and id: "nodeID' = nodeID" using created run assms(5) by auto
  have base1: "base_inv E (y\<lparr>sy_state := s1\<rparr>)"
    using hambo_db.createNodeSession_ok [OF assms(1) inv refl run] base
    by (auto simp: base_inv_def request_ok_def)
  show ?thesis
    using hambo_db.session_started(1) [OF assms(1) db created(2)] that base1 unfolding s1 id by auto
qed

section \<open>The requests of the instances\<close>

definition as_node :: "request \<Rightarrow> request" where
  "as_node r = r\<lparr>rq_NodeID := Some ''6e''\<rparr>"

definition running_report :: "json list" where
  "running_report = [JObj [(''id'', JStr ''63''), (''state'', JStr ''running'')]]"

definition running :: ContainerStatusReport where
  "running = \<lparr>rp_ID = ''63'', rp_State = ''running'', rp_ExitCode = None, rp_Reason = [],
     rp_Message = []\<rparr>"

lemma status_requests:
  "status_request (as_node (status_req 1 [])) ''6e''
     \<lparr>rn_SessionID = ''78'', rn_Sequence = 1, rn_RuntimeReady = True, rn_Containers = []\<rparr>"
  "status_request (as_node (status_req 2 running_report)) ''6e''
     \<lparr>rn_SessionID = ''78'', rn_Sequence = 2, rn_RuntimeReady = True, rn_Containers = [running]\<rparr>"
proof -
  have "readJSON dec_ReportNodeStatusRequest maxStatusRequestSize (as_node (status_req 1 []))
      = Inr \<lparr>rn_SessionID = ''78'', rn_Sequence = 1, rn_RuntimeReady = True, rn_Containers = []\<rparr>"
    by code_simp
  moreover have "TrimSpace ''78'' \<noteq> []" "TrimSpace ''63'' \<noteq> []" by code_simp+
  moreover have "readJSON dec_ReportNodeStatusRequest maxStatusRequestSize
        (as_node (status_req 2 running_report))
      = Inr \<lparr>rn_SessionID = ''78'', rn_Sequence = 2, rn_RuntimeReady = True,
          rn_Containers = [running]\<rparr>"
    by code_simp
  ultimately show "status_request (as_node (status_req 1 [])) ''6e''
     \<lparr>rn_SessionID = ''78'', rn_Sequence = 1, rn_RuntimeReady = True, rn_Containers = []\<rparr>"
    "status_request (as_node (status_req 2 running_report)) ''6e''
     \<lparr>rn_SessionID = ''78'', rn_Sequence = 2, rn_RuntimeReady = True, rn_Containers = [running]\<rparr>"
    by (simp_all add: status_request_def as_node_def valid_report_def running_def lifecycle_of_def
        StateRunning_def StatePending_def)
qed

section \<open>Properties\<close>



text \<open>
  A report that names a container of another node is refused as a whole: whatever
  the order of its entries is, no container and no node changes, also not those the entries
  before it name.
\<close>

theorem report_foreign_refused:
  assumes "hambo_db (e_B E)" and "state_inv (e_B E) s" and "reportNodeStatusHandler E now r s = (resp, s')"
    and "status_request r nodeID q" and "p \<in> set (rn_Containers q)"
    and "container_tbl (e_B E) (st_db s) (rp_ID p) = Some c" and "c_NodeID c \<noteq> nodeID"
  shows "same_data (e_B E) (st_db s) (st_db s')"
proof -
  obtain err db' where w: "WriteTx (e_B E) () (status_tx (e_B E) nodeID now q) (st_db s) = ((), err, db')"
    and run: "reportNodeStatusHandler E now r s = (status_answer err, s\<lparr>st_db := db'\<rparr>)"
    by (rule status_run [OF assms(4)])
  have inv: "db_inv (e_B E) (st_db s)" using assms(2) by (simp add: state_inv_def)
  have valid: "\<forall>p \<in> set (rn_Containers q). valid_report p"
    using assms(4) by (simp add: status_request_def)
  show ?thesis
  proof (cases err)
    case None
    note c = hambo_db.status_write_committed [OF assms(1) inv valid w [unfolded None]]
    have "absorb nodeID (rn_Containers q) (container_tbl (e_B E) (st_db s)) = None"
      using absorb_foreign [where C = "container_tbl (e_B E) (st_db s)"] assms(5-7) by blast
    then show ?thesis
      using c(1,2) run assms(3) by (auto simp: reported_def same_data_def)
  next
    case (Some e)
    then show ?thesis using failed_unchanged(4) [OF w [unfolded Some]] run assms(3) by auto
  qed
qed

theorem report_foreign_refused_witness:
  "same_data mem_bolt (st_db ex5)
     (st_db (snd (reportNodeStatusHandler ex_env 9 (as_node (status_req 2 running_report)) ex5)))"
proof -
  have c: "map_option c_NodeID (container_tbl mem_bolt (st_db ex5) ''63'') = Some []" by code_simp
  then obtain c where "container_tbl mem_bolt (st_db ex5) (rp_ID running) = Some c" "c_NodeID c \<noteq> ''6e''"
    by (auto simp: running_def)
  then show ?thesis
    using report_foreign_refused [OF ex_hambo(2) _ prod.collapse [symmetric] status_requests(2), of ex5]
      ex5_inv by simp
qed

text \<open>
  No report answered 204 drops a container, changes one of another node, or moves one
  back in its lifecycle or to another node.
\<close>

theorem report_moves_forward:
  assumes "hambo_db (e_B E)" and "state_inv (e_B E) s" and "reportNodeStatusHandler E now r s = (resp, s')"
    and "rs_Status resp = 204" and "rq_NodeID r = Some nodeID"
    and "container_tbl (e_B E) (st_db s) k = Some c"
  shows "\<exists>c'. container_tbl (e_B E) (st_db s') k = Some c' \<and> moves_forward c c'
    \<and> (c_NodeID c \<noteq> nodeID \<longrightarrow> c' = c)"
proof -
  obtain nodeID' q where q: "status_request r nodeID' q" and rep:
    "reported now nodeID' q (node_tbl (e_B E) (st_db s)) (container_tbl (e_B E) (st_db s))
       (node_tbl (e_B E) (st_db s')) (container_tbl (e_B E) (st_db s'))"
    by (rule report_success [OF assms(1-4)])
  have id: "nodeID' = nodeID" using q assms(5) by (simp add: status_request_def)
  have valid: "\<forall>p \<in> set (rn_Containers q). valid_report p" using q by (simp add: status_request_def)
  have cinv: "containers_inv (node_tbl (e_B E) (st_db s)) (container_tbl (e_B E) (st_db s))"
    using assms(2) by (simp add: state_inv_def db_inv_def)
  have st: "\<forall>k c. container_tbl (e_B E) (st_db s) k = Some c \<longrightarrow> lifecycle_of (c_State c) \<noteq> None"
    using containers_inv_states [OF cinv] by fastforce
  from rep show ?thesis
    unfolding reported_def id
  proof (elim exE conjE disjE)
    assume "container_tbl (e_B E) (st_db s') = container_tbl (e_B E) (st_db s)"
    then show ?thesis using moves_forward_refl [OF cinv] assms(6) by auto
  next
    assume ab: "absorb nodeID (rn_Containers q) (container_tbl (e_B E) (st_db s))
        = Some (container_tbl (e_B E) (st_db s'))"
    show ?thesis
      using absorb_forward(2,3) [OF ab st valid assms(6)] by auto
  qed
qed

theorem report_moves_forward_witness:
  "\<exists>c'. container_tbl mem_bolt
       (st_db (snd (reportNodeStatusHandler ex_env 9 (as_node (status_req 2 running_report)) ex6))) ''63''
       = Some c' \<and> moves_forward assigned_container c'"
proof -
  have "rs_Status (fst (reportNodeStatusHandler ex_env 9 (as_node (status_req 2 running_report)) ex6)) = 204"
    by code_simp
  then show ?thesis
    using report_moves_forward [OF ex_hambo(2) _ prod.collapse [symmetric], of ex6] ex6_inv
      ex6_container by (fastforce simp: as_node_def)
qed

text \<open>
  Claim C14: reports are fenced by the session and the sequence number. A report with another
  session than the node's current one is answered 409, a report of the current session whose
  sequence number is not above the stored one is answered 204, and neither changes anything.
\<close>

theorem reports_fenced:
  assumes "hambo_db (e_B E)" and "db_works (e_B E)" and "state_inv (e_B E) s"
    and "status_request r nodeID q" and "node_tbl (e_B E) (st_db s) nodeID = Some n"
    and "rn_SessionID q \<noteq> n_StatusSessionID n \<or> rn_Sequence q \<le> n_StatusSequence n"
  shows "\<exists>resp s'. reportNodeStatusHandler E now r s = (resp, s')
    \<and> rs_Status resp = (if rn_SessionID q \<noteq> n_StatusSessionID n then 409 else 204)
    \<and> same_data (e_B E) (st_db s) (st_db s')"
proof -
  have inv: "db_inv (e_B E) (st_db s)" using assms(3) by (simp add: state_inv_def)
  note d = report_decided [OF assms(1,2) inv assms(4,5), of now]
  show ?thesis
  proof (cases "rn_SessionID q = n_StatusSessionID n")
    case False
    then show ?thesis using d(1) by (simp add: status_answer_def status_defs)
  next
    case True
    then show ?thesis
      using d(2) assms(6) same_data_view by (fastforce simp: status_answer_def status_defs)
  qed
qed

theorem reports_fenced_witness:
  "\<exists>resp s'. reportNodeStatusHandler ex_env 9 (as_node (status_req 1 [])) ex4 = (resp, s')
     \<and> rs_Status resp = 204 \<and> same_data mem_bolt (st_db ex4) (st_db s')"
proof -
  have "map_option (\<lambda>n. (n_StatusSessionID n, n_StatusSequence n)) (node_tbl mem_bolt (st_db ex4) ''6e'')
      = Some (''78'', 1)" by code_simp
  then obtain n where "node_tbl mem_bolt (st_db ex4) ''6e'' = Some n" "n_StatusSessionID n = ''78''"
    "n_StatusSequence n = 1" by auto
  then show ?thesis
    using reports_fenced [OF ex_hambo(2) _ _ status_requests(1), of ex4 n 9] mem_bolt_works ex4_inv
    by simp
qed

text \<open>
  Claim C15: opening a session shuts out the sessions before it and takes the node out of
  scheduling. After \<open>createNodeSessionHandler\<close> answered 201 with a new session, and whatever the
  server does from then on (requests, assignments, restarts), every report with another session
  is answered 409 and changes nothing and the node is eligible at no time, until the node itself
  opens a session again or has its first numbered report in the new session accepted.
\<close>

theorem new_session_fences:
  assumes "hambo_db (e_B E)" and "db_works (e_B E)" and "sys_reach E y"
    and "createNodeSessionHandler E rnd r (sy_state y) = (resp, s1)" and "rs_Status resp = 201"
    and "rq_NodeID r = Some nodeID" and "(sys_step E)\<^sup>*\<^sup>* (y\<lparr>sy_state := s1\<rparr>) z"
  shows "fenced E nodeID (hex_EncodeToString rnd) (sy_state z)
    \<or> (\<exists>u g r2 resp2 s2. (sys_step E)\<^sup>*\<^sup>* (y\<lparr>sy_state := s1\<rparr>) u
         \<and> fenced E nodeID (hex_EncodeToString rnd) (sy_state u)
         \<and> serve E g r2 (sy_state u) = (resp2, s2) \<and> runs_as_node E r2 (sy_db u) nodeID
         \<and> (route_of r2 = CreateNodeSession \<and> rs_Status resp2 = 201
            \<or> route_of r2 = ReportNodeStatus \<and> rs_Status resp2 = 204
              \<and> (\<exists>q. status_request (r2\<lparr>rq_NodeID := Some nodeID\<rparr>) nodeID q
                    \<and> rn_SessionID q = hex_EncodeToString rnd \<and> 0 < rn_Sequence q))
         \<and> (sys_step E)\<^sup>*\<^sup>* (u\<lparr>sy_state := s2\<rparr>) z)"
proof -
  let ?y = "y\<lparr>sy_state := s1\<rparr>" and ?sid = "hex_EncodeToString rnd"
  obtain n where n: "node_tbl (e_B E) (st_db s1) nodeID = Some n" "n_StatusSessionID n = ?sid"
    "n_StatusSequence n = 0" "\<not> n_RuntimeReady n" and base: "base_inv E ?y"
    by (rule session_opened [OF assms(1,3-6)])
  have fenced: "fenced E nodeID ?sid (sy_state u)"
    if "(sys_step E)\<^sup>*\<^sup>* ?y u" "node_tbl (e_B E) (sy_db u) nodeID = Some n" for u
    using hambo_db.sys_steps_base [OF assms(1) that(1) refl base] that(2) n
    by (intro record_fences [OF assms(1,2)]) (simp_all add: base_inv_def)
  show ?thesis
    using hambo_db.sys_steps_record [OF assms(1,7) refl base, of nodeID n] n fenced [OF assms(7)] fenced
    unfolding own_update_def by fastforce
qed

theorem new_session_fences_witness:
  "\<exists>u. (sys_step ex_env)\<^sup>*\<^sup>* ((y_ready ex4)\<lparr>sy_state :=
        snd (createNodeSessionHandler ex_env ''y'' (as_node session_req) ex4)\<rparr>) u
     \<and> fenced ex_env ''6e'' ''79'' (sy_state u)"
proof -
  let ?s1 = "snd (createNodeSessionHandler ex_env ''y'' (as_node session_req) ex4)"
  let ?y = "(y_ready ex4)\<lparr>sy_state := ?s1\<rparr>"
  have run: "createNodeSessionHandler ex_env ''y'' (as_node session_req) (sy_state (y_ready ex4))
      = (fst (createNodeSessionHandler ex_env ''y'' (as_node session_req) ex4), ?s1)" by simp
  have st: "rs_Status (fst (createNodeSessionHandler ex_env ''y'' (as_node session_req) ex4)) = 201"
    and hex: "hex_EncodeToString ''y'' = ''79''"
    by code_simp+
  have works: "db_works (e_B ex_env)" by (simp add: mem_bolt_works)
  have reach: "sys_reach ex_env (y_ready ex4)"
    using reach0 ex1_served ex2_served ex3_served ex4_served request_reach by blast
  have steps: "(sys_step ex_env)\<^sup>*\<^sup>* ?y (?y\<lparr>sy_watch := start_run ''6e''\<rparr>)"
    by (blast intro: sys_step.new_watch)
  have id: "rq_NodeID (as_node session_req) = Some ''6e''" by (simp add: as_node_def)
  from new_session_fences [OF ex_hambo(2) works reach run st id steps] steps
  show ?thesis unfolding hex by auto
qed

end
