(* ===== verification/Access_Guarantees.thy ===== *)
theory Access_Guarantees
  imports Join_Guarantees Node_Guarantees
begin

text \<open>
  Who may change what: the middleware and the routing table, the tokens and the containers an
  administrator creates, and what one node may touch.
\<close>

section \<open>Lemmas\<close>

lemma not_admin:
  assumes "\<not> authenticated r \<or> ''hambo:admins'' \<notin> set (ct_Organization (leaf_certificate r))"
    and "adminOnly next r s = (resp, s')"
  shows "s' = s" and "rs_Status resp \<in> {401, 403}"
  using assms by (auto simp: adminOnly_def requireGroup_cases status_defs split: if_splits)

lemma node_runs:
  assumes "nodeOnly E next r s = (resp, s')" and "s' \<noteq> s"
  obtains nodeID where "runs_as_node E r (st_db s) nodeID"
    "next (r\<lparr>rq_NodeID := Some nodeID\<rparr>) s = (resp, s')"
  using assms by (cases rule: nodeOnly_cases [of E "next" r s]) auto

text \<open>What a node may change: its own record, and the containers assigned to it.\<close>

definition confined :: "'db bolt \<Rightarrow> string \<Rightarrow> 'db \<Rightarrow> 'db \<Rightarrow> bool" where
  "confined B nodeID db db' \<longleftrightarrow>
     (\<forall>k. k \<noteq> nodeID \<longrightarrow> node_tbl B db' k = node_tbl B db k)
     \<and> (\<forall>k c. container_tbl B db k = Some c \<longrightarrow> c_NodeID c \<noteq> nodeID \<longrightarrow>
          container_tbl B db' k = Some c)
     \<and> dom (container_tbl B db') = dom (container_tbl B db)
     \<and> token_tbl B db' = token_tbl B db"

lemma confined_refl [simp]: "confined B nodeID db db"
  by (simp add: confined_def)

context hambo_db
begin

lemma session_confined:
  assumes inv: "db_inv B (st_db s)" and E: "e_B E = B"
    and run: "createNodeSessionHandler E rnd r s = (resp, s')" and id: "rq_NodeID r = Some nodeID"
  shows "confined B nodeID (st_db s) (st_db s')"
proof (cases rule: createNodeSession_cases [of E rnd r s])
  case (failed resp')
  then show ?thesis using run by simp
next
  case (created nodeID' db')
  then show ?thesis
    using session_started(1-3) [OF inv created(2) [unfolded E]] run id
    by (auto simp: confined_def)
qed

lemma report_confined:
  assumes inv: "db_inv B (st_db s)" and E: "e_B E = B"
    and run: "reportNodeStatusHandler E now r s = (resp, s')" and id: "rq_NodeID r = Some nodeID"
  shows "confined B nodeID (st_db s) (st_db s')"
proof (cases rule: reportNodeStatus_cases [of E now r s])
  case (refused resp')
  then show ?thesis using run by simp
next
  case (runs nodeID' q err db')
  then have n: "nodeID' = nodeID" and s': "st_db s' = db'"
    using id run by (auto simp: status_request_def)
  have valid: "\<forall>p \<in> set (rn_Containers q). valid_report p"
    using runs(1) by (simp add: status_request_def)
  have st: "\<forall>k c. container_tbl B (st_db s) k = Some c \<longrightarrow> lifecycle_of (c_State c) \<noteq> None"
    using inv containers_inv_states unfolding db_inv_def by fastforce
  show ?thesis
  proof (cases err)
    case None
    note w = status_write_committed [OF inv valid runs(2) [unfolded None E]]
    from w(1) show ?thesis
      unfolding reported_def s' n
    proof (elim exE conjE disjE)
      assume "node_tbl B db' = node_tbl B (st_db s)" "container_tbl B db' = container_tbl B (st_db s)"
      then show "confined B nodeID (st_db s) db'" using w(2) by (simp add: confined_def)
    next
      fix n'
      assume ab: "absorb nodeID (rn_Containers q) (container_tbl B (st_db s)) = Some (container_tbl B db')"
        and "node_tbl B db' = (node_tbl B (st_db s))(nodeID \<mapsto> seen now q n')"
      then show "confined B nodeID (st_db s) db'"
        using absorb_forward(1,3) [OF ab st valid] w(2) by (auto simp: confined_def)
    qed
  next
    case (Some e)
    then show ?thesis using failed_unchanged(4) [OF runs(2) [unfolded Some]] s' by simp
  qed
qed

lemma serve_confined:
  assumes inv: "state_inv B s" and E: "e_B E = B" and run: "serve E g r s = (resp, s')"
    and join: "route_of r \<noteq> JoinNode"
    and role: "''hambo:admins'' \<notin> set (ct_Organization (leaf_certificate r))"
    and name: "ct_CommonName (leaf_certificate r) = ''hambo:node:'' @ nodeID"
  shows "confined B nodeID (st_db s) (st_db s')"
proof (cases "s' = s")
  case True
  then show ?thesis by simp
next
  case False
  have db: "db_inv B (st_db s)" using inv by (simp add: state_inv_def)
  have named: "nodeID' = nodeID" if "runs_as_node E r (st_db s) nodeID'" for nodeID'
    using that name by (simp add: runs_as_node_def)
  show ?thesis
  proof (cases "route_of r")
    case CreateNodeSession
    then show ?thesis
      using run False session_confined [OF db E] named
      by (auto simp: serve_def addRoutes_def elim!: node_runs)
  next
    case ReportNodeStatus
    then show ?thesis
      using run False report_confined [OF db E] named
      by (auto simp: serve_def addRoutes_def elim!: node_runs)
  next
    case WatchNode
    then show ?thesis
      using run False
      by (auto simp: serve_def addRoutes_def watchNodeHandler_def split: option.splits elim!: node_runs)
  next
    case CreateToken
    then show ?thesis
      using run False role not_admin(1) [of r "createTokenHandler E (g_secret g) (g_now g)" s resp s']
      by (simp add: serve_def addRoutes_def)
  next
    case CreateContainer
    then show ?thesis
      using run False role not_admin(1) [of r "createContainerHandler E (g_id g) (g_now g)" s resp s']
      by (simp add: serve_def addRoutes_def)
  qed (use run False join in \<open>auto simp: serve_def addRoutes_def getCAHandler_def healthHandler_def
      NotFoundHandler_def requireCertificate_cases split: if_splits\<close>)
qed

end

section \<open>Access\<close>

text \<open>
  Claim C16: without a verified client certificate only two routes of the API answer: the
  certificate of the authority, and the enrollment with a join token. Every other request,
  \<open>GET /health\<close> included, is answered 401, whatever its method and body are, and changes
  nothing. The exceptions are the answers \<open>net/http\<close> gives to every client before any handler:
  to requests for \<open>*\<close>, to a \<open>CONNECT\<close> without a path, and the redirect of an unclean path.
\<close>

theorem unauthenticated_requests:
  assumes "\<not> authenticated r" and "route_of r \<noteq> JoinNode" and "serve E g r s = (resp, s')"
  shows "s' = s
    \<and> rs_Status resp =
        (if rq_Path r = ''*'' then (if rq_Method r = ''OPTIONS'' then 200 else 400)
         else if rq_Method r = ''CONNECT'' \<and> rq_Path r = [] then 404
         else if rq_Method r \<noteq> ''CONNECT'' \<and> cleanPath (rq_Path r) \<noteq> rq_Path r then 307
         else if rq_Path r = ''/ca'' \<and> rq_Method r \<in> {''GET'', ''HEAD''} then 200
         else 401)"
proof (cases "standard_answer r")
  case (Some answer)
  then have "resp = answer \<and> s' = s" using assms(3) by (auto simp: serve_def route_of_def addRoutes_def)
  then show ?thesis
    using Some by (auto simp: standard_answer_def redirect_answer_def status_defs
        StatusTemporaryRedirect_def split: if_splits)
next
  case None
  have "route_of r = GetCA \<longleftrightarrow> rq_Path r = ''/ca'' \<and> rq_Method r \<in> {''GET'', ''HEAD''}"
    using None by (auto simp: route_of_def match_pattern_def)
  moreover have "s' = s \<and> rs_Status resp = (if route_of r = GetCA then 200 else 401)"
    using assms None
    by (cases "route_of r")
      (auto simp: serve_def addRoutes_def getCAHandler_def nodeOnly_def adminOnly_def
        requireGroup_cases requireCertificate_cases status_defs, simp add: route_of_def split: if_splits)
  ultimately show ?thesis using None by (auto simp: standard_answer_def split: if_splits)
qed

theorem unauthenticated_requests_witness:
  "snd (serve ex_env (ex_rng [] 0) (ex_request ''GET'' ''/health'' None JNull) ex0) = ex0
   \<and> rs_Status (fst (serve ex_env (ex_rng [] 0) (ex_request ''GET'' ''/health'' None JNull) ex0)) = 401"
  using unauthenticated_requests [OF _ _ prod.collapse [symmetric],
      of "ex_request ''GET'' ''/health'' None JNull" ex_env "ex_rng [] 0" ex0]
  by (simp add: authenticated_def ex_request_def route_of_clean match_pattern_def)

text \<open>
  Claim C17: a certificate of a node gives no rights but its own. Whatever a client with the
  certificate of one node, outside the group of administrators, requests (but an enrollment
  with a token of its own): no container is created or removed, no container of another node
  and no record of another node changes, and no token changes.
\<close>

theorem node_confined:
  assumes "hambo_db (e_B E)" and "state_inv (e_B E) s" and "serve E g r s = (resp, s')"
    and "route_of r \<noteq> JoinNode" and "''hambo:admins'' \<notin> set (ct_Organization (leaf_certificate r))"
    and "ct_CommonName (leaf_certificate r) = ''hambo:node:'' @ nodeID"
  shows "confined (e_B E) nodeID (st_db s) (st_db s')"
  by (rule hambo_db.serve_confined [OF assms(1,2) refl assms(3-6)])

theorem node_confined_witness:
  "confined mem_bolt ''6e'' (st_db ex3) (st_db ex4)"
proof -
  have run: "serve ex_env (ex_rng [] 3) (status_req 1 []) ex3
      = (fst (serve ex_env (ex_rng [] 3) (status_req 1 []) ex3), ex4)"
    using ex4_served by (metis prod.collapse)
  show ?thesis
    using node_confined [OF ex_hambo(2) _ run, of "''6e''"] ex3_inv
    by (simp add: status_req_def ex_request_def node_chain_def leaf_certificate_def ex_certificate_def
        route_of_clean match_pattern_def)
qed

text \<open>
  Claim C18: only administrators create tokens and containers. A client that is not
  authenticated or not in the group of administrators is answered 401 or 403 on both routes,
  and nothing changes.
\<close>

theorem admins_only:
  assumes "route_of r \<in> {CreateToken, CreateContainer}" and "serve E g r s = (resp, s')"
    and "\<not> authenticated r \<or> ''hambo:admins'' \<notin> set (ct_Organization (leaf_certificate r))"
  shows "s' = s \<and> rs_Status resp \<in> {401, 403}"
  using assms(1,2) not_admin [OF assms(3), of "createTokenHandler E (g_secret g) (g_now g)" s resp s']
    not_admin [OF assms(3), of "createContainerHandler E (g_id g) (g_now g)" s resp s']
  by (auto simp: serve_def addRoutes_def)

theorem admins_only_witness:
  "snd (serve ex_env (ex_rng [] 0) (ex_request ''POST'' ''/tokens'' (node_chain ''6e'') JNull) ex4) = ex4"
  using admins_only [OF _ prod.collapse [symmetric],
      of "ex_request ''POST'' ''/tokens'' (node_chain ''6e'') JNull" ex_env "ex_rng [] 0" ex4]
  by (simp add: ex_request_def route_of_clean match_pattern_def leaf_certificate_def node_chain_def
      ex_certificate_def)

end
