(* ===== verification/Admin_Guarantees.thy ===== *)
theory Admin_Guarantees
  imports Join_Guarantees
begin

text \<open>
  What an administrator's requests guarantee: a created container waits for the scheduler under
  a unique name, and a created token admits one enrollment until it expires.
\<close>

section \<open>Containers\<close>

lemma container_run:
  assumes "container_request r name img"
  obtains err db' where
    "WriteTx (e_B E) () (container_tx (e_B E) (new_container (GenerateContainerID rnd) name img now)) (st_db s)
       = ((), err, db')"
    "createContainerHandler E rnd now r s =
       (case err of
          Some e \<Rightarrow> ((if errors_Is e ErrNameExists
                    then writeErrorJSON StatusConflict ''container name already exists''
                    else writeErrorJSON StatusInternalServerError ''could not create container''), s)
        | None \<Rightarrow> (writeJSON [] StatusCreated
                    (enc_ContainerResponse (new_container (GenerateContainerID rnd) name img now)),
                 s\<lparr>st_db := db',
                   st_queue := fst (Add (GenerateContainerID rnd) (st_queue s))\<rparr>))"
proof -
  let ?c = "new_container (GenerateContainerID rnd) name img now"
  obtain q where q: "readJSON dec_CreateContainerRequest maxContainerRequestSize r = Inr q"
    "TrimSpace (cq_Name q) = name" "TrimSpace (cq_Image q) = img" "name \<noteq> []" "img \<noteq> []"
    using assms by (auto simp: container_request_def)
  obtain err db' where w: "WriteTx (e_B E) () (container_tx (e_B E) ?c) (st_db s) = ((), err, db')"
    by (metis old.unit.exhaust prod.exhaust)
  have "db' = st_db s" if "err = Some e" for e
    by (rule failed_unchanged(4) [OF w [unfolded that]])
  then show ?thesis
    using that [OF w] q w
    by (cases err)
      (auto simp: createContainer_defs Let_def container_problems_def new_container_def)
qed

text \<open>
  Claim C20: a container answered 201 was stored under its fresh identifier, pending, without a
  node, exit code, reason or message, made now, and with the trimmed name and image of the
  request, and the answer says so; no other container had its name; nothing else in the
  database changed; and unless the queue is shut down its identifier is in the queue.
\<close>

theorem container_created:
  assumes "hambo_db (e_B E)" and "state_inv (e_B E) s"
    and "createContainerHandler E rnd now r s = (resp, s')" and "rs_Status resp = 201"
  shows "\<exists>q name img. readJSON dec_CreateContainerRequest maxContainerRequestSize r = Inr q
    \<and> name = TrimSpace (cq_Name q) \<and> img = TrimSpace (cq_Image q) \<and> name \<noteq> [] \<and> img \<noteq> []
    \<and> (\<forall>k c. container_tbl (e_B E) (st_db s) k = Some c \<longrightarrow> c_Name c \<noteq> name)
    \<and> container_tbl (e_B E) (st_db s) (GenerateContainerID rnd) = None
    \<and> container_tbl (e_B E) (st_db s') = (container_tbl (e_B E) (st_db s))
        (GenerateContainerID rnd \<mapsto>
          \<lparr>c_ID = GenerateContainerID rnd, c_Name = name, c_Image = img, c_NodeID = [],
           c_State = ''pending'', c_ExitCode = None, c_Reason = [], c_Message = [],
           c_CreatedAt = now, c_DeletionRequestedAt = None\<rparr>)
    \<and> rs_Body resp = JsonBody (JObj [(''id'', JStr (GenerateContainerID rnd)), (''name'', JStr name),
        (''image'', JStr img), (''state'', JStr ''pending''), (''created_at'', JTime now)])
    \<and> node_tbl (e_B E) (st_db s') = node_tbl (e_B E) (st_db s)
    \<and> token_tbl (e_B E) (st_db s') = token_tbl (e_B E) (st_db s)
    \<and> (shuttingDown (st_queue s) \<or> GenerateContainerID rnd \<in> dirty (st_queue s'))"
proof (cases rule: createContainer_cases [of E rnd now r s])
  case (created name img c db')
  have inv: "db_inv (e_B E) (st_db s)" and q: "queue_inv (st_queue s)"
    using assms(2) by (simp_all add: state_inv_def)
  have c: "c_State c = StatePending" "c_ExitCode c = None" "c_NodeID c = []"
    "c_ID c = GenerateContainerID rnd" "c_Name c = name"
    using created(2) by (simp_all add: new_container_def zero_Container_def)
  note w = hambo_db.container_write_committed [OF assms(1) inv c(1-3) created(3)]
  have queued: "shuttingDown (st_queue s) \<or> GenerateContainerID rnd \<in> dirty (st_queue s')"
    using mq.add_open [OF q, of "c_ID c"] created(4) assms(3) c(4) by auto
  have body: "rs_Body resp = JsonBody (JObj [(''id'', JStr (GenerateContainerID rnd)), (''name'', JStr name),
        (''image'', JStr img), (''state'', JStr ''pending''), (''created_at'', JTime now)])"
    using created(2,4) assms(3,4)
    by (auto simp: writeJSON_def enc_ContainerResponse_def new_container_def zero_Container_def
        StatePending_def enc_time_def omit_time_def omit_string_def omit_int_def status_defs split: if_splits)
  obtain p where "readJSON dec_CreateContainerRequest maxContainerRequestSize r = Inr p"
    "name = TrimSpace (cq_Name p)" "img = TrimSpace (cq_Image p)" "name \<noteq> []" "img \<noteq> []"
    using created(1) by (auto simp: container_request_def)
  then show ?thesis
    using w c(4,5) queued body created(2,4) assms(3)
    by (intro exI [of _ p] exI [of _ name] exI [of _ img])
      (auto simp: new_container_def zero_Container_def StatePending_def name_free_def)
qed (use assms(3,4) in \<open>auto simp: status_defs split: if_splits\<close>)

theorem container_created_witness:
  "container_tbl mem_bolt (st_db (snd (createContainerHandler ex_env ''c'' 4 (container_req ''web'') ex4))) ''63''
     = Some \<lparr>c_ID = ''63'', c_Name = ''web'', c_Image = ''i'', c_NodeID = [], c_State = ''pending'',
         c_ExitCode = None, c_Reason = [], c_Message = [], c_CreatedAt = 4, c_DeletionRequestedAt = None\<rparr>"
proof -
  have "rs_Status (fst (createContainerHandler ex_env ''c'' 4 (container_req ''web'') ex4)) = 201"
    by code_simp
  from container_created [OF ex_hambo(2) _ prod.collapse [symmetric] this] ex4_inv
  obtain q where q: "readJSON dec_CreateContainerRequest maxContainerRequestSize (container_req ''web'') = Inr q"
    and t: "container_tbl mem_bolt
        (st_db (snd (createContainerHandler ex_env ''c'' 4 (container_req ''web'') ex4))) (GenerateContainerID ''c'')
      = Some \<lparr>c_ID = GenerateContainerID ''c'', c_Name = TrimSpace (cq_Name q),
          c_Image = TrimSpace (cq_Image q), c_NodeID = [], c_State = ''pending'', c_ExitCode = None,
          c_Reason = [], c_Message = [], c_CreatedAt = 4, c_DeletionRequestedAt = None\<rparr>"
    by auto
  have "readJSON dec_CreateContainerRequest maxContainerRequestSize (container_req ''web'')
      = Inr \<lparr>cq_Name = ''web'', cq_Image = ''i''\<rparr>" "GenerateContainerID ''c'' = ''63''"
    "TrimSpace ''web'' = ''web''" "TrimSpace ''i'' = ''i''"
    by code_simp+
  then show ?thesis using q t by simp
qed

section \<open>Tokens\<close>

text \<open>
  Claim C21: a token answered 201 lives for more than zero and at most twenty-four hours and was
  not stored before. The server keeps only the hash of its secret. When the random secret and
  the fingerprint have 32 bytes, the text in the answer parses to the fingerprint of the
  authority and the secret, and a join with that secret is undecided (so it can enroll) before
  the token expires and answered 401 from then on.
\<close>

theorem token_created:
  assumes "hambo_db (e_B E)" and "state_inv (e_B E) s"
    and "createTokenHandler E (Inr bs) now r s = (resp, s')" and "rs_Status resp = 201"
    and "length bs = 32" and "length (e_sha256 E (ct_Raw (ca_Certificate (e_ca E)))) = 32"
  shows "\<exists>ttl t. 0 < ttl \<and> ttl \<le> hours 24
    \<and> rs_Body resp = JsonBody (JObj [(''token'', JStr (Format t)), (''expires_at'', JTime (now + ttl))])
    \<and> Parse (Format t) = Inr t
    \<and> t_CAFingerprint t = caFingerprint (e_sha256 E) (ct_Raw (ca_Certificate (e_ca E)))
    \<and> token_tbl (e_B E) (st_db s) (secret_hash E (t_Secret t)) = None
    \<and> token_tbl (e_B E) (st_db s') = (token_tbl (e_B E) (st_db s))
        (secret_hash E (t_Secret t) \<mapsto> \<lparr>md_ExpiresAt = now + ttl, md_Enrollment = None\<rparr>)
    \<and> (\<forall>later rh. decided_answer later rh (token_tbl (e_B E) (st_db s') (secret_hash E (t_Secret t))) =
        (if later < now + ttl then None
         else Some (writeErrorJSON StatusUnauthorized ''join token expired'')))"
proof (cases rule: createToken_cases [of E "Inr bs" now r s])
  case (refused resp')
  then show ?thesis using assms(3,4) by auto
next
  case (created ttl bs' t db')
  have tok: "tbl_ok (e_B E) tokens_collection (st_db s)"
    using assms(2) by (simp add: state_inv_def db_inv_def db_ok_def)
  have coll: "store_collection (e_B E) tokens_collection"
    by (rule hambo_db.tokens_store [OF assms(1)])
  have h: "SecretHash (e_sha256 E) t = secret_hash E (t_Secret t)"
    by (simp add: SecretHash_def secret_hash_def)
  note cr = store_collection.Create_ok [OF coll tok created(5)]
  have p: "Parse (Format t) = Inr t"
    using Parse_Format_encoded [OF assms(6,5)] created(1,4) by (simp add: caFingerprint_def)
  have body: "rs_Body resp
      = JsonBody (JObj [(''token'', JStr (Format t)), (''expires_at'', JTime (now + ttl))])"
    using assms(3,4) created(6)
    by (auto simp: writeJSON_def enc_CreateTokenResponse_def enc_time_def status_defs split: if_splits)
  have s': "st_db s' = db'" using assms(3) created(6) by auto
  have fp: "t_CAFingerprint t = caFingerprint (e_sha256 E) (ct_Raw (ca_Certificate (e_ca E)))"
    by (simp add: created(4))
  have "decided_answer later rh (Some \<lparr>md_ExpiresAt = now + ttl, md_Enrollment = None\<rparr>) =
      (if later < now + ttl then None
       else Some (writeErrorJSON StatusUnauthorized ''join token expired''))" for later rh
    by (simp add: decided_answer_def)
  then show ?thesis
    using created(2,3) cr(1,3) p body fp
    by (intro exI [of _ ttl] exI [of _ t]) (simp add: s' h maxTokenTTL_def)
qed

definition ex_env32 :: "mem_db env" where
  "ex_env32 = ex_env\<lparr>e_sha256 := \<lambda>s. replicate 32 (CHR ''h'')\<rparr>"

theorem token_created_witness:
  "\<exists>t. Parse (Format t) = Inr t
     \<and> token_tbl mem_bolt
         (st_db (snd (createTokenHandler ex_env32 (Inr (replicate 32 (CHR ''s''))) 0 token_req ex0)))
         (secret_hash ex_env32 (t_Secret t)) \<noteq> None"
proof -
  have "rs_Status (fst (createTokenHandler ex_env32 (Inr (replicate 32 (CHR ''s''))) 0 token_req ex0)) = 201"
    by code_simp
  moreover have "e_B ex_env32 = mem_bolt" by (simp add: ex_env32_def)
  ultimately show ?thesis
    using token_created [of ex_env32 ex0 "replicate 32 (CHR ''s'')" 0 token_req, OF _ _ prod.collapse [symmetric]]
      ex_hambo(1) ex0_inv by (fastforce simp: ex_env32_def)
qed

end
