(* ===== verification/Wire.thy ===== *)
theory Wire
  imports Api_Tokens Api_Join Api_Status Api_Containers Api_Watch
begin

text \<open>
  The client's side of the documents of \<open>api/types.go\<close>: how package \<open>client\<close> writes the
  requests and reads the responses (with unknown fields allowed, as \<open>json.Unmarshal\<close> does).
  The lemmas say that what one side writes the other side reads.
\<close>

section \<open>Requests\<close>

definition enc_CreateTokenRequest :: "CreateTokenRequest \<Rightarrow> json" where
  "enc_CreateTokenRequest q = JObj (omit_string ''ttl'' (ctr_TTL q))"

definition enc_CreateContainerRequest :: "CreateContainerRequest \<Rightarrow> json" where
  "enc_CreateContainerRequest q =
     JObj [(''name'', JStr (json_string (cq_Name q))), (''image'', JStr (json_string (cq_Image q)))]"

definition enc_ContainerStatusReport :: "ContainerStatusReport \<Rightarrow> json" where
  "enc_ContainerStatusReport p =
     JObj ([(''id'', JStr (rp_ID p)), (''state'', JStr (rp_State p))]
       @ omit_int ''exit_code'' (rp_ExitCode p)
       @ omit_string ''reason'' (rp_Reason p) @ omit_string ''message'' (rp_Message p))"

definition enc_ReportNodeStatusRequest :: "ReportNodeStatusRequest \<Rightarrow> json" where
  "enc_ReportNodeStatusRequest q =
     JObj [(''session_id'', JStr (rn_SessionID q)), (''sequence'', enc_uint (rn_Sequence q)),
       (''runtime_ready'', JBool (rn_RuntimeReady q)),
       (''containers'', JArr (map enc_ContainerStatusReport (rn_Containers q)))]"

section \<open>Responses\<close>

record ErrorResponse =
  eo_Message :: string
  eo_Fields :: "(string \<times> string) list"

record CreateTokenResponse =
  cto_Token :: string
  cto_ExpiresAt :: instant

text \<open>A map from strings to strings, as the list of its members.\<close>

definition dec_string_map :: "json \<Rightarrow> (string \<times> string) list result" where
  "dec_string_map j =
     (case j of
        JObj ms \<Rightarrow> map_result (\<lambda>(k, v). map_value (Pair k) (dec_string v [])) ms
      | JNull \<Rightarrow> Inr []
      | _ \<Rightarrow> type_error)"

definition ErrorResponse_fields :: "ErrorResponse fields" where
  "ErrorResponse_fields =
     [(''message'', \<lambda>j p. map_value (\<lambda>x. p\<lparr>eo_Message := x\<rparr>) (dec_string j (eo_Message p))),
      (''fields'', \<lambda>j p. map_value (\<lambda>x. p\<lparr>eo_Fields := x\<rparr>) (dec_string_map j))]"

definition dec_ErrorResponse :: "json \<Rightarrow> ErrorResponse result" where
  "dec_ErrorResponse = decode_struct False ErrorResponse_fields \<lparr>eo_Message = [], eo_Fields = []\<rparr>"

definition dec_HealthResponse :: "json \<Rightarrow> string result" where
  "dec_HealthResponse = decode_struct False [(''status'', dec_string)] []"

definition CreateTokenResponse_fields :: "CreateTokenResponse fields" where
  "CreateTokenResponse_fields =
     [(''token'', \<lambda>j p. map_value (\<lambda>x. p\<lparr>cto_Token := x\<rparr>) (dec_string j (cto_Token p))),
      (''expires_at'', \<lambda>j p. map_value (\<lambda>x. p\<lparr>cto_ExpiresAt := x\<rparr>) (dec_time j (cto_ExpiresAt p)))]"

definition dec_CreateTokenResponse :: "json \<Rightarrow> CreateTokenResponse result" where
  "dec_CreateTokenResponse =
     decode_struct False CreateTokenResponse_fields \<lparr>cto_Token = [], cto_ExpiresAt = zero_time\<rparr>"

definition JoinNodeResponse_fields :: "JoinNodeResponse fields" where
  "JoinNodeResponse_fields =
     [(''node_id'', \<lambda>j p. map_value (\<lambda>x. p\<lparr>jn_NodeID := x\<rparr>) (dec_string j (jn_NodeID p))),
      (''certificate'',
         \<lambda>j p. map_value (\<lambda>x. p\<lparr>jn_Certificate := x\<rparr>) (dec_string j (jn_Certificate p)))]"

definition dec_JoinNodeResponse :: "json \<Rightarrow> JoinNodeResponse result" where
  "dec_JoinNodeResponse =
     decode_struct False JoinNodeResponse_fields \<lparr>jn_NodeID = [], jn_Certificate = []\<rparr>"

text \<open>The response of \<open>POST /containers\<close> has the fields of the stored container.\<close>

definition dec_ContainerResponse :: "json \<Rightarrow> Container result" where
  "dec_ContainerResponse = decode_struct False Container_fields zero_Container"

definition dec_CreateNodeSessionResponse :: "json \<Rightarrow> string result" where
  "dec_CreateNodeSessionResponse = decode_struct False [(''session_id'', dec_string)] []"

definition ContainerAssignment_fields :: "ContainerAssignment fields" where
  "ContainerAssignment_fields =
     [(''id'', \<lambda>j a. map_value (\<lambda>x. a\<lparr>as_ID := x\<rparr>) (dec_string j (as_ID a))),
      (''name'', \<lambda>j a. map_value (\<lambda>x. a\<lparr>as_Name := x\<rparr>) (dec_string j (as_Name a))),
      (''image'', \<lambda>j a. map_value (\<lambda>x. a\<lparr>as_Image := x\<rparr>) (dec_string j (as_Image a))),
      (''deletion_requested_at'',
         \<lambda>j a. map_value (\<lambda>x. a\<lparr>as_DeletionRequestedAt := x\<rparr>) (dec_time_ptr j))]"

definition dec_ContainerAssignment :: "json \<Rightarrow> ContainerAssignment result" where
  "dec_ContainerAssignment =
     decode_struct False ContainerAssignment_fields
       \<lparr>as_ID = [], as_Name = [], as_Image = [], as_DeletionRequestedAt = None\<rparr>"

definition dec_NodeWatchResponse :: "json \<Rightarrow> ContainerAssignment list result" where
  "dec_NodeWatchResponse =
     decode_struct False [(''containers'', \<lambda>j _. dec_slice dec_ContainerAssignment j)] []"

section \<open>What one side writes the other side reads\<close>

lemma wire_keys [key_simps]:
  "fold_name ''ttl'' = ''TTL''" "fold_name ''session_id'' = ''SESSION_ID''"
  "fold_name ''sequence'' = ''SEQUENCE''" "fold_name ''containers'' = ''CONTAINERS''"
  "fold_name ''fields'' = ''FIELDS''" "fold_name ''status'' = ''STATUS''"
  "fold_name ''expires_at'' = ''EXPIRES_AT''" "fold_name ''token'' = ''TOKEN''"
  "fold_name ''csr'' = ''CSR''" "fold_name ''certificate'' = ''CERTIFICATE''"
  by code_simp+

lemma map_result_map: "(\<And>x. x \<in> set xs \<Longrightarrow> dec (enc x) = Inr x) \<Longrightarrow> map_result dec (map enc xs) = Inr xs"
  by (induction xs) auto

lemma map_result_through:
  "map_result enc xs = Inr js \<Longrightarrow> (\<And>x j. x \<in> set xs \<Longrightarrow> enc x = Inr j \<Longrightarrow> dec j = Inr x) \<Longrightarrow>
    map_result dec js = Inr xs"
proof (induction xs arbitrary: js)
  case Nil
  then show ?case by simp
next
  case (Cons x xs)
  then obtain j js' where "enc x = Inr j" "map_result enc xs = Inr js'" "js = j # js'"
    by (auto simp: result_eqs)
  moreover have "dec j = Inr x" using Cons.prems(2) \<open>enc x = Inr j\<close> by simp
  moreover have "map_result dec js' = Inr xs" using Cons.IH Cons.prems(2) calculation(2) by simp
  ultimately show ?case by simp
qed

lemma wire_requests [simp]:
  "dec_CreateTokenRequest (enc_CreateTokenRequest q1) = Inr q1"
  "dec_CreateContainerRequest (enc_CreateContainerRequest q2) =
     Inr \<lparr>cq_Name = json_string (cq_Name q2), cq_Image = json_string (cq_Image q2)\<rparr>"
  "dec_JoinNodeRequest (enc_JoinNodeRequest q3) = Inr (q3\<lparr>jr_Name := json_string (jr_Name q3)\<rparr>)"
  by (cases q1, simp add: enc_CreateTokenRequest_def dec_CreateTokenRequest_def omit_string_def
      CreateTokenRequest_fields_def decode_member_def codec_simps key_simps)
    (cases q2, simp add: enc_CreateContainerRequest_def dec_CreateContainerRequest_def
      CreateContainerRequest_fields_def decode_member_def codec_simps key_simps,
     cases q3, simp add: enc_JoinNodeRequest_def dec_JoinNodeRequest_def
      JoinNodeRequest_fields_def decode_member_def codec_simps key_simps)

lemma wire_report [simp]: "dec_ContainerStatusReport (enc_ContainerStatusReport p) = Inr p"
  by (cases p) (simp add: enc_ContainerStatusReport_def dec_ContainerStatusReport_def omit_int_def
      omit_string_def ContainerStatusReport_fields_def decode_member_def codec_simps key_simps
      fold_result_append split: option.splits)

lemma wire_status [simp]: "dec_ReportNodeStatusRequest (enc_ReportNodeStatusRequest q) = Inr q"
  by (cases q) (simp add: enc_ReportNodeStatusRequest_def dec_ReportNodeStatusRequest_def dec_slice_def
      ReportNodeStatusRequest_fields_def decode_member_def codec_simps key_simps map_result_map)

lemma wire_responses [simp]:
  "dec_JoinNodeResponse (enc_JoinNodeResponse p) = Inr p"
  "dec_CreateNodeSessionResponse (enc_CreateNodeSessionResponse x) = Inr x"
  "dec_HealthResponse (JObj [(''status'', JStr x)]) = Inr x"
  by (cases p, simp add: enc_JoinNodeResponse_def dec_JoinNodeResponse_def JoinNodeResponse_fields_def
      decode_member_def codec_simps key_simps)
    (simp_all add: enc_CreateNodeSessionResponse_def dec_CreateNodeSessionResponse_def
      dec_HealthResponse_def decode_member_def codec_simps key_simps)

lemma wire_token:
  "enc_CreateTokenResponse tok t = Inr j \<Longrightarrow>
    dec_CreateTokenResponse j = Inr \<lparr>cto_Token = tok, cto_ExpiresAt = t\<rparr>"
  by (auto simp: enc_CreateTokenResponse_def enc_time_Inr result_eqs dec_CreateTokenResponse_def
      CreateTokenResponse_fields_def decode_member_def codec_simps key_simps)

lemma wire_container: "enc_ContainerResponse c = Inr j \<Longrightarrow> dec_ContainerResponse j = Inr c"
  using Container_codec [of c j]
  by (simp add: enc_ContainerResponse_def marshal_Container_def dec_ContainerResponse_def
      unmarshal_Container_def)

lemma wire_error [simp]:
  "dec_ErrorResponse (enc_ErrorResponse message fs) = Inr \<lparr>eo_Message = message, eo_Fields = sort_key fst fs\<rparr>"
proof -
  have "map_result (\<lambda>(k, v). map_value (Pair k) (dec_string v [])) (map (\<lambda>(k, v). (k, JStr v)) xs) = Inr xs"
    for xs :: "(string \<times> string) list"
    by (rule map_result_map) (auto simp: codec_simps)
  then show ?thesis
    by (simp add: enc_ErrorResponse_def dec_ErrorResponse_def ErrorResponse_fields_def dec_string_map_def
        decode_member_def codec_simps key_simps)
qed

lemma ContainerAssignment_steps:
  "decode_member False ContainerAssignment_fields (''id'', JStr x) a = Inr (a\<lparr>as_ID := x\<rparr>)"
  "decode_member False ContainerAssignment_fields (''name'', JStr x) a = Inr (a\<lparr>as_Name := x\<rparr>)"
  "decode_member False ContainerAssignment_fields (''image'', JStr x) a = Inr (a\<lparr>as_Image := x\<rparr>)"
  "decode_member False ContainerAssignment_fields (''deletion_requested_at'', JTime t) a
     = Inr (a\<lparr>as_DeletionRequestedAt := Some t\<rparr>)"
  by (simp_all add: decode_member_def ContainerAssignment_fields_def codec_simps key_simps)

lemma wire_assignment:
  assumes "enc_ContainerAssignment a = Inr j"
  shows "dec_ContainerAssignment j = Inr a"
proof -
  obtain ms where ms: "omit_time ''deletion_requested_at'' (as_DeletionRequestedAt a) = Inr ms"
    "j = JObj ([(''id'', JStr (as_ID a)), (''name'', JStr (as_Name a)), (''image'', JStr (as_Image a))] @ ms)"
    using assms by (auto simp: enc_ContainerAssignment_def map_value_eq_Inr)
  show ?thesis
  proof (cases "as_DeletionRequestedAt a")
    case None
    then show ?thesis using ms
      by (cases a) (simp add: omit_time_def dec_ContainerAssignment_def codec_simps ContainerAssignment_steps)
  next
    case (Some t)
    then have "ms = [(''deletion_requested_at'', JTime t)]" using ms(1) by (simp add: omit_time_Inr)
    then show ?thesis using ms(2) Some
      by (cases a) (simp add: dec_ContainerAssignment_def codec_simps ContainerAssignment_steps)
  qed
qed

lemma wire_watch: "enc_NodeWatchResponse as = Inr j \<Longrightarrow> dec_NodeWatchResponse j = Inr as"
proof -
  assume "enc_NodeWatchResponse as = Inr j"
  then obtain js where js: "map_result enc_ContainerAssignment as = Inr js" "j = JObj [(''containers'', JArr js)]"
    by (auto simp: enc_NodeWatchResponse_def result_eqs)
  have "map_result dec_ContainerAssignment js = Inr as"
    using js(1) map_result_through [of enc_ContainerAssignment as js dec_ContainerAssignment] wire_assignment by blast
  then show ?thesis
    using js(2) by (simp add: dec_NodeWatchResponse_def decode_member_def dec_slice_def codec_simps key_simps)
qed

end
