(* ===== verification/Client.thy ===== *)
theory Client
  imports Wire
begin

text \<open>
  Package \<open>client\<close>: requests to the API over HTTPS, the classification of error answers, and
  the two requests a worker makes before it has a certificate. The network is a parameter:
  \<open>ce_Do\<close> is \<open>http.Client.Do\<close>, a function of the request and of the state \<open>'n\<close> of the other
  side. A response carries what the client will meet while it reads the body: the documents of
  a stream, an error before the first value is complete (\<open>hr_DecodeErr\<close>) or after it
  (\<open>hr_DrainErr\<close>), and what \<open>ctx.Err()\<close> returns from then on (\<open>hr_CtxErr\<close>).
\<close>

section \<open>The outside\<close>

record url =
  u_Scheme :: string
  u_Hostname :: string
  u_User :: bool
  u_Path :: string
  u_String :: string

text \<open>
  \<open>hq_Path\<close> is the path joined to the server's URL. \<open>hq_Roots\<close> are the certificates the
  server must chain to (\<open>None\<close>: \<open>InsecureSkipVerify\<close>), \<open>hq_Pair\<close> the client's certificate.
\<close>

record http_request =
  hq_Method :: string
  hq_URL :: url
  hq_Path :: string
  hq_Header :: "(string \<times> string) list"
  hq_Body :: "json option"
  hq_Roots :: "certificate list option"
  hq_Pair :: "certificate option"

record http_response =
  hr_Response :: response
  hr_Length :: nat
  hr_Stream :: "json result list"
  hr_DecodeErr :: "error option"
  hr_DrainErr :: "error option"
  hr_CtxErr :: "error option"

record 'n client_env =
  ce_Do :: "http_request \<Rightarrow> 'n \<Rightarrow> http_response result \<times> 'n"
  ce_ParseURL :: "string \<Rightarrow> url result"
  ce_NewRequest :: "string \<Rightarrow> url \<Rightarrow> string \<Rightarrow> error option"
  ce_CertsFromPEM :: "string \<Rightarrow> certificate list"
  ce_X509KeyPair :: "string \<Rightarrow> string \<Rightarrow> certificate result"
  ce_PemDecode :: "string \<Rightarrow> (string \<times> string) option"
  ce_ParseCertificate :: "string \<Rightarrow> certificate result"
  ce_sha256 :: "string \<Rightarrow> string"

text \<open>A server's address without a path of its own, as the commands print and expect it.\<close>

definition root_url :: "url \<Rightarrow> bool" where
  "root_url u \<longleftrightarrow> u_Path u = [] \<or> u_Path u = ''/''"

section \<open>Reading a response\<close>

text \<open>
  What a JSON decoder finds in the body. The texts and certificates of the server are no
  documents a client expects: the first value of \<open>404 page not found\<close> is a number.
\<close>

definition body_documents :: "http_response \<Rightarrow> json result list" where
  "body_documents hr =
     (case hr_DecodeErr hr of
        Some e \<Rightarrow> [Inl e]
      | None \<Rightarrow>
          (case rs_Body (hr_Response hr) of
             NoBody \<Rightarrow> []
           | JsonBody j \<Rightarrow> [Inr j]
           | StreamBody _ \<Rightarrow> hr_Stream hr
           | TextBody _ \<Rightarrow> [type_error]
           | PemBody _ \<Rightarrow> [type_error]))"

definition Decode :: "(json \<Rightarrow> 'a result) \<Rightarrow> json result list \<Rightarrow> 'a result" where
  "Decode dec docs = (case docs of [] \<Rightarrow> Inl (Msg ''EOF'') | d # _ \<Rightarrow> bind_result d dec)"

text \<open>\<open>io.ReadAll\<close> of the body: the error it meets, if any.\<close>

definition read_error :: "http_response \<Rightarrow> error option" where
  "read_error hr = (case hr_DecodeErr hr of Some e \<Rightarrow> Some e | None \<Rightarrow> hr_DrainErr hr)"

definition drainResponseBody :: "http_response \<Rightarrow> error option" where
  "drainResponseBody hr =
     (case hr_DrainErr hr of
        None \<Rightarrow> None
      | Some e \<Rightarrow>
          (case hr_CtxErr hr of
             Some ctxErr \<Rightarrow> Some ctxErr
           | None \<Rightarrow> Some (Wrap ''drain response body'' e)))"

definition success :: "http_response \<Rightarrow> bool" where
  "success hr \<longleftrightarrow> \<not> (rs_Status (hr_Response hr) < 200 \<or> 300 \<le> rs_Status (hr_Response hr))"

section \<open>Error answers\<close>

definition errorFromStatus :: "nat \<Rightarrow> sentinel option" where
  "errorFromStatus statusCode =
     (if statusCode \<in> {StatusBadRequest, StatusUnsupportedMediaType, StatusUnprocessableEntity}
      then Some ErrInvalidArgument
      else if statusCode = StatusUnauthorized then Some ErrUnauthenticated
      else if statusCode = StatusForbidden then Some ErrPermissionDenied
      else if statusCode = StatusNotFound then Some ErrNotFound
      else if statusCode = StatusMethodNotAllowed then Some ErrMethodNotAllowed
      else if statusCode = StatusConflict then Some ErrConflict
      else if statusCode = StatusInternalServerError then Some ErrInternal
      else if statusCode = StatusServiceUnavailable then Some ErrUnavailable
      else None)"

text \<open>\<open>client.Error\<close>: the text of \<open>Error()\<close> around the cause, which \<open>Unwrap\<close> returns.\<close>

definition Error_text :: "ErrorResponse \<Rightarrow> string" where
  "Error_text r =
     (if eo_Message r \<noteq> [] then eo_Message r else ''request failed with status code'')"

definition client_Error :: "nat \<Rightarrow> ErrorResponse \<Rightarrow> error" where
  "client_Error statusCode r =
     (case errorFromStatus statusCode of
        None \<Rightarrow> Msg (Error_text r)
      | Some cause \<Rightarrow> Wrap (Error_text r) (Sentinel cause))"

definition decodeResponseError :: "http_response \<Rightarrow> error" where
  "decodeResponseError hr =
     (case Decode dec_ErrorResponse (body_documents hr) of
        Inl e \<Rightarrow> Wrap ''decode response with status code'' e
      | Inr r \<Rightarrow> client_Error (rs_Status (hr_Response hr)) r)"

definition readResponseError :: "http_response \<Rightarrow> error" where
  "readResponseError hr =
     (case hr_CtxErr hr of
        Some ctxErr \<Rightarrow> ctxErr
      | None \<Rightarrow>
          (case drainResponseBody hr of
             Some e \<Rightarrow> e
           | None \<Rightarrow> decodeResponseError hr))"

section \<open>Requests with the client's certificate\<close>

record Client =
  cl_baseURL :: url
  cl_roots :: "certificate list"
  cl_pair :: certificate

record client_Config =
  cfg_ServerURL :: string
  cfg_CACertPEM :: string
  cfg_ClientCertPEM :: string
  cfg_ClientKeyPEM :: string

definition ParseServerURL :: "'n client_env \<Rightarrow> string \<Rightarrow> url result" where
  "ParseServerURL CE value =
     (case ce_ParseURL CE value of
        Inl e \<Rightarrow> Inl (Msg ''invalid URL'')
      | Inr u \<Rightarrow>
          if u_Scheme u \<noteq> ''https'' \<or> u_Hostname u = []
          then Inl (Msg ''must use HTTPS and include a hostname'')
          else if u_User u then Inl (Msg ''must not contain credentials'')
          else Inr u)"

definition NewClient :: "'n client_env \<Rightarrow> client_Config \<Rightarrow> Client result" where
  "NewClient CE cfg =
     bind_result (map_error (Wrap ''server URL'') (ParseServerURL CE (cfg_ServerURL cfg))) (\<lambda>u.
     if ce_CertsFromPEM CE (cfg_CACertPEM cfg) = []
     then Inl (Msg ''CA PEM contains no parseable certificates'')
     else bind_result (map_error (Wrap ''parse client certificate and key'')
         (ce_X509KeyPair CE (cfg_ClientCertPEM cfg) (cfg_ClientKeyPEM cfg))) (\<lambda>certificate.
     Inr \<lparr>cl_baseURL = u, cl_roots = ce_CertsFromPEM CE (cfg_CACertPEM cfg), cl_pair = certificate\<rparr>))"

definition newRequest ::
  "'n client_env \<Rightarrow> Client \<Rightarrow> string \<Rightarrow> string \<Rightarrow> json option \<Rightarrow> http_request result" where
  "newRequest CE c verb path input =
     (case ce_NewRequest CE verb (cl_baseURL c) path of
        Some e \<Rightarrow> Inl (Wrap ''create request'' e)
      | None \<Rightarrow>
          Inr \<lparr>hq_Method = verb, hq_URL = cl_baseURL c, hq_Path = path,
               hq_Header = (if input = None then [] else [(''Content-Type'', ''application/json'')]),
               hq_Body = input, hq_Roots = Some (cl_roots c), hq_Pair = Some (cl_pair c)\<rparr>)"

text \<open>\<open>do\<close>; \<open>output\<close> is the decoder of the output, \<open>None\<close> for nil.\<close>

definition client_do ::
  "'n client_env \<Rightarrow> Client \<Rightarrow> string \<Rightarrow> string \<Rightarrow> json option \<Rightarrow> (json \<Rightarrow> 'a result) option
     \<Rightarrow> 'n \<Rightarrow> 'a option result \<times> 'n" where
  "client_do CE c verb path input output n =
     (case newRequest CE c verb path input of
        Inl e \<Rightarrow> (Inl e, n)
      | Inr req \<Rightarrow>
          (case ce_Do CE req n of
             (Inl e, n') \<Rightarrow> (Inl (Wrap ''send request'' e), n')
           | (Inr hr, n') \<Rightarrow>
               (if \<not> success hr then Inl (readResponseError hr)
                else bind_result
                  (case output of
                     None \<Rightarrow> Inr None
                   | Some dec \<Rightarrow>
                       (case Decode dec (body_documents hr) of
                          Inl e \<Rightarrow> Inl (case hr_CtxErr hr of
                                         Some ctxErr \<Rightarrow> ctxErr
                                       | None \<Rightarrow> Wrap ''decode response'' e)
                        | Inr v \<Rightarrow> Inr (Some v)))
                  (\<lambda>v. case drainResponseBody hr of Some e \<Rightarrow> Inl e | None \<Rightarrow> Inr v),
                n')))"

text \<open>The reader of a stream is the documents that are still to come.\<close>

definition openStreamReader ::
  "'n client_env \<Rightarrow> Client \<Rightarrow> string \<Rightarrow> string \<Rightarrow> json option \<Rightarrow> 'n
     \<Rightarrow> json result list result \<times> 'n" where
  "openStreamReader CE c verb path input n =
     (case newRequest CE c verb path input of
        Inl e \<Rightarrow> (Inl e, n)
      | Inr req \<Rightarrow>
          (case ce_Do CE (req\<lparr>hq_Header := hq_Header req @ [(''Accept'', ''application/x-ndjson'')]\<rparr>) n of
             (Inl e, n') \<Rightarrow> (Inl (Wrap ''send streaming request'' e), n')
           | (Inr hr, n') \<Rightarrow>
               (if \<not> success hr then Inl (readResponseError hr) else Inr (body_documents hr), n')))"

section \<open>The operations\<close>

definition value_of :: "'a option result \<times> 'n \<Rightarrow> 'a result \<times> 'n" where
  "value_of p = (map_value the (fst p), snd p)"

definition Health :: "'n client_env \<Rightarrow> Client \<Rightarrow> 'n \<Rightarrow> string result \<times> 'n" where
  "Health CE c n = value_of (client_do CE c ''GET'' ''health'' None (Some dec_HealthResponse) n)"

definition CreateToken ::
  "'n client_env \<Rightarrow> Client \<Rightarrow> CreateTokenRequest \<Rightarrow> 'n \<Rightarrow> CreateTokenResponse result \<times> 'n" where
  "CreateToken CE c request n =
     value_of (client_do CE c ''POST'' ''tokens'' (Some (enc_CreateTokenRequest request))
       (Some dec_CreateTokenResponse) n)"

definition CreateContainer ::
  "'n client_env \<Rightarrow> Client \<Rightarrow> CreateContainerRequest \<Rightarrow> 'n \<Rightarrow> Container result \<times> 'n" where
  "CreateContainer CE c request n =
     value_of (client_do CE c ''POST'' ''containers'' (Some (enc_CreateContainerRequest request))
       (Some dec_ContainerResponse) n)"

definition CreateNodeSession :: "'n client_env \<Rightarrow> Client \<Rightarrow> 'n \<Rightarrow> string result \<times> 'n" where
  "CreateNodeSession CE c n =
     value_of (client_do CE c ''POST'' ''nodes/self/session'' None
       (Some dec_CreateNodeSessionResponse) n)"

definition ReportNodeStatus ::
  "'n client_env \<Rightarrow> Client \<Rightarrow> ReportNodeStatusRequest \<Rightarrow> 'n \<Rightarrow> error option \<times> 'n" where
  "ReportNodeStatus CE c request n =
     (case client_do CE c ''POST'' ''nodes/self/status'' (Some (enc_ReportNodeStatusRequest request))
             (None :: (json \<Rightarrow> unit result) option) n of
        (Inl e, n') \<Rightarrow> (Some e, n')
      | (Inr _, n') \<Rightarrow> (None, n'))"

definition WatchNode :: "'n client_env \<Rightarrow> Client \<Rightarrow> 'n \<Rightarrow> json result list result \<times> 'n" where
  "WatchNode CE c n = openStreamReader CE c ''GET'' ''nodes/self/watch'' None n"

definition watch_Next :: "json result list \<Rightarrow> ContainerAssignment list result \<times> json result list" where
  "watch_Next reader = (Decode dec_NodeWatchResponse reader, tl reader)"

section \<open>Requests of a worker that has no certificate\<close>

definition ca_request :: "url \<Rightarrow> http_request" where
  "ca_request serverURL =
     \<lparr>hq_Method = ''GET'', hq_URL = serverURL, hq_Path = ''ca'',
      hq_Header = [(''Accept'', ''application/pem-certificate-chain'')],
      hq_Body = None, hq_Roots = None, hq_Pair = None\<rparr>"

definition join_http_request :: "url \<Rightarrow> certificate \<Rightarrow> string \<Rightarrow> JoinNodeRequest \<Rightarrow> http_request" where
  "join_http_request serverURL cert secret request =
     \<lparr>hq_Method = ''POST'', hq_URL = serverURL, hq_Path = ''nodes/join'',
      hq_Header = [(''Content-Type'', ''application/json''), (''Accept'', ''application/json''),
                   (''Authorization'', ''Bearer '' @ secret)],
      hq_Body = Some (enc_JoinNodeRequest request), hq_Roots = Some [cert], hq_Pair = None\<rparr>"

definition FetchAndVerifyCA ::
  "'n client_env \<Rightarrow> url \<Rightarrow> string \<Rightarrow> 'n \<Rightarrow> certificate result \<times> 'n" where
  "FetchAndVerifyCA CE serverURL expectedFingerprint n =
     (if expectedFingerprint = [] then (Inl (Msg ''CA fingerprint is required''), n)
      else case ce_NewRequest CE ''GET'' serverURL ''ca'' of
        Some e \<Rightarrow> (Inl (Wrap ''create CA request'' e), n)
      | None \<Rightarrow>
          (case ce_Do CE (ca_request serverURL) n of
             (Inl e, n') \<Rightarrow> (Inl (Wrap ''fetch CA certificate'' e), n')
           | (Inr hr, n') \<Rightarrow>
               (if rs_Status (hr_Response hr) \<noteq> StatusOK
                then Inl (Msg ''fetch CA certificate: status'')
                else case read_error hr of
                  Some e \<Rightarrow> Inl (Wrap ''read CA certificate'' e)
                | None \<Rightarrow>
                    if 64 * 1024 < hr_Length hr then Inl (Msg ''CA response is too large'')
                    else case (case rs_Body (hr_Response hr) of
                                 PemBody t \<Rightarrow> ce_PemDecode CE t
                               | TextBody t \<Rightarrow> ce_PemDecode CE t
                               | _ \<Rightarrow> None) of
                      None \<Rightarrow> Inl (Msg ''CA response must contain a PEM certificate'')
                    | Some (block_type, block_bytes) \<Rightarrow>
                        if block_type \<noteq> ''CERTIFICATE''
                        then Inl (Msg ''CA response must contain a PEM certificate'')
                        else bind_result (map_error (Wrap ''parse CA certificate'')
                                 (ce_ParseCertificate CE block_bytes)) (\<lambda>cert.
                          if b64_EncodeToString (ce_sha256 CE (ct_Raw cert)) \<noteq> expectedFingerprint
                          then Inl (Msg ''CA fingerprint does not match'')
                          else Inr cert),
                n')))"

definition JoinNode ::
  "'n client_env \<Rightarrow> url \<Rightarrow> certificate option \<Rightarrow> string \<Rightarrow> JoinNodeRequest \<Rightarrow> 'n
     \<Rightarrow> JoinNodeResponse result \<times> 'n" where
  "JoinNode CE serverURL ca secret request n =
     (case ca of
        None \<Rightarrow> (Inl (Msg ''CA certificate is required''), n)
      | Some cert \<Rightarrow>
          if secret = [] then (Inl (Msg ''join token secret is required''), n)
          else case ce_NewRequest CE ''POST'' serverURL ''nodes/join'' of
            Some e \<Rightarrow> (Inl (Wrap ''create join request'' e), n)
          | None \<Rightarrow>
              (case ce_Do CE (join_http_request serverURL cert secret request) n of
                 (Inl e, n') \<Rightarrow> (Inl (Wrap ''send join request'' e), n')
               | (Inr hr, n') \<Rightarrow>
                   (if \<not> success hr then Inl (readResponseError hr)
                    else case read_error hr of
                      Some e \<Rightarrow> Inl (Wrap ''read join response'' e)
                    | None \<Rightarrow>
                        if 64 * 1024 < hr_Length hr then Inl (Msg ''join response is too large'')
                        else bind_result (map_error (Wrap ''decode join response'')
                                 (Decode dec_JoinNodeResponse (body_documents hr))) (\<lambda>response.
                          if jn_NodeID response = [] \<or> jn_Certificate response = []
                          then Inl (Msg ''invalid join response: missing node ID or certificate'')
                          else Inr response),
                    n')))"

end
