(* ===== verification/Network.thy ===== *)
theory Network
  imports Client Server
begin

text \<open>
  The server as the other side of the client's network: \<open>server_Do\<close> delivers a request to
  \<open>serve\<close> and the answer to the client. Each exchange has a number; \<open>nw_faults\<close> says what
  happens to it (the request is lost, the response is lost after the server acted, or its body
  is cut off) and \<open>nw_rng\<close> what the server draws for it. The path of a
  request is joined to that of the server's address. TLS: the server's certificate chains to
  its authority alone, so a client with other roots does not connect, and a client whose
  certificate is not verified is turned away.
\<close>

section \<open>The transport\<close>

datatype net_fault = Delivered | RequestLost string | ResponseLost string | BodyLost string

record 'db network =
  nw_state :: "'db state"
  nw_count :: nat
  nw_rng :: "nat \<Rightarrow> rng"
  nw_faults :: "nat \<Rightarrow> net_fault"

definition header_value :: "string \<Rightarrow> http_request \<Rightarrow> string option" where
  "header_value k req = map_of (hq_Header req) k"

definition server_request :: "'db env \<Rightarrow> http_request \<Rightarrow> request" where
  "server_request E req =
     \<lparr>rq_Method = hq_Method req, rq_Path = JoinPath (u_Path (hq_URL req)) (hq_Path req),
      rq_VerifiedChains = map_option (\<lambda>c. [[c, ca_Certificate (e_ca E)]]) (hq_Pair req),
      rq_Authorization = (case header_value ''Authorization'' req of None \<Rightarrow> [] | Some v \<Rightarrow> v),
      rq_MediaType = header_value ''Content-Type'' req,
      rq_Body = (\<lambda>limit. case hq_Body req of
          None \<Rightarrow> []
        | Some j \<Rightarrow> if limit < length (e_json_text E j) then [BodyTooLarge] else [BodyValue j]),
      rq_NodeID = None, rq_Flusher = True\<rparr>"

definition body_length :: "'db env \<Rightarrow> body \<Rightarrow> nat" where
  "body_length E b =
     (case b of
        NoBody \<Rightarrow> 0 | JsonBody j \<Rightarrow> length (e_json_text E j) | TextBody t \<Rightarrow> length t
      | PemBody t \<Rightarrow> length t | StreamBody _ \<Rightarrow> 0)"

definition client_response :: "'db env \<Rightarrow> error option \<Rightarrow> response \<Rightarrow> http_response" where
  "client_response E broken resp =
     \<lparr>hr_Response = resp, hr_Length = body_length E (rs_Body resp), hr_Stream = [],
      hr_DecodeErr = broken, hr_DrainErr = broken, hr_CtxErr = None\<rparr>"

definition trusts :: "'db env \<Rightarrow> http_request \<Rightarrow> bool" where
  "trusts E req \<longleftrightarrow>
     (case hq_Roots req of None \<Rightarrow> True | Some roots \<Rightarrow> ca_Certificate (e_ca E) \<in> set roots)
     \<and> (case hq_Pair req of None \<Rightarrow> True | Some c \<Rightarrow> e_VerifyClient E c)"

text \<open>The paths the client's operations reach.\<close>

lemma request_path [simp]: "rq_Path (server_request E req) = JoinPath (u_Path (hq_URL req)) (hq_Path req)"
  by (simp add: server_request_def)

lemmas root_paths = join_routes [OF root_url_def [THEN iffD1]]

text \<open>\<open>net/http\<close> sends no header value with control characters.\<close>

definition valid_header :: "http_request \<Rightarrow> bool" where
  "valid_header req \<longleftrightarrow>
     list_all (\<lambda>(k, v). list_all (\<lambda>c. code c = 9 \<or> 32 \<le> code c \<and> code c \<noteq> 127) v) (hq_Header req)"

definition server_Do ::
  "'db env \<Rightarrow> http_request \<Rightarrow> 'db network \<Rightarrow> http_response result \<times> 'db network" where
  "server_Do E req nw =
     (let i = nw_count nw;
          nw1 = nw\<lparr>nw_count := Suc i\<rparr>
      in if \<not> valid_header req then (Inl (Msg ''net/http: invalid header field value''), nw1)
         else if \<not> trusts E req then (Inl (Msg ''tls: failed to verify certificate''), nw1)
         else case nw_faults nw i of
           RequestLost m \<Rightarrow> (Inl (Msg m), nw1)
         | fault \<Rightarrow>
             (case serve E (nw_rng nw i) (server_request E req) (nw_state nw) of
                (resp, s') \<Rightarrow>
                  (case fault of
                     ResponseLost m \<Rightarrow> (Inl (Msg m), nw1\<lparr>nw_state := s'\<rparr>)
                   | BodyLost m \<Rightarrow>
                       (Inr (client_response E (Some (Msg m)) resp), nw1\<lparr>nw_state := s'\<rparr>)
                   | _ \<Rightarrow> (Inr (client_response E None resp), nw1\<lparr>nw_state := s'\<rparr>))))"

text \<open>An exchange changes the server by at most the request; undisturbed, it is the request.\<close>

lemma server_Do_D:
  assumes "server_Do E req nw = (r, nw')"
  shows "nw_rng nw' = nw_rng nw \<and> nw_faults nw' = nw_faults nw \<and> nw_count nw' = Suc (nw_count nw)
    \<and> (nw_state nw' = nw_state nw \<and> (\<exists>m. r = Inl (Msg m))
       \<or> valid_header req \<and> trusts E req \<and> (\<exists>resp. serve E (nw_rng nw (nw_count nw)) (server_request E req) (nw_state nw)
            = (resp, nw_state nw')
          \<and> ((\<exists>m. r = Inl (Msg m)) \<or> (\<exists>m. r = Inr (client_response E (Some (Msg m)) resp))
             \<or> r = Inr (client_response E None resp))))"
  using assms by (auto simp: server_Do_def Let_def split: if_splits net_fault.splits prod.splits)

lemma server_Do_delivered:
  assumes "valid_header req" and "trusts E req" and "nw_faults nw (nw_count nw) = Delivered"
    and "serve E (nw_rng nw (nw_count nw)) (server_request E req) (nw_state nw) = (resp, s')"
  shows "server_Do E req nw =
    (Inr (client_response E None resp), nw\<lparr>nw_count := Suc (nw_count nw), nw_state := s'\<rparr>)"
  using assms by (simp add: server_Do_def Let_def)

lemma client_response_simps [simp]:
  "hr_Response (client_response E c resp) = resp" "hr_DecodeErr (client_response E c resp) = c"
  "hr_DrainErr (client_response E c resp) = c" "hr_CtxErr (client_response E c resp) = None"
  "hr_Length (client_response E c resp) = body_length E (rs_Body resp)"
  by (simp_all add: client_response_def)

end
