(* ===== verification/Files.thy ===== *)
theory Files
  imports Json
begin

text \<open>
  What the program uses of package \<open>os\<close>: files under their paths, and the calls that read and
  change them. A \<open>world\<close> also holds the other side of the network (\<open>w_net\<close>) and two things a
  process cannot see: the faults that are still to come, one entry for each call, and the
  states the world has been in, newest first. A process that is killed leaves the files as
  one of those states, so a property of every entry of the history is a property of every
  crash.

  The data of a file are bytes, or the text of a JSON document, given by its tree. A write
  passes through a state in which the file holds a proper prefix of the data (\<open>Part\<close>), and
  stays there when it fails; renaming is atomic, as POSIX demands. Directories are not
  modelled: the program makes the ones it writes to. \<open>path_Join\<close> is \<open>filepath.Join\<close> of a
  clean directory name and a file name.
\<close>

section \<open>The world\<close>

datatype data = Bytes string | JsonText json
datatype content = Whole data | Part data

type_synonym files = "string \<Rightarrow> content option"

datatype fault = Works | Fails string

record 'n world =
  w_files :: files
  w_net :: 'n
  w_faults :: "fault list"
  w_history :: "(files \<times> 'n) list"

type_synonym ('n, 'a) io = "'n world \<Rightarrow> 'a result \<times> 'n world"

definition snapshot :: "'n world \<Rightarrow> 'n world" where
  "snapshot w = w\<lparr>w_history := (w_files w, w_net w) # w_history w\<rparr>"

text \<open>A process that is started on the given files, and the faults it will meet.\<close>

definition start_world :: "files \<Rightarrow> 'n \<Rightarrow> fault list \<Rightarrow> 'n world" where
  "start_world fs n faults =
     \<lparr>w_files = fs, w_net = n, w_faults = faults, w_history = [(fs, n)]\<rparr>"

definition take_fault :: "'n world \<Rightarrow> string option \<times> 'n world" where
  "take_fault w =
     (case w_faults w of
        [] \<Rightarrow> (None, w)
      | Works # fs \<Rightarrow> (None, w\<lparr>w_faults := fs\<rparr>)
      | Fails m # fs \<Rightarrow> (Some m, w\<lparr>w_faults := fs\<rparr>))"

definition syscall :: "(files \<Rightarrow> 'a result \<times> files) \<Rightarrow> ('n, 'a) io" where
  "syscall op w =
     (case take_fault w of
        (Some m, w') \<Rightarrow> (Inl (Msg m), w')
      | (None, w') \<Rightarrow>
          (case op (w_files w') of (r, fs) \<Rightarrow> (r, snapshot (w'\<lparr>w_files := fs\<rparr>))))"

text \<open>An exchange over the network; \<open>f\<close> is what happens to the other side.\<close>

definition net_call :: "('n \<Rightarrow> 'a \<times> 'n) \<Rightarrow> 'n world \<Rightarrow> 'a \<times> 'n world" where
  "net_call f w = (case f (w_net w) of (a, n) \<Rightarrow> (a, snapshot (w\<lparr>w_net := n\<rparr>)))"

definition bind_io :: "('n, 'a) io \<Rightarrow> ('a \<Rightarrow> ('n, 'b) io) \<Rightarrow> ('n, 'b) io" where
  "bind_io m f w = (case m w of (Inl e, w') \<Rightarrow> (Inl e, w') | (Inr v, w') \<Rightarrow> f v w')"

definition return_io :: "'a result \<Rightarrow> ('n, 'a) io" where
  "return_io r w = (r, w)"

definition wrap_io :: "string \<Rightarrow> ('n, 'a) io \<Rightarrow> ('n, 'a) io" where
  "wrap_io message m w = (case m w of (r, w') \<Rightarrow> (map_error (Wrap message) r, w'))"

section \<open>The calls\<close>

definition path_Join :: "string \<Rightarrow> string \<Rightarrow> string" where
  "path_Join dir name = dir @ ''/'' @ name"

definition not_exist :: error where
  "not_exist = Wrap ''no such file or directory'' (Sentinel ErrNotExist)"

definition file_exists :: error where
  "file_exists = Msg ''file exists''"

definition os_MkdirAll :: "string \<Rightarrow> ('n, unit) io" where
  "os_MkdirAll dir = syscall (\<lambda>fs. (Inr (), fs))"

definition os_ReadFile :: "string \<Rightarrow> ('n, content) io" where
  "os_ReadFile path =
     syscall (\<lambda>fs. (case fs path of None \<Rightarrow> Inl not_exist | Some c \<Rightarrow> Inr c, fs))"

text \<open>
  With \<open>O_CREATE|O_EXCL\<close>: the file must not exist. So does \<open>os.CreateTemp\<close>, which draws names
  until it finds a free one.
\<close>

definition os_CreateExclusive :: "string \<Rightarrow> ('n, unit) io" where
  "os_CreateExclusive path =
     syscall (\<lambda>fs. if fs path \<noteq> None then (Inl file_exists, fs)
                   else (Inr (), fs(path \<mapsto> Whole (Bytes []))))"

text \<open>With \<open>O_CREATE\<close> alone: an existing file is opened as it is.\<close>

definition os_OpenCreate :: "string \<Rightarrow> ('n, unit) io" where
  "os_OpenCreate path =
     syscall (\<lambda>fs. (Inr (), if fs path \<noteq> None then fs else fs(path \<mapsto> Whole (Bytes []))))"

definition file_Write :: "string \<Rightarrow> data \<Rightarrow> ('n, unit) io" where
  "file_Write path d w =
     (let (fault, w1) = take_fault w;
          w2 = snapshot (w1\<lparr>w_files := (w_files w1)(path \<mapsto> Part d)\<rparr>)
      in case fault of
           Some m \<Rightarrow> (Inl (Msg m), w2)
         | None \<Rightarrow> (Inr (), snapshot (w2\<lparr>w_files := (w_files w2)(path \<mapsto> Whole d)\<rparr>)))"

definition file_Close :: "string \<Rightarrow> ('n, unit) io" where
  "file_Close path = syscall (\<lambda>fs. (Inr (), fs))"

definition os_Remove :: "string \<Rightarrow> ('n, unit) io" where
  "os_Remove path =
     syscall (\<lambda>fs. if fs path = None then (Inl not_exist, fs) else (Inr (), fs(path := None)))"

definition os_Rename :: "string \<Rightarrow> string \<Rightarrow> ('n, unit) io" where
  "os_Rename old new =
     syscall (\<lambda>fs. if fs old = None then (Inl not_exist, fs)
                   else (Inr (), fs(old := None, new := fs old)))"

text \<open>
  The pattern \<open>if err := os.Remove(path); err != nil && !errors.Is(err, os.ErrNotExist)\<close>: the
  error that is reported, if any.
\<close>

definition remove_if_present :: "string \<Rightarrow> string \<Rightarrow> 'n world \<Rightarrow> error option \<times> 'n world" where
  "remove_if_present message path w =
     (case os_Remove path w of
        (Inl e, w') \<Rightarrow> (if errors_Is e ErrNotExist then None else Some (Wrap message e), w')
      | (Inr _, w') \<Rightarrow> (None, w'))"

section \<open>Reasoning about calls\<close>

lemma take_fault_fields [simp]:
  "w_files (snd (take_fault w)) = w_files w" "w_net (snd (take_fault w)) = w_net w"
  "w_history (snd (take_fault w)) = w_history w"
  by (auto simp: take_fault_def split: list.splits fault.splits)

lemma take_faultD:
  "take_fault w = (f, w') \<Longrightarrow>
    w_files w' = w_files w \<and> w_net w' = w_net w \<and> w_history w' = w_history w"
  using take_fault_fields [of w] by simp

lemma snapshot_fields [simp]:
  "w_files (snapshot w) = w_files w" "w_net (snapshot w) = w_net w"
  "w_faults (snapshot w) = w_faults w"
  "w_history (snapshot w) = (w_files w, w_net w) # w_history w"
  by (simp_all add: snapshot_def)

text \<open>Without faults every call works.\<close>

lemma take_fault_none [simp]: "w_faults w = [] \<Longrightarrow> take_fault w = (None, w)"
  by (simp add: take_fault_def)

lemma take_fault_cases:
  obtains w' where "take_fault w = (None, w')" "w_files w' = w_files w" "w_net w' = w_net w"
      "w_history w' = w_history w"
  | m w' where "take_fault w = (Some m, w')" "w_files w' = w_files w" "w_net w' = w_net w"
      "w_history w' = w_history w"
proof (cases "take_fault w")
  case (Pair f w')
  then have "w_files w' = w_files w" "w_net w' = w_net w" "w_history w' = w_history w"
    using take_fault_fields [of w] by simp_all
  then show ?thesis using that Pair by (cases f) auto
qed

lemma syscall_cases:
  obtains (faulty) m w' where "syscall op w = (Inl (Msg m), w')" "w_files w' = w_files w"
      "w_net w' = w_net w" "w_history w' = w_history w"
  | (works) r fs w' where "op (w_files w) = (r, fs)" "syscall op w = (r, w')"
      "w_files w' = fs" "w_net w' = w_net w" "w_history w' = (fs, w_net w) # w_history w"
proof (cases w rule: take_fault_cases)
  case (1 w')
  obtain r fs where "op (w_files w) = (r, fs)" by fastforce
  with 1 show ?thesis
    by (intro works [of r fs "snapshot (w'\<lparr>w_files := fs\<rparr>)"]) (auto simp: syscall_def)
next
  case (2 m w')
  then show ?thesis by (intro faulty [of m w']) (auto simp: syscall_def)
qed

lemma syscall_works:
  "w_faults w = [] \<Longrightarrow> op (w_files w) = (r, fs) \<Longrightarrow>
    syscall op w = (r, snapshot (w\<lparr>w_files := fs\<rparr>))"
  by (simp add: syscall_def)

text \<open>A property of all states of the history, the present one included.\<close>

definition always :: "(files \<Rightarrow> 'n \<Rightarrow> bool) \<Rightarrow> 'n world \<Rightarrow> bool" where
  "always P w \<longleftrightarrow> P (w_files w) (w_net w) \<and> (\<forall>(fs, n) \<in> set (w_history w). P fs n)"

lemma always_start [simp]: "always P (start_world fs n faults) \<longleftrightarrow> P fs n"
  by (auto simp: always_def start_world_def)

lemma always_snapshot [simp]: "always P (snapshot w) \<longleftrightarrow> always P w"
  by (auto simp: always_def)

lemma always_now: "always P w \<Longrightarrow> P (w_files w) (w_net w)"
  by (simp add: always_def)

text \<open>One call: the files become \<open>fs\<close>, and the history grows by at most that state.\<close>

definition trail :: "'n world \<Rightarrow> files \<Rightarrow> 'n world \<Rightarrow> bool" where
  "trail w fs w' \<longleftrightarrow>
     w_history w' = w_history w \<and> fs = w_files w \<or> w_history w' = (fs, w_net w) # w_history w"

definition goes :: "'n world \<Rightarrow> files \<Rightarrow> 'n world \<Rightarrow> bool" where
  "goes w fs w' \<longleftrightarrow> w_files w' = fs \<and> w_net w' = w_net w \<and> trail w fs w'"

lemma trail_always:
  "trail w fs w' \<Longrightarrow> w_files w' = fs \<Longrightarrow> w_net w' = w_net w \<Longrightarrow> always P w \<Longrightarrow> P fs (w_net w) \<Longrightarrow>
    always P w'"
  by (auto simp: trail_def always_def)

lemma syscall_D:
  assumes "syscall op w = (r, w')"
  shows "(\<exists>m. r = Inl (Msg m)) \<and> goes w (w_files w) w'
    \<or> (\<exists>fs. op (w_files w) = (r, fs) \<and> goes w fs w')"
  using assms by (cases op w rule: syscall_cases) (auto simp: goes_def trail_def)

text \<open>What each call does; a fault is an error that is no \<open>os.ErrNotExist\<close>.\<close>

lemma os_MkdirAll_D: "os_MkdirAll d w = (r, w') \<Longrightarrow> goes w (w_files w) w'"
  unfolding os_MkdirAll_def by (drule syscall_D) auto

lemma file_Close_D: "file_Close p w = (r, w') \<Longrightarrow> goes w (w_files w) w'"
  unfolding file_Close_def by (drule syscall_D) auto

lemma os_ReadFile_D:
  "os_ReadFile p w = (r, w') \<Longrightarrow> goes w (w_files w) w' \<and>
    ((\<exists>m. r = Inl (Msg m)) \<or> r = (case w_files w p of None \<Rightarrow> Inl not_exist | Some c \<Rightarrow> Inr c))"
  unfolding os_ReadFile_def by (drule syscall_D) auto

lemma os_CreateExclusive_D:
  "os_CreateExclusive p w = (r, w') \<Longrightarrow>
    (\<exists>m. r = Inl (Msg m)) \<and> goes w (w_files w) w'
    \<or> w_files w p = None \<and> r = Inr () \<and> goes w ((w_files w)(p \<mapsto> Whole (Bytes []))) w'"
  unfolding os_CreateExclusive_def by (drule syscall_D) (auto simp: file_exists_def split: if_splits)

lemma os_OpenCreate_D:
  "os_OpenCreate p w = (r, w') \<Longrightarrow>
    (\<exists>m. r = Inl (Msg m)) \<and> goes w (w_files w) w'
    \<or> r = Inr () \<and> goes w (if w_files w p \<noteq> None then w_files w
                          else (w_files w)(p \<mapsto> Whole (Bytes []))) w'"
  unfolding os_OpenCreate_def by (drule syscall_D) auto

lemma file_Write_D:
  assumes "file_Write p d w = (r, w')"
  shows "(\<exists>m. r = Inl (Msg m)) \<and> goes w ((w_files w)(p \<mapsto> Part d)) w'
    \<or> r = Inr () \<and> (\<exists>w1. goes w ((w_files w)(p \<mapsto> Part d)) w1
         \<and> goes w1 ((w_files w)(p \<mapsto> Whole d)) w')"
proof (cases w rule: take_fault_cases)
  case (1 v)
  define w1 where "w1 = snapshot (v\<lparr>w_files := (w_files v)(p \<mapsto> Part d)\<rparr>)"
  have "goes w ((w_files w)(p \<mapsto> Part d)) w1" "goes w1 ((w_files w)(p \<mapsto> Whole d)) w'" "r = Inr ()"
    using 1 assms by (auto simp: file_Write_def Let_def w1_def goes_def trail_def)
  then show ?thesis by blast
next
  case (2 m v)
  then show ?thesis using assms by (auto simp: file_Write_def Let_def goes_def trail_def)
qed

lemma os_Remove_D:
  "os_Remove p w = (r, w') \<Longrightarrow>
    (\<exists>m. r = Inl (Msg m)) \<and> goes w (w_files w) w'
    \<or> w_files w p = None \<and> r = Inl not_exist \<and> goes w (w_files w) w'
    \<or> w_files w p \<noteq> None \<and> r = Inr () \<and> goes w ((w_files w)(p := None)) w'"
  unfolding os_Remove_def by (drule syscall_D) (auto split: if_splits)

lemma os_Rename_D:
  "os_Rename a b w = (r, w') \<Longrightarrow>
    (\<exists>e. r = Inl e) \<and> goes w (w_files w) w'
    \<or> w_files w a \<noteq> None \<and> r = Inr () \<and> goes w ((w_files w)(a := None, b := w_files w a)) w'"
  unfolding os_Rename_def by (drule syscall_D) (auto split: if_splits)

lemma remove_if_present_D:
  "remove_if_present msg p w = (e, w') \<Longrightarrow>
    e = None \<and> goes w ((w_files w)(p := None)) w'
    \<or> (\<exists>m. e = Some (Wrap msg (Msg m))) \<and> goes w (w_files w) w'"
  unfolding remove_if_present_def
  by (auto simp: not_exist_def fun_upd_idem dest!: os_Remove_D split: prod.splits sum.splits)

lemmas call_Ds = os_MkdirAll_D file_Close_D os_ReadFile_D os_CreateExclusive_D os_OpenCreate_D
  file_Write_D os_Remove_D os_Rename_D remove_if_present_D

lemmas sequencing_defs = bind_io_def wrap_io_def return_io_def

text \<open>An exchange over the network changes no file.\<close>

lemma net_call_D:
  "net_call f w = (a, w') \<Longrightarrow> \<exists>n. f (w_net w) = (a, n) \<and> w_files w' = w_files w \<and> w_net w' = n
    \<and> w_history w' = (w_files w, n) # w_history w"
  by (auto simp: net_call_def split: prod.splits)

lemma net_call_always:
  assumes "net_call f w = (a, w')" and "always P w" and "\<And>a n. f (w_net w) = (a, n) \<Longrightarrow> P (w_files w) n"
  shows "always P w'"
  using assms by (auto simp: net_call_def always_def split: prod.splits)

text \<open>Without faults the calls do what they are for, and no fault comes.\<close>

lemma quiet_calls:
  assumes "w_faults w = []"
  shows "os_MkdirAll d w = (Inr (), snapshot w)"
    and "file_Close p w = (Inr (), snapshot w)"
    and "os_ReadFile p w = (case w_files w p of None \<Rightarrow> Inl not_exist | Some c \<Rightarrow> Inr c, snapshot w)"
    and "w_files w p = None \<Longrightarrow> os_CreateExclusive p w
      = (Inr (), snapshot (w\<lparr>w_files := (w_files w)(p \<mapsto> Whole (Bytes []))\<rparr>))"
    and "os_OpenCreate p w = (Inr (), snapshot (w\<lparr>w_files :=
      (if w_files w p \<noteq> None then w_files w else (w_files w)(p \<mapsto> Whole (Bytes [])))\<rparr>))"
    and "\<exists>v. file_Write p dat w = (Inr (), v) \<and> w_files v = (w_files w)(p \<mapsto> Whole dat)
      \<and> w_net v = w_net w \<and> w_faults v = []"
    and "w_files w a \<noteq> None \<Longrightarrow> os_Rename a b w
      = (Inr (), snapshot (w\<lparr>w_files := (w_files w)(a := None, b := w_files w a)\<rparr>))"
  using assms
  by (auto simp: os_MkdirAll_def file_Close_def os_ReadFile_def os_CreateExclusive_def os_OpenCreate_def
      os_Rename_def file_Write_def syscall_works Let_def)

lemma quiet_remove:
  assumes "w_faults w = []"
  shows "remove_if_present msg p w = (None, snapshot (w\<lparr>w_files := (w_files w)(p := None)\<rparr>))"
proof (cases "w_files w p")
  case None
  then have "os_Remove p w = (Inl not_exist, snapshot (w\<lparr>w_files := w_files w\<rparr>))"
    unfolding os_Remove_def by (intro syscall_works) (simp_all add: assms)
  then show ?thesis using None by (simp add: remove_if_present_def not_exist_def fun_upd_idem)
next
  case (Some c)
  then have "os_Remove p w = (Inr (), snapshot (w\<lparr>w_files := (w_files w)(p := None)\<rparr>))"
    unfolding os_Remove_def by (intro syscall_works) (simp_all add: assms)
  then show ?thesis by (simp add: remove_if_present_def)
qed

end
