(* ===== verification/Worker_State.thy ===== *)
theory Worker_State
  imports Files Container Utf8
begin

text \<open>
  The files of a worker: its enrollment, in \<open>worker.json\<close> (\<open>internal/worker/state.go\<close>), the lock on
  the data directory (\<open>lock.go\<close>) and \<open>Reset\<close> (\<open>reset.go\<close>). The enrollment is written to a
  temporary file that is renamed; the lemmas show what a crash at any point leaves.
\<close>

section \<open>The saved enrollment\<close>

record worker_state =
  ws_ServerURL :: string
  ws_Token :: string
  ws_Name :: string
  ws_PrivateKey :: string
  ws_CSR :: string
  ws_NodeID :: string
  ws_CACertificate :: string
  ws_Certificate :: string

definition zero_worker_state :: worker_state where
  "zero_worker_state = \<lparr>ws_ServerURL = [], ws_Token = [], ws_Name = [], ws_PrivateKey = [],
     ws_CSR = [], ws_NodeID = [], ws_CACertificate = [], ws_Certificate = []\<rparr>"

definition omit_bytes :: "string \<Rightarrow> string \<Rightarrow> (string \<times> json) list" where
  "omit_bytes k s = (if s = [] then [] else [(k, JBytes s)])"

text \<open>
  The address comes from the command line, the name from there or from the host. The other
  strings are ASCII (a token that parsed, PEM texts, base64) or were decoded from JSON.
\<close>

definition enc_worker_state :: "worker_state \<Rightarrow> json" where
  "enc_worker_state s =
     JObj ([(''server_url'', JStr (json_string (ws_ServerURL s)))]
       @ omit_string ''token'' (ws_Token s)
       @ [(''name'', JStr (json_string (ws_Name s))), (''private_key'', JStr (ws_PrivateKey s))]
       @ omit_bytes ''csr'' (ws_CSR s)
       @ omit_string ''node_id'' (ws_NodeID s)
       @ omit_string ''ca_certificate'' (ws_CACertificate s)
       @ omit_string ''certificate'' (ws_Certificate s))"

definition worker_state_fields :: "worker_state fields" where
  "worker_state_fields =
     [(''server_url'', \<lambda>j s. map_value (\<lambda>x. s\<lparr>ws_ServerURL := x\<rparr>) (dec_string j (ws_ServerURL s))),
      (''token'', \<lambda>j s. map_value (\<lambda>x. s\<lparr>ws_Token := x\<rparr>) (dec_string j (ws_Token s))),
      (''name'', \<lambda>j s. map_value (\<lambda>x. s\<lparr>ws_Name := x\<rparr>) (dec_string j (ws_Name s))),
      (''private_key'', \<lambda>j s. map_value (\<lambda>x. s\<lparr>ws_PrivateKey := x\<rparr>) (dec_string j (ws_PrivateKey s))),
      (''csr'', \<lambda>j s. map_value (\<lambda>x. s\<lparr>ws_CSR := x\<rparr>) (dec_bytes j)),
      (''node_id'', \<lambda>j s. map_value (\<lambda>x. s\<lparr>ws_NodeID := x\<rparr>) (dec_string j (ws_NodeID s))),
      (''ca_certificate'',
         \<lambda>j s. map_value (\<lambda>x. s\<lparr>ws_CACertificate := x\<rparr>) (dec_string j (ws_CACertificate s))),
      (''certificate'',
         \<lambda>j s. map_value (\<lambda>x. s\<lparr>ws_Certificate := x\<rparr>) (dec_string j (ws_Certificate s)))]"

definition dec_worker_state :: "json \<Rightarrow> worker_state result" where
  "dec_worker_state = decode_struct False worker_state_fields zero_worker_state"

lemma worker_state_keys [key_simps]:
  "fold_name ''server_url'' = ''SERVER_URL''" "fold_name ''token'' = ''TOKEN''"
  "fold_name ''private_key'' = ''PRIVATE_KEY''" "fold_name ''csr'' = ''CSR''"
  "fold_name ''ca_certificate'' = ''CA_CERTIFICATE''" "fold_name ''certificate'' = ''CERTIFICATE''"
  by code_simp+

lemma worker_state_steps [codec_simps]:
  "decode_member False worker_state_fields (''server_url'', JStr x) s = Inr (s\<lparr>ws_ServerURL := x\<rparr>)"
  "decode_member False worker_state_fields (''token'', JStr x) s = Inr (s\<lparr>ws_Token := x\<rparr>)"
  "decode_member False worker_state_fields (''name'', JStr x) s = Inr (s\<lparr>ws_Name := x\<rparr>)"
  "decode_member False worker_state_fields (''private_key'', JStr x) s = Inr (s\<lparr>ws_PrivateKey := x\<rparr>)"
  "decode_member False worker_state_fields (''csr'', JBytes x) s = Inr (s\<lparr>ws_CSR := x\<rparr>)"
  "decode_member False worker_state_fields (''node_id'', JStr x) s = Inr (s\<lparr>ws_NodeID := x\<rparr>)"
  "decode_member False worker_state_fields (''ca_certificate'', JStr x) s
     = Inr (s\<lparr>ws_CACertificate := x\<rparr>)"
  "decode_member False worker_state_fields (''certificate'', JStr x) s = Inr (s\<lparr>ws_Certificate := x\<rparr>)"
  by (simp_all add: decode_member_def worker_state_fields_def codec_simps key_simps)

lemma worker_state_omitted [codec_simps]:
  "ws_Token s = [] \<Longrightarrow> fold_result (decode_member False worker_state_fields) (omit_string ''token'' x) s
     = Inr (s\<lparr>ws_Token := x\<rparr>)"
  "ws_CSR s = [] \<Longrightarrow> fold_result (decode_member False worker_state_fields) (omit_bytes ''csr'' x) s
     = Inr (s\<lparr>ws_CSR := x\<rparr>)"
  "ws_NodeID s = [] \<Longrightarrow> fold_result (decode_member False worker_state_fields) (omit_string ''node_id'' x) s
     = Inr (s\<lparr>ws_NodeID := x\<rparr>)"
  "ws_CACertificate s = [] \<Longrightarrow>
     fold_result (decode_member False worker_state_fields) (omit_string ''ca_certificate'' x) s
     = Inr (s\<lparr>ws_CACertificate := x\<rparr>)"
  "ws_Certificate s = [] \<Longrightarrow>
     fold_result (decode_member False worker_state_fields) (omit_string ''certificate'' x) s
     = Inr (s\<lparr>ws_Certificate := x\<rparr>)"
  by (cases s; auto simp: omit_string_def omit_bytes_def codec_simps)+

text \<open>What is read back: the saved state, its address and name with the bytes they have in JSON.\<close>

definition read_back :: "worker_state \<Rightarrow> worker_state" where
  "read_back s = s\<lparr>ws_ServerURL := json_string (ws_ServerURL s), ws_Name := json_string (ws_Name s)\<rparr>"

definition valid_state :: "worker_state \<Rightarrow> bool" where
  "valid_state s \<longleftrightarrow> valid_utf8 (ws_ServerURL s) \<and> valid_utf8 (ws_Name s)"

lemma read_back_valid [simp]: "valid_state s \<Longrightarrow> read_back s = s"
  by (simp add: read_back_def valid_state_def)

lemma worker_state_codec [simp]: "dec_worker_state (enc_worker_state s) = Inr (read_back s)"
  by (cases s) (simp add: enc_worker_state_def dec_worker_state_def zero_worker_state_def read_back_def
      codec_simps fold_result_append)

lemma decode_errors:
  "dec_string j old = Inl e \<Longrightarrow> \<exists>m. e = Msg m" "dec_bytes j = Inl e \<Longrightarrow> \<exists>m. e = Msg m"
  by (auto simp: dec_string_def dec_bytes_def type_error_def split: json.splits)

lemma dec_worker_state_error: "dec_worker_state j = Inl e \<Longrightarrow> \<exists>m. e = Msg m"
proof -
  have member: "decode_member False worker_state_fields kv s = Inl e \<Longrightarrow> \<exists>m. e = Msg m" for kv s
    by (auto simp: decode_member_def worker_state_fields_def split: option.splits if_splits dest: decode_errors)
  have "fold_result (decode_member False worker_state_fields) ms s = Inl e \<Longrightarrow> \<exists>m. e = Msg m" for ms s
    by (induction ms arbitrary: s) (auto simp: bind_result_eq_Inl dest: member)
  then show "dec_worker_state j = Inl e \<Longrightarrow> \<exists>m. e = Msg m"
    by (auto simp: dec_worker_state_def decode_struct_def type_error_def split: json.splits)
qed

section \<open>Loading and saving\<close>

definition worker_json :: "string \<Rightarrow> string" where
  "worker_json dataDir = path_Join dataDir ''worker.json''"

text \<open>A file cut short, or of other bytes, is no JSON document of a worker.\<close>

definition decode_file :: "content \<Rightarrow> json result" where
  "decode_file c =
     (case c of Whole (JsonText j) \<Rightarrow> Inr j | _ \<Rightarrow> Inl (Msg ''unexpected end of JSON input''))"

definition loadState :: "string \<Rightarrow> ('n, worker_state) io" where
  "loadState dataDir =
     bind_io (wrap_io ''read worker state'' (os_ReadFile (worker_json dataDir))) (\<lambda>data.
       return_io (map_error (Wrap ''decode worker state'')
         (bind_result (decode_file data) dec_worker_state)))"

text \<open>\<open>rnd\<close> is what \<open>os.CreateTemp\<close> puts in the place of the star.\<close>

definition temporary_path :: "string \<Rightarrow> string \<Rightarrow> string" where
  "temporary_path dataDir rnd = path_Join dataDir (''.worker-'' @ rnd @ ''.json'')"

definition write_and_rename :: "string \<Rightarrow> string \<Rightarrow> data \<Rightarrow> ('n, unit) io" where
  "write_and_rename temporaryPath path d =
     bind_io (wrap_io ''write worker state'' (file_Write temporaryPath d)) (\<lambda>_.
     bind_io (wrap_io ''close worker state'' (file_Close temporaryPath)) (\<lambda>_.
       wrap_io ''replace worker state'' (os_Rename temporaryPath path)))"

definition saveState :: "string \<Rightarrow> string \<Rightarrow> worker_state \<Rightarrow> ('n, unit) io" where
  "saveState dataDir rnd s =
     bind_io (wrap_io ''create worker data directory'' (os_MkdirAll dataDir)) (\<lambda>_.
     bind_io (wrap_io ''create temporary worker state''
         (os_CreateExclusive (temporary_path dataDir rnd))) (\<lambda>_ w.
       case write_and_rename (temporary_path dataDir rnd) (worker_json dataDir)
              (JsonText (enc_worker_state s)) w of
         (saved, w1) \<Rightarrow>
           (case remove_if_present ''remove temporary worker state'' (temporary_path dataDir rnd) w1 of
              (None, w2) \<Rightarrow> (saved, w2)
            | (Some e, w2) \<Rightarrow>
                (case saved of
                   Inl e0 \<Rightarrow> (Inl (Multi ''join'' [e0, e]), w2)
                 | Inr _ \<Rightarrow> (Inl (Multi ''join'' [e]), w2)))))"

section \<open>The lock and the reset\<close>

text \<open>The outcome of \<open>unix.Flock\<close>; the lock is given back when the process ends.\<close>

datatype flock_outcome = Locked | WouldBlock | LockFails string

definition lockDataDir :: "flock_outcome \<Rightarrow> string \<Rightarrow> ('n, unit) io" where
  "lockDataDir flock dataDir =
     bind_io (wrap_io ''create worker data directory'' (os_MkdirAll dataDir)) (\<lambda>_.
     bind_io (wrap_io ''open worker lock file'' (os_OpenCreate (path_Join dataDir ''worker.lock''))) (\<lambda>_.
       return_io (case flock of
           Locked \<Rightarrow> Inr ()
         | WouldBlock \<Rightarrow> Inl (Msg ''worker data directory is in use'')
         | LockFails m \<Rightarrow> Inl (Wrap ''lock worker data directory'' (Msg m)))))"

definition Reset :: "flock_outcome \<Rightarrow> string \<Rightarrow> ('n, unit) io" where
  "Reset flock dataDir =
     bind_io (lockDataDir flock dataDir) (\<lambda>_ w.
       case remove_if_present ''remove worker state'' (worker_json dataDir) w of
         (Some e, w') \<Rightarrow> (Inl e, w')
       | (None, w') \<Rightarrow> (Inr (), w'))"

section \<open>What they do\<close>

lemma paths_differ [simp]:
  "temporary_path dir rnd \<noteq> worker_json dir" "worker_json dir \<noteq> temporary_path dir rnd"
  "path_Join dir ''worker.lock'' \<noteq> worker_json dir"
  "worker_json dir \<noteq> path_Join dir ''worker.lock''"
  by (simp_all add: temporary_path_def worker_json_def path_Join_def)

text \<open>
  Every state of the files that \<open>saveState\<close> passes through has the old or the new enrollment,
  whole, and differs from the start only there and in the temporary file.
\<close>

lemma write_and_rename_D:
  assumes "write_and_rename t p d w = (r, w')" and "t \<noteq> p"
  shows "w_net w' = w_net w"
    and "if r = Inr () then w_files w' = (w_files w)(t := None, p \<mapsto> Whole d)
      else w_files w' \<in> {(w_files w)(t \<mapsto> Part d), (w_files w)(t \<mapsto> Whole d)}"
    and "always P w \<Longrightarrow> P ((w_files w)(t \<mapsto> Part d)) (w_net w) \<Longrightarrow> P ((w_files w)(t \<mapsto> Whole d)) (w_net w)
      \<Longrightarrow> P ((w_files w)(t := None, p \<mapsto> Whole d)) (w_net w) \<Longrightarrow> always P w'"
  using assms unfolding write_and_rename_def
  by (auto simp: sequencing_defs goes_def dest!: call_Ds elim!: trail_always
      split: prod.splits sum.splits if_splits)

definition saving :: "string \<Rightarrow> string \<Rightarrow> worker_state \<Rightarrow> files \<Rightarrow> files \<Rightarrow> bool" where
  "saving dir rnd s old fs \<longleftrightarrow>
     fs (worker_json dir) \<in> {old (worker_json dir), Some (Whole (JsonText (enc_worker_state s)))}
     \<and> (\<forall>p. p \<noteq> worker_json dir \<longrightarrow> p \<noteq> temporary_path dir rnd \<longrightarrow> fs p = old p)"

lemma saveState_cases:
  assumes "saveState dir rnd s w = (r, w')"
  obtains (early) w1 e where "goes w (w_files w) w1" "goes w1 (w_files w) w'" "r = Inl e"
  | (late) w1 w2 w3 saved e where "goes w (w_files w) w1"
      "goes w1 ((w_files w)(temporary_path dir rnd \<mapsto> Whole (Bytes []))) w2"
      "write_and_rename (temporary_path dir rnd) (worker_json dir) (JsonText (enc_worker_state s)) w2
        = (saved, w3)"
      "remove_if_present ''remove temporary worker state'' (temporary_path dir rnd) w3 = (e, w')"
      "r = Inr () \<longleftrightarrow> saved = Inr () \<and> e = None"
proof -
  obtain r1 w1 where mk: "os_MkdirAll dir w = (r1, w1)" by fastforce
  then have g1: "goes w (w_files w) w1" by (rule os_MkdirAll_D)
  obtain r2 w2 where cr: "os_CreateExclusive (temporary_path dir rnd) w1 = (r2, w2)" by fastforce
  obtain r3 w3 where wr: "write_and_rename (temporary_path dir rnd) (worker_json dir)
      (JsonText (enc_worker_state s)) w2 = (r3, w3)" by fastforce
  obtain e w4 where rm: "remove_if_present ''remove temporary worker state''
      (temporary_path dir rnd) w3 = (e, w4)" by fastforce
  have self: "goes w1 (w_files w) w1" using g1 by (simp add: goes_def trail_def)
  show ?thesis
  proof (cases "\<exists>v. r1 = Inr v")
    case False
    then obtain e1 where "r1 = Inl e1" by (cases r1) auto
    then have "w' = w1" "\<exists>e. r = Inl e" using assms mk by (auto simp: saveState_def sequencing_defs)
    then show ?thesis using early [OF g1] self by blast
  next
    case r1: True
    show ?thesis
    proof (cases r2)
      case (Inl e2)
      then have "goes w1 (w_files w) w2" using os_CreateExclusive_D [OF cr] g1 by (auto simp: goes_def)
      moreover have "w' = w2" "\<exists>e. r = Inl e"
        using assms mk r1 cr Inl by (auto simp: saveState_def sequencing_defs)
      ultimately show ?thesis using early [OF g1] by blast
    next
      case (Inr u)
      then have g2: "goes w1 ((w_files w)(temporary_path dir rnd \<mapsto> Whole (Bytes []))) w2"
        using os_CreateExclusive_D [OF cr] g1 by (auto simp: goes_def)
      show ?thesis
      proof (rule late [OF g1 g2 wr])
        have "w' = w4" "r = Inr () \<longleftrightarrow> r3 = Inr () \<and> e = None"
          using assms mk r1 cr Inr wr rm
          by (auto simp: saveState_def sequencing_defs split: option.splits sum.splits)
        then show "remove_if_present ''remove temporary worker state''
            (temporary_path dir rnd) w3 = (e, w')" "r = Inr () \<longleftrightarrow> r3 = Inr () \<and> e = None"
          using rm by simp_all
      qed
    qed
  qed
qed

lemma saveState_D:
  assumes "saveState dir rnd s w = (r, w')"
  shows "w_net w' = w_net w" and "saving dir rnd s (w_files w) (w_files w')"
    and "r = Inr () \<Longrightarrow> w_files w' (worker_json dir) = Some (Whole (JsonText (enc_worker_state s)))"
    and "always P w \<Longrightarrow> (\<And>fs. saving dir rnd s (w_files w) fs \<Longrightarrow> P fs (w_net w)) \<Longrightarrow> always P w'"
proof -
  have "w_net w' = w_net w \<and> saving dir rnd s (w_files w) (w_files w')
    \<and> (r = Inr () \<longrightarrow> w_files w' (worker_json dir) = Some (Whole (JsonText (enc_worker_state s))))
    \<and> (always P w \<longrightarrow> (\<forall>fs. saving dir rnd s (w_files w) fs \<longrightarrow> P fs (w_net w)) \<longrightarrow> always P w')"
    using assms
  proof (cases rule: saveState_cases)
    case early
    then show ?thesis by (auto simp: goes_def saving_def elim!: trail_always)
  next
    case (late w1 w2 w3 saved e)
    let ?S = "saving dir rnd s (w_files w)"
    have w2: "w_net w2 = w_net w" "w_files w2 = (w_files w)(temporary_path dir rnd \<mapsto> Whole (Bytes []))"
      using late(1,2) by (simp_all add: goes_def)
    have steps: "?S (w_files w2)" "?S ((w_files w2)(temporary_path dir rnd \<mapsto> d))"
      "?S ((w_files w2)(temporary_path dir rnd := None,
          worker_json dir \<mapsto> Whole (JsonText (enc_worker_state s))))" for d
      by (auto simp: w2 saving_def)
    have w3: "w_net w3 = w_net w" "?S (w_files w3)" "?S ((w_files w3)(temporary_path dir rnd := None))"
      "saved = Inr () \<longrightarrow> w_files w3 (worker_json dir) = Some (Whole (JsonText (enc_worker_state s)))"
      using write_and_rename_D(1,2) [OF late(3)] by (auto simp: w2 saving_def split: if_splits)
    have "always P w3" if "always P w" "\<forall>fs. ?S fs \<longrightarrow> P fs (w_net w)"
    proof (rule write_and_rename_D(3) [OF late(3)])
      show "always P w2"
        using that late(1,2) steps(1) w2 by (auto simp: goes_def elim!: trail_always dest: always_now)
    qed (use that steps w2 in auto)
    then show ?thesis
      using remove_if_present_D [OF late(4)] w3 late(5)
      by (auto simp: goes_def elim!: trail_always)
  qed
  then show "w_net w' = w_net w" "saving dir rnd s (w_files w) (w_files w')"
    "r = Inr () \<Longrightarrow> w_files w' (worker_json dir) = Some (Whole (JsonText (enc_worker_state s)))"
    "always P w \<Longrightarrow> (\<And>fs. saving dir rnd s (w_files w) fs \<Longrightarrow> P fs (w_net w)) \<Longrightarrow> always P w'"
    by blast+
qed

lemma saveState_quiet:
  assumes "w_faults w = []" and "w_files w (temporary_path dir rnd) = None"
  shows "\<exists>v. saveState dir rnd s w = (Inr (), v) \<and> w_faults v = [] \<and> w_net v = w_net w"
proof -
  let ?T = "temporary_path dir rnd"
  let ?w2 = "snapshot (snapshot w\<lparr>w_files := (w_files (snapshot w))(?T \<mapsto> Whole (Bytes []))\<rparr>)"
  have w2: "w_faults ?w2 = []" "w_net ?w2 = w_net w" using assms(1) by simp_all
  obtain v where v: "file_Write ?T (JsonText (enc_worker_state s)) ?w2 = (Inr (), v)"
    "w_files v ?T = Some (Whole (JsonText (enc_worker_state s)))" "w_net v = w_net w" "w_faults v = []"
    using quiet_calls(6) [OF w2(1), of ?T "JsonText (enc_worker_state s)"] w2 by auto
  show ?thesis
    using assms v by (simp add: saveState_def write_and_rename_def sequencing_defs quiet_calls quiet_remove)
qed

section \<open>A crash while the state is saved\<close>

text \<open>
  Claim C30: the enrollment of a worker is replaced as a whole. At every moment of \<open>saveState\<close>,
  whatever calls fail and wherever the process is killed, \<open>worker.json\<close> is the file it was
  before or the complete new document, and no other file but the temporary one has changed; when
  \<open>saveState\<close> returns no error the new document is there, and what \<open>loadState\<close> then reads is the
  saved state, whose address and name are as JSON has them: the saved ones, if they are valid
  UTF-8.
\<close>

theorem worker_json_atomic:
  assumes "saveState dir rnd s (start_world fs n faults) = (r, w)"
    and "(fs', n') \<in> set (w_history w)"
  shows "fs' (worker_json dir) \<in> {fs (worker_json dir), Some (Whole (JsonText (enc_worker_state s)))}
    \<and> (\<forall>p. p = worker_json dir \<or> p = temporary_path dir rnd \<or> fs' p = fs p)
    \<and> (r = Inr () \<longrightarrow> fst (loadState dir (start_world (w_files w) n [])) =
         Inr (s\<lparr>ws_ServerURL := json_string (ws_ServerURL s), ws_Name := json_string (ws_Name s)\<rparr>))
    \<and> (r = Inr () \<longrightarrow> valid_utf8 (ws_ServerURL s) \<longrightarrow> valid_utf8 (ws_Name s) \<longrightarrow>
         fst (loadState dir (start_world (w_files w) n [])) = Inr s)"
proof -
  have "always (\<lambda>fs'' n''. saving dir rnd s fs fs'') w"
    by (rule saveState_D(4) [OF assms(1)]) (auto simp: start_world_def saving_def always_def)
  then have "saving dir rnd s fs fs'" using assms(2) by (auto simp: always_def)
  moreover have "fst (loadState dir (start_world (w_files w) n [])) = Inr (read_back s)" if "r = Inr ()"
    using saveState_D(3) [OF assms(1) that]
    by (simp add: loadState_def sequencing_defs quiet_calls start_world_def decode_file_def)
  ultimately show ?thesis by (auto simp: saving_def read_back_def)
qed

text \<open>The write fails half way; the old file is still there.\<close>

theorem worker_json_atomic_witness:
  "(let w = snd (saveState ''d'' ''1'' (zero_worker_state\<lparr>ws_Name := ''w''\<rparr>)
        (start_world [''d/worker.json'' \<mapsto> Whole (JsonText (enc_worker_state zero_worker_state))] ()
          [Works, Works, Fails ''disk full'']))
    in w_files w ''d/worker.json''
         \<in> {Some (Whole (JsonText (enc_worker_state zero_worker_state))),
            Some (Whole (JsonText (enc_worker_state (zero_worker_state\<lparr>ws_Name := ''w''\<rparr>))))})"
proof -
  let ?fs = "[''d/worker.json'' \<mapsto> Whole (JsonText (enc_worker_state zero_worker_state))]"
  obtain r w where w: "saveState ''d'' ''1'' (zero_worker_state\<lparr>ws_Name := ''w''\<rparr>)
      (start_world ?fs () [Works, Works, Fails ''disk full'']) = (r, w)" by fastforce
  have "(w_files w, w_net w) \<in> set (w_history w)"
    using w by (auto simp: saveState_def write_and_rename_def sequencing_defs remove_if_present_def
        os_MkdirAll_def os_CreateExclusive_def file_Write_def os_Remove_def syscall_def take_fault_def
        start_world_def snapshot_def Let_def temporary_path_def path_Join_def)
  from worker_json_atomic [OF w this] show ?thesis
    using w by (simp add: worker_json_def path_Join_def)
qed

end
