(* ===== verification/Worker_Join.thy ===== *)
theory Worker_Join
  imports Worker_State Client
begin

text \<open>
  \<open>internal/worker/join.go\<close>: a worker enrolls. The pending enrollment (token, private key and
  certificate request) is saved before the server is contacted and replaced by the finished
  one; a later \<open>Join\<close> resumes what it finds. \<open>worker_env\<close> holds the functions of \<open>crypto\<close>
  and \<open>encoding/pem\<close>.
\<close>

section \<open>Enrollment\<close>

record 'n worker_env =
  we_client :: "'n client_env"
  we_CreateCSR :: "string \<Rightarrow> string result"
  we_MarshalPKCS8 :: "string \<Rightarrow> string result"
  we_PemEncode :: "string \<Rightarrow> string \<Rightarrow> string"

record JoinConfig =
  jc_ServerURL :: url
  jc_Token :: string
  jc_Name :: string
  jc_DataDir :: string

record JoinResult =
  jo_NodeID :: string
  jo_AlreadyConfigured :: bool

text \<open>\<open>key\<close> is the private key that \<open>ed25519.GenerateKey\<close> draws.\<close>

definition newEnrollment :: "'n worker_env \<Rightarrow> string result \<Rightarrow> JoinConfig \<Rightarrow> worker_state result" where
  "newEnrollment WE key cfg =
     bind_result (map_error (Wrap ''generate worker private key'') key) (\<lambda>privateKey.
     bind_result (GenerateNodeCSR (we_CreateCSR WE) privateKey) (\<lambda>csr.
     bind_result (map_error (Wrap ''encode worker private key'') (we_MarshalPKCS8 WE privateKey))
       (\<lambda>privateKeyDER.
     Inr (zero_worker_state\<lparr>ws_ServerURL := u_String (jc_ServerURL cfg), ws_Token := jc_Token cfg,
            ws_Name := jc_Name cfg, ws_PrivateKey := we_PemEncode WE ''PRIVATE KEY'' privateKeyDER,
            ws_CSR := csr\<rparr>))))"

definition finished :: "'n worker_env \<Rightarrow> certificate \<Rightarrow> JoinNodeResponse \<Rightarrow> worker_state \<Rightarrow> worker_state" where
  "finished WE ca response pending =
     pending\<lparr>ws_NodeID := jn_NodeID response, ws_Certificate := jn_Certificate response,
       ws_CACertificate := we_PemEncode WE ''CERTIFICATE'' (ct_Raw ca), ws_Token := [], ws_CSR := []\<rparr>"

definition enroll ::
  "'n worker_env \<Rightarrow> string \<Rightarrow> JoinConfig \<Rightarrow> worker_state \<Rightarrow> Token \<Rightarrow> ('n, JoinResult) io" where
  "enroll WE rnd cfg pending joinToken =
     bind_io (wrap_io ''fetch and verify CA'' (net_call
         (FetchAndVerifyCA (we_client WE) (jc_ServerURL cfg) (t_CAFingerprint joinToken)))) (\<lambda>ca.
     bind_io (wrap_io ''join node'' (net_call
         (JoinNode (we_client WE) (jc_ServerURL cfg) (Some ca) (t_Secret joinToken)
            \<lparr>jr_Name = ws_Name pending, jr_CSR = ws_CSR pending\<rparr>))) (\<lambda>response.
     bind_io (return_io (map_error (Wrap ''parse worker certificate and key'')
         (ce_X509KeyPair (we_client WE) (jn_Certificate response) (ws_PrivateKey pending)))) (\<lambda>_.
     bind_io (wrap_io ''save worker credentials''
         (saveState (jc_DataDir cfg) rnd (finished WE ca response pending))) (\<lambda>_.
     return_io (Inr \<lparr>jo_NodeID = jn_NodeID response, jo_AlreadyConfigured = False\<rparr>)))))"

text \<open>The part of \<open>Join\<close> for a data directory without an enrollment.\<close>

definition join_new ::
  "'n worker_env \<Rightarrow> string result \<Rightarrow> string \<Rightarrow> string \<Rightarrow> JoinConfig \<Rightarrow> ('n, JoinResult) io" where
  "join_new WE key rnd1 rnd2 cfg =
     (if TrimSpace (jc_Token cfg) = []
      then return_io (Inl (Msg ''join token is required for enrollment''))
      else bind_io (return_io (map_error (Wrap ''parse join token'') (Parse (jc_Token cfg)))) (\<lambda>joinToken.
        bind_io (return_io (newEnrollment WE key cfg)) (\<lambda>pending.
        bind_io (saveState (jc_DataDir cfg) rnd1 pending) (\<lambda>_.
          enroll WE rnd2 cfg pending joinToken))))"

text \<open>The part for a saved enrollment, pending or finished.\<close>

definition join_saved ::
  "'n worker_env \<Rightarrow> string \<Rightarrow> JoinConfig \<Rightarrow> worker_state \<Rightarrow> ('n, JoinResult) io" where
  "join_saved WE rnd cfg saved =
     (if ws_ServerURL saved \<noteq> u_String (jc_ServerURL cfg) \<or> ws_Name saved \<noteq> jc_Name cfg
      then return_io (Inl (Msg ''server or name differs from saved enrollment: run reset first''))
      else if ws_NodeID saved = [] then
        if ws_Certificate saved \<noteq> [] \<or> ws_CACertificate saved \<noteq> []
        then return_io (Inl (Msg ''saved enrollment state is inconsistent''))
        else if ws_Token saved = [] \<or> ws_PrivateKey saved = [] \<or> ws_CSR saved = []
        then return_io (Inl (Msg ''saved enrollment is incomplete''))
        else if jc_Token cfg \<noteq> [] \<and> jc_Token cfg \<noteq> ws_Token saved
        then return_io (Inl (Msg ''token differs from saved enrollment: run reset first''))
        else bind_io (return_io (map_error (Wrap ''parse join token'') (Parse (ws_Token saved))))
          (\<lambda>joinToken. enroll WE rnd cfg saved joinToken)
      else if ws_PrivateKey saved = [] \<or> ws_Certificate saved = [] \<or> ws_CACertificate saved = []
      then return_io (Inl (Msg ''saved worker credentials are incomplete''))
      else return_io (Inr \<lparr>jo_NodeID = ws_NodeID saved, jo_AlreadyConfigured = True\<rparr>))"

text \<open>\<open>rnd1\<close> and \<open>rnd2\<close> name the temporary files of the two calls of \<open>saveState\<close>.\<close>

definition Join ::
  "'n worker_env \<Rightarrow> string result \<Rightarrow> flock_outcome \<Rightarrow> string \<Rightarrow> string \<Rightarrow> JoinConfig \<Rightarrow> ('n, JoinResult) io" where
  "Join WE key flock rnd1 rnd2 cfg =
     bind_io (lockDataDir flock (jc_DataDir cfg)) (\<lambda>_ w.
       case loadState (jc_DataDir cfg) w of
         (Inr saved, w1) \<Rightarrow> join_saved WE rnd1 cfg saved w1
       | (Inl e, w1) \<Rightarrow>
           if \<not> errors_Is e ErrNotExist then (Inl e, w1) else join_new WE key rnd1 rnd2 cfg w1)"

end
