(* ===== verification/Docker.thy ===== *)
theory Docker
  imports Wire
begin

text \<open>
  \<open>internal/worker/docker.go\<close>: what the worker asks of the Docker daemon, with its errors. The
  daemon's client library is a parameter: \<open>docker\<close> holds its calls, functions of the daemon's
  state \<open>'d\<close>. A pull that was accepted carries the outcome of its \<open>Wait\<close>; a wait for a
  container ends on the channel of results or on the channel of errors. \<open>options\<close> are those the
  program fills in; \<open>None\<close> for a slice or pointer is nil.
\<close>

section \<open>The client library\<close>

record docker_summary =
  sm_ID :: string
  sm_Labels :: "(string \<times> string) list"
  sm_State :: string

record docker_options =
  do_Name :: string
  do_Image :: string
  do_WorkingDir :: string
  do_Entrypoint :: "string list option"
  do_Cmd :: "string list option"
  do_Env :: "string list"
  do_StopTimeout :: "int option"
  do_Labels :: "(string \<times> string) list"
  do_RestartPolicy :: string

record docker_image =
  im_ID :: string
  im_Entrypoint :: "string list option"

record docker_state =
  ds_ID :: string
  ds_Status :: string
  ds_Error :: string
  ds_ExitCode :: int

datatype wait_outcome = WaitResult int "string option" | WaitError error

record 'd docker =
  dk_Ping :: "'d \<Rightarrow> error option \<times> 'd"
  dk_ContainerList :: "string \<Rightarrow> 'd \<Rightarrow> docker_summary list result \<times> 'd"
  dk_ImagePull :: "string \<Rightarrow> 'd \<Rightarrow> error option result \<times> 'd"
  dk_ImageInspect :: "string \<Rightarrow> 'd \<Rightarrow> docker_image result \<times> 'd"
  dk_ContainerCreate :: "docker_options \<Rightarrow> 'd \<Rightarrow> string result \<times> 'd"
  dk_ContainerStart :: "string \<Rightarrow> 'd \<Rightarrow> error option \<times> 'd"
  dk_ContainerWait :: "string \<Rightarrow> 'd \<Rightarrow> wait_outcome \<times> 'd"
  dk_ContainerInspect :: "string \<Rightarrow> 'd \<Rightarrow> docker_state result \<times> 'd"

definition no_options :: docker_options where
  "no_options = \<lparr>do_Name = [], do_Image = [], do_WorkingDir = [], do_Entrypoint = None, do_Cmd = None,
     do_Env = [], do_StopTimeout = None, do_Labels = [], do_RestartPolicy = []\<rparr>"

section \<open>The worker's calls\<close>

definition containerIDLabel :: string where
  "containerIDLabel = ''hambo.container.id''"

definition listContainers :: "'d docker \<Rightarrow> 'd \<Rightarrow> docker_summary list result \<times> 'd" where
  "listContainers D d =
     (case dk_ContainerList D containerIDLabel d of
        (r, d') \<Rightarrow> (map_error (Wrap ''list Hambo containers'') r, d'))"

definition pullImage :: "'d docker \<Rightarrow> string \<Rightarrow> 'd \<Rightarrow> error option \<times> 'd" where
  "pullImage D ref d =
     (case dk_ImagePull D ref d of
        (Inl e, d') \<Rightarrow> (Some (Wrap ''pull image'' e), d')
      | (Inr waited, d') \<Rightarrow> (map_option (Wrap ''pull image'') waited, d'))"

definition createContainer :: "'d docker \<Rightarrow> ContainerAssignment \<Rightarrow> 'd \<Rightarrow> string result \<times> 'd" where
  "createContainer D a d =
     (case pullImage D (as_Image a) d of
        (Some e, d1) \<Rightarrow> (Inl e, d1)
      | (None, d1) \<Rightarrow>
          (case dk_ContainerCreate D (no_options\<lparr>do_Name := as_Name a, do_Image := as_Image a,
                  do_Labels := [(containerIDLabel, as_ID a)]\<rparr>) d1 of
             (r, d2) \<Rightarrow> (map_error (Wrap ''create container'') r, d2)))"

definition startContainer :: "'d docker \<Rightarrow> string \<Rightarrow> 'd \<Rightarrow> error option \<times> 'd" where
  "startContainer D dockerID d =
     (case dk_ContainerStart D dockerID d of
        (e, d') \<Rightarrow> (map_option (Wrap ''start Docker container'') e, d'))"

definition waitContainer :: "'d docker \<Rightarrow> string \<Rightarrow> 'd \<Rightarrow> int result \<times> 'd" where
  "waitContainer D dockerID d =
     (case dk_ContainerWait D dockerID d of
        (WaitResult status None, d') \<Rightarrow> (Inr status, d')
      | (WaitResult status (Some message), d') \<Rightarrow>
          (Inl (Wrap ''wait for Docker container'' (Msg message)), d')
      | (WaitError e, d') \<Rightarrow> (Inl (Wrap ''wait for Docker container'' e), d'))"

definition inspectContainer :: "'d docker \<Rightarrow> string \<Rightarrow> 'd \<Rightarrow> docker_state result \<times> 'd" where
  "inspectContainer D dockerID d =
     (case dk_ContainerInspect D dockerID d of
        (r, d') \<Rightarrow> (map_error (Wrap ''inspect Docker container'') r, d'))"

end
