(* ===== verification/Worker_Run.thy ===== *)
theory Worker_Run
  imports Worker_State Client Docker
begin

text \<open>
  \<open>internal/worker/worker.go\<close> and \<open>start.go\<close>: an enrolled worker. \<open>Run\<close> opens a session and
  starts two goroutines, the heartbeat and the watch; the first that ends ends the other. The
  functions of this theory are the steps of the goroutines, cut at the calls of other programs
  (one call each) and at the points where they wait; \<open>run_step\<close> lets the steps of the two, of
  \<open>Run\<close> itself and of the world outside come in any order. The context \<open>runCtx\<close> is cancelled or
  not (\<open>ru_Cancelled\<close>); a request that is made with a cancelled context may be answered in any
  way. Tickers and timers are steps that may come at any time. Logging is left out.
\<close>

section \<open>The worker\<close>

record Worker =
  w_apiClient :: Client
  w_sessionID :: string
  w_sequence :: uint64

text \<open>Where a goroutine stands. \<open>HB_ended\<close> and \<open>Watch_ended\<close> carry the value sent to \<open>done\<close>.\<close>

datatype heartbeat =
    HB_top
  | HB_report bool
  | HB_answered "error option"
  | HB_select
  | HB_ended "error option"

datatype watching =
    Watch_top
  | Watch_next "json result list"
  | Watch_list "json result list"
  | Watch_closed error
  | Watch_timer
  | Watch_ended "error option"

record ('n, 'd) run =
  ru_Worker :: Worker
  ru_Net :: 'n
  ru_Docker :: 'd
  ru_Caller :: bool
  ru_Cancelled :: bool
  ru_Heartbeat :: heartbeat
  ru_Watch :: watching

section \<open>The heartbeat\<close>

definition permanent :: "error \<Rightarrow> bool" where
  "permanent e \<longleftrightarrow> errors_Is e ErrConflict \<or> errors_Is e ErrInvalidArgument \<or> errors_Is e ErrUnauthenticated
     \<or> errors_Is e ErrPermissionDenied \<or> errors_Is e ErrNotFound"

definition heartbeat_report :: "Worker \<Rightarrow> bool \<Rightarrow> ReportNodeStatusRequest" where
  "heartbeat_report w ready =
     \<lparr>rn_SessionID = w_sessionID w, rn_Sequence = w_sequence w, rn_RuntimeReady = ready, rn_Containers = []\<rparr>"

text \<open>One step of \<open>runHeartbeat\<close>: the top of the loop with the ping, the request, and what follows.\<close>

definition runHeartbeat :: "'n client_env \<Rightarrow> 'd docker \<Rightarrow> ('n, 'd) run \<Rightarrow> ('n, 'd) run" where
  "runHeartbeat CE D s =
     (case ru_Heartbeat s of
        HB_top \<Rightarrow>
          if w_sequence (ru_Worker s) = 0
          then s\<lparr>ru_Heartbeat := HB_ended (Some (Msg ''node status sequence exhausted''))\<rparr>
          else (case dk_Ping D (ru_Docker s) of
            (err, d) \<Rightarrow>
              s\<lparr>ru_Docker := d,
                ru_Heartbeat := (if ru_Cancelled s then HB_ended None else HB_report (err = None))\<rparr>)
      | HB_report ready \<Rightarrow>
          (case ReportNodeStatus CE (w_apiClient (ru_Worker s)) (heartbeat_report (ru_Worker s) ready)
                  (ru_Net s) of
            (err, n) \<Rightarrow> s\<lparr>ru_Net := n, ru_Heartbeat := HB_answered err\<rparr>)
      | HB_answered err \<Rightarrow>
          if ru_Cancelled s then s\<lparr>ru_Heartbeat := HB_ended None\<rparr>
          else (case err of
            Some e \<Rightarrow>
              if permanent e then s\<lparr>ru_Heartbeat := HB_ended (Some (Wrap ''report node status'' e))\<rparr>
              else s\<lparr>ru_Worker := (ru_Worker s)\<lparr>w_sequence := w_sequence (ru_Worker s) + 1\<rparr>,
                     ru_Heartbeat := HB_select\<rparr>
          | None \<Rightarrow>
              s\<lparr>ru_Worker := (ru_Worker s)\<lparr>w_sequence := w_sequence (ru_Worker s) + 1\<rparr>,
                ru_Heartbeat := HB_select\<rparr>)
      | HB_select \<Rightarrow> s\<lparr>ru_Heartbeat := (if ru_Cancelled s then HB_ended None else HB_top)\<rparr>
      | HB_ended err \<Rightarrow> s)"

section \<open>The watch\<close>

definition watch_permanent :: "error \<Rightarrow> bool" where
  "watch_permanent e \<longleftrightarrow>
     errors_Is e ErrUnauthenticated \<or> errors_Is e ErrPermissionDenied \<or> errors_Is e ErrNotFound"

definition runWatch :: "'n client_env \<Rightarrow> 'd docker \<Rightarrow> ('n, 'd) run \<Rightarrow> ('n, 'd) run" where
  "runWatch CE D s =
     (case ru_Watch s of
        Watch_top \<Rightarrow>
          if ru_Cancelled s then s\<lparr>ru_Watch := Watch_ended None\<rparr>
          else (case WatchNode CE (w_apiClient (ru_Worker s)) (ru_Net s) of
            (Inl e, n) \<Rightarrow> s\<lparr>ru_Net := n, ru_Watch := Watch_closed e\<rparr>
          | (Inr reader, n) \<Rightarrow> s\<lparr>ru_Net := n, ru_Watch := Watch_next reader\<rparr>)
      | Watch_next reader \<Rightarrow>
          (case watch_Next reader of
            (Inl e, reader') \<Rightarrow> s\<lparr>ru_Watch := Watch_closed e\<rparr>
          | (Inr assigned, reader') \<Rightarrow>
              s\<lparr>ru_Watch := (if ru_Cancelled s then Watch_ended None else Watch_list reader')\<rparr>)
      | Watch_list reader \<Rightarrow>
          (case listContainers D (ru_Docker s) of
            (_, d) \<Rightarrow> s\<lparr>ru_Docker := d, ru_Watch := Watch_next reader\<rparr>)
      | Watch_closed e \<Rightarrow>
          s\<lparr>ru_Watch :=
              (if ru_Cancelled s then Watch_ended None
               else if watch_permanent e then Watch_ended (Some (Wrap ''watch node assignments'' e))
               else Watch_timer)\<rparr>
      | Watch_timer \<Rightarrow> s\<lparr>ru_Watch := (if ru_Cancelled s then Watch_ended None else Watch_top)\<rparr>
      | Watch_ended err \<Rightarrow> s)"

section \<open>Run\<close>

text \<open>
  \<open>Run\<close> up to the start of the goroutines: the value it returns, or the running worker.
  \<open>cancelled\<close> is whether the caller's context was cancelled when the request had returned.
\<close>

definition Run ::
  "'n client_env \<Rightarrow> Worker \<Rightarrow> bool \<Rightarrow> 'd \<Rightarrow> 'n \<Rightarrow> (error option + ('n, 'd) run) \<times> 'n" where
  "Run CE w cancelled d n =
     (case CreateNodeSession CE (w_apiClient w) n of
        (session, n') \<Rightarrow>
          (if cancelled then Inl None
           else case session of
             Inl e \<Rightarrow> Inl (Some (Wrap ''create node session'' e))
           | Inr sessionID \<Rightarrow>
               Inr \<lparr>ru_Worker = w\<lparr>w_sessionID := sessionID, w_sequence := 1\<rparr>, ru_Net = n', ru_Docker = d,
                    ru_Caller = False, ru_Cancelled = False, ru_Heartbeat = HB_top, ru_Watch = Watch_top\<rparr>,
           n'))"

text \<open>The value a goroutine has sent to \<open>done\<close>, if it has ended.\<close>

definition heartbeat_done :: "heartbeat \<Rightarrow> error option option" where
  "heartbeat_done h = (case h of HB_ended e \<Rightarrow> Some e | _ \<Rightarrow> None)"

definition watch_done :: "watching \<Rightarrow> error option option" where
  "watch_done h = (case h of Watch_ended e \<Rightarrow> Some e | _ \<Rightarrow> None)"

text \<open>What \<open>Run\<close> returns when it has received twice from \<open>done\<close>.\<close>

definition Run_result :: "('n, 'd) run \<Rightarrow> error option option" where
  "Run_result s =
     (case (heartbeat_done (ru_Heartbeat s), watch_done (ru_Watch s)) of
        (Some e1, Some e2) \<Rightarrow> Some (errors_Join [e1, e2])
      | _ \<Rightarrow> None)"

text \<open>
  The interleavings. \<open>others\<close> is what the rest of the world may do to the network and to the
  Docker daemon between two steps of the worker; the caller may cancel at any time
  (\<open>ru_Caller\<close>), and \<open>Run\<close> cancels when one goroutine has ended.
\<close>

inductive run_step ::
  "'n client_env \<Rightarrow> 'd docker \<Rightarrow> ('n \<times> 'd \<Rightarrow> 'n \<times> 'd \<Rightarrow> bool) \<Rightarrow> ('n, 'd) run \<Rightarrow> ('n, 'd) run \<Rightarrow> bool"
  for CE D others where
  heartbeat: "run_step CE D others s (runHeartbeat CE D s)"
| watch: "run_step CE D others s (runWatch CE D s)"
| caller: "run_step CE D others s (s\<lparr>ru_Caller := True, ru_Cancelled := True\<rparr>)"
| first: "heartbeat_done (ru_Heartbeat s) \<noteq> None \<or> watch_done (ru_Watch s) \<noteq> None \<Longrightarrow>
    run_step CE D others s (s\<lparr>ru_Cancelled := True\<rparr>)"
| elsewhere: "others (ru_Net s, ru_Docker s) (n, d) \<Longrightarrow>
    run_step CE D others s (s\<lparr>ru_Net := n, ru_Docker := d\<rparr>)"

abbreviation run_steps ::
  "'n client_env \<Rightarrow> 'd docker \<Rightarrow> ('n \<times> 'd \<Rightarrow> 'n \<times> 'd \<Rightarrow> bool) \<Rightarrow> ('n, 'd) run \<Rightarrow> ('n, 'd) run \<Rightarrow> bool" where
  "run_steps CE D others \<equiv> (run_step CE D others)\<^sup>*\<^sup>*"

section \<open>Start\<close>

text \<open>
  \<open>Start\<close> up to \<open>Run\<close>: the worker it runs. \<open>docker_new\<close> is the outcome of \<open>dockerclient.New\<close>.
\<close>

definition Start :: "'m client_env \<Rightarrow> flock_outcome \<Rightarrow> error option \<Rightarrow> string \<Rightarrow> ('n, Worker) io" where
  "Start CE flock docker_new dataDir =
     bind_io (lockDataDir flock dataDir) (\<lambda>_ w.
       case loadState dataDir w of
         (Inl e, w1) \<Rightarrow>
           (if errors_Is e ErrNotExist
            then Inl (Msg ''worker has not joined: run hambo-worker join first'')
            else Inl e, w1)
       | (Inr saved, w1) \<Rightarrow>
           (if ws_NodeID saved = []
            then Inl (Msg ''worker enrollment is incomplete: run hambo-worker join again'')
            else bind_result (map_error (Wrap ''create worker API client'')
                (NewClient CE \<lparr>cfg_ServerURL = ws_ServerURL saved, cfg_CACertPEM = ws_CACertificate saved,
                   cfg_ClientCertPEM = ws_Certificate saved, cfg_ClientKeyPEM = ws_PrivateKey saved\<rparr>))
              (\<lambda>apiClient.
                case docker_new of
                  Some e \<Rightarrow> Inl (Wrap ''create Docker client'' e)
                | None \<Rightarrow> Inr \<lparr>w_apiClient = apiClient, w_sessionID = [], w_sequence = 0\<rparr>), w1))"

end
