(* ===== verification/Example_Worker.thy ===== *)
theory Example_Worker
  imports Network Worker_Join Worker_Run Example
begin

text \<open>
  A concrete worker and its network, for the instances the properties are applied to: the
  server of the examples with a \<open>sha256\<close> of 32 bytes, a client and a worker that use its
  functions, a node's client and a Docker daemon that does what it is asked.
\<close>

section \<open>The worker's environment\<close>

definition ex_digest :: string where
  "ex_digest = replicate 32 (CHR ''f'')"

definition ex_sha :: "string \<Rightarrow> string" where
  "ex_sha s = ex_digest"

definition ex_server :: "mem_db env" where
  "ex_server = ex_env\<lparr>e_sha256 := ex_sha\<rparr>"

definition ex_client :: "mem_db network client_env" where
  "ex_client = \<lparr>
     ce_Do = server_Do ex_server,
     ce_ParseURL = (\<lambda>s. Inr \<lparr>u_Scheme = ''https'', u_Hostname = s, u_User = False, u_Path = [], u_String = s\<rparr>),
     ce_NewRequest = (\<lambda>verb u p. None),
     ce_CertsFromPEM = (\<lambda>pem. [ex_certificate (drop 4 pem)]),
     ce_X509KeyPair = (\<lambda>cert key. Inr (ex_certificate (drop 4 cert))),
     ce_PemDecode = (\<lambda>t. Some (''CERTIFICATE'', drop 4 t)),
     ce_ParseCertificate = x_ParseCertificate ex_x509,
     ce_sha256 = ex_sha\<rparr>"

definition ex_worker :: "mem_db network worker_env" where
  "ex_worker = \<lparr>we_client = ex_client, we_CreateCSR = (\<lambda>key. Inr ''csr''),
     we_MarshalPKCS8 = (\<lambda>key. Inr ''der''), we_PemEncode = (\<lambda>t b. ''PEM '' @ b)\<rparr>"

definition ex_network :: "mem_db state \<Rightarrow> net_fault list \<Rightarrow> mem_db network" where
  "ex_network s faults = \<lparr>nw_state = s, nw_count = 0, nw_rng = (\<lambda>i. ex_rng ''n'' 1),
     nw_faults = (\<lambda>i. if i < length faults then faults ! i else Delivered)\<rparr>"

section \<open>A node's client and a Docker daemon\<close>

definition ex_node :: Client where
  "ex_node = \<lparr>cl_baseURL = \<lparr>u_Scheme = ''https'', u_Hostname = ''h'', u_User = False, u_Path = [], u_String = ''h''\<rparr>,
     cl_roots = [ex_certificate ''Hambo CA''], cl_pair = ex_certificate ''hambo:node:6e''\<rparr>"

definition ex_docker :: "unit docker" where
  "ex_docker = \<lparr>dk_Ping = (\<lambda>d. (None, d)), dk_ContainerList = (\<lambda>l d. (Inr [], d)),
     dk_ImagePull = (\<lambda>i d. (Inr None, d)),
     dk_ImageInspect = (\<lambda>i d. (Inr \<lparr>im_ID = i, im_Entrypoint = None\<rparr>, d)),
     dk_ContainerCreate = (\<lambda>options d. (Inr ''id'', d)), dk_ContainerStart = (\<lambda>i d. (None, d)),
     dk_ContainerWait = (\<lambda>i d. (WaitResult 0 None, d)),
     dk_ContainerInspect = (\<lambda>i d. (Inr \<lparr>ds_ID = i, ds_Status = ''running'', ds_Error = [], ds_ExitCode = 0\<rparr>, d))\<rparr>"

text \<open>A worker at the point where it sends a report.\<close>

definition ex_run :: "'n \<Rightarrow> string \<Rightarrow> uint64 \<Rightarrow> ('n, unit) run" where
  "ex_run n sessionID sequence =
     \<lparr>ru_Worker = \<lparr>w_apiClient = ex_node, w_sessionID = sessionID, w_sequence = sequence\<rparr>,
      ru_Net = n, ru_Docker = (), ru_Caller = False, ru_Cancelled = False,
      ru_Heartbeat = HB_report True, ru_Watch = Watch_timer\<rparr>"

text \<open>A server that opens sessions and refuses everything else as a conflict.\<close>

definition ex_refusing :: "unit client_env" where
  "ex_refusing = \<lparr>
     ce_Do = (\<lambda>req n.
       (Inr \<lparr>hr_Response = (if hq_Path req = ''nodes/self/session''
                            then writeJSON [] StatusCreated (Inr (enc_CreateNodeSessionResponse ''78''))
                            else writeErrorJSON StatusConflict ''session''),
             hr_Length = 0, hr_Stream = [], hr_DecodeErr = None, hr_DrainErr = None, hr_CtxErr = None\<rparr>, n)),
     ce_ParseURL = (\<lambda>s. Inl (Msg s)), ce_NewRequest = (\<lambda>verb u p. None), ce_CertsFromPEM = (\<lambda>pem. []),
     ce_X509KeyPair = (\<lambda>cert key. Inl (Msg cert)), ce_PemDecode = (\<lambda>t. None),
     ce_ParseCertificate = (\<lambda>der. Inl (Msg der)), ce_sha256 = (\<lambda>s. s)\<rparr>"

definition ex_new_worker :: Worker where
  "ex_new_worker = \<lparr>w_apiClient = ex_node, w_sessionID = [], w_sequence = 0\<rparr>"

end
