(* ===== verification/Enrollment.thy ===== *)
theory Enrollment
  imports Example_Worker Join_Guarantees
begin

text \<open>
  A worker that enrolls at the server, over a network that loses requests and answers and with a
  process that may be killed at any point. The invariant \<open>progress\<close> says what every state the
  two pass through has: the server's token is unused, or it holds the result for the request
  that the worker has saved, as pending or as finished.
\<close>

section \<open>The requests at the server\<close>

definition plain :: "string \<Rightarrow> bool" where
  "plain s \<longleftrightarrow> s \<noteq> [] \<and> (\<forall>c \<in> set s. 33 \<le> code c \<and> code c < 127)"

lemma leading_space_plain: "33 \<le> code c \<Longrightarrow> code c < 127 \<Longrightarrow> leading_space (c # s) = 0"
  by (auto simp: leading_space_def split: list.splits)

lemma Fields_from_plain: "\<forall>c \<in> set s. 33 \<le> code c \<and> code c < 127 \<Longrightarrow> cur @ s \<noteq> [] \<Longrightarrow>
    Fields_from cur s = [rev cur @ s]"
  by (induction s arbitrary: cur) (auto simp: leading_space_plain)

lemma Fields_bearer:
  assumes "plain s"
  shows "Fields (''Bearer '' @ s) = [''Bearer'', s]"
proof -
  have space: "leading_space (CHR '' '' # s) = 1"
    by (simp add: leading_space_def code_def)
  have "Fields_from [] (''Bearer '' @ s) = [''Bearer''] @ Fields_from [] s"
    using space by (simp add: leading_space_plain code_def)
  then show ?thesis
    using assms Fields_from_plain [of s "[]"] by (simp add: Fields_def plain_def)
qed

lemma b64_plain: "bs \<noteq> [] \<Longrightarrow> plain (b64_EncodeToString bs)"
proof -
  have "list_all (\<lambda>c. 33 \<le> code c \<and> code c < 127) b64_alphabet"
    by code_simp
  then have "\<forall>c \<in> set (b64_EncodeToString bs). 33 \<le> code c \<and> code c < 127"
    using set_b64_Encode [of bs] by (auto simp: list_all_iff)
  moreover have "b64_EncodeToString bs \<noteq> []" if "bs \<noteq> []"
    using that by (cases bs rule: b64_EncodeToString.cases) (auto simp: Let_def)
  ultimately show "bs \<noteq> [] \<Longrightarrow> plain (b64_EncodeToString bs)" by (simp add: plain_def)
qed

lemma serve_ca:
  assumes "root_url u"
  shows "serve E g (server_request E (ca_request u)) s = getCAHandler E (server_request E (ca_request u)) s"
proof -
  let ?r = "server_request E (ca_request u)"
  have "rq_Path ?r = ''/ca''" using root_paths [OF assms] by (simp add: ca_request_def)
  moreover have "rq_Method ?r = ''GET''" by (simp add: server_request_def ca_request_def)
  ultimately have "route_of ?r = GetCA" by (simp add: route_of_clean match_pattern_def)
  then show ?thesis by (simp add: serve_def addRoutes_def)
qed

lemma serve_join:
  assumes "root_url u"
  shows "serve E g (server_request E (join_http_request u c secret q)) s =
     joinNodeHandler E (g_id g) (g_now g) (server_request E (join_http_request u c secret q)) s"
proof -
  let ?r = "server_request E (join_http_request u c secret q)"
  have "rq_Path ?r = ''/nodes/join''" using root_paths [OF assms] by (simp add: join_http_request_def)
  moreover have "rq_Method ?r = ''POST''" by (simp add: server_request_def join_http_request_def)
  ultimately have "route_of ?r = Server.JoinNode" by (simp add: route_of_clean match_pattern_def)
  then show ?thesis by (simp add: serve_def addRoutes_def)
qed

lemma join_request_http:
  assumes "plain secret" and "valid_utf8 (jr_Name q)"
  shows "join_request (server_request E (join_http_request u c secret q)) s' q' \<longleftrightarrow>
    s' = secret \<and> q' = q \<and> length (e_json_text E (enc_JoinNodeRequest q)) \<le> maxJoinNodeRequestSize
    \<and> TrimSpace (jr_Name q) \<noteq> [] \<and> jr_CSR q \<noteq> []"
proof -
  let ?r = "server_request E (join_http_request u c secret q)"
  have "rq_Authorization ?r = ''Bearer '' @ secret" "rq_MediaType ?r = Some ''application/json''"
    "rq_Body ?r maxJoinNodeRequestSize =
       (if maxJoinNodeRequestSize < length (e_json_text E (enc_JoinNodeRequest q)) then [BodyTooLarge]
        else [BodyValue (enc_JoinNodeRequest q)])"
    by (simp_all add: server_request_def join_http_request_def header_value_def)
  moreover have "EqualFold ''Bearer'' ''Bearer''" by (simp add: EqualFold_def)
  ultimately show ?thesis
    using Fields_bearer [OF assms(1)] assms(2) by (auto simp: join_request_def readJSON_Inr not_less)
qed

section \<open>What a join does to the server\<close>

text \<open>The answer is a success with its effect, or nothing was stored.\<close>

lemma joinNode_outcome:
  assumes "hambo_db (e_B E)" and "state_inv (e_B E) s" and "joinNodeHandler E rnd now r s = (resp, s')"
  obtains (refused) "st_db s' = st_db s" "rs_Status resp \<notin> {200, 201}" "299 < rs_Status resp"
  | (answered) secret q v where "join_request r secret q" "rs_Status resp \<in> {200, 201}"
      "rs_Body resp = JsonBody (enc_JoinNodeResponse (jv_response v))"
      "retried now (secret_hash E secret) (request_hash E q) v
          (node_tbl (e_B E) (st_db s)) (token_tbl (e_B E) (st_db s))
          \<and> node_tbl (e_B E) (st_db s') = node_tbl (e_B E) (st_db s)
          \<and> token_tbl (e_B E) (st_db s') = token_tbl (e_B E) (st_db s)
        \<or> enrolled E now (GenerateNodeID rnd) q (secret_hash E secret) (request_hash E q) v
            (node_tbl (e_B E) (st_db s)) (token_tbl (e_B E) (st_db s))
            (node_tbl (e_B E) (st_db s')) (token_tbl (e_B E) (st_db s'))"
proof (cases "rs_Status resp \<in> {200, 201}")
  case True
  then show ?thesis using join_success [OF assms True] answered by (metis (no_types, lifting))
next
  case False
  show ?thesis
  proof (cases rule: joinNode_cases [of E rnd now r s])
    case (refused resp')
    then show ?thesis using that(1) assms(3) by auto
  next
    case (runs secret q v err db')
    have resp: "resp = join_answer v err" "st_db s' = db'" using runs(3) assms(3) by auto
    show ?thesis
    proof (cases err)
      case None
      have inv: "db_inv (e_B E) (st_db s)" using assms(2) by (simp add: state_inv_def)
      have "jv_statusCode v \<in> {200, 201}"
        using hambo_db.join_write_committed(1) [OF assms(1) inv refl runs(2) [unfolded None]]
        by (auto simp: retried_def enrolled_def status_defs)
      then show ?thesis using False resp(1) None by (simp add: join_answer_None)
    next
      case (Some e)
      then show ?thesis
        using that(1) False failed_unchanged(4) [OF runs(2) [unfolded Some]] resp
          join_answer_Some [of v e] by auto
    qed
  qed
qed

section \<open>Over the network\<close>

text \<open>
  The client's network is the server, and its functions are those of the server's library.
  \<open>pem_laws\<close> and \<open>pair_law\<close> state documented behaviour of \<open>encoding/pem\<close>, \<open>crypto/x509\<close> and
  \<open>crypto/tls\<close>: an encoded block is decoded again and is not empty, the authority parses, and
  the certificate made for the key of a certificate request forms a pair with the private key
  the request was made with.
\<close>

definition wired :: "'db env \<Rightarrow> 'db network worker_env \<Rightarrow> bool" where
  "wired E WE \<longleftrightarrow>
     ce_Do (we_client WE) = server_Do E \<and> (\<forall>verb u p. ce_NewRequest (we_client WE) verb u p = None)
     \<and> ce_sha256 (we_client WE) = e_sha256 E
     \<and> ce_ParseCertificate (we_client WE) = x_ParseCertificate (e_X E)"

definition pem_laws :: "'db env \<Rightarrow> 'db network worker_env \<Rightarrow> bool" where
  "pem_laws E WE \<longleftrightarrow>
     (\<forall>raw. ce_PemDecode (we_client WE) (e_pem_certificate E raw) = Some (''CERTIFICATE'', raw)
        \<and> e_pem_certificate E raw \<noteq> [])
     \<and> (\<forall>t b. we_PemEncode WE t b \<noteq> [])
     \<and> x_ParseCertificate (e_X E) (ct_Raw (ca_Certificate (e_ca E))) = Inr (ca_Certificate (e_ca E))
     \<and> length (e_pem_certificate E (ct_Raw (ca_Certificate (e_ca E)))) \<le> 64 * 1024"

definition pair_law :: "'db env \<Rightarrow> 'db network worker_env \<Rightarrow> bool" where
  "pair_law E WE \<longleftrightarrow>
     (\<forall>key csr der request t cert_der c.
        we_CreateCSR WE key = Inr csr \<longrightarrow> we_MarshalPKCS8 WE key = Inr der \<longrightarrow>
        x_ParseCertificateRequest (e_X E) csr = Inr request \<longrightarrow>
        x_CreateCertificate (e_X E) t (ca_Certificate (e_ca E)) (csr_PublicKey request)
          (ca_PrivateKey (e_ca E)) = Inr cert_der \<longrightarrow>
        x_ParseCertificate (e_X E) cert_der = Inr c \<longrightarrow>
        (\<exists>leaf. ce_X509KeyPair (we_client WE) (e_pem_certificate E (ct_Raw c))
           (we_PemEncode WE ''PRIVATE KEY'' der) = Inr leaf))"

lemma FetchAndVerifyCA_keeps:
  assumes "wired E WE" and "root_url u" and "FetchAndVerifyCA (we_client WE) u fp nw = (r, nw')"
  shows "nw_state nw' = nw_state nw"
proof -
  have "server_Do E (ca_request u) nw = (x, nw2) \<Longrightarrow> nw_state nw2 = nw_state nw" for x nw2
    by (drule server_Do_D) (auto simp: serve_ca [OF assms(2)] getCAHandler_def)
  then show ?thesis
    using assms by (auto simp: FetchAndVerifyCA_def wired_def split: if_splits sum.splits prod.splits)
qed

lemma JoinNode_outcome:
  assumes "hambo_db (e_B E)" and "state_inv (e_B E) (nw_state nw)" and "wired E WE" and "plain secret"
    and root: "root_url u" and name: "valid_utf8 (jr_Name q)"
    and run: "Client.JoinNode (we_client WE) u (Some cert) secret q nw = (r, nw')"
  obtains (idle) e where "state_inv (e_B E) (nw_state nw')"
      "st_db (nw_state nw') = st_db (nw_state nw)" "r = Inl e"
  | (answered) rnd now v where "state_inv (e_B E) (nw_state nw')"
      "length (e_json_text E (enc_JoinNodeRequest q)) \<le> maxJoinNodeRequestSize"
      "TrimSpace (jr_Name q) \<noteq> []" "jr_CSR q \<noteq> []"
      "retried now (secret_hash E secret) (request_hash E q) v
          (node_tbl (e_B E) (st_db (nw_state nw))) (token_tbl (e_B E) (st_db (nw_state nw)))
          \<and> node_tbl (e_B E) (st_db (nw_state nw')) = node_tbl (e_B E) (st_db (nw_state nw))
          \<and> token_tbl (e_B E) (st_db (nw_state nw')) = token_tbl (e_B E) (st_db (nw_state nw))
        \<or> enrolled E now (GenerateNodeID rnd) q (secret_hash E secret) (request_hash E q) v
            (node_tbl (e_B E) (st_db (nw_state nw))) (token_tbl (e_B E) (st_db (nw_state nw)))
            (node_tbl (e_B E) (st_db (nw_state nw'))) (token_tbl (e_B E) (st_db (nw_state nw')))"
      "\<And>p. r = Inr p \<Longrightarrow> p = jv_response v"
proof -
  let ?req = "join_http_request u cert secret q"
  have cfg: "ce_Do (we_client WE) = server_Do E" "\<And>verb u p. ce_NewRequest (we_client WE) verb u p = None"
    using assms(3) by (simp_all add: wired_def)
  have sec: "secret \<noteq> []" using assms(4) by (simp add: plain_def)
  obtain x where x: "server_Do E ?req nw = (x, nw')"
    using run cfg sec by (auto simp: Client.JoinNode_def split: prod.splits sum.splits)
  show ?thesis
  proof (cases "nw_state nw' = nw_state nw \<and> (\<exists>m. x = Inl (Msg m))")
    case True
    then show ?thesis
      using idle [of "Wrap ''send join request'' (projl x)"] assms(2) run cfg sec x by (auto simp: Client.JoinNode_def)
  next
    case False
    then obtain resp where served: "serve E (nw_rng nw (nw_count nw)) (server_request E ?req) (nw_state nw)
        = (resp, nw_state nw')"
      and xs: "(\<exists>m. x = Inl (Msg m)) \<or> (\<exists>m. x = Inr (client_response E (Some (Msg m)) resp))
        \<or> x = Inr (client_response E None resp)"
      using server_Do_D [OF x] by blast
    note inv' = hambo_db.serve_ok [OF assms(1,2) refl served, unfolded request_ok_def, THEN conjunct1]
    let ?g = "nw_rng nw (nw_count nw)"
    show ?thesis
    proof (cases rule: joinNode_outcome [OF assms(1,2) served [unfolded serve_join [OF root]]])
      case 1
      then have "\<exists>e. r = Inl e"
        using run cfg sec x xs by (auto simp: Client.JoinNode_def success_def)
      then show ?thesis using idle inv' 1(1) by blast
    next
      case (2 s' q' v)
      have q': "s' = secret" "q' = q" "length (e_json_text E (enc_JoinNodeRequest q)) \<le> maxJoinNodeRequestSize"
        "TrimSpace (jr_Name q) \<noteq> []" "jr_CSR q \<noteq> []"
        using 2(1) unfolding join_request_http [OF assms(4) name] by simp_all
      have "p = jv_response v" if "r = Inr p" for p
        using that run cfg sec x xs 2(3)
        by (auto simp: Client.JoinNode_def body_documents_def Decode_def read_error_def
            split: if_splits simp: bind_result_eq_Inr)
      then show ?thesis using answered inv' q'(3-5) 2(4) unfolding q'(1,2) by blast
    qed
  qed
qed

section \<open>The states of an enrollment\<close>

definition pending_request :: "worker_state \<Rightarrow> JoinNodeRequest" where
  "pending_request p = \<lparr>jr_Name = ws_Name p, jr_CSR = ws_CSR p\<rparr>"

definition stored_result :: "EnrollmentResult \<Rightarrow> JoinNodeResponse" where
  "stored_result en = \<lparr>jn_NodeID = er_NodeID en, jn_Certificate = er_Certificate en\<rparr>"

definition pending_file :: "worker_state \<Rightarrow> content option" where
  "pending_file p = Some (Whole (JsonText (enc_worker_state p)))"

lemma pending_file_eq: "valid_state p \<Longrightarrow> valid_state q \<Longrightarrow> pending_file p = pending_file q \<longleftrightarrow> p = q"
  by (metis content.inject(1) data.inject(2) option.inject pending_file_def read_back_valid sum.inject(2)
      worker_state_codec)

text \<open>
  A configuration whose server's address has no path of its own, and whose name and address are
  valid UTF-8: what \<open>worker.json\<close> and the request say of them is what they are.
\<close>

definition plain_config :: "JoinConfig \<Rightarrow> bool" where
  "plain_config cfg \<longleftrightarrow>
     root_url (jc_ServerURL cfg) \<and> valid_utf8 (u_String (jc_ServerURL cfg)) \<and> valid_utf8 (jc_Name cfg)"

text \<open>The pending enrollments a worker makes for this configuration, whatever key it draws.\<close>

definition made :: "'db network worker_env \<Rightarrow> JoinConfig \<Rightarrow> worker_state \<Rightarrow> bool" where
  "made WE cfg p \<longleftrightarrow> plain_config cfg \<and> (\<exists>key. newEnrollment WE key cfg = Inr p)"

text \<open>The server accepted the request of \<open>p\<close> and stored \<open>en\<close> for it.\<close>

definition accepted :: "'db env \<Rightarrow> worker_state \<Rightarrow> EnrollmentResult \<Rightarrow> bool" where
  "accepted E p en \<longleftrightarrow>
     er_RequestHash en = request_hash E (pending_request p)
     \<and> length (e_json_text E (enc_JoinNodeRequest (pending_request p))) \<le> maxJoinNodeRequestSize
     \<and> TrimSpace (ws_Name p) \<noteq> [] \<and> ws_CSR p \<noteq> []
     \<and> (\<exists>now c. IssueNodeCertificate (e_X E) (e_ca E) now (er_NodeID en) (ws_CSR p) = Inr c
          \<and> er_Certificate en = e_pem_certificate E (ct_Raw c))"

definition progress ::
  "'db env \<Rightarrow> 'db network worker_env \<Rightarrow> JoinConfig \<Rightarrow> string \<Rightarrow> Metadata \<Rightarrow> files \<Rightarrow> 'db network \<Rightarrow> bool" where
  "progress E WE cfg h m0 fs nw \<longleftrightarrow>
     state_inv (e_B E) (nw_state nw)
     \<and> (token_tbl (e_B E) (st_db (nw_state nw)) h = Some m0
          \<and> (fs (worker_json (jc_DataDir cfg)) = None
             \<or> (\<exists>p. made WE cfg p \<and> fs (worker_json (jc_DataDir cfg)) = pending_file p))
        \<or> (\<exists>p en. made WE cfg p \<and> accepted E p en
            \<and> token_tbl (e_B E) (st_db (nw_state nw)) h = Some (m0\<lparr>md_Enrollment := Some en\<rparr>)
            \<and> (fs (worker_json (jc_DataDir cfg)) = pending_file p
               \<or> (\<exists>ca. fs (worker_json (jc_DataDir cfg))
                      = pending_file (finished WE ca (stored_result en) p)))))"

lemma progress_other_files:
  "progress E WE cfg h m0 fs nw \<Longrightarrow>
    fs' (worker_json (jc_DataDir cfg)) = fs (worker_json (jc_DataDir cfg)) \<Longrightarrow>
    progress E WE cfg h m0 fs' nw"
  by (simp add: progress_def)

lemma progress_same_state:
  "progress E WE cfg h m0 fs nw \<Longrightarrow> nw_state nw' = nw_state nw \<Longrightarrow> progress E WE cfg h m0 fs nw'"
  by (simp add: progress_def)

lemma made_fields:
  assumes "made WE cfg p"
  shows "ws_ServerURL p = u_String (jc_ServerURL cfg)" "ws_Token p = jc_Token cfg" "ws_Name p = jc_Name cfg"
    "ws_NodeID p = []" "ws_Certificate p = []" "ws_CACertificate p = []"
    and "\<exists>key der. GenerateNodeCSR (we_CreateCSR WE) key = Inr (ws_CSR p)
      \<and> we_MarshalPKCS8 WE key = Inr der \<and> ws_PrivateKey p = we_PemEncode WE ''PRIVATE KEY'' der"
  using assms by (auto simp: made_def newEnrollment_def result_eqs zero_worker_state_def)

lemma made_valid:
  assumes "made WE cfg p"
  shows "valid_state p" "valid_state (finished WE ca resp p)" "valid_utf8 (jr_Name (pending_request p))"
    and "root_url (jc_ServerURL cfg)"
  using assms made_fields(1,3) [OF assms]
  by (simp_all add: made_def plain_config_def valid_state_def finished_def pending_request_def)

text \<open>The exchange of a join leads from progress to progress, and an answer is the stored one.\<close>

lemma JoinNode_progress:
  assumes "hambo_db (e_B E)" and "wired E WE" and "plain secret"
    and h: "h = secret_hash E secret" and m0: "md_Enrollment m0 = None"
    and prog: "progress E WE cfg h m0 fs nw" and p: "made WE cfg p"
    and sf: "fs (worker_json (jc_DataDir cfg)) = pending_file p"
    and run: "Client.JoinNode (we_client WE) (jc_ServerURL cfg) (Some cert) secret (pending_request p) nw = (r, nw')"
  shows "progress E WE cfg h m0 fs nw'"
    and "r = Inr resp \<Longrightarrow> \<exists>en. resp = stored_result en \<and> accepted E p en
      \<and> token_tbl (e_B E) (st_db (nw_state nw')) h = Some (m0\<lparr>md_Enrollment := Some en\<rparr>)"
proof -
  let ?T = "token_tbl (e_B E) (st_db (nw_state nw))" and ?T' = "token_tbl (e_B E) (st_db (nw_state nw'))"
  have inv: "state_inv (e_B E) (nw_state nw)" using prog by (simp add: progress_def)
  have "progress E WE cfg h m0 fs nw' \<and> (\<forall>resp. r = Inr resp \<longrightarrow> (\<exists>en. resp = stored_result en
      \<and> accepted E p en \<and> ?T' h = Some (m0\<lparr>md_Enrollment := Some en\<rparr>)))"
  proof (cases rule: JoinNode_outcome [OF assms(1) inv assms(2,3) made_valid(4,3) [OF p] run])
    case (1 e)
    then show ?thesis using prog by (simp add: progress_def)
  next
    case (2 rnd now v)
    have ok: "length (e_json_text E (enc_JoinNodeRequest (pending_request p))) \<le> maxJoinNodeRequestSize"
      "TrimSpace (ws_Name p) \<noteq> []" "ws_CSR p \<noteq> []"
      using 2(2-4) by (simp_all add: pending_request_def)
    from 2(5) show ?thesis
      unfolding h [symmetric]
    proof (elim disjE conjE)
      assume rt: "retried now h (request_hash E (pending_request p)) v
          (node_tbl (e_B E) (st_db (nw_state nw))) ?T" and same: "?T' = ?T"
      then obtain m en where en: "?T h = Some m" "md_Enrollment m = Some en"
        "er_RequestHash en = request_hash E (pending_request p)" "jv_response v = stored_result en"
        by (auto simp: retried_def stored_result_def)
      then have "?T h \<noteq> Some m0" using m0 by auto
      then obtain p' en' where p': "made WE cfg p'" "accepted E p' en'"
        "?T h = Some (m0\<lparr>md_Enrollment := Some en'\<rparr>)"
        "fs (worker_json (jc_DataDir cfg)) = pending_file p'
          \<or> (\<exists>ca. fs (worker_json (jc_DataDir cfg)) = pending_file (finished WE ca (stored_result en') p'))"
        using prog by (auto simp: progress_def)
      have "en' = en" using en(1,2) p'(3) by auto
      have "er_NodeID en \<noteq> []"
        using p'(2) \<open>en' = en\<close> by (auto simp: accepted_def IssueNodeCertificate_def)
      moreover have "pending_file (finished WE ca (stored_result en) p') \<noteq> pending_file p" if "er_NodeID en \<noteq> []" for ca
      proof
        let ?f = "finished WE ca (stored_result en) p'"
        assume "pending_file ?f = pending_file p"
        then have "?f = p" using pending_file_eq [OF made_valid(2) [OF p'(1)] made_valid(1) [OF p]] by blast
        moreover have "ws_NodeID ?f = er_NodeID en" by (simp add: finished_def stored_result_def)
        ultimately show False using made_fields(4) [OF p] that by simp
      qed
      ultimately have "p' = p"
        using p'(4) sf \<open>en' = en\<close> pending_file_eq [OF made_valid(1) [OF p'(1)] made_valid(1) [OF p]] by metis
      then show ?thesis
        using 2(1,6) p' sf same en(4) \<open>en' = en\<close> by (auto simp: progress_def)
    next
      assume "enrolled E now (GenerateNodeID rnd) (pending_request p) h (request_hash E (pending_request p)) v
          (node_tbl (e_B E) (st_db (nw_state nw))) ?T (node_tbl (e_B E) (st_db (nw_state nw'))) ?T'"
      then obtain m c where e: "?T h = Some m" "md_Enrollment m = None"
        "IssueNodeCertificate (e_X E) (e_ca E) now (GenerateNodeID rnd) (ws_CSR p) = Inr c"
        "?T' h = Some (m\<lparr>md_Enrollment := Some \<lparr>er_RequestHash = request_hash E (pending_request p),
           er_NodeID = GenerateNodeID rnd, er_Certificate = e_pem_certificate E (ct_Raw c)\<rparr>\<rparr>)"
        "jv_response v = \<lparr>jn_NodeID = GenerateNodeID rnd, jn_Certificate = e_pem_certificate E (ct_Raw c)\<rparr>"
        by (auto simp: enrolled_def pending_request_def)
      define en where "en = \<lparr>er_RequestHash = request_hash E (pending_request p),
           er_NodeID = GenerateNodeID rnd, er_Certificate = e_pem_certificate E (ct_Raw c)\<rparr>"
      have "m = m0" using prog e(1,2) by (auto simp: progress_def)
      moreover have "accepted E p en" using ok e(3) by (auto simp: accepted_def en_def)
      moreover have "jv_response v = stored_result en" using e(5) by (simp add: stored_result_def en_def)
      ultimately show ?thesis
        using 2(1,6) p sf e(4) by (auto simp: progress_def en_def [symmetric])
    qed
  qed
  then show "progress E WE cfg h m0 fs nw'"
    "r = Inr resp \<Longrightarrow> \<exists>en. resp = stored_result en \<and> accepted E p en
      \<and> token_tbl (e_B E) (st_db (nw_state nw')) h = Some (m0\<lparr>md_Enrollment := Some en\<rparr>)"
    by blast+
qed

lemma bind_io_cases:
  assumes "bind_io m f w = (r, w')"
  obtains e where "m w = (Inl e, w')" "r = Inl e"
  | v w1 where "m w = (Inr v, w1)" "f v w1 = (r, w')"
  using assms by (cases "m w"; cases "fst (m w)") (auto simp: bind_io_def)

lemma wrap_io_cases:
  assumes "wrap_io msg m w = (r, w')"
  obtains e where "m w = (Inl e, w')" "r = Inl (Wrap msg e)" | v where "m w = (Inr v, w')" "r = Inr v"
  using assms by (cases "m w"; cases "fst (m w)") (auto simp: wrap_io_def)

lemma enroll_progress:
  assumes "hambo_db (e_B E)" and "wired E WE" and "plain (t_Secret tok)"
    and h: "h = secret_hash E (t_Secret tok)" and m0: "md_Enrollment m0 = None" and p: "made WE cfg p"
    and alw: "always (progress E WE cfg h m0) w" and sf: "w_files w (worker_json (jc_DataDir cfg)) = pending_file p"
    and run: "enroll WE rnd cfg p tok w = (r, w')"
  shows "always (progress E WE cfg h m0) w'"
proof -
  let ?P = "progress E WE cfg h m0" and ?CE = "we_client WE" and ?u = "jc_ServerURL cfg"
  obtain r1 w1 where f: "net_call (FetchAndVerifyCA ?CE ?u (t_CAFingerprint tok)) w = (r1, w1)" by fastforce
  have w1: "w_files w1 = w_files w" using net_call_D [OF f] by blast
  have alw1: "always ?P w1"
    using net_call_always [OF f alw] always_now [OF alw] FetchAndVerifyCA_keeps [OF assms(2) made_valid(4) [OF p]]
      progress_same_state by blast
  obtain r2 w2 where j: "net_call (Client.JoinNode ?CE ?u (Some (projr r1)) (t_Secret tok) (pending_request p)) w1
      = (r2, w2)" by fastforce
  obtain nw2 where nw2: "Client.JoinNode ?CE ?u (Some (projr r1)) (t_Secret tok) (pending_request p) (w_net w1)
      = (r2, nw2)" "w_files w2 = w_files w" "w_net w2 = nw2"
    using net_call_D [OF j] w1 by auto
  note step = JoinNode_progress [OF assms(1-3) h m0 _ p]
  have alw2: "always ?P w2"
    using net_call_always [OF j alw1] step(1) always_now [OF alw1] sf w1 by (metis (no_types, lifting))
  show ?thesis
  proof (cases "(\<exists>ca. r1 = Inr ca) \<and> (\<exists>resp. r2 = Inr resp)")
    case False
    then have "w' = w1 \<or> w' = w2"
      using run f j unfolding enroll_def pending_request_def [symmetric]
      by (auto simp: sequencing_defs split: sum.splits)
    then show ?thesis using alw1 alw2 by blast
  next
    case True
    then obtain ca resp where r12: "r1 = Inr ca" "r2 = Inr resp" by blast
    obtain en where en: "resp = stored_result en" "accepted E p en"
      "token_tbl (e_B E) (st_db (nw_state nw2)) h = Some (m0\<lparr>md_Enrollment := Some en\<rparr>)"
      using step(2) [OF always_now [OF alw1] _ nw2(1) r12(2)] sf w1 by auto
    obtain r3 w3 where sv: "saveState (jc_DataDir cfg) rnd (finished WE ca resp p) w2 = (r3, w3)" by fastforce
    have "always ?P w3"
    proof (rule saveState_D(4) [OF sv alw2])
      fix fs assume "saving (jc_DataDir cfg) rnd (finished WE ca resp p) (w_files w2) fs"
      then have "fs (worker_json (jc_DataDir cfg)) = pending_file p
          \<or> fs (worker_json (jc_DataDir cfg)) = pending_file (finished WE ca (stored_result en) p)"
        using sf nw2(2) en(1) by (auto simp: saving_def pending_file_def)
      then show "?P fs (w_net w2)"
        using always_now [OF alw2] en(2,3) p nw2(3) unfolding progress_def by blast
    qed
    moreover have "w' = w2 \<or> w' = w3"
      using run f j sv r12 unfolding enroll_def pending_request_def [symmetric]
      by (auto simp: sequencing_defs split: sum.splits)
    ultimately show ?thesis using alw2 by blast
  qed
qed

lemma lockDataDir_D:
  assumes "lockDataDir flock dir w = (r, w')"
  shows "w_files w' (worker_json dir) = w_files w (worker_json dir)" "w_net w' = w_net w"
    and "always P w \<Longrightarrow> (\<And>fs. fs (worker_json dir) = w_files w (worker_json dir) \<Longrightarrow> P fs (w_net w)) \<Longrightarrow> always P w'"
  using assms unfolding lockDataDir_def
  by (auto simp: sequencing_defs goes_def dest!: call_Ds elim!: trail_always split: prod.splits sum.splits if_splits)

lemma loadState_D:
  assumes "loadState dir w = (r, w')"
  shows "goes w (w_files w) w'"
    and "r = Inr p \<Longrightarrow> w_files w (worker_json dir) = pending_file q \<Longrightarrow> p = read_back q"
    and "r = Inr p \<Longrightarrow> w_files w (worker_json dir) \<noteq> None"
    and "r = Inl e \<Longrightarrow> errors_Is e ErrNotExist \<Longrightarrow> w_files w (worker_json dir) = None"
  using assms unfolding loadState_def
  by (auto simp: sequencing_defs pending_file_def decode_file_def not_exist_def map_error_eq_Inl
      dest!: os_ReadFile_D dec_worker_state_error
      split: prod.splits sum.splits option.splits content.splits data.splits)

lemma Join_progress:
  assumes "hambo_db (e_B E)" and "wired E WE" and cfg: "plain_config cfg" and tok: "Parse (jc_Token cfg) = Inr tok"
    and "plain (t_Secret tok)" and h: "h = secret_hash E (t_Secret tok)" and m0: "md_Enrollment m0 = None"
    and alw: "always (progress E WE cfg h m0) w" and run: "Join WE key flock rnd1 rnd2 cfg w = (r, w')"
  shows "always (progress E WE cfg h m0) w'"
proof -
  let ?P = "progress E WE cfg h m0" and ?dir = "jc_DataDir cfg"
  note enr = enroll_progress [OF assms(1,2,5) h m0]
  obtain r1 w1 where lk: "lockDataDir flock ?dir w = (r1, w1)" by fastforce
  obtain r2 w2 where ld: "loadState ?dir w1 = (r2, w2)" by fastforce
  have alw1: "always ?P w1"
    using lockDataDir_D(3) [OF lk alw] progress_other_files always_now [OF alw] by blast
  have w2: "w_files w2 = w_files w1" "w_net w2 = w_net w1"
    using loadState_D(1) [OF ld] by (simp_all add: goes_def)
  have alw2: "always ?P w2"
    using loadState_D(1) [OF ld] alw1 always_now [OF alw1] by (auto simp: goes_def elim!: trail_always)
  consider (stop) "w' = w1 \<or> w' = w2"
    | (new) p where "w_files w2 (worker_json ?dir) = None" "newEnrollment WE key cfg = Inr p"
        "bind_io (saveState ?dir rnd1 p) (\<lambda>_. enroll WE rnd2 cfg p tok) w2 = (r, w')"
    | (resume) p where "r2 = Inr p" "ws_NodeID p = []" "ws_Token p = jc_Token cfg \<or> jc_Token cfg = []"
        "bind_io (return_io (map_error (Wrap ''parse join token'') (Parse (ws_Token p))))
          (\<lambda>t. enroll WE rnd1 cfg p t) w2 = (r, w')"
    using run lk ld tok loadState_D(4) [OF ld] w2(1) unfolding Join_def join_new_def join_saved_def
    by (auto simp: sequencing_defs split: sum.splits if_splits)
  then show ?thesis
  proof cases
    case stop
    then show ?thesis using alw1 alw2 by blast
  next
    case (new p)
    have made: "made WE cfg p" using new(2) cfg by (auto simp: made_def)
    obtain r3 w3 where sv: "saveState ?dir rnd1 p w2 = (r3, w3)" by fastforce
    have token: "token_tbl (e_B E) (st_db (nw_state (w_net w2))) h = Some m0"
      "state_inv (e_B E) (nw_state (w_net w2))"
      using always_now [OF alw2] new(1) by (auto simp: progress_def pending_file_def)
    have alw3: "always ?P w3"
    proof (rule saveState_D(4) [OF sv alw2])
      fix fs assume "saving ?dir rnd1 p (w_files w2) fs"
      then have "fs (worker_json ?dir) = None \<or> fs (worker_json ?dir) = pending_file p"
        using new(1) by (auto simp: saving_def pending_file_def)
      then show "?P fs (w_net w2)" using token made unfolding progress_def by blast
    qed
    show ?thesis
    proof (cases r3)
      case (Inl e)
      then show ?thesis using new(3) sv alw3 by (auto simp: bind_io_def)
    next
      case (Inr u)
      then have "enroll WE rnd2 cfg p tok w3 = (r, w')" using new(3) sv by (simp add: bind_io_def)
      moreover have "w_files w3 (worker_json ?dir) = pending_file p"
        using saveState_D(3) [OF sv] Inr by (simp add: pending_file_def)
      ultimately show ?thesis using enr [OF made alw3] by blast
    qed
  next
    case (resume p)
    have "w_files w2 (worker_json ?dir) \<noteq> None" using loadState_D(3) [OF ld resume(1)] w2(1) by simp
    then obtain q where q: "w_files w2 (worker_json ?dir) = pending_file q" "made WE cfg q
        \<or> (\<exists>p' ca en. q = finished WE ca (stored_result en) p' \<and> made WE cfg p' \<and> accepted E p' en)"
      using always_now [OF alw2] by (auto simp: progress_def)
    then have "valid_state q" using made_valid(1,2) by blast
    then have "q = p" using loadState_D(2) [OF ld resume(1)] w2(1) q(1) by simp
    moreover have "er_NodeID en \<noteq> []" if "accepted E p' en" for p' en
      using that by (auto simp: accepted_def IssueNodeCertificate_def)
    ultimately have made: "made WE cfg p"
      using q(2) resume(2) by (auto simp: finished_def stored_result_def)
    have "ws_Token p = jc_Token cfg" using made_fields(2) [OF made] .
    then have "enroll WE rnd1 cfg p tok w2 = (r, w')"
      using resume(4) tok by (simp add: sequencing_defs)
    then show ?thesis using enr [OF made alw2] q(1) \<open>q = p\<close> by blast
  qed
qed

section \<open>Interrupted attempts\<close>

text \<open>
  Any number of runs of \<open>Join\<close> with the same configuration, each with faults of its own and
  ended at any point of its history; between them others may use the server, but not with
  this token.
\<close>

inductive attempts ::
  "'db env \<Rightarrow> 'db network worker_env \<Rightarrow> JoinConfig \<Rightarrow> string \<Rightarrow> files \<Rightarrow> 'db network \<Rightarrow> files \<Rightarrow> 'db network \<Rightarrow> bool"
  for E WE cfg h fs0 nw0 where
  none: "attempts E WE cfg h fs0 nw0 fs0 nw0"
| attempt: "attempts E WE cfg h fs0 nw0 fs nw \<Longrightarrow>
    Join WE key flock rnd1 rnd2 cfg (start_world fs nw faults) = (r, w) \<Longrightarrow>
    (fs', nw') \<in> set (w_history w) \<Longrightarrow> attempts E WE cfg h fs0 nw0 fs' nw'"
| elsewhere: "attempts E WE cfg h fs0 nw0 fs nw \<Longrightarrow> state_inv (e_B E) (nw_state nw') \<Longrightarrow>
    token_tbl (e_B E) (st_db (nw_state nw')) h = token_tbl (e_B E) (st_db (nw_state nw)) h \<Longrightarrow>
    attempts E WE cfg h fs0 nw0 fs nw'"

lemma attempts_progress:
  assumes "attempts E WE cfg h fs0 nw0 fs nw" and "hambo_db (e_B E)" and "wired E WE" and "plain_config cfg"
    and "Parse (jc_Token cfg) = Inr tok" and "plain (t_Secret tok)" and "h = secret_hash E (t_Secret tok)"
    and "md_Enrollment m0 = None" and "progress E WE cfg h m0 fs0 nw0"
  shows "progress E WE cfg h m0 fs nw"
  using assms(1)
proof induction
  case none
  then show ?case using assms(9) .
next
  case (attempt fs nw key flock rnd1 rnd2 faults r w fs' nw')
  have "always (progress E WE cfg h m0) w"
    by (rule Join_progress [OF assms(2-8) _ attempt.hyps(2)]) (simp add: attempt.IH)
  then show ?case using attempt.hyps(3) by (auto simp: always_def)
next
  case (elsewhere fs nw nw')
  then show ?case by (simp add: progress_def)
qed

section \<open>The attempt that is left alone\<close>

text \<open>Every exchange is delivered, before the token expires.\<close>

definition quiet :: "Metadata \<Rightarrow> 'db network \<Rightarrow> bool" where
  "quiet m0 nw \<longleftrightarrow> (\<forall>i. nw_faults nw i = Delivered \<and> g_now (nw_rng nw i) < md_ExpiresAt m0)"

lemma valid_headers:
  "valid_header (ca_request u)" "plain secret \<Longrightarrow> valid_header (join_http_request u c secret q)"
proof -
  have ok: "list_all (\<lambda>c. code c = 9 \<or> 32 \<le> code c \<and> code c \<noteq> 127) ''application/pem-certificate-chain''"
    "list_all (\<lambda>c. code c = 9 \<or> 32 \<le> code c \<and> code c \<noteq> 127) ''application/json''"
    "list_all (\<lambda>c. code c = 9 \<or> 32 \<le> code c \<and> code c \<noteq> 127) ''Bearer ''"
    by code_simp+
  show "valid_header (ca_request u)" using ok by (simp add: valid_header_def ca_request_def)
  assume "plain secret"
  then have "list_all (\<lambda>c. code c = 9 \<or> 32 \<le> code c \<and> code c \<noteq> 127) secret"
    by (auto simp: plain_def list_all_iff)
  then have "list_all (\<lambda>c. code c = 9 \<or> 32 \<le> code c \<and> code c \<noteq> 127) (''Bearer '' @ secret)"
    unfolding list_all_append using ok(3) by blast
  then show "valid_header (join_http_request u c secret q)"
    using ok(2) by (simp add: valid_header_def join_http_request_def)
qed

lemma FetchAndVerifyCA_quiet:
  assumes "root_url u" and "wired E WE" and "pem_laws E WE" and "nw_faults nw (nw_count nw) = Delivered"
    and "fp = b64_EncodeToString (e_sha256 E (ct_Raw (ca_Certificate (e_ca E))))" and "fp \<noteq> []"
  shows "FetchAndVerifyCA (we_client WE) u fp nw
    = (Inr (ca_Certificate (e_ca E)), nw\<lparr>nw_count := Suc (nw_count nw)\<rparr>)"
proof -
  let ?resp = "fst (getCAHandler E (server_request E (ca_request u)) (nw_state nw))"
  have "server_Do E (ca_request u) nw = (Inr (client_response E None ?resp),
      nw\<lparr>nw_count := Suc (nw_count nw), nw_state := nw_state nw\<rparr>)"
    by (rule server_Do_delivered [OF valid_headers(1)])
      (use assms(4) in \<open>auto simp: trusts_def ca_request_def serve_ca [OF assms(1), unfolded ca_request_def]
        getCAHandler_def\<close>)
  then show ?thesis
    using assms by (simp add: FetchAndVerifyCA_def wired_def getCAHandler_def read_error_def body_length_def pem_laws_def)
qed

lemma accepted_filled:
  assumes "pem_laws E WE" and "accepted E p en"
  shows "er_NodeID en \<noteq> []" "er_Certificate en \<noteq> []"
proof -
  obtain now c where c: "IssueNodeCertificate (e_X E) (e_ca E) now (er_NodeID en) (ws_CSR p) = Inr c"
    "er_Certificate en = e_pem_certificate E (ct_Raw c)"
    using assms(2) by (auto simp: accepted_def)
  show "er_NodeID en \<noteq> []" using c(1) by (auto simp: IssueNodeCertificate_def)
  show "er_Certificate en \<noteq> []" using c(2) assms(1) by (simp add: pem_laws_def)
qed

lemma JoinNode_quiet:
  assumes "hambo_db (e_B E)" and "db_works (e_B E)" and "wired E WE" and "pem_laws E WE" and "quiet m0 nw"
    and "plain secret" and inv: "state_inv (e_B E) (nw_state nw)" and acc: "accepted E p en"
    and tok: "token_tbl (e_B E) (st_db (nw_state nw)) (secret_hash E secret)
      = Some (m0\<lparr>md_Enrollment := Some en\<rparr>)"
    and size: "length (e_json_text E (enc_JoinNodeResponse (stored_result en))) \<le> 64 * 1024"
    and root: "root_url u" and name: "valid_utf8 (ws_Name p)"
  shows "\<exists>nw'. Client.JoinNode (we_client WE) u (Some (ca_Certificate (e_ca E))) secret (pending_request p) nw
      = (Inr (stored_result en), nw')
    \<and> same_data (e_B E) (st_db (nw_state nw)) (st_db (nw_state nw'))"
proof -
  let ?s = "nw_state nw" and ?g = "nw_rng nw (nw_count nw)"
  let ?req = "join_http_request u (ca_Certificate (e_ca E)) secret (pending_request p)"
  let ?r = "server_request E ?req"
  have named: "valid_utf8 (jr_Name (pending_request p))" using name by (simp add: pending_request_def)
  have jr: "join_request ?r secret (pending_request p)"
    unfolding join_request_http [OF assms(6) named] using acc by (simp add: accepted_def pending_request_def)
  have early: "\<not> md_ExpiresAt m0 \<le> g_now ?g" using assms(5) by (simp add: quiet_def not_le)
  let ?resp = "writeJSON [(''Cache-Control'', ''no-store'')] StatusOK (Inr (enc_JoinNodeResponse (stored_result en)))"
  obtain db' where db': "joinNodeHandler E (g_id ?g) (g_now ?g) ?r ?s = (?resp, ?s\<lparr>st_db := db'\<rparr>)"
    "view (e_B E) db' = view (e_B E) (st_db ?s)"
    using join_decided_run [OF assms(1,2) _ jr, of ?s "g_now ?g" ?resp "g_id ?g"] inv tok early acc
    by (auto simp: state_inv_def decided_answer_def accepted_def stored_result_def)
  have "server_Do E ?req nw = (Inr (client_response E None ?resp),
      nw\<lparr>nw_count := Suc (nw_count nw), nw_state := ?s\<lparr>st_db := db'\<rparr>\<rparr>)"
    by (rule server_Do_delivered [OF valid_headers(2) [OF assms(6)]])
      (use assms(5) db'(1) in \<open>auto simp: trusts_def quiet_def serve_join [OF root], simp_all add: join_http_request_def\<close>)
  moreover have "er_NodeID en \<noteq> []" "er_Certificate en \<noteq> []"
    using accepted_filled [OF assms(4) acc] by simp_all
  moreover have "secret \<noteq> []" using assms(6) by (simp add: plain_def)
  ultimately show ?thesis
    using assms(3) size same_data_view [OF db'(2) [symmetric]]
    by (auto simp: Client.JoinNode_def wired_def success_def writeJSON_def status_defs read_error_def
        body_length_def body_documents_def Decode_def stored_result_def same_data_def)
qed

lemma X509KeyPair_accepts:
  assumes "pair_law E WE" and "made WE cfg p" and "accepted E p en"
  shows "\<exists>leaf. ce_X509KeyPair (we_client WE) (er_Certificate en) (ws_PrivateKey p) = Inr leaf"
proof -
  obtain now c where c: "IssueNodeCertificate (e_X E) (e_ca E) now (er_NodeID en) (ws_CSR p) = Inr c"
    "er_Certificate en = e_pem_certificate E (ct_Raw c)"
    using assms(3) by (auto simp: accepted_def)
  obtain key der where k: "GenerateNodeCSR (we_CreateCSR WE) key = Inr (ws_CSR p)"
    "we_MarshalPKCS8 WE key = Inr der" "ws_PrivateKey p = we_PemEncode WE ''PRIVATE KEY'' der"
    using made_fields(7) [OF assms(2)] by blast
  have "we_CreateCSR WE key = Inr (ws_CSR p)"
    using k(1) by (auto simp: GenerateNodeCSR_def split: if_splits)
  then show ?thesis
    using assms(1) k(2,3) c(2) node_certificate_template(4) [OF c(1)] unfolding pair_law_def by metis
qed

lemma lockDataDir_quiet:
  assumes "w_faults w = []"
  obtains v where "lockDataDir Locked dir w = (Inr (), v)" "w_faults v = []" "w_net v = w_net w"
    "\<And>p. p \<noteq> path_Join dir ''worker.lock'' \<Longrightarrow> w_files v p = w_files w p"
  using assms by (simp add: lockDataDir_def sequencing_defs quiet_calls split: if_splits)

lemma loadState_quiet:
  assumes "w_faults w = []" and "valid_state p" and "w_files w (worker_json dir) = pending_file p"
  shows "loadState dir w = (Inr p, snapshot w)"
  using assms by (simp add: loadState_def sequencing_defs quiet_calls pending_file_def decode_file_def)

text \<open>The rest of \<open>enroll\<close> when the server has answered with the result \<open>en\<close>.\<close>

lemma enroll_answered:
  assumes "FetchAndVerifyCA (we_client WE) (jc_ServerURL cfg) (t_CAFingerprint tok) (w_net w) = (Inr ca, nw1)"
    and "Client.JoinNode (we_client WE) (jc_ServerURL cfg) (Some ca) (t_Secret tok) (pending_request p) nw1
      = (Inr (stored_result en), nw2)"
    and "pair_law E WE" and "made WE cfg p" and "accepted E p en"
    and "w_faults w = []" and "w_files w (temporary_path (jc_DataDir cfg) rnd) = None"
  shows "\<exists>v s. enroll WE rnd cfg p tok w = (Inr \<lparr>jo_NodeID = er_NodeID en, jo_AlreadyConfigured = False\<rparr>, v)
    \<and> w_net v = nw2 \<and> w_files v (worker_json (jc_DataDir cfg)) = pending_file s
    \<and> ws_NodeID s = er_NodeID en \<and> ws_Certificate s = er_Certificate en"
proof -
  obtain leaf where leaf: "ce_X509KeyPair (we_client WE) (er_Certificate en) (ws_PrivateKey p) = Inr leaf"
    using X509KeyPair_accepts [OF assms(3-5)] by blast
  let ?w2 = "snapshot (snapshot (w\<lparr>w_net := nw1\<rparr>)\<lparr>w_net := nw2\<rparr>)"
  let ?s = "finished WE ca (stored_result en) p"
  obtain v where save: "saveState (jc_DataDir cfg) rnd ?s ?w2 = (Inr (), v)" "w_net v = nw2"
    using saveState_quiet [of ?w2 "jc_DataDir cfg" rnd ?s] assms(6,7) by auto
  have "enroll WE rnd cfg p tok w = (Inr \<lparr>jo_NodeID = er_NodeID en, jo_AlreadyConfigured = False\<rparr>, v)"
    unfolding enroll_def pending_request_def [symmetric]
    using assms(1,2) leaf save(1) by (simp add: sequencing_defs net_call_def stored_result_def)
  moreover have "w_files v (worker_json (jc_DataDir cfg)) = pending_file ?s"
    using saveState_D(3) [OF save(1)] by (simp add: pending_file_def)
  ultimately show ?thesis using save(2) by (auto simp: finished_def stored_result_def)
qed

lemma enroll_quiet:
  assumes "hambo_db (e_B E)" and "db_works (e_B E)" and "wired E WE" and "pem_laws E WE" and "pair_law E WE"
    and "quiet m0 (w_net w)" and "plain (t_Secret tok)"
    and "t_CAFingerprint tok = b64_EncodeToString (e_sha256 E (ct_Raw (ca_Certificate (e_ca E))))"
    and "t_CAFingerprint tok \<noteq> []" and "state_inv (e_B E) (nw_state (w_net w))"
    and "made WE cfg p" and "accepted E p en"
    and "token_tbl (e_B E) (st_db (nw_state (w_net w))) (secret_hash E (t_Secret tok))
      = Some (m0\<lparr>md_Enrollment := Some en\<rparr>)"
    and "length (e_json_text E (enc_JoinNodeResponse (stored_result en))) \<le> 64 * 1024"
    and "w_faults w = []" and "w_files w (temporary_path (jc_DataDir cfg) rnd) = None"
  shows "\<exists>v s. enroll WE rnd cfg p tok w = (Inr \<lparr>jo_NodeID = er_NodeID en, jo_AlreadyConfigured = False\<rparr>, v)
    \<and> same_data (e_B E) (st_db (nw_state (w_net w))) (st_db (nw_state (w_net v)))
    \<and> w_files v (worker_json (jc_DataDir cfg)) = pending_file s
    \<and> ws_NodeID s = er_NodeID en \<and> ws_Certificate s = er_Certificate en"
proof -
  let ?nw1 = "(w_net w)\<lparr>nw_count := Suc (nw_count (w_net w))\<rparr>"
  let ?CA = "ca_Certificate (e_ca E)" and ?CE = "we_client WE" and ?u = "jc_ServerURL cfg"
  have fetch: "FetchAndVerifyCA ?CE ?u (t_CAFingerprint tok) (w_net w) = (Inr ?CA, ?nw1)"
    by (rule FetchAndVerifyCA_quiet [OF made_valid(4) [OF assms(11)] assms(3,4) _ assms(8,9)]) (use assms(6) in \<open>simp add: quiet_def\<close>)
  have "quiet m0 ?nw1" using assms(6) by (simp add: quiet_def)
  from JoinNode_quiet [OF assms(1-4) this assms(7) _ assms(12) _ assms(14) made_valid(4) [OF assms(11)]]
  obtain nw2 where join: "Client.JoinNode ?CE ?u (Some ?CA) (t_Secret tok) (pending_request p) ?nw1
      = (Inr (stored_result en), nw2)"
    "same_data (e_B E) (st_db (nw_state (w_net w))) (st_db (nw_state nw2))"
    using assms(10,13) made_valid(3) [OF assms(11)] by (auto simp: pending_request_def)
  from enroll_answered [OF fetch join(1) assms(5,11,12,15,16)] show ?thesis using join(2) by auto
qed

lemma join_saved_finished:
  assumes "pem_laws E WE" and "made WE cfg p" and "accepted E p en"
  shows "join_saved WE rnd cfg (finished WE ca (stored_result en) p) w
    = (Inr \<lparr>jo_NodeID = er_NodeID en, jo_AlreadyConfigured = True\<rparr>, w)"
proof -
  obtain der where "ws_PrivateKey p = we_PemEncode WE ''PRIVATE KEY'' der"
    using made_fields(7) [OF assms(2)] by blast
  then have "ws_PrivateKey p \<noteq> []" "we_PemEncode WE ''CERTIFICATE'' (ct_Raw ca) \<noteq> []"
    using assms(1) by (simp_all add: pem_laws_def)
  then show ?thesis
    using accepted_filled [OF assms(1,3)] made_fields(1-6) [OF assms(2)]
    by (simp add: join_saved_def finished_def stored_result_def return_io_def)
qed

lemma join_saved_pending:
  assumes "pem_laws E WE" and "made WE cfg p" and "accepted E p en"
    and "Parse (jc_Token cfg) = Inr tok" and "jc_Token cfg \<noteq> []"
  shows "join_saved WE rnd cfg p w = enroll WE rnd cfg p tok w"
proof -
  obtain der where "ws_PrivateKey p = we_PemEncode WE ''PRIVATE KEY'' der"
    using made_fields(7) [OF assms(2)] by blast
  then have "ws_PrivateKey p \<noteq> []" "ws_CSR p \<noteq> []"
    using assms(1,3) by (simp_all add: pem_laws_def accepted_def)
  then show ?thesis
    using assms(4,5) made_fields(1-6) [OF assms(2)]
    by (simp add: join_saved_def bind_io_def return_io_def)
qed

lemma Parse_Nil [simp]: "\<exists>e. Parse [] = Inl e"
  by (simp add: Parse_def)

text \<open>The state such attempts end in, when the server has accepted the request.\<close>

lemma attempts_accepted:
  assumes "hambo_db (e_B E)" and "wired E WE" and "plain_config cfg" and "Parse (jc_Token cfg) = Inr tok" and "plain (t_Secret tok)"
    and "state_inv (e_B E) (nw_state nw0)" and "fs0 (worker_json (jc_DataDir cfg)) = None"
    and "token_tbl (e_B E) (st_db (nw_state nw0)) (secret_hash E (t_Secret tok)) = Some m0"
    and "md_Enrollment m0 = None"
    and "attempts E WE cfg (secret_hash E (t_Secret tok)) fs0 nw0 fs nw"
    and "token_tbl (e_B E) (st_db (nw_state nw)) (secret_hash E (t_Secret tok)) = Some m"
    and "md_Enrollment m = Some en"
  obtains p where "made WE cfg p" "accepted E p en" "m = m0\<lparr>md_Enrollment := Some en\<rparr>"
    "state_inv (e_B E) (nw_state nw)"
    "fs (worker_json (jc_DataDir cfg)) = pending_file p
     \<or> (\<exists>ca. fs (worker_json (jc_DataDir cfg)) = pending_file (finished WE ca (stored_result en) p))"
proof -
  have "progress E WE cfg (secret_hash E (t_Secret tok)) m0 fs nw"
    by (rule attempts_progress [OF assms(10,1-5) refl assms(9)]) (use assms(6-9) in \<open>simp add: progress_def\<close>)
  moreover have "token_tbl (e_B E) (st_db (nw_state nw)) (secret_hash E (t_Secret tok)) \<noteq> Some m0"
    using assms(9,11,12) by auto
  ultimately obtain p en' where p: "made WE cfg p" "accepted E p en'" "state_inv (e_B E) (nw_state nw)"
    "token_tbl (e_B E) (st_db (nw_state nw)) (secret_hash E (t_Secret tok))
      = Some (m0\<lparr>md_Enrollment := Some en'\<rparr>)"
    "fs (worker_json (jc_DataDir cfg)) = pending_file p
     \<or> (\<exists>ca. fs (worker_json (jc_DataDir cfg)) = pending_file (finished WE ca (stored_result en') p))"
    unfolding progress_def by blast
  moreover have "en' = en" "m = m0\<lparr>md_Enrollment := Some en\<rparr>" using p(4) assms(11,12) by auto
  ultimately show ?thesis using that [of p] by simp
qed

text \<open>
  Claim C28: an interrupted enrollment is finished by running join again. Whatever faults the
  network and the files had, wherever the worker was killed, and however often: once the server
  (at an address without a path of its own, for a worker whose name is valid UTF-8) has used the
  token, a \<open>Join\<close> that is left alone before the token expires returns the node
  that the server stored, saves its certificate, and leaves the server's data as they are.
\<close>

theorem interrupted_join_resumes:
  assumes "hambo_db (e_B E)" and "db_works (e_B E)" and cfg: "plain_config cfg" and "wired E WE" and "pem_laws E WE" and "pair_law E WE"
    and tok: "Parse (jc_Token cfg) = Inr tok" and "plain (t_Secret tok)"
    and "t_CAFingerprint tok = b64_EncodeToString (e_sha256 E (ct_Raw (ca_Certificate (e_ca E))))"
    and "t_CAFingerprint tok \<noteq> []"
    and start: "state_inv (e_B E) (nw_state nw0)" "fs0 (worker_json (jc_DataDir cfg)) = None"
      "token_tbl (e_B E) (st_db (nw_state nw0)) (secret_hash E (t_Secret tok)) = Some m0"
      "md_Enrollment m0 = None"
    and att: "attempts E WE cfg (secret_hash E (t_Secret tok)) fs0 nw0 fs nw"
    and used: "token_tbl (e_B E) (st_db (nw_state nw)) (secret_hash E (t_Secret tok)) = Some m"
      "md_Enrollment m = Some en"
    and "quiet m0 nw" and free: "fs (temporary_path (jc_DataDir cfg) rnd1) = None"
    and "length (e_json_text E (enc_JoinNodeResponse (stored_result en))) \<le> 64 * 1024"
  shows "\<exists>already w s. Join WE key Locked rnd1 rnd2 cfg (start_world fs nw [])
      = (Inr \<lparr>jo_NodeID = er_NodeID en, jo_AlreadyConfigured = already\<rparr>, w)
    \<and> same_data (e_B E) (st_db (nw_state nw)) (st_db (nw_state (w_net w)))
    \<and> w_files w (worker_json (jc_DataDir cfg)) = pending_file s
    \<and> ws_NodeID s = er_NodeID en \<and> ws_Certificate s = er_Certificate en"
proof -
  let ?dir = "jc_DataDir cfg"
  obtain p where p: "made WE cfg p" "accepted E p en" "m = m0\<lparr>md_Enrollment := Some en\<rparr>"
    "state_inv (e_B E) (nw_state nw)"
    "fs (worker_json ?dir) = pending_file p
     \<or> (\<exists>ca. fs (worker_json ?dir) = pending_file (finished WE ca (stored_result en) p))"
    by (rule attempts_accepted [OF assms(1,4) cfg tok assms(8) start att used]) 
  obtain w1 where w1: "lockDataDir Locked ?dir (start_world fs nw []) = (Inr (), w1)" "w_faults w1 = []"
    "w_net w1 = nw" "\<And>q. q \<noteq> path_Join ?dir ''worker.lock'' \<Longrightarrow> w_files w1 q = fs q"
    using lockDataDir_quiet [of "start_world fs nw []" ?dir] by (auto simp: start_world_def)
  have sf: "w_files w1 (worker_json ?dir) = fs (worker_json ?dir)" by (simp add: w1(4))
  have tmp: "w_files w1 (temporary_path ?dir rnd1) = None"
    using free by (simp add: w1(4) temporary_path_def path_Join_def)
  have run: "Join WE key Locked rnd1 rnd2 cfg (start_world fs nw []) = join_saved WE rnd1 cfg q (snapshot w1)"
    if "fs (worker_json ?dir) = pending_file q" "valid_state q" for q
    using loadState_quiet [OF w1(2) that(2), of ?dir] sf that w1(1) by (simp add: Join_def bind_io_def)
  have "jc_Token cfg \<noteq> []" using tok Parse_Nil by (metis Inl_Inr_False)
  from p(5) show ?thesis
  proof (elim disjE exE)
    assume pf: "fs (worker_json ?dir) = pending_file p"
    have "\<exists>v s. enroll WE rnd1 cfg p tok (snapshot w1)
          = (Inr \<lparr>jo_NodeID = er_NodeID en, jo_AlreadyConfigured = False\<rparr>, v)
        \<and> same_data (e_B E) (st_db (nw_state (w_net (snapshot w1)))) (st_db (nw_state (w_net v)))
        \<and> w_files v (worker_json ?dir) = pending_file s
        \<and> ws_NodeID s = er_NodeID en \<and> ws_Certificate s = er_Certificate en"
      using assms(1,2,4-6,8-10,18,20) p(1-4) used w1(2,3) tmp by (intro enroll_quiet) auto
    then show ?thesis
      using run [OF pf made_valid(1) [OF p(1)]] join_saved_pending [OF assms(5) p(1,2) tok \<open>jc_Token cfg \<noteq> []\<close>] w1(3) by auto
  next
    fix ca assume ff: "fs (worker_json ?dir) = pending_file (finished WE ca (stored_result en) p)"
    show ?thesis
      using run [OF ff made_valid(2) [OF p(1)]] join_saved_finished [OF assms(5) p(1,2)] sf ff w1(3)
      by (auto simp: finished_def stored_result_def same_data_def)
  qed
qed

section \<open>An instance\<close>

text \<open>A token in the store of the server. The answer to the worker's first request to join is lost.\<close>

definition ex_token :: Token where
  "ex_token = \<lparr>t_CAFingerprint = ''ZmZmZmZmZmZmZmZmZmZmZmZmZmZmZmZmZmZmZmZmZmY'',
     t_Secret = ''ZmZmZmZmZmZmZmZmZmZmZmZmZmZmZmZmZmZmZmZmZmY''\<rparr>"

definition ex_config :: JoinConfig where
  "ex_config = \<lparr>jc_ServerURL = \<lparr>u_Scheme = ''https'', u_Hostname = ''h'', u_User = False, u_Path = [], u_String = ''h''\<rparr>,
     jc_Token = Format ex_token, jc_Name = ''w'', jc_DataDir = ''d''\<rparr>"

definition ex_key :: string where
  "ex_key = concat (replicate 32 ''66'')"

definition ex_start :: "mem_db state" where
  "ex_start = ex0\<lparr>st_db := [(''tokens'', [(ex_key, unused)]), (''containers'', []), (''nodes'', [])]\<rparr>"

lemma ex_encoded:
  "t_CAFingerprint ex_token = b64_EncodeToString ex_digest" "t_Secret ex_token = b64_EncodeToString ex_digest"
proof -
  show "t_CAFingerprint ex_token = b64_EncodeToString ex_digest" by code_simp
  then show "t_Secret ex_token = b64_EncodeToString ex_digest" by (simp add: ex_token_def)
qed

lemma ex_keyed: "secret_hash ex_server (t_Secret ex_token) = ex_key"
  by (simp add: secret_hash_def ex_server_def ex_sha_def) code_simp

lemma ex_plain_config: "plain_config ex_config"
proof -
  have "valid_utf8 ''h''" "valid_utf8 ''w''" by code_simp+
  then show ?thesis by (simp add: plain_config_def root_url_def ex_config_def)
qed

lemma ex_enrollment_laws:
  "wired ex_server ex_worker" "pem_laws ex_server ex_worker" "pair_law ex_server ex_worker"
  "Parse (jc_Token ex_config) = Inr ex_token" "plain (t_Secret ex_token)"
proof -
  show "wired ex_server ex_worker"
    by (simp add: wired_def ex_worker_def ex_client_def ex_server_def ex_env_def)
  show "pem_laws ex_server ex_worker"
    by (simp add: pem_laws_def ex_worker_def ex_client_def ex_server_def ex_env_def ex_ca_def ex_x509_def
        ex_certificate_def)
  show "pair_law ex_server ex_worker"
    by (simp add: pair_law_def ex_worker_def ex_client_def)
  have "ex_token = \<lparr>t_CAFingerprint = b64_EncodeToString ex_digest, t_Secret = b64_EncodeToString ex_digest\<rparr>"
    using ex_encoded by (cases ex_token) simp
  moreover have "length ex_digest = 32" by (simp add: ex_digest_def)
  ultimately show "Parse (jc_Token ex_config) = Inr ex_token"
    using Parse_Format_encoded [of ex_digest ex_digest] by (simp add: ex_config_def)
  have "ex_digest \<noteq> []" by (simp add: ex_digest_def)
  then show "plain (t_Secret ex_token)" by (simp add: ex_encoded b64_plain)
qed

lemma ex_start_token: "token_tbl mem_bolt (st_db ex_start) h
    = (if h = ex_key then Some \<lparr>md_ExpiresAt = 900000000000, md_Enrollment = None\<rparr> else None)"
proof -
  have "unmarshal_Metadata unused = Inr \<lparr>md_ExpiresAt = 900000000000, md_Enrollment = None\<rparr>" by code_simp
  then show ?thesis by (simp add: tbl_def mem_view ex_start_def)
qed

lemma ex_start_inv: "state_inv mem_bolt ex_start"
proof -
  have ok: "db_ok mem_bolt (st_db ex_start)"
  proof -
    have "unmarshal_Metadata unused = Inr \<lparr>md_ExpiresAt = 900000000000, md_Enrollment = None\<rparr>" by code_simp
    then show ?thesis by (auto simp: db_ok_def tbl_ok_def mem_view ex_start_def)
  qed
  have "node_tbl mem_bolt (st_db ex_start) = Map.empty" "container_tbl mem_bolt (st_db ex_start) = Map.empty"
    by (rule ext, simp add: tbl_def mem_view ex_start_def)+
  moreover have "st_queue ex_start = st_queue ex0" "st_watcher ex_start = st_watcher ex0"
    by (simp_all add: ex_start_def)
  ultimately show ?thesis
    using ok ex0_inv
    by (simp add: state_inv_def db_inv_def nodes_inv_def containers_inv_def tokens_inv_def ex_start_token)
qed

lemma ex_fingerprint:
  "t_CAFingerprint ex_token \<noteq> []"
  "t_CAFingerprint ex_token = b64_EncodeToString (e_sha256 ex_server (ct_Raw (ca_Certificate (e_ca ex_server))))"
  by (simp add: ex_token_def) (simp add: ex_encoded ex_server_def ex_sha_def)

text \<open>The first attempt: its request to join is served, and the answer is lost.\<close>

definition ex_lost :: "mem_db network world" where
  "ex_lost = snd (Join ex_worker (Inr (replicate 64 (CHR ''k''))) Locked ''1'' ''2'' ex_config
     (start_world (\<lambda>p. None) (ex_network ex_start [Delivered, ResponseLost ''EOF'']) []))"

definition ex_joined :: "mem_db state" where
  "ex_joined = snd (serve ex_server (ex_rng ''n'' 1) (server_request ex_server
     (join_http_request (jc_ServerURL ex_config) (ca_Certificate ex_ca) (t_Secret ex_token)
        \<lparr>jr_Name = ''w'', jr_CSR = ''csr''\<rparr>)) ex_start)"

definition ex_result :: EnrollmentResult where
  "ex_result = \<lparr>er_RequestHash = ex_key, er_NodeID = ''6e'', er_Certificate = ''PEM hambo:node:6e''\<rparr>"

lemma ex_joined_token:
  "token_tbl mem_bolt (st_db ex_joined) ex_key = Some \<lparr>md_ExpiresAt = 900000000000, md_Enrollment = Some ex_result\<rparr>"
  by code_simp

lemma ex_lost_state:
  "nw_state (w_net ex_lost) = ex_joined" "w_files ex_lost (temporary_path ''d'' ''3'') = None"
  "(w_files ex_lost, w_net ex_lost) \<in> set (w_history ex_lost)"
proof -
  let ?nw = "ex_network ex_start [Delivered, ResponseLost ''EOF'']"
  let ?nw1 = "?nw\<lparr>nw_count := 1\<rparr>" and ?u = "jc_ServerURL ex_config"
  let ?p = "zero_worker_state\<lparr>ws_ServerURL := u_String ?u, ws_Token := jc_Token ex_config, ws_Name := ''w'',
      ws_PrivateKey := ''PEM der'', ws_CSR := ''csr''\<rparr>"
  let ?req = "join_http_request ?u (ca_Certificate ex_ca) (t_Secret ex_token) (pending_request ?p)"
  obtain w1 where w1: "lockDataDir Locked ''d'' (start_world (\<lambda>p. None) ?nw []) = (Inr (), w1)"
    "w_faults w1 = []" "w_net w1 = ?nw"
    "\<And>q. q \<noteq> path_Join ''d'' ''worker.lock'' \<Longrightarrow> w_files w1 q = None"
    using lockDataDir_quiet [of "start_world (\<lambda>p. None) ?nw []" "''d''"] by (auto simp: start_world_def)
  have load: "loadState ''d'' w1 = (Inl (Wrap ''read worker state'' not_exist), snapshot w1)"
    using w1(4) by (simp add: loadState_def sequencing_defs quiet_calls [OF w1(2)])
  have pending: "newEnrollment ex_worker (Inr (replicate 64 (CHR ''k''))) ex_config = Inr ?p"
    by (simp add: newEnrollment_def GenerateNodeCSR_def ex_worker_def ex_config_def)
  have free: "w_files (snapshot w1) (temporary_path ''d'' r) = None" for r
    using w1(4) by (simp add: temporary_path_def path_Join_def)
  obtain w2 where w2: "saveState ''d'' ''1'' ?p (snapshot w1) = (Inr (), w2)" "w_net w2 = ?nw"
    using saveState_quiet [of "snapshot w1" "''d''" "''1''" ?p] w1(2,3) free by auto
  have files: "w_files w2 (temporary_path ''d'' ''3'') = None"
    using saveState_D(2) [OF w2(1)] free [of "''3''"] by (simp add: saving_def temporary_path_def path_Join_def worker_json_def)
  have fetch: "FetchAndVerifyCA (we_client ex_worker) ?u (t_CAFingerprint ex_token) ?nw = (Inr (ca_Certificate ex_ca), ?nw1)"
    using FetchAndVerifyCA_quiet [OF ex_plain_config [unfolded plain_config_def, THEN conjunct1] ex_enrollment_laws(1,2), of ?nw "t_CAFingerprint ex_token"]
      ex_fingerprint by (simp add: ex_network_def ex_server_def ex_env_def)
  obtain resp where served: "serve ex_server (ex_rng ''n'' 1) (server_request ex_server ?req) ex_start = (resp, ex_joined)"
    by (simp add: ex_joined_def pending_request_def prod_eq_iff)
  have "valid_header ?req" by (rule valid_headers(2) [OF ex_enrollment_laws(5)])
  moreover have "trusts ex_server ?req"
    by (simp add: trusts_def join_http_request_def ex_server_def ex_env_def)
  ultimately have "server_Do ex_server ?req ?nw1 = (Inl (Msg ''EOF''), ?nw1\<lparr>nw_count := 2, nw_state := ex_joined\<rparr>)"
    using served by (simp add: server_Do_def ex_network_def)
  then have join: "Client.JoinNode (we_client ex_worker) ?u (Some (ca_Certificate ex_ca)) (t_Secret ex_token)
      (pending_request ?p) ?nw1 = (Inl (Wrap ''send join request'' (Msg ''EOF'')), ?nw1\<lparr>nw_count := 2, nw_state := ex_joined\<rparr>)"
    using ex_enrollment_laws(1,5) by (simp add: Client.JoinNode_def wired_def plain_def)
  have given: "jc_DataDir ex_config = ''d''" "TrimSpace (jc_Token ex_config) \<noteq> []"
    by (simp add: ex_config_def) code_simp
  have lost: "ex_lost = snapshot (snapshot (w2\<lparr>w_net := ?nw1\<rparr>)\<lparr>w_net := ?nw1\<lparr>nw_count := 2, nw_state := ex_joined\<rparr>\<rparr>)"
    using w1(1) load pending w2 fetch join ex_enrollment_laws(4) given
    by (simp add: ex_lost_def Join_def join_new_def enroll_def pending_request_def [symmetric] sequencing_defs
        net_call_def not_exist_def)
  show "nw_state (w_net ex_lost) = ex_joined" "w_files ex_lost (temporary_path ''d'' ''3'') = None"
    "(w_files ex_lost, w_net ex_lost) \<in> set (w_history ex_lost)"
    unfolding lost using files by simp_all
qed

theorem interrupted_join_resumes_witness:
  "\<exists>already w s. Join ex_worker (Inl (Msg ''entropy'')) Locked ''3'' ''4'' ex_config
      (start_world (w_files ex_lost) (ex_network ex_joined []) [])
      = (Inr \<lparr>jo_NodeID = ''6e'', jo_AlreadyConfigured = already\<rparr>, w)
    \<and> same_data mem_bolt (st_db ex_joined) (st_db (nw_state (w_net w)))
    \<and> w_files w (worker_json ''d'') = pending_file s
    \<and> ws_NodeID s = ''6e'' \<and> ws_Certificate s = ''PEM hambo:node:6e''"
proof -
  let ?before = "ex_network ex_start [Delivered, ResponseLost ''EOF'']" and ?after = "ex_network ex_joined []"
  have B: "e_B ex_server = mem_bolt" by (simp add: ex_server_def)
  have start: "state_inv mem_bolt (nw_state ?before)"
    using ex_start_inv by (simp add: ex_network_def)
  have inv: "state_inv mem_bolt ex_joined"
    unfolding ex_joined_def
    using mem_db.serve_ok [OF ex_start_inv B surjective_pairing] by (auto simp: request_ok_def)
  have "attempts ex_server ex_worker ex_config ex_key (\<lambda>p. None) ?before (w_files ex_lost) (w_net ex_lost)"
    by (rule attempts.attempt [OF attempts.none _ ex_lost_state(3)]) (simp add: ex_lost_def prod_eq_iff)
  then have att: "attempts ex_server ex_worker ex_config ex_key (\<lambda>p. None) ?before (w_files ex_lost) ?after"
    by (rule attempts.elsewhere) (use inv in \<open>simp_all add: B ex_lost_state(1) ex_network_def\<close>)
  have early: "quiet \<lparr>md_ExpiresAt = 900000000000, md_Enrollment = None\<rparr> ?after"
    by (simp add: quiet_def ex_network_def ex_rng_def)
  have size: "length (e_json_text ex_server (enc_JoinNodeResponse (stored_result ex_result))) \<le> 64 * 1024"
    by code_simp
  show ?thesis
    using interrupted_join_resumes [of ex_server ex_config ex_worker ex_token ?before "\<lambda>p. None"
        "\<lparr>md_ExpiresAt = 900000000000, md_Enrollment = None\<rparr>" "w_files ex_lost" ?after _ ex_result "''3''"
        "Inl (Msg ''entropy'')" "''4''",
        unfolded B ex_keyed, OF ex_hambo(1) mem_bolt_works ex_plain_config ex_enrollment_laws ex_fingerprint(2,1) start
        _ _ _ att _ _ early _ size]
      ex_lost_state(2) ex_start_token ex_joined_token
    by (simp add: ex_network_def ex_config_def ex_result_def)
qed

end
