(* ===== verification/Worker_Guarantees.thy ===== *)
theory Worker_Guarantees
  imports Example_Worker Node_Guarantees
begin

text \<open>
  What a running worker does, alone and with the server: the numbers of its reports, when it
  gives up, what \<open>Run\<close> returns, and what becomes of a worker whose session was replaced.
\<close>

section \<open>The steps\<close>

lemmas run_step_cases = run_step.cases [consumes 1, case_names heartbeat watch caller first elsewhere]

lemma runHeartbeat_watch [simp]:
  "ru_Watch (runHeartbeat CE D s) = ru_Watch s" "ru_Caller (runHeartbeat CE D s) = ru_Caller s"
  "ru_Cancelled (runHeartbeat CE D s) = ru_Cancelled s"
  by (auto simp: runHeartbeat_def split: heartbeat.splits prod.splits option.splits)

lemma runWatch_keeps [simp]:
  "ru_Heartbeat (runWatch CE D s) = ru_Heartbeat s" "ru_Worker (runWatch CE D s) = ru_Worker s"
  "ru_Caller (runWatch CE D s) = ru_Caller s" "ru_Cancelled (runWatch CE D s) = ru_Cancelled s"
  by (auto simp: runWatch_def split: watching.splits prod.splits sum.splits)

lemma run_steps_invariant:
  assumes "run_steps CE D others s s'" and "P s"
    and "\<And>s s'. run_step CE D others s s' \<Longrightarrow> P s \<Longrightarrow> P s'"
  shows "P s'"
  using assms(1,2) by (induction rule: rtranclp_induct) (auto intro: assms(3))

lemma heartbeat_steps: "run_steps CE D others s ((runHeartbeat CE D ^^ k) s)"
  by (induction k) (auto intro: rtranclp.rtrancl_into_rtrancl run_step.heartbeat)

section \<open>What Run returns\<close>

text \<open>The numbers have run out, or the server has answered with an error of one of these kinds.\<close>

definition heartbeat_reason :: "error \<Rightarrow> bool" where
  "heartbeat_reason e \<longleftrightarrow> e = Msg ''node status sequence exhausted''
     \<or> (\<exists>e'. e = Wrap ''report node status'' e'
          \<and> (\<exists>k \<in> {ErrConflict, ErrInvalidArgument, ErrUnauthenticated, ErrPermissionDenied, ErrNotFound}.
               errors_Is e' k))"

definition watch_reason :: "error \<Rightarrow> bool" where
  "watch_reason e \<longleftrightarrow>
     (\<exists>e'. e = Wrap ''watch node assignments'' e'
          \<and> (\<exists>k \<in> {ErrUnauthenticated, ErrPermissionDenied, ErrNotFound}. errors_Is e' k))"

lemma heartbeat_done_simps [simp]:
  "heartbeat_done (HB_ended e) = Some e" "heartbeat_done HB_top = None" "heartbeat_done (HB_report b) = None"
  "heartbeat_done (HB_answered x) = None" "heartbeat_done HB_select = None"
  by (simp_all add: heartbeat_done_def)

lemma watch_done_simps [simp]:
  "watch_done (Watch_ended e) = Some e" "watch_done Watch_top = None" "watch_done (Watch_next r) = None"
  "watch_done (Watch_list r) = None" "watch_done (Watch_closed x) = None" "watch_done Watch_timer = None"
  by (simp_all add: watch_done_def)

definition sound_end :: "bool \<Rightarrow> (error \<Rightarrow> bool) \<Rightarrow> error option \<Rightarrow> bool" where
  "sound_end cancelled reason x \<longleftrightarrow> (if x = None then cancelled else reason (the x))"

text \<open>A goroutine that has ended stays so, and it ends for a reason.\<close>

lemma heartbeat_ended [simp]:
  "ru_Heartbeat s = HB_ended e \<Longrightarrow> runHeartbeat CE D s = s"
  by (simp add: runHeartbeat_def)

lemma watch_ended [simp]: "ru_Watch s = Watch_ended e \<Longrightarrow> runWatch CE D s = s"
  by (simp add: runWatch_def)

lemma heartbeat_ends:
  assumes "heartbeat_done (ru_Heartbeat (runHeartbeat CE D s)) = Some x" and "heartbeat_done (ru_Heartbeat s) = None"
  shows "sound_end (ru_Cancelled s) heartbeat_reason x"
  using assms by (cases "ru_Heartbeat s") (auto simp: runHeartbeat_def sound_end_def heartbeat_reason_def permanent_def
      split: prod.splits option.splits if_splits)

lemma watch_ends:
  assumes "watch_done (ru_Watch (runWatch CE D s)) = Some x" and "watch_done (ru_Watch s) = None"
  shows "sound_end (ru_Cancelled s) watch_reason x"
  using assms by (cases "ru_Watch s") (auto simp: runWatch_def sound_end_def watch_reason_def watch_permanent_def
      split: prod.splits sum.splits if_splits)

lemma done_Some:
  "heartbeat_done h = Some x \<longleftrightarrow> h = HB_ended x" "watch_done v = Some y \<longleftrightarrow> v = Watch_ended y"
  by (cases h; simp) (cases v; simp)

definition ends_for_reason :: "('n, 'd) run \<Rightarrow> bool" where
  "ends_for_reason s \<longleftrightarrow>
     (\<forall>x. heartbeat_done (ru_Heartbeat s) = Some x \<longrightarrow> sound_end (ru_Cancelled s) heartbeat_reason x)
     \<and> (\<forall>x. watch_done (ru_Watch s) = Some x \<longrightarrow> sound_end (ru_Cancelled s) watch_reason x)
     \<and> (ru_Cancelled s \<longrightarrow> ru_Caller s \<or> (\<exists>e. heartbeat_done (ru_Heartbeat s) = Some (Some e))
          \<or> (\<exists>e. watch_done (ru_Watch s) = Some (Some e)))"

lemma ends_for_reason_step:
  assumes "run_step CE D others s s'" and inv: "ends_for_reason s"
  shows "ends_for_reason s'"
  using assms(1)
proof (cases rule: run_step_cases)
  case heartbeat
  have keep: "heartbeat_done (ru_Heartbeat s) = Some x \<Longrightarrow> s' = s" for x
    using heartbeat by (simp add: done_Some)
  show ?thesis
  proof (cases "heartbeat_done (ru_Heartbeat s)")
    case (Some x)
    then show ?thesis using keep inv by simp
  next
    case None
    then show ?thesis
      using inv heartbeat_ends [OF _ None] unfolding heartbeat ends_for_reason_def by auto
  qed
next
  case watch
  show ?thesis
  proof (cases "watch_done (ru_Watch s)")
    case (Some x)
    then show ?thesis using watch inv by (simp add: done_Some)
  next
    case None
    then show ?thesis
      using inv watch_ends [OF _ None] unfolding watch ends_for_reason_def by auto
  qed
next
  case caller
  then show ?thesis using inv by (auto simp: ends_for_reason_def sound_end_def split: if_splits)
next
  case first
  then show ?thesis using inv by (auto simp: ends_for_reason_def sound_end_def done_Some split: if_splits)
next
  case (elsewhere n d)
  then show ?thesis using inv by (simp add: ends_for_reason_def)
qed

lemma run_result_reason:
  assumes "ends_for_reason s0" and "run_steps CE D others s0 s" and "Run_result s = Some r"
  shows "(r = None \<longrightarrow> ru_Caller s)
    \<and> (\<forall>e. r = Some e \<longrightarrow> (\<exists>es. e = Multi ''join'' es \<and> es \<noteq> []
         \<and> (\<forall>e' \<in> set es. heartbeat_reason e' \<or> watch_reason e')))"
proof -
  have inv: "ends_for_reason s"
    by (rule run_steps_invariant [where P = ends_for_reason, OF assms(2,1)]) (rule ends_for_reason_step)
  obtain e1 e2 where e: "heartbeat_done (ru_Heartbeat s) = Some e1" "watch_done (ru_Watch s) = Some e2"
    "r = errors_Join [e1, e2]"
    using assms(3) by (auto simp: Run_result_def split: option.splits)
  then have "sound_end (ru_Cancelled s) heartbeat_reason e1" "sound_end (ru_Cancelled s) watch_reason e2"
    "ru_Cancelled s \<longrightarrow> ru_Caller s \<or> e1 \<noteq> None \<or> e2 \<noteq> None"
    using inv unfolding ends_for_reason_def by auto
  then show ?thesis
    unfolding e(3) by (cases e1; cases e2) (simp_all add: errors_Join_def List.map_filter_def sound_end_def)
qed

text \<open>
  Claim C33: a worker stops only for a reason. \<open>Run\<close> returns before it has started anything when
  the caller had cancelled it (nil) or the session could not be opened (that error), and in
  no other case. When it returns after its goroutines have ended, nil means that the caller had
  cancelled it; an error joins those of the goroutines, each of which is the end of the
  numbers, or an answer of the server of a kind that a retry cannot change: a conflict, an
  invalid argument, a missing or insufficient identity or an unknown node for the reports, and
  one of the last three for the watch.
\<close>

theorem run_ends_for_reason:
  "(cancelled \<longrightarrow> fst (Run CE w cancelled d n) = Inl None)
   \<and> (\<not> cancelled \<longrightarrow>
       (\<forall>e. fst (Client.CreateNodeSession CE (w_apiClient w) n) = Inl e \<longrightarrow>
            fst (Run CE w cancelled d n) = Inl (Some (Wrap ''create node session'' e)))
       \<and> (\<forall>sid. fst (Client.CreateNodeSession CE (w_apiClient w) n) = Inr sid \<longrightarrow>
            (\<exists>s0. fst (Run CE w cancelled d n) = Inr s0 \<and> w_sessionID (ru_Worker s0) = sid
               \<and> w_sequence (ru_Worker s0) = 1
               \<and> (\<forall>s r. run_steps CE D others s0 s \<longrightarrow> Run_result s = Some r \<longrightarrow>
                    (r = None \<longrightarrow> ru_Caller s)
                    \<and> (\<forall>e. r = Some e \<longrightarrow> (\<exists>es. e = Multi ''join'' es \<and> es \<noteq> []
                         \<and> (\<forall>e' \<in> set es. heartbeat_reason e' \<or> watch_reason e')))))))"
proof -
  let ?s0 = "\<lambda>sid n'. \<lparr>ru_Worker = w\<lparr>w_sessionID := sid, w_sequence := 1\<rparr>, ru_Net = n', ru_Docker = d,
      ru_Caller = False, ru_Cancelled = False, ru_Heartbeat = HB_top, ru_Watch = Watch_top\<rparr>"
  obtain x n' where x: "Client.CreateNodeSession CE (w_apiClient w) n = (x, n')" by fastforce
  have "ends_for_reason (?s0 sid n')" for sid by (simp add: ends_for_reason_def)
  from run_result_reason [OF this, of CE D others]
  show ?thesis using x by (auto simp: Run_def)
qed

definition ex_refused :: "(unit, unit) run" where
  "ex_refused = \<lparr>ru_Worker = ex_new_worker\<lparr>w_sessionID := ''78'', w_sequence := 1\<rparr>, ru_Net = (), ru_Docker = (),
     ru_Caller = False, ru_Cancelled = False, ru_Heartbeat = HB_top, ru_Watch = Watch_top\<rparr>"

text \<open>The report is refused; the watch is cancelled.\<close>

definition ex_stopped :: "(unit, unit) run" where
  "ex_stopped = runWatch ex_refusing ex_docker
     (((runHeartbeat ex_refusing ex_docker ^^ 3) ex_refused)\<lparr>ru_Cancelled := True\<rparr>)"

lemma ex_refused_run: "Run ex_refusing ex_new_worker False () () = (Inr ex_refused, ())"
  by (simp add: Run_def Client.CreateNodeSession_def client_do_def newRequest_def ex_refusing_def success_def
      writeJSON_def status_defs body_documents_def Decode_def drainResponseBody_def value_of_def ex_refused_def
      ex_new_worker_def)

lemma ex_session: "fst (Client.CreateNodeSession ex_refusing (w_apiClient ex_new_worker) ()) = Inr ''78''"
  by code_simp

theorem run_ends_for_reason_witness:
  "\<exists>e es. Run_result ex_stopped = Some (Some e) \<and> e = Multi ''join'' es \<and> es \<noteq> []"
proof -
  let ?s = "(runHeartbeat ex_refusing ex_docker ^^ 3) ex_refused"
  have steps: "run_steps ex_refusing ex_docker (\<lambda>x y. False) ex_refused ?s"
    by (rule heartbeat_steps)
  have ended: "heartbeat_done (ru_Heartbeat ?s) \<noteq> None" by code_simp
  have "run_steps ex_refusing ex_docker (\<lambda>x y. False) ex_refused ex_stopped"
    unfolding ex_stopped_def
    by (rule rtranclp.rtrancl_into_rtrancl [OF rtranclp.rtrancl_into_rtrancl [OF steps run_step.first] run_step.watch])
      (use ended in blast)
  moreover have "\<exists>e. Run_result ex_stopped = Some (Some e)"
  proof -
    have "map_option (\<lambda>r. r \<noteq> None) (Run_result ex_stopped) = Some True" by code_simp
    then show ?thesis by auto
  qed
  ultimately show ?thesis
    using run_ends_for_reason [of False ex_refusing ex_new_worker "()" "()" ex_docker "\<lambda>x y. False"]
    by (simp add: ex_refused_run ex_session) blast
qed

section \<open>A cancelled worker stops\<close>

lemma cancelled_heartbeat:
  assumes "ru_Cancelled s"
  shows "\<exists>x. ru_Heartbeat (runHeartbeat CE D (runHeartbeat CE D s)) = HB_ended x"
proof -
  let ?s1 = "runHeartbeat CE D s"
  have "(\<exists>x. ru_Heartbeat ?s1 = HB_ended x) \<or> (\<exists>e. ru_Heartbeat ?s1 = HB_answered e)"
    using assms by (cases "ru_Heartbeat s") (auto simp: runHeartbeat_def split: prod.splits)
  then show ?thesis
  proof (elim disjE exE)
    fix e assume "ru_Heartbeat ?s1 = HB_answered e"
    then show ?thesis using assms by (simp add: runHeartbeat_def [of CE D ?s1])
  qed simp
qed

lemma cancelled_watch:
  assumes "ru_Cancelled s"
  shows "(\<exists>x. ru_Watch (runWatch CE D s) = Watch_ended x) \<or> (\<exists>e. ru_Watch (runWatch CE D s) = Watch_closed e)
    \<or> (\<exists>r r'. ru_Watch s = Watch_list r \<and> ru_Watch (runWatch CE D s) = Watch_next r')"
  using assms by (cases "ru_Watch s") (auto simp: runWatch_def split: prod.splits sum.splits)

text \<open>
  When the context is cancelled, each goroutine ends within three steps of its own:
  no loop of the worker goes on.
\<close>

theorem cancelled_worker_stops:
  assumes "ru_Cancelled s"
  shows "heartbeat_done (ru_Heartbeat ((runHeartbeat CE D ^^ 3) s)) \<noteq> None
    \<and> watch_done (ru_Watch ((runWatch CE D ^^ 3) s)) \<noteq> None"
proof -
  let ?w1 = "runWatch CE D s" and ?w2 = "runWatch CE D (runWatch CE D s)"
  have "\<exists>x. ru_Heartbeat ((runHeartbeat CE D ^^ 3) s) = HB_ended x"
    using cancelled_heartbeat [OF assms, of CE D] by (auto simp: numeral_3_eq_3)
  moreover have closed: "ru_Cancelled v \<Longrightarrow> ru_Watch v = Watch_closed e \<Longrightarrow> ru_Watch (runWatch CE D v) = Watch_ended None"
    for v :: "('a, 'b) run" and e by (simp add: runWatch_def)
  have "\<exists>x. ru_Watch (runWatch CE D ?w2) = Watch_ended x"
    using cancelled_watch [OF assms, of CE D]
  proof (elim disjE exE conjE)
    fix x assume "ru_Watch ?w1 = Watch_ended x"
    then show ?thesis by simp
  next
    fix e assume "ru_Watch ?w1 = Watch_closed e"
    then show ?thesis using closed [of ?w1] assms by simp
  next
    fix r r' assume "ru_Watch ?w1 = Watch_next r'"
    then have "(\<exists>x. ru_Watch ?w2 = Watch_ended x) \<or> (\<exists>e. ru_Watch ?w2 = Watch_closed e)"
      using cancelled_watch [of ?w1 CE D] assms by auto
    then show ?thesis using closed [of ?w2] assms by auto
  qed
  ultimately show ?thesis by (auto simp: numeral_3_eq_3)
qed

theorem cancelled_worker_stops_witness:
  "heartbeat_done (ru_Heartbeat ((runHeartbeat ex_refusing ex_docker ^^ 3) ((ex_run () ''78'' 5)\<lparr>ru_Cancelled := True\<rparr>))) \<noteq> None"
  using cancelled_worker_stops [of "(ex_run () ''78'' 5)\<lparr>ru_Cancelled := True\<rparr>" ex_refusing ex_docker] by simp

section \<open>The numbers of the reports\<close>

text \<open>A client whose requests are written down, oldest first.\<close>

definition recorded :: "'n client_env \<Rightarrow> (http_request list \<times> 'n) client_env" where
  "recorded CE = \<lparr>
     ce_Do = (\<lambda>req (sent, n). case ce_Do CE req n of (r, n') \<Rightarrow> (r, (sent @ [req], n'))),
     ce_ParseURL = ce_ParseURL CE, ce_NewRequest = ce_NewRequest CE, ce_CertsFromPEM = ce_CertsFromPEM CE,
     ce_X509KeyPair = ce_X509KeyPair CE, ce_PemDecode = ce_PemDecode CE,
     ce_ParseCertificate = ce_ParseCertificate CE, ce_sha256 = ce_sha256 CE\<rparr>"

definition report_bodies :: "http_request list \<Rightarrow> json option list" where
  "report_bodies sent = map hq_Body (filter (\<lambda>req. hq_Path req = ''nodes/self/status'') sent)"

lemma report_bodies_simps [simp]:
  "report_bodies [] = []" "report_bodies (a @ b) = report_bodies a @ report_bodies b"
  by (simp_all add: report_bodies_def)

lemma client_do_recorded:
  assumes "client_do (recorded CE) c verb path input output (sent, n) = (r, (sent', n'))"
  shows "report_bodies sent' = report_bodies sent
    \<or> path = ''nodes/self/status'' \<and> report_bodies sent' = report_bodies sent @ [input]"
  using assms by (auto simp: client_do_def newRequest_def recorded_def report_bodies_def
      split: option.splits sum.splits prod.splits if_splits)

lemma watch_recorded:
  "Client.WatchNode (recorded CE) c (sent, n) = (r, v) \<Longrightarrow> report_bodies (fst v) = report_bodies sent"
  by (auto simp: Client.WatchNode_def openStreamReader_def newRequest_def recorded_def report_bodies_def
      split: option.splits sum.splits prod.splits if_splits)

text \<open>The reports sent so far, and how their numbers lie to the one to come.\<close>

definition numbered :: "(http_request list \<times> 'n, 'd) run \<Rightarrow> ReportNodeStatusRequest list \<Rightarrow> bool" where
  "numbered s qs \<longleftrightarrow>
     report_bodies (fst (ru_Net s)) = map (\<lambda>q. Some (enc_ReportNodeStatusRequest q)) qs
     \<and> sorted_wrt (<) (map rn_Sequence qs)
     \<and> (\<forall>q \<in> set qs. rn_Sequence q \<noteq> 0 \<and> rn_SessionID q = w_sessionID (ru_Worker s) \<and> rn_Containers q = [])
     \<and> (case ru_Heartbeat s of
          HB_report _ \<Rightarrow> w_sequence (ru_Worker s) \<noteq> 0 \<and> (\<forall>q \<in> set qs. rn_Sequence q < w_sequence (ru_Worker s))
        | HB_answered _ \<Rightarrow> w_sequence (ru_Worker s) \<noteq> 0 \<and> (\<forall>q \<in> set qs. rn_Sequence q \<le> w_sequence (ru_Worker s))
        | HB_ended _ \<Rightarrow> True
        | _ \<Rightarrow> w_sequence (ru_Worker s) = 0 \<or> (\<forall>q \<in> set qs. rn_Sequence q < w_sequence (ru_Worker s)))"

lemma next_number: "(a :: uint64) \<le> b \<Longrightarrow> b + 1 \<noteq> 0 \<Longrightarrow> a < b + 1"
  using unatSuc [of b] by (simp add: word_less_nat_alt word_le_nat_alt add.commute)

lemma heartbeat_numbered:
  assumes "numbered s qs"
  shows "\<exists>qs'. numbered (runHeartbeat (recorded CE) D s) qs'"
proof (cases "ru_Heartbeat s")
  case HB_top
  then show ?thesis using assms
    by (intro exI [of _ qs]) (auto simp: numbered_def runHeartbeat_def split: prod.splits)
next
  case (HB_report ready)
  let ?q = "heartbeat_report (ru_Worker s) ready"
  obtain err n where call: "Client.ReportNodeStatus (recorded CE) (w_apiClient (ru_Worker s)) ?q (ru_Net s) = (err, n)"
    by (meson surj_pair)
  then have "report_bodies (fst n) = report_bodies (fst (ru_Net s))
      \<or> report_bodies (fst n) = report_bodies (fst (ru_Net s)) @ [Some (enc_ReportNodeStatusRequest ?q)]"
    using client_do_recorded [where sent = "fst (ru_Net s)" and n = "snd (ru_Net s)" and sent' = "fst n" and n' = "snd n"]
    by (fastforce simp: Client.ReportNodeStatus_def split: prod.splits sum.splits)
  then show ?thesis
  proof
    assume "report_bodies (fst n) = report_bodies (fst (ru_Net s))"
    then show ?thesis using assms HB_report call
      by (intro exI [of _ qs]) (auto simp: numbered_def runHeartbeat_def)
  next
    assume "report_bodies (fst n) = report_bodies (fst (ru_Net s)) @ [Some (enc_ReportNodeStatusRequest ?q)]"
    then show ?thesis using assms HB_report call
      by (intro exI [of _ "qs @ [?q]"])
        (auto simp: numbered_def runHeartbeat_def heartbeat_report_def sorted_wrt_append)
  qed
next
  case (HB_answered err)
  then show ?thesis using assms next_number
    by (intro exI [of _ qs]) (auto simp: numbered_def runHeartbeat_def split: option.splits)
next
  case HB_select
  then show ?thesis using assms
    by (intro exI [of _ qs]) (auto simp: numbered_def runHeartbeat_def)
next
  case (HB_ended e)
  then show ?thesis using assms by auto
qed

lemma numbered_step:
  assumes "run_step (recorded CE) D others s s'" and "\<exists>qs. numbered s qs"
    and "\<And>x y. others x y \<Longrightarrow> fst (fst y) = fst (fst x)"
  shows "\<exists>qs. numbered s' qs"
  using assms(1)
proof (cases rule: run_step_cases)
  case heartbeat
  then show ?thesis using assms(2) heartbeat_numbered by blast
next
  case watch
  have "report_bodies (fst (ru_Net (runWatch (recorded CE) D s))) = report_bodies (fst (ru_Net s))"
  proof (cases "ru_Watch s")
    case Watch_top
    have "report_bodies (fst n) = report_bodies (fst (ru_Net s))"
      if "Client.WatchNode (recorded CE) c (ru_Net s) = (r, n)" for c r n
      using watch_recorded [of CE c "fst (ru_Net s)" "snd (ru_Net s)"] that by simp
    then show ?thesis using Watch_top by (auto simp: runWatch_def split: prod.splits sum.splits)
  qed (auto simp: runWatch_def split: prod.splits sum.splits)
  then show ?thesis using assms(2) watch by (simp add: numbered_def cong: heartbeat.case_cong)
next
  case caller
  then show ?thesis using assms(2) by (simp add: numbered_def cong: heartbeat.case_cong)
next
  case first
  then show ?thesis using assms(2) by (simp add: numbered_def cong: heartbeat.case_cong)
next
  case (elsewhere n d)
  then have "fst n = fst (ru_Net s)" using assms(3) by fastforce
  then show ?thesis using assms(2) elsewhere(1) by (simp add: numbered_def cong: heartbeat.case_cong)
qed

text \<open>
  Claim C32: the reports of one run of the worker carry its session and strictly growing numbers
  that are never zero: no number is used for two reports, also when the 64-bit counter runs
  out. This holds of the requests that leave the worker, whatever answers, faults, cancellations
  and steps of the watch come between.
\<close>

theorem reports_numbered:
  assumes "Run (recorded CE) w False d ([], n) = (Inr s0, n')" and "run_steps (recorded CE) D others s0 s"
    and "\<And>x y. others x y \<Longrightarrow> fst (fst y) = fst (fst x)"
  shows "\<exists>qs. report_bodies (fst (ru_Net s)) = map (\<lambda>q. Some (enc_ReportNodeStatusRequest q)) qs
    \<and> sorted_wrt (<) (map rn_Sequence qs)
    \<and> list_all (\<lambda>q. rn_Sequence q \<noteq> 0 \<and> rn_SessionID q = w_sessionID (ru_Worker s)) qs"
proof -
  obtain r m where call: "Client.CreateNodeSession (recorded CE) (w_apiClient w) ([], n) = (r, m)"
    by (meson surj_pair)
  have "report_bodies (fst m) = []"
    using call client_do_recorded [of CE "w_apiClient w" "''POST''" "''nodes/self/session''" None
        "Some dec_CreateNodeSessionResponse" "[]" n "fst (client_do (recorded CE) (w_apiClient w) ''POST''
          ''nodes/self/session'' None (Some dec_CreateNodeSessionResponse) ([], n))" "fst m" "snd m"]
    by (auto simp: Client.CreateNodeSession_def value_of_def)
  then have "numbered s0 []"
    using assms(1) call by (auto simp: Run_def numbered_def split: sum.splits)
  have "\<exists>qs. numbered s qs"
    by (rule run_steps_invariant [OF assms(2)]) (use \<open>numbered s0 []\<close> numbered_step [OF _ _ assms(3)] in blast)+
  then show ?thesis unfolding numbered_def by (auto simp: list_all_iff)
qed

text \<open>The first report.\<close>

definition ex_reported :: "(http_request list \<times> unit, unit) run" where
  "ex_reported = (runHeartbeat (recorded ex_refusing) ex_docker ^^ 2)
     (projr (fst (Run (recorded ex_refusing) ex_new_worker False () ([], ()))))"

theorem reports_numbered_witness:
  "\<exists>q. report_bodies (fst (ru_Net ex_reported)) = [Some (enc_ReportNodeStatusRequest q)] \<and> rn_Sequence q \<noteq> 0"
proof -
  let ?CE = "recorded ex_refusing" and ?run = "Run (recorded ex_refusing) ex_new_worker False () ([], ())"
  have "isl (fst ?run) = False" by code_simp
  then obtain s0 m where run: "?run = (Inr s0, m)" by (cases ?run; cases "fst ?run") auto
  have steps: "run_steps ?CE ex_docker (\<lambda>x y. False) s0 ex_reported"
    unfolding ex_reported_def run by (simp only: fst_conv sum.sel heartbeat_steps)
  have "length (report_bodies (fst (ru_Net ex_reported))) = 1" by code_simp
  moreover obtain qs where "report_bodies (fst (ru_Net ex_reported)) = map (\<lambda>q. Some (enc_ReportNodeStatusRequest q)) qs"
    "list_all (\<lambda>q. rn_Sequence q \<noteq> 0 \<and> rn_SessionID q = w_sessionID (ru_Worker ex_reported)) qs"
    using reports_numbered [OF run steps] by blast
  ultimately show ?thesis by (cases qs) auto
qed

section \<open>Error answers of the server\<close>

text \<open>A client whose other side is the server, and one that is a node there.\<close>

definition server_client :: "'db env \<Rightarrow> 'db network client_env \<Rightarrow> Client \<Rightarrow> bool" where
  "server_client E CE c \<longleftrightarrow>
     ce_Do CE = server_Do E \<and> (\<forall>verb u p. ce_NewRequest CE verb u p = None)
     \<and> ca_Certificate (e_ca E) \<in> set (cl_roots c) \<and> e_VerifyClient E (cl_pair c)"

definition node_client :: "'db env \<Rightarrow> 'db network client_env \<Rightarrow> Client \<Rightarrow> string \<Rightarrow> bool" where
  "node_client E CE c nodeID \<longleftrightarrow>
     server_client E CE c \<and> root_url (cl_baseURL c)
     \<and> ct_CommonName (cl_pair c) = ''hambo:node:'' @ nodeID \<and> nodeID \<noteq> []
     \<and> ''hambo:nodes'' \<in> set (ct_Organization (cl_pair c))"

lemma node_client_server: "node_client E CE c nodeID \<Longrightarrow> server_client E CE c"
  by (simp add: node_client_def)

definition client_request :: "Client \<Rightarrow> string \<Rightarrow> string \<Rightarrow> json option \<Rightarrow> http_request" where
  "client_request c verb path input =
     \<lparr>hq_Method = verb, hq_URL = cl_baseURL c, hq_Path = path,
      hq_Header = (if input = None then [] else [(''Content-Type'', ''application/json'')]),
      hq_Body = input, hq_Roots = Some (cl_roots c), hq_Pair = Some (cl_pair c)\<rparr>"

lemma client_request_sent:
  assumes "server_client E CE c"
  shows "newRequest CE c verb path input = Inr (client_request c verb path input)"
    and "trusts E (client_request c verb path input)" and "valid_header (client_request c verb path input)"
proof -
  have "list_all (\<lambda>c. code c = 9 \<or> 32 \<le> code c \<and> code c \<noteq> 127) ''application/json''" by code_simp
  then show "newRequest CE c verb path input = Inr (client_request c verb path input)"
    "trusts E (client_request c verb path input)" "valid_header (client_request c verb path input)"
    using assms by (simp_all add: server_client_def newRequest_def client_request_def trusts_def valid_header_def)
qed

text \<open>What \<open>do\<close> makes of an error answer.\<close>

lemma error_answer:
  assumes "hr_Response hr = resp" and "299 < rs_Status resp" and "hr_CtxErr hr = None" and "hr_DecodeErr hr = None"
    and "hr_DrainErr hr = None" and "rs_Body resp = JsonBody (enc_ErrorResponse message fs)"
  shows "\<not> success hr" and "errors_Is (readResponseError hr) k \<longleftrightarrow> errorFromStatus (rs_Status resp) = Some k"
  using assms by (simp_all add: success_def readResponseError_def drainResponseBody_def decodeResponseError_def
      body_documents_def Decode_def client_Error_def split: option.splits)

lemma errors_written:
  "rs_Status (writeErrorJSON st message) = st"
  "rs_Body (writeErrorJSON st message) = JsonBody (enc_ErrorResponse message [])"
  by (simp_all add: writeErrorJSON_def writeJSON_def)

text \<open>
  Claim C34: the client tells the kinds of errors apart by the status of the answer. For every
  client whose certificate the server accepts and every request, an error answer of the API
  that arrives makes the call fail with an error of the kind of its status: an invalid argument
  for 400, 415 and 422, unauthenticated for 401, permission denied for 403, not found for 404,
  method not allowed for 405, conflict for 409, internal for 500, unavailable for 503. It is of
  no other kind, and of no kind for any other status.
\<close>

theorem api_error_kinds:
  assumes "server_client E CE c" and "nw_faults nw (nw_count nw) = Delivered"
    and "serve E (nw_rng nw (nw_count nw)) (server_request E (client_request c verb path input)) (nw_state nw)
      = (resp, s')" and "rs_Body resp = JsonBody (enc_ErrorResponse message fs)" and "299 < rs_Status resp"
  shows "\<exists>e nw'. client_do CE c verb path input output nw = (Inl e, nw') \<and> nw_state nw' = s'
    \<and> (\<forall>k. errors_Is e k \<longleftrightarrow>
         k = ErrInvalidArgument \<and> rs_Status resp \<in> {400, 415, 422}
         \<or> k = ErrUnauthenticated \<and> rs_Status resp = 401 \<or> k = ErrPermissionDenied \<and> rs_Status resp = 403
         \<or> k = ErrNotFound \<and> rs_Status resp = 404 \<or> k = ErrMethodNotAllowed \<and> rs_Status resp = 405
         \<or> k = ErrConflict \<and> rs_Status resp = 409 \<or> k = ErrInternal \<and> rs_Status resp = 500
         \<or> k = ErrUnavailable \<and> rs_Status resp = 503)"
proof -
  let ?hr = "client_response E None resp"
  have "ce_Do CE = server_Do E" using assms(1) by (simp add: server_client_def)
  moreover have "server_Do E (client_request c verb path input) nw
      = (Inr ?hr, nw\<lparr>nw_count := Suc (nw_count nw), nw_state := s'\<rparr>)"
    by (rule server_Do_delivered [OF client_request_sent(3,2) [OF assms(1)] assms(2,3)])
  moreover have "\<not> success ?hr" "\<And>k. errors_Is (readResponseError ?hr) k \<longleftrightarrow> errorFromStatus (rs_Status resp) = Some k"
    using error_answer [of ?hr resp message fs] assms(4,5) by simp_all
  moreover have "errorFromStatus (rs_Status resp) = Some k \<longleftrightarrow>
         k = ErrInvalidArgument \<and> rs_Status resp \<in> {400, 415, 422}
         \<or> k = ErrUnauthenticated \<and> rs_Status resp = 401 \<or> k = ErrPermissionDenied \<and> rs_Status resp = 403
         \<or> k = ErrNotFound \<and> rs_Status resp = 404 \<or> k = ErrMethodNotAllowed \<and> rs_Status resp = 405
         \<or> k = ErrConflict \<and> rs_Status resp = 409 \<or> k = ErrInternal \<and> rs_Status resp = 500
         \<or> k = ErrUnavailable \<and> rs_Status resp = 503" for k
    by (auto simp: errorFromStatus_def status_defs StatusMethodNotAllowed_def StatusServiceUnavailable_def)
  ultimately show ?thesis
    by (simp add: client_do_def client_request_sent(1) [OF assms(1)])
qed

lemma ex_node_client: "node_client ex_server ex_client ex_node ''6e''"
  by (simp add: node_client_def server_client_def root_url_def ex_server_def ex_client_def ex_node_def ex_env_def ex_ca_def ex_certificate_def)

text \<open>A node that asks for a token.\<close>

theorem api_error_kinds_witness:
  "\<exists>e nw'. client_do ex_client ex_node ''POST'' ''tokens'' (Some (JObj [])) (None :: (json \<Rightarrow> unit result) option)
      (ex_network ex4 []) = (Inl e, nw') \<and> errors_Is e ErrPermissionDenied"
proof -
  let ?req = "server_request ex_server (client_request ex_node ''POST'' ''tokens'' (Some (JObj [])))"
  have "fst (serve ex_server (ex_rng ''n'' 1) ?req ex4) = writeErrorJSON 403 ''permission denied''"
    by code_simp
  then have "serve ex_server (ex_rng ''n'' 1) ?req ex4
      = (writeErrorJSON 403 ''permission denied'', snd (serve ex_server (ex_rng ''n'' 1) ?req ex4))"
    by (simp add: prod_eq_iff)
  then show ?thesis
    using api_error_kinds [OF node_client_server [OF ex_node_client], of "ex_network ex4 []" "''POST''" "''tokens''"
        "Some (JObj [])" "writeErrorJSON 403 ''permission denied''" _ "''permission denied''" "[]"]
    by (fastforce simp: ex_network_def errors_written)
qed

section \<open>A worker whose session was replaced\<close>

abbreviation report_http :: "Worker \<Rightarrow> bool \<Rightarrow> http_request" where
  "report_http w ready \<equiv> client_request (w_apiClient w) ''POST'' ''nodes/self/status''
     (Some (enc_ReportNodeStatusRequest (heartbeat_report w ready)))"

lemma serve_report:
  assumes "root_url (cl_baseURL (w_apiClient w))"
  shows "serve E g (server_request E (report_http w ready)) s
     = nodeOnly E (reportNodeStatusHandler E (g_now g)) (server_request E (report_http w ready)) s"
proof -
  let ?r = "server_request E (report_http w ready)"
  have "rq_Path ?r = ''/nodes/self/status''" using root_paths [OF assms] by (simp add: client_request_def)
  moreover have "rq_Method ?r = ''POST''" by (simp add: server_request_def client_request_def)
  ultimately have "route_of ?r = Server.ReportNodeStatus" by (simp add: route_of_clean match_pattern_def)
  then show ?thesis by (simp add: serve_def addRoutes_def)
qed

lemma node_client_admitted:
  assumes "hambo_db (e_B E)" and "db_works (e_B E)" and "state_inv (e_B E) s"
    and "node_client E CE c nodeID" and "node_tbl (e_B E) (st_db s) nodeID = Some n"
  shows "nodeOnly E next (server_request E (client_request c verb path input)) s
    = next ((server_request E (client_request c verb path input))\<lparr>rq_NodeID := Some nodeID\<rparr>) s"
proof -
  let ?r = "server_request E (client_request c verb path input)"
  obtain m where "Store.Get (e_B E) nodes_collection nodeID (st_db s) = Inr m"
    using hambo_db.get_node [OF assms(1,2), of "st_db s" nodeID] assms(3,5) by (auto simp: state_inv_def)
  moreover have "authenticated ?r" "leaf_certificate ?r = cl_pair c"
    by (simp_all add: authenticated_def leaf_certificate_def server_request_def client_request_def)
  moreover have "ct_CommonName (cl_pair c) = ''hambo:node:'' @ nodeID"
    using assms(4) unfolding node_client_def by (elim conjE)
  then have "CutPrefix (ct_CommonName (cl_pair c)) ''hambo:node:'' = (nodeID, True)"
    by (simp only: CutPrefix_append)
  moreover have "nodeID \<noteq> []" "''hambo:nodes'' \<in> set (ct_Organization (cl_pair c))"
    using assms(4) by (simp_all add: node_client_def)
  ultimately show ?thesis unfolding nodeOnly_def by (simp add: requireGroup_cases)
qed

lemma report_status_request:
  assumes "length (e_json_text E (enc_ReportNodeStatusRequest (heartbeat_report w ready))) \<le> maxStatusRequestSize"
    and "TrimSpace (w_sessionID w) \<noteq> []" and "w_sequence w \<noteq> 0"
  shows "status_request ((server_request E (report_http w ready))\<lparr>rq_NodeID := Some nodeID\<rparr>) nodeID
    (heartbeat_report w ready)"
  using assms by (simp add: status_request_def readJSON_Inr server_request_def client_request_def header_value_def
      not_less) (simp add: heartbeat_report_def)

lemma heartbeat_stays_ended:
  assumes "run_steps CE D others s v" and "ru_Heartbeat s = HB_ended x"
  shows "ru_Heartbeat v = HB_ended x"
  by (rule run_steps_invariant [OF assms(1), where P = "\<lambda>s. ru_Heartbeat s = HB_ended x", OF assms(2)])
    (auto elim!: run_step_cases)

text \<open>
  Claim C31: a worker whose session was replaced stops and changes nothing. When another session
  was opened for its node, the next report that arrives is refused, the stored data stay as they
  are, the heartbeat ends with the conflict, and whatever else happens, \<open>Run\<close> returns nothing
  but an error that is this conflict.
\<close>

theorem superseded_worker_stops:
  assumes "hambo_db (e_B E)" and "db_works (e_B E)" and inv: "state_inv (e_B E) (nw_state (ru_Net s))"
    and c: "node_client E CE (w_apiClient (ru_Worker s)) nodeID"
    and hb: "ru_Heartbeat s = HB_report ready" and run: "\<not> ru_Cancelled s"
    and node: "node_tbl (e_B E) (st_db (nw_state (ru_Net s))) nodeID = Some n"
      "n_StatusSessionID n \<noteq> w_sessionID (ru_Worker s)"
    and size: "length (e_json_text E (enc_ReportNodeStatusRequest (heartbeat_report (ru_Worker s) ready)))
      \<le> maxStatusRequestSize"
    and sent: "TrimSpace (w_sessionID (ru_Worker s)) \<noteq> []" "w_sequence (ru_Worker s) \<noteq> 0"
    and delivered: "nw_faults (ru_Net s) (nw_count (ru_Net s)) = Delivered"
    and s2: "s2 = runHeartbeat CE D (runHeartbeat CE D s)"
  shows "nw_state (ru_Net s2) = nw_state (ru_Net s)
    \<and> (\<exists>e. ru_Heartbeat s2 = HB_ended (Some e) \<and> errors_Is e ErrConflict)
    \<and> (\<forall>v r. run_steps CE D others s2 v \<longrightarrow> Run_result v = Some r \<longrightarrow> (\<exists>e. r = Some e \<and> errors_Is e ErrConflict))"
proof -
  let ?nw = "ru_Net s" and ?w = "ru_Worker s" and ?answer = "status_answer (Some (Sentinel ErrConflict))"
  let ?hr = "client_response E None ?answer" and ?nw' = "?nw\<lparr>nw_count := Suc (nw_count ?nw)\<rparr>"
  have base: "root_url (cl_baseURL (w_apiClient ?w))" using c by (simp add: node_client_def)
  have dbi: "db_inv (e_B E) (st_db (nw_state ?nw))" using inv by (simp add: state_inv_def)
  have "serve E (nw_rng ?nw (nw_count ?nw)) (server_request E (report_http ?w ready)) (nw_state ?nw)
      = (?answer, nw_state ?nw)"
    unfolding serve_report [OF base] node_client_admitted [OF assms(1,2) inv c node(1)]
    by (rule report_decided(1) [OF assms(1,2) dbi report_status_request [OF size sent] node(1)])
      (use node(2) in \<open>simp add: heartbeat_report_def\<close>)
  then have "server_Do E (report_http ?w ready) ?nw = (Inr ?hr, ?nw')"
    using server_Do_delivered [OF client_request_sent(3,2) [OF node_client_server [OF c]] delivered] by simp
  moreover have err: "\<not> success ?hr" "errors_Is (readResponseError ?hr) ErrConflict"
    using error_answer [of ?hr ?answer "''node reporting session is no longer current; create a new session''" "[]"]
    by (simp_all add: status_answer_def errors_written status_defs errorFromStatus_def)
  moreover have "ce_Do CE = server_Do E" using c by (simp add: node_client_def server_client_def)
  ultimately have "Client.ReportNodeStatus CE (w_apiClient ?w) (heartbeat_report ?w ready) ?nw
      = (Some (readResponseError ?hr), ?nw')"
    by (simp add: Client.ReportNodeStatus_def client_do_def client_request_sent(1) [OF node_client_server [OF c]])
  then have two: "s2 = s\<lparr>ru_Net := ?nw', ru_Heartbeat := HB_ended (Some (Wrap ''report node status'' (readResponseError ?hr)))\<rparr>"
    using hb run err(2) by (simp add: s2 runHeartbeat_def permanent_def)
  have "\<exists>e. r = Some e \<and> errors_Is e ErrConflict" if "run_steps CE D others s2 v" "Run_result v = Some r" for v r
    using heartbeat_stays_ended [OF that(1)] that(2) err(2)
    by (auto simp: two Run_result_def errors_Join_def List.map_filter_def split: option.splits)
  then show ?thesis using two err(2) by simp
qed

theorem superseded_worker_stops_witness:
  "\<exists>e. ru_Heartbeat (runHeartbeat ex_client ex_docker (runHeartbeat ex_client ex_docker
        (ex_run (ex_network ex4 []) ''old'' 5))) = HB_ended (Some e) \<and> errors_Is e ErrConflict"
proof -
  let ?s = "ex_run (ex_network ex4 []) ''old'' 5"
  have "map_option n_StatusSessionID (node_tbl mem_bolt (st_db ex4) ''6e'') = Some ''78''" by code_simp
  then obtain n where n: "node_tbl mem_bolt (st_db ex4) ''6e'' = Some n" "n_StatusSessionID n = ''78''" by auto
  have "length (e_json_text ex_server (enc_ReportNodeStatusRequest (heartbeat_report (ru_Worker ?s) True)))
      \<le> maxStatusRequestSize" "TrimSpace ''old'' \<noteq> []" by code_simp+
  then show ?thesis
    using superseded_worker_stops [of ex_server ?s ex_client "''6e''" True n, OF _ _ _ _ _ _ _ _ _ _ _ _ refl,
        of ex_docker "\<lambda>x y. False"] ex_hambo(1) mem_bolt_works ex4_inv ex_node_client n
    by (simp add: ex_run_def ex_network_def ex_server_def)
qed

end
