(* ===== verification/Pki_Files.thy ===== *)
theory Pki_Files
  imports Files Pki
begin

text \<open>
  \<open>internal/pki/save.go\<close>: a certificate and its key are written to two new files, or to none, and
  removed. \<open>pki_env\<close> holds what the program uses of \<open>encoding/pem\<close>, \<open>crypto/x509\<close> and
  \<open>crypto/tls\<close> here.
\<close>

section \<open>Writing and removing\<close>

record pki_env =
  pk_X :: x509
  pk_MarshalPKCS8 :: "private_key \<Rightarrow> string result"
  pk_PemEncode :: "string \<Rightarrow> string \<Rightarrow> string"
  pk_X509KeyPair :: "content \<Rightarrow> content \<Rightarrow> (string \<times> private_key) result"

text \<open>Write and close a file that was just opened; the error, if any.\<close>

definition write_and_close :: "string \<Rightarrow> string \<Rightarrow> data \<Rightarrow> 'n world \<Rightarrow> error option \<times> 'n world" where
  "write_and_close what path d w =
     (case file_Write path d w of
        (Inl e, w1) \<Rightarrow>
          (case file_Close path w1 of
             (Inl closeErr, w2) \<Rightarrow> (errors_Join [Some (Wrap (''write '' @ what) e), Some closeErr], w2)
           | (Inr _, w2) \<Rightarrow> (errors_Join [Some (Wrap (''write '' @ what) e), None], w2))
      | (Inr _, w1) \<Rightarrow>
          (case file_Close path w1 of
             (Inl e, w2) \<Rightarrow> (Some (Wrap (''close '' @ what) e), w2)
           | (Inr _, w2) \<Rightarrow> (None, w2)))"

text \<open>The deferred removal: its error joins the one that is returned.\<close>

definition remove_joining :: "string \<Rightarrow> string \<Rightarrow> error \<times> 'n world \<Rightarrow> error \<times> 'n world" where
  "remove_joining message path p =
     (case remove_if_present message path (snd p) of
        (None, w) \<Rightarrow> (fst p, w)
      | (Some e, w) \<Rightarrow> (Multi ''join'' [fst p, e], w))"

definition crt_path :: "string \<Rightarrow> string \<Rightarrow> string" where
  "crt_path dir name = path_Join dir (name @ ''.crt'')"

definition key_path :: "string \<Rightarrow> string \<Rightarrow> string" where
  "key_path dir name = path_Join dir (name @ ''.key'')"

text \<open>The body of \<open>saveCertificate\<close> after the first file was created: whether it created the second, and its error.\<close>

definition write_pair ::
  "string \<Rightarrow> string \<Rightarrow> string \<Rightarrow> string \<Rightarrow> 'n world \<Rightarrow> (bool \<times> error option) \<times> 'n world" where
  "write_pair certificatePath keyPath certificatePEM keyPEM w =
     (case write_and_close ''certificate file'' certificatePath (Bytes certificatePEM) w of
        (Some e, w1) \<Rightarrow> ((False, Some e), w1)
      | (None, w1) \<Rightarrow>
          (case os_CreateExclusive keyPath w1 of
             (Inl e, w2) \<Rightarrow> ((False, Some (Wrap ''create private key file'' e)), w2)
           | (Inr _, w2) \<Rightarrow>
               (case write_and_close ''private key file'' keyPath (Bytes keyPEM) w2 of
                  (e, w3) \<Rightarrow> ((True, e), w3))))"

text \<open>Its deferred function, when there is an error.\<close>

definition remove_incomplete :: "bool \<Rightarrow> string \<Rightarrow> string \<Rightarrow> error \<times> 'n world \<Rightarrow> error \<times> 'n world" where
  "remove_incomplete keyCreated certificatePath keyPath p =
     remove_joining ''remove incomplete certificate file'' certificatePath
       (if keyCreated then remove_joining ''remove incomplete certificate file'' keyPath p else p)"

definition saveCertificate :: "pki_env \<Rightarrow> string \<Rightarrow> string \<Rightarrow> certificate \<Rightarrow> private_key \<Rightarrow> ('n, unit) io" where
  "saveCertificate K dir name c privateKey =
     bind_io (return_io (map_error (Wrap ''encode private key'') (pk_MarshalPKCS8 K privateKey))) (\<lambda>keyDER.
     bind_io (wrap_io ''create certificate directory'' (os_MkdirAll dir)) (\<lambda>_.
     bind_io (wrap_io ''create certificate file'' (os_CreateExclusive (crt_path dir name))) (\<lambda>_ w.
       case write_pair (crt_path dir name) (key_path dir name)
              (pk_PemEncode K ''CERTIFICATE'' (ct_Raw c)) (pk_PemEncode K ''PRIVATE KEY'' keyDER) w of
         ((keyCreated, None), w1) \<Rightarrow> (Inr (), w1)
       | ((keyCreated, Some e), w1) \<Rightarrow>
           (case remove_incomplete keyCreated (crt_path dir name) (key_path dir name) (e, w1) of
              (e', w2) \<Rightarrow> (Inl e', w2)))))"

text \<open>The loop's \<open>removeErr = errors.Join(removeErr, err)\<close>, when there is an error.\<close>

definition add_error :: "error option \<Rightarrow> error option \<Rightarrow> error option" where
  "add_error acc e = (if e = None then acc else errors_Join [acc, e])"

definition removeCertificate :: "string \<Rightarrow> string \<Rightarrow> 'n world \<Rightarrow> error option \<times> 'n world" where
  "removeCertificate dir name w =
     (case remove_if_present ''remove certificate file'' (crt_path dir name) w of
        (e1, w1) \<Rightarrow>
          (case remove_if_present ''remove certificate file'' (key_path dir name) w1 of
             (e2, w2) \<Rightarrow> (add_error (add_error None e1) e2, w2)))"

definition CA_Save :: "pki_env \<Rightarrow> CA \<Rightarrow> string \<Rightarrow> ('n, unit) io" where
  "CA_Save K ca dir = saveCertificate K dir ''ca'' (ca_Certificate ca) (ca_PrivateKey ca)"

definition CA_Remove :: "string \<Rightarrow> 'n world \<Rightarrow> error option \<times> 'n world" where
  "CA_Remove dir = removeCertificate dir ''ca''"

definition Certificate_Save :: "pki_env \<Rightarrow> Certificate \<Rightarrow> string \<Rightarrow> string \<Rightarrow> ('n, unit) io" where
  "Certificate_Save K c dir name = saveCertificate K dir name (crt_Certificate c) (crt_PrivateKey c)"

definition Certificate_Remove :: "string \<Rightarrow> string \<Rightarrow> 'n world \<Rightarrow> error option \<times> 'n world" where
  "Certificate_Remove dir name = removeCertificate dir name"

text \<open>
  \<open>LoadCA\<close> reads the two files with \<open>tls.LoadX509KeyPair\<close>; the leaf and the key it finds are what
  \<open>LoadCA\<close> of theory \<open>Pki\<close> checks.
\<close>

definition LoadX509KeyPair :: "pki_env \<Rightarrow> string \<Rightarrow> string \<Rightarrow> ('n, string \<times> private_key) io" where
  "LoadX509KeyPair K certFile keyFile =
     bind_io (os_ReadFile certFile) (\<lambda>certPEM.
     bind_io (os_ReadFile keyFile) (\<lambda>keyPEM.
       return_io (pk_X509KeyPair K certPEM keyPEM)))"

definition LoadCA_files :: "pki_env \<Rightarrow> string \<Rightarrow> ('n, CA) io" where
  "LoadCA_files K dir w =
     (case LoadX509KeyPair K (crt_path dir ''ca'') (key_path dir ''ca'') w of
        (pair, w') \<Rightarrow> (LoadCA (pk_X K) pair, w'))"

section \<open>Failed clean-ups\<close>

text \<open>The messages that tell that a file could not be removed.\<close>

definition cleanup_messages :: "string set" where
  "cleanup_messages = {''remove incomplete certificate file'', ''remove certificate file'',
     ''remove incomplete CLI configuration file''}"

fun cleanup_failed :: "error \<Rightarrow> bool" where
  "cleanup_failed (Sentinel s) = False"
| "cleanup_failed (Msg m) = False"
| "cleanup_failed (Wrap m e) = (m \<in> cleanup_messages \<or> cleanup_failed e)"
| "cleanup_failed (Multi m es) = list_ex cleanup_failed es"

section \<open>What they do\<close>

lemma path_Join_inj [simp]: "path_Join d a = path_Join d b \<longleftrightarrow> a = b"
  by (simp add: path_Join_def)

lemma crt_key_differ [simp]:
  "crt_path d a \<noteq> key_path d b" "key_path d b \<noteq> crt_path d a"
  "crt_path d a = crt_path d b \<longleftrightarrow> a = b" "key_path d a = key_path d b \<longleftrightarrow> a = b"
  by (auto simp: crt_path_def key_path_def path_Join_def dest: arg_cong [of _ _ rev])

lemma write_and_close_D:
  assumes "write_and_close what p d w = (e, w')"
  shows "w_net w' = w_net w" and "\<exists>c. w_files w' = (w_files w)(p \<mapsto> c)"
    and "e = None \<Longrightarrow> w_files w' = (w_files w)(p \<mapsto> Whole d)"
    and "always P w \<Longrightarrow> (\<And>c. P ((w_files w)(p \<mapsto> c)) (w_net w)) \<Longrightarrow> always P w'"
  using assms unfolding write_and_close_def
  by (auto simp: goes_def errors_Join_def List.map_filter_def dest!: call_Ds elim!: trail_always
      split: prod.splits sum.splits)

lemma remove_joining_D:
  assumes "remove_joining msg p (e, w) = (e', w')"
  shows "w_net w' = w_net w"
    and "e' = e \<and> w_files w' = (w_files w)(p := None)
      \<or> (\<exists>m. e' = Multi ''join'' [e, Wrap msg (Msg m)]) \<and> w_files w' = w_files w"
    and "always P w \<Longrightarrow> P ((w_files w)(p := None)) (w_net w) \<Longrightarrow> always P w'"
  using assms unfolding remove_joining_def
  by (auto simp: goes_def dest!: remove_if_present_D elim!: trail_always dest: always_now split: prod.splits option.splits)

lemma write_pair_D:
  assumes "write_pair p q a b w = ((made, e), w')" and "p \<noteq> q"
  shows "w_net w' = w_net w"
    and "e = None \<Longrightarrow> w_files w q = None \<and> w_files w' = (w_files w)(p \<mapsto> Whole (Bytes a), q \<mapsto> Whole (Bytes b))"
    and "if made then w_files w q = None \<and> (\<exists>c d. w_files w' = (w_files w)(p \<mapsto> c, q \<mapsto> d))
      else \<exists>c. w_files w' = (w_files w)(p \<mapsto> c)"
    and "always P w \<Longrightarrow> (\<And>c. P ((w_files w)(p \<mapsto> c)) (w_net w)) \<Longrightarrow>
      (\<And>c d. w_files w q = None \<Longrightarrow> P ((w_files w)(p \<mapsto> c, q \<mapsto> d)) (w_net w)) \<Longrightarrow> always P w'"
proof -
  obtain e1 w1 where 1: "write_and_close ''certificate file'' p (Bytes a) w = (e1, w1)" by fastforce
  obtain r2 w2 where 2: "os_CreateExclusive q w1 = (r2, w2)" by fastforce
  obtain e3 w3 where 3: "write_and_close ''private key file'' q (Bytes b) w2 = (e3, w3)" by fastforce
  note d1 = write_and_close_D [OF 1] and d2 = os_CreateExclusive_D [OF 2] and d3 = write_and_close_D [OF 3]
  obtain c1 where c1: "w_files w1 = (w_files w)(p \<mapsto> c1)" using d1(2) by blast
  have run: "((made, e), w') = (case e1 of Some x \<Rightarrow> ((False, Some x), w1)
      | None \<Rightarrow> (case r2 of Inl x \<Rightarrow> ((False, Some (Wrap ''create private key file'' x)), w2) | Inr _ \<Rightarrow> ((True, e3), w3)))"
    using assms(1) 1 2 3 by (auto simp: write_pair_def split: option.splits sum.splits)
  have files2: "w_files w2 = w_files w1 \<and> (\<exists>x. r2 = Inl x)
      \<or> w_files w1 q = None \<and> r2 = Inr () \<and> w_files w2 = (w_files w1)(q \<mapsto> Whole (Bytes []))"
    using d2 by (auto simp: goes_def)
  have net2: "w_net w2 = w_net w" using d2 d1(1) by (auto simp: goes_def)
  have upd: "w_files w1 q = None \<Longrightarrow> w_files w q = None" using c1 assms(2) by simp
  show "w_net w' = w_net w" using run d1(1) net2 d3(1) by (auto split: option.splits sum.splits)
  show "e = None \<Longrightarrow> w_files w q = None \<and> w_files w' = (w_files w)(p \<mapsto> Whole (Bytes a), q \<mapsto> Whole (Bytes b))"
    using run files2 d1(3) d3(3) upd by (auto split: option.splits sum.splits)
  show "if made then w_files w q = None \<and> (\<exists>c d. w_files w' = (w_files w)(p \<mapsto> c, q \<mapsto> d))
      else \<exists>c. w_files w' = (w_files w)(p \<mapsto> c)"
    using run files2 c1 d3(2) upd by (auto split: option.splits sum.splits)
  assume alw: "always P w" "\<And>c. P ((w_files w)(p \<mapsto> c)) (w_net w)"
    "\<And>c d. w_files w q = None \<Longrightarrow> P ((w_files w)(p \<mapsto> c, q \<mapsto> d)) (w_net w)"
  have a1: "always P w1" using d1(4) alw(1,2) by blast
  have a2: "always P w2"
    using d2 a1 always_now [OF a1] alw(3) c1 d1(1) upd by (auto simp: goes_def elim!: trail_always)
  have a3: "always P w3" if "r2 = Inr ()"
  proof (rule d3(4) [OF a2])
    fix c
    have "w_files w q = None" "w_files w2 = (w_files w)(p \<mapsto> c1, q \<mapsto> Whole (Bytes []))"
      using files2 that c1 upd by auto
    then show "P ((w_files w2)(q \<mapsto> c)) (w_net w2)" using alw(3) [of c1 c] net2 by simp
  qed
  show "always P w'" using run a1 a2 a3 by (auto split: option.splits sum.splits)
qed

lemma remove_incomplete_D:
  assumes "remove_incomplete made p q (e, w) = (e', w')"
  shows "w_net w' = w_net w"
    and "w_files w' = (if made then (w_files w)(q := None, p := None) else (w_files w)(p := None)) \<or> cleanup_failed e'"
    and "always P w \<Longrightarrow> (\<And>fs. (\<And>x. fs x = w_files w x \<or> (x = p \<or> made \<and> x = q) \<and> fs x = None) \<Longrightarrow> P fs (w_net w)) \<Longrightarrow>
      always P w'"
    and "w_files w' x = w_files w x \<or> (x = p \<or> made \<and> x = q) \<and> w_files w' x = None"
proof -
  let ?msg = "''remove incomplete certificate file''"
  have msg: "?msg \<in> cleanup_messages" by (simp add: cleanup_messages_def)
  obtain e1 w1 where 1: "(if made then remove_joining ?msg q (e, w) else (e, w)) = (e1, w1)" by fastforce
  have 2: "remove_joining ?msg p (e1, w1) = (e', w')" using assms 1 by (simp add: remove_incomplete_def)
  note d2 = remove_joining_D [OF 2]
  have d1: "w_net w1 = w_net w" "w_files w1 = (if made then (w_files w)(q := None) else w_files w)
      \<or> w_files w1 = w_files w \<and> made \<and> cleanup_failed e1"
    using 1 remove_joining_D(1,2) [of ?msg q e w e1 w1] msg by (auto split: if_splits)
  show "w_net w' = w_net w" using d1(1) d2(1) by simp
  show "w_files w' = (if made then (w_files w)(q := None, p := None) else (w_files w)(p := None)) \<or> cleanup_failed e'"
    using d1(2) d2(2) msg by auto
  show "w_files w' x = w_files w x \<or> (x = p \<or> made \<and> x = q) \<and> w_files w' x = None"
    using d1(2) d2(2) by (auto split: if_splits)
  assume alw: "always P w" "\<And>fs. (\<And>x. fs x = w_files w x \<or> (x = p \<or> made \<and> x = q) \<and> fs x = None) \<Longrightarrow> P fs (w_net w)"
  have "always P w1"
    using 1 remove_joining_D(3) [of ?msg q e w e1 w1 P] alw by (auto split: if_splits)
  then show "always P w'"
    by (rule d2(3)) (use d1 in \<open>auto intro!: alw(2) split: if_splits\<close>)
qed

text \<open>What \<open>saveCertificate\<close> leaves, and what it passes through: files that exist stay as they are.\<close>

definition untouched :: "files \<Rightarrow> files \<Rightarrow> bool" where
  "untouched old fs \<longleftrightarrow> (\<forall>p c. old p = Some c \<longrightarrow> fs p = Some c)"

lemma untouched_refl [simp]: "untouched fs fs"
  by (simp add: untouched_def)

lemma untouched_new [simp]:
  "old p = None \<Longrightarrow> untouched old (old(p := c))"
  "old p = None \<Longrightarrow> old q = None \<Longrightarrow> untouched old (old(p := c, q := d))"
  by (simp_all add: untouched_def)

lemma saveCertificate_D:
  assumes "saveCertificate K dir name c k w = (r, w')"
  shows "w_net w' = w_net w"
    and "r = Inr () \<Longrightarrow> w_files w (crt_path dir name) = None \<and> w_files w (key_path dir name) = None
      \<and> (\<exists>der. pk_MarshalPKCS8 K k = Inr der \<and> w_files w' = (w_files w)
          (crt_path dir name \<mapsto> Whole (Bytes (pk_PemEncode K ''CERTIFICATE'' (ct_Raw c))),
           key_path dir name \<mapsto> Whole (Bytes (pk_PemEncode K ''PRIVATE KEY'' der))))"
    and "r = Inl e \<Longrightarrow> w_files w' = w_files w \<or> cleanup_failed e"
    and "always P w \<Longrightarrow> (\<And>fs. untouched (w_files w) fs \<Longrightarrow> P fs (w_net w)) \<Longrightarrow> always P w'"
    and "untouched (w_files w) (w_files w')"
proof -
  let ?p = "crt_path dir name" and ?q = "key_path dir name" and ?msg = "''remove incomplete certificate file''"
  let ?good = "\<lambda>r w'. w_net w' = w_net w \<and> untouched (w_files w) (w_files w')
    \<and> (\<forall>u. r = Inr u \<longrightarrow> w_files w ?p = None \<and> w_files w ?q = None
      \<and> (\<exists>der. pk_MarshalPKCS8 K k = Inr der \<and> w_files w' = (w_files w)
          (?p \<mapsto> Whole (Bytes (pk_PemEncode K ''CERTIFICATE'' (ct_Raw c))),
           ?q \<mapsto> Whole (Bytes (pk_PemEncode K ''PRIVATE KEY'' der)))))
    \<and> (\<forall>e. r = Inl e \<longrightarrow> w_files w' = w_files w \<or> cleanup_failed e)
    \<and> (always P w \<longrightarrow> (\<forall>fs. untouched (w_files w) fs \<longrightarrow> P fs (w_net w)) \<longrightarrow> always P w')"
  have stay: "?good (Inl e) v" if "w_files v = w_files w" "w_net v = w_net w" "always P w \<Longrightarrow> always P v" for e v
    using that by simp
  obtain r1 w1 where 1: "os_MkdirAll dir w = (r1, w1)" by fastforce
  obtain r2 w2 where 2: "os_CreateExclusive ?p w1 = (r2, w2)" by fastforce
  note g1 = os_MkdirAll_D [OF 1, unfolded goes_def] and g2 = os_CreateExclusive_D [OF 2, unfolded goes_def]
  have a1: "always P w \<Longrightarrow> always P w1" using g1 by (auto elim!: trail_always dest: always_now)
  have "?good r w'"
  proof (cases "(\<exists>der. pk_MarshalPKCS8 K k = Inr der) \<and> r1 = Inr () \<and> r2 = Inr ()")
    case False
    have "always P w1 \<Longrightarrow> r2 \<noteq> Inr () \<Longrightarrow> always P w2"
      using g2 by (auto elim!: trail_always dest: always_now)
    moreover have "r2 \<noteq> Inr () \<Longrightarrow> w_files w2 = w_files w \<and> w_net w2 = w_net w" using g1 g2 by auto
    moreover have "\<exists>e. r = Inl e \<and> (w' = w \<or> w' = w1 \<or> w' = w2 \<and> r2 \<noteq> Inr ())"
      using False assms 1 2
      by (cases r1; cases r2) (auto simp: saveCertificate_def sequencing_defs map_error_def split: sum.splits)
    ultimately show ?thesis using stay [of w'] a1 g1 by auto
  next
    case True
    then obtain der where der: "pk_MarshalPKCS8 K k = Inr der" by blast
    let ?a = "pk_PemEncode K ''CERTIFICATE'' (ct_Raw c)" and ?b = "pk_PemEncode K ''PRIVATE KEY'' der"
    have new: "w_files w ?p = None" "w_files w2 = (w_files w)(?p \<mapsto> Whole (Bytes []))" "w_net w2 = w_net w"
      using True g1 g2 by auto
    obtain made e w3 where 3: "write_pair ?p ?q ?a ?b w2 = ((made, e), w3)" by (metis prod.exhaust)
    note d3 = write_pair_D [OF 3 crt_key_differ(1)]
    have alw: "always P v" if "always P w2 \<Longrightarrow> always P v" "always P w" "\<forall>fs. untouched (w_files w) fs \<longrightarrow> P fs (w_net w)" for v
    proof (rule that(1))
      show "always P w2" using g2 True a1 [OF that(2)] that(3) new g1
        by (auto elim!: trail_always)
    qed
    have a3: "always P w3" if "always P w" "\<forall>fs. untouched (w_files w) fs \<longrightarrow> P fs (w_net w)"
    proof (rule alw [OF d3(4) that])
      show "P ((w_files w2)(?p \<mapsto> x)) (w_net w2)" for x
        using that(2) new by simp
      show "P ((w_files w2)(?p \<mapsto> x, ?q \<mapsto> y)) (w_net w2)" if "w_files w2 ?q = None" for x y
        using \<open>\<forall>fs. untouched (w_files w) fs \<longrightarrow> P fs (w_net w)\<close> that new by simp
    qed
    show ?thesis
    proof (cases e)
      case None
      then have "r = Inr () \<and> w' = w3"
        using assms True 1 2 3 der by (auto simp: saveCertificate_def sequencing_defs)
      then show ?thesis using d3(1,2) None new der a3 by auto
    next
      case (Some e0)
      obtain e' w4 where 4: "remove_incomplete made ?p ?q (e0, w3) = (e', w4)" by fastforce
      have r: "r = Inl e'" "w' = w4"
        using assms True 1 2 3 4 der Some by (auto simp: saveCertificate_def sequencing_defs)
      note d4 = remove_incomplete_D [OF 4]
      have key: "made \<Longrightarrow> w_files w ?q = None" using d3(3) new(2) by auto
      have files: "w_files w' = w_files w \<or> cleanup_failed e'"
        using d4(2)
      proof
        assume f4: "w_files w4 = (if made then (w_files w3)(?q := None, ?p := None) else (w_files w3)(?p := None))"
        have "w_files w4 x = w_files w x" for x
          using f4 d3(3) new(1,2) key by (cases "x = ?p"; cases "x = ?q") (auto split: if_splits)
        then show ?thesis using r(2) by (simp add: ext)
      qed simp
      have kept: "untouched (w_files w) (w_files w4)"
        unfolding untouched_def
      proof (intro allI impI)
        fix x y assume xy: "w_files w x = Some y"
        then have "x \<noteq> ?p" "\<not> (made \<and> x = ?q)" using new(1) key by auto
        then show "w_files w4 x = Some y" using d4(4) [of x] d3(3) new(2) xy by (auto split: if_splits)
      qed
      have "always P w4" if "always P w" "\<forall>fs. untouched (w_files w) fs \<longrightarrow> P fs (w_net w)"
      proof (rule d4(3) [OF a3 [OF that]])
        fix fs assume fs: "\<And>x. fs x = w_files w3 x \<or> (x = ?p \<or> made \<and> x = ?q) \<and> fs x = None"
        have "untouched (w_files w) fs"
          unfolding untouched_def
        proof (intro allI impI)
          fix x y assume xy: "w_files w x = Some y"
          then have "x \<noteq> ?p" "\<not> (made \<and> x = ?q)" using new(1) key by auto
          then show "fs x = Some y" using fs [of x] d3(3) new(2) xy by (auto split: if_splits)
        qed
        then show "P fs (w_net w3)" using that(2) d3(1) new(3) by simp
      qed
      then show ?thesis using files kept r d4(1) d3(1) new(3) by simp
    qed
  qed
  then show "w_net w' = w_net w"
    and "r = Inr () \<Longrightarrow> w_files w (crt_path dir name) = None \<and> w_files w (key_path dir name) = None
      \<and> (\<exists>der. pk_MarshalPKCS8 K k = Inr der \<and> w_files w' = (w_files w)
          (crt_path dir name \<mapsto> Whole (Bytes (pk_PemEncode K ''CERTIFICATE'' (ct_Raw c))),
           key_path dir name \<mapsto> Whole (Bytes (pk_PemEncode K ''PRIVATE KEY'' der))))"
    and "r = Inl e \<Longrightarrow> w_files w' = w_files w \<or> cleanup_failed e"
    and "always P w \<Longrightarrow> (\<And>fs. untouched (w_files w) fs \<Longrightarrow> P fs (w_net w)) \<Longrightarrow> always P w'"
    and "untouched (w_files w) (w_files w')"
    by blast+
qed

text \<open>Without faults it works, when the two files do not exist.\<close>

lemma write_and_close_quiet:
  assumes "w_faults w = []"
  shows "\<exists>v. write_and_close what p d w = (None, v) \<and> w_files v = (w_files w)(p \<mapsto> Whole d) \<and> w_faults v = []"
proof -
  obtain v where "file_Write p d w = (Inr (), v)" "w_files v = (w_files w)(p \<mapsto> Whole d)" "w_faults v = []"
    using quiet_calls(6) [OF assms, of p d] by auto
  then show ?thesis by (simp add: write_and_close_def quiet_calls)
qed

lemma saveCertificate_quiet:
  assumes "w_faults w = []" and "pk_MarshalPKCS8 K k = Inr der"
    and "w_files w (crt_path dir name) = None" and "w_files w (key_path dir name) = None"
  obtains v where "saveCertificate K dir name c k w = (Inr (), v)" "w_faults v = []"
proof -
  let ?p = "crt_path dir name" and ?q = "key_path dir name"
  let ?w2 = "snapshot (snapshot w\<lparr>w_files := (w_files w)(?p \<mapsto> Whole (Bytes []))\<rparr>)"
  obtain v3 where v3: "write_and_close ''certificate file'' ?p (Bytes (pk_PemEncode K ''CERTIFICATE'' (ct_Raw c))) ?w2
      = (None, v3)" "w_files v3 = (w_files w)(?p \<mapsto> Whole (Bytes (pk_PemEncode K ''CERTIFICATE'' (ct_Raw c))))"
      "w_faults v3 = []"
    using write_and_close_quiet [of ?w2 "''certificate file''" ?p
        "Bytes (pk_PemEncode K ''CERTIFICATE'' (ct_Raw c))"] assms(1) by auto
  let ?w4 = "snapshot (v3\<lparr>w_files := (w_files v3)(?q \<mapsto> Whole (Bytes []))\<rparr>)"
  have create: "os_CreateExclusive ?q v3 = (Inr (), ?w4)"
    by (rule quiet_calls(4) [OF v3(3)]) (use v3(2) assms(4) in simp)
  obtain v5 where v5: "write_and_close ''private key file'' ?q (Bytes (pk_PemEncode K ''PRIVATE KEY'' der)) ?w4
      = (None, v5)" "w_faults v5 = []"
    using write_and_close_quiet [of ?w4 "''private key file''" ?q "Bytes (pk_PemEncode K ''PRIVATE KEY'' der)"]
      v3(3) by auto
  show ?thesis
    by (rule that [of v5])
      (use assms v3(1) create v5 in \<open>simp_all add: saveCertificate_def write_pair_def sequencing_defs quiet_calls\<close>)
qed

end
