(* ===== verification/Cliconfig.thy ===== *)
theory Cliconfig
  imports Pki_Files
begin

text \<open>
  \<open>internal/cliconfig\<close>: the configuration of the command line tool, a YAML file. The YAML
  library is a parameter, \<open>yaml\<close>; its decoder takes the content of a file, whole or cut short.
\<close>

section \<open>Loading and saving\<close>

record cli_config =
  cc_ServerURL :: string
  cc_CACert :: string
  cc_ClientCert :: string
  cc_ClientKey :: string

record yaml =
  ya_Marshal :: "cli_config \<Rightarrow> string result"
  ya_Unmarshal :: "content \<Rightarrow> cli_config result"

definition check_config :: "cli_config \<Rightarrow> cli_config result" where
  "check_config cfg =
     (if cc_ServerURL cfg = [] then Inl (Msg ''CLI configuration: server URL is required'')
      else if cc_CACert cfg = [] then Inl (Msg ''CLI configuration: CA certificate is required'')
      else if cc_ClientCert cfg = [] then Inl (Msg ''CLI configuration: client certificate is required'')
      else if cc_ClientKey cfg = [] then Inl (Msg ''CLI configuration: client private key is required'')
      else Inr cfg)"

definition cliconfig_Load :: "yaml \<Rightarrow> string \<Rightarrow> ('n, cli_config) io" where
  "cliconfig_Load Y path =
     bind_io (wrap_io ''read CLI configuration'' (os_ReadFile path)) (\<lambda>data.
     bind_io (return_io (map_error (Wrap ''decode CLI configuration'')
        (ya_Unmarshal Y data))) (\<lambda>cfg.
       return_io (check_config cfg)))"

definition cliconfig_Save :: "yaml \<Rightarrow> string \<Rightarrow> cli_config \<Rightarrow> ('n, unit) io" where
  "cliconfig_Save Y path cfg =
     bind_io (return_io (map_error (Wrap ''encode CLI configuration'') (ya_Marshal Y cfg))) (\<lambda>data.
     bind_io (wrap_io ''create CLI configuration file'' (os_CreateExclusive path)) (\<lambda>_ w.
       case write_and_close ''CLI configuration'' path (Bytes data) w of
         (None, w1) \<Rightarrow> (Inr (), w1)
       | (Some e, w1) \<Rightarrow>
           (case remove_joining ''remove incomplete CLI configuration file'' path (e, w1) of
              (e', w2) \<Rightarrow> (Inl e', w2))))"

section \<open>What they do\<close>

lemma cliconfig_Save_D:
  assumes "cliconfig_Save Y path cfg w = (r, w')"
  shows "w_net w' = w_net w"
    and "r = Inr () \<Longrightarrow> w_files w path = None
      \<and> (\<exists>data. ya_Marshal Y cfg = Inr data \<and> w_files w' = (w_files w)(path \<mapsto> Whole (Bytes data)))"
    and "r = Inl e \<Longrightarrow> w_files w' = w_files w \<or> cleanup_failed e"
    and "always P w \<Longrightarrow> (\<And>fs. untouched (w_files w) fs \<Longrightarrow> P fs (w_net w)) \<Longrightarrow> always P w'"
    and "untouched (w_files w) (w_files w')"
proof -
  let ?msg = "''remove incomplete CLI configuration file''"
  obtain r1 w1 where 1: "os_CreateExclusive path w = (r1, w1)" by fastforce
  note g1 = os_CreateExclusive_D [OF 1, unfolded goes_def]
  have "w_net w' = w_net w \<and> untouched (w_files w) (w_files w')
    \<and> (\<forall>u. r = Inr u \<longrightarrow> w_files w path = None
      \<and> (\<exists>data. ya_Marshal Y cfg = Inr data \<and> w_files w' = (w_files w)(path \<mapsto> Whole (Bytes data))))
    \<and> (\<forall>e. r = Inl e \<longrightarrow> w_files w' = w_files w \<or> cleanup_failed e)
    \<and> (always P w \<longrightarrow> (\<forall>fs. untouched (w_files w) fs \<longrightarrow> P fs (w_net w)) \<longrightarrow> always P w')"
  proof (cases "(\<exists>data. ya_Marshal Y cfg = Inr data) \<and> r1 = Inr ()")
    case False
    then have "\<exists>e. r = Inl e \<and> (w' = w \<or> w' = w1 \<and> r1 \<noteq> Inr ())"
      using assms 1 by (cases r1) (auto simp: cliconfig_Save_def sequencing_defs map_error_def split: sum.splits)
    then show ?thesis using g1 by (auto elim!: trail_always dest: always_now)
  next
    case True
    then obtain data where data: "ya_Marshal Y cfg = Inr data" by blast
    have new: "w_files w path = None" "w_files w1 = (w_files w)(path \<mapsto> Whole (Bytes []))" "w_net w1 = w_net w"
      using True g1 by auto
    obtain e w2 where 2: "write_and_close ''CLI configuration'' path (Bytes data) w1 = (e, w2)" by fastforce
    note d2 = write_and_close_D [OF 2]
    have a2: "always P w2" if "always P w" "\<forall>fs. untouched (w_files w) fs \<longrightarrow> P fs (w_net w)"
    proof (rule d2(4))
      show "always P w1" using True g1 that new by (auto elim!: trail_always)
      show "P ((w_files w1)(path \<mapsto> c)) (w_net w1)" for c using that new by simp
    qed
    show ?thesis
    proof (cases e)
      case None
      then have "r = Inr () \<and> w' = w2" using assms True 1 2 data by (auto simp: cliconfig_Save_def sequencing_defs)
      then show ?thesis using None d2(1,3) new data a2 by simp
    next
      case (Some e0)
      obtain e' w3 where 3: "remove_joining ?msg path (e0, w2) = (e', w3)" by fastforce
      have r: "r = Inl e'" "w' = w3"
        using assms True 1 2 3 data Some by (auto simp: cliconfig_Save_def sequencing_defs)
      note d3 = remove_joining_D [OF 3]
      have undone: "(w_files w2)(path := None) = w_files w" using d2(2) new by auto
      have "w_files w' = w_files w \<or> cleanup_failed e'" using d3(2) undone r(2) by (auto simp: cleanup_messages_def)
      moreover have "always P w'" if "always P w" "\<forall>fs. untouched (w_files w) fs \<longrightarrow> P fs (w_net w)"
        unfolding r(2) by (rule d3(3) [OF a2 [OF that]]) (use that undone d2(1) new in simp)
      moreover have "untouched (w_files w) (w_files w')"
        using d3(2) undone d2(2) new r(2) by (auto simp: untouched_def)
      ultimately show ?thesis using r d3(1) d2(1) new by simp
    qed
  qed
  then show "w_net w' = w_net w"
    and "r = Inr () \<Longrightarrow> w_files w path = None
      \<and> (\<exists>data. ya_Marshal Y cfg = Inr data \<and> w_files w' = (w_files w)(path \<mapsto> Whole (Bytes data)))"
    and "r = Inl e \<Longrightarrow> w_files w' = w_files w \<or> cleanup_failed e"
    and "always P w \<Longrightarrow> (\<And>fs. untouched (w_files w) fs \<Longrightarrow> P fs (w_net w)) \<Longrightarrow> always P w'"
    and "untouched (w_files w) (w_files w')"
    by blast+
qed

lemma cliconfig_Save_quiet:
  assumes "w_faults w = []" and "ya_Marshal Y cfg = Inr data" and "w_files w path = None"
  obtains v where "cliconfig_Save Y path cfg w = (Inr (), v)" "w_faults v = []"
proof -
  let ?w1 = "snapshot (w\<lparr>w_files := (w_files w)(path \<mapsto> Whole (Bytes []))\<rparr>)"
  obtain v where "write_and_close ''CLI configuration'' path (Bytes data) ?w1 = (None, v)" "w_faults v = []"
    using write_and_close_quiet [of ?w1 "''CLI configuration''" path "Bytes data"] assms(1) by auto
  then show ?thesis
    using that [of v] assms by (simp add: cliconfig_Save_def sequencing_defs quiet_calls)
qed

end
