(* ===== verification/Cli.thy ===== *)
theory Cli
  imports Cliconfig Worker_Join Worker_Run
begin

text \<open>
  The command lines: \<open>cmd/hambo\<close>, the administrator's tool, and \<open>cmd/hambo-worker\<close>. A definition
  is the \<open>RunE\<close> of a command, with what cobra has read from its flags as arguments; its value
  is the line it prints. That printing may fail is left out.
\<close>

section \<open>The administrator's tool\<close>

text \<open>Where the configuration is, from the environment and \<open>os.UserConfigDir\<close>, unless a flag says it.\<close>

definition config_path :: "string \<Rightarrow> string result \<Rightarrow> string result" where
  "config_path hambo_config userConfigDir =
     (if hambo_config \<noteq> [] then Inr hambo_config
      else bind_result (map_error (Wrap ''find user configuration directory'') userConfigDir) (\<lambda>configDir.
        Inr (path_Join (path_Join configDir ''hambo'') ''config.yaml'')))"

definition check_config_flag :: "string \<Rightarrow> error option" where
  "check_config_flag path = (if TrimSpace path = [] then Some (Msg ''--config must not be empty'') else None)"

definition newAPIClient :: "'n client_env \<Rightarrow> yaml \<Rightarrow> string \<Rightarrow> ('n, Client) io" where
  "newAPIClient CE Y configPath =
     bind_io (cliconfig_Load Y configPath) (\<lambda>cfg.
       return_io (NewClient CE \<lparr>cfg_ServerURL = cc_ServerURL cfg, cfg_CACertPEM = cc_CACert cfg,
         cfg_ClientCertPEM = cc_ClientCert cfg, cfg_ClientKeyPEM = cc_ClientKey cfg\<rparr>))"

definition run_command :: "'n client_env \<Rightarrow> yaml \<Rightarrow> string \<Rightarrow> string \<Rightarrow> string \<Rightarrow> ('n, string) io" where
  "run_command CE Y configPath img name =
     (if TrimSpace img = [] then return_io (Inl (Msg ''--image must not be empty''))
      else bind_io (newAPIClient CE Y configPath) (\<lambda>apiClient.
        bind_io (net_call (CreateContainer CE apiClient \<lparr>cq_Name = name, cq_Image = img\<rparr>)) (\<lambda>response.
          return_io (Inr (''Container '' @ c_Name response @ '' created ('' @ c_State response @ '')'')))))"

definition health_command :: "'n client_env \<Rightarrow> yaml \<Rightarrow> string \<Rightarrow> ('n, string) io" where
  "health_command CE Y configPath =
     bind_io (newAPIClient CE Y configPath) (\<lambda>apiClient.
       wrap_io ''check server health'' (net_call (Health CE apiClient)))"

text \<open>\<open>duration_String\<close> is \<open>time.Duration.String\<close>.\<close>

definition token_create_command ::
  "'n client_env \<Rightarrow> yaml \<Rightarrow> (int \<Rightarrow> string) \<Rightarrow> string \<Rightarrow> int \<Rightarrow> ('n, string) io" where
  "token_create_command CE Y duration_String configPath ttl =
     (if ttl \<le> 0 \<or> hours 24 < ttl
      then return_io (Inl (Msg ''--ttl must be greater than zero and no more than 24h''))
      else bind_io (newAPIClient CE Y configPath) (\<lambda>apiClient.
        bind_io (net_call (CreateToken CE apiClient \<lparr>ctr_TTL = duration_String ttl\<rparr>)) (\<lambda>response.
          return_io (Inr (cto_Token response)))))"

section \<open>The worker's commands\<close>

text \<open>The check of the flags that all commands share.\<close>

definition check_data_dir :: "string \<Rightarrow> error option" where
  "check_data_dir dataDir = (if TrimSpace dataDir = [] then Some (Msg ''--data-dir must not be empty'') else None)"

text \<open>\<open>name\<close> is the flag, if it was given.\<close>

definition join_name :: "string option \<Rightarrow> string result \<Rightarrow> string result" where
  "join_name name hostname =
     bind_result (case name of Some n \<Rightarrow> Inr n | None \<Rightarrow> map_error (Wrap ''get hostname'') hostname) (\<lambda>n.
       if TrimSpace n = [] then Inl (Msg ''--name must not be empty'') else Inr n)"

definition join_command ::
  "'n worker_env \<Rightarrow> string result \<Rightarrow> flock_outcome \<Rightarrow> string \<Rightarrow> string \<Rightarrow> string \<Rightarrow> string \<Rightarrow> string \<Rightarrow> string
     \<Rightarrow> ('n, string) io" where
  "join_command WE key flock rnd1 rnd2 serverURL joinToken name dataDir =
     (case ParseServerURL (we_client WE) serverURL of
        Inl e \<Rightarrow> return_io (Inl (Wrap ''--server'' e))
      | Inr parsedServerURL \<Rightarrow>
          bind_io (Join WE key flock rnd1 rnd2
              \<lparr>jc_ServerURL = parsedServerURL, jc_Token = joinToken, jc_Name = name, jc_DataDir = dataDir\<rparr>)
            (\<lambda>result. return_io (Inr
              (if jo_AlreadyConfigured result
               then ''Worker already configured as node '' @ jo_NodeID result
                    @ (if joinToken \<noteq> [] then ''; supplied token was not used'' else [])
               else ''Worker joined as node '' @ jo_NodeID result))))"

definition reset_command :: "flock_outcome \<Rightarrow> string \<Rightarrow> ('n, string) io" where
  "reset_command flock dataDir =
     bind_io (Reset flock dataDir) (\<lambda>_. return_io (Inr ''Worker enrollment reset''))"

end
