(* ===== verification/Server_Init.thy ===== *)
theory Server_Init
  imports Cli Example
begin

text \<open>
  \<open>hambo-server init\<close> (\<open>cmd/hambo-server/init.go\<close>): an authority, the server's certificate, an
  administrator's certificate, and the files that hold them. \<open>init_keys\<close> are the three key pairs
  that are drawn. The theorems: it creates all files or none and never touches one that exists,
  and what it leaves is what the server and the command line tool load.
\<close>

section \<open>The command\<close>

record init_keys =
  ik_CA :: "(public_key \<times> private_key) result"
  ik_Server :: "(public_key \<times> private_key) result"
  ik_Admin :: "(public_key \<times> private_key) result"

definition init_credentials ::
  "pki_env \<Rightarrow> init_keys \<Rightarrow> instant \<Rightarrow> (CA \<times> Certificate \<times> cli_config) result" where
  "init_credentials K keys now =
     bind_result (map_error (Wrap ''generate CA'') (GenerateCA (pk_X K) (ik_CA keys) now)) (\<lambda>ca.
     bind_result (map_error (Wrap ''issue server certificate'')
         (IssueServerCertificate (pk_X K) ca (ik_Server keys) now)) (\<lambda>serverCert.
     bind_result (map_error (Wrap ''issue admin certificate'')
         (IssueAdminCertificate (pk_X K) ca (ik_Admin keys) now)) (\<lambda>adminCert.
     bind_result (map_error (Wrap ''encode admin private key'') (pk_MarshalPKCS8 K (crt_PrivateKey adminCert)))
       (\<lambda>adminKeyDER.
     Inr (ca, serverCert,
          \<lparr>cc_ServerURL = ''https://localhost:8080'',
           cc_CACert = pk_PemEncode K ''CERTIFICATE'' (ct_Raw (ca_Certificate ca)),
           cc_ClientCert = pk_PemEncode K ''CERTIFICATE'' (ct_Raw (crt_Certificate adminCert)),
           cc_ClientKey = pk_PemEncode K ''PRIVATE KEY'' adminKeyDER\<rparr>)))))"

text \<open>A deferred clean-up: it runs when what follows has failed, and its error joins the first.\<close>

definition or_clean_up ::
  "string \<Rightarrow> ('n world \<Rightarrow> error option \<times> 'n world) \<Rightarrow> ('n, 'a) io \<Rightarrow> ('n, 'a) io" where
  "or_clean_up message remove m w =
     (case m w of
        (Inr v, w1) \<Rightarrow> (Inr v, w1)
      | (Inl e, w1) \<Rightarrow>
          (case remove w1 of
             (None, w2) \<Rightarrow> (Inl e, w2)
           | (Some e', w2) \<Rightarrow> (Inl (Multi ''join'' [e, Wrap message e']), w2)))"

definition pki_dir :: "string \<Rightarrow> string" where
  "pki_dir dataDir = path_Join dataDir ''pki''"

definition admin_yaml :: "string \<Rightarrow> string" where
  "admin_yaml dataDir = path_Join dataDir ''admin.yaml''"

definition init_save :: "pki_env \<Rightarrow> yaml \<Rightarrow> string \<Rightarrow> CA \<Rightarrow> Certificate \<Rightarrow> cli_config \<Rightarrow> ('n, unit) io" where
  "init_save K Y dataDir ca serverCert cfg =
     bind_io (wrap_io ''save CA'' (CA_Save K ca (pki_dir dataDir))) (\<lambda>_.
     or_clean_up ''clean up CA'' (CA_Remove (pki_dir dataDir))
       (bind_io (wrap_io ''save server certificate'' (Certificate_Save K serverCert (pki_dir dataDir) ''server''))
         (\<lambda>_. or_clean_up ''clean up server credentials'' (Certificate_Remove (pki_dir dataDir) ''server'')
           (wrap_io ''save admin configuration'' (cliconfig_Save Y (admin_yaml dataDir) cfg)))))"

definition newInitCommand ::
  "pki_env \<Rightarrow> yaml \<Rightarrow> init_keys \<Rightarrow> instant \<Rightarrow> string \<Rightarrow> ('n, unit) io" where
  "newInitCommand K Y keys now dataDir =
     bind_io (return_io (init_credentials K keys now)) (\<lambda>(ca, serverCert, cfg).
       init_save K Y dataDir ca serverCert cfg)"

section \<open>All or nothing\<close>

lemma removeCertificate_D:
  assumes "removeCertificate dir name w = (e, w')"
  shows "w_net w' = w_net w"
    and "e = None \<Longrightarrow> w_files w' = (w_files w)(crt_path dir name := None, key_path dir name := None)"
    and "e = Some x \<Longrightarrow> cleanup_failed x"
    and "always P w \<Longrightarrow> (\<And>fs. (\<And>p. fs p = w_files w p \<or> p \<in> {crt_path dir name, key_path dir name} \<and> fs p = None) \<Longrightarrow>
      P fs (w_net w)) \<Longrightarrow> always P w'"
    and "w_files w' x' = w_files w x' \<or> x' \<in> {crt_path dir name, key_path dir name} \<and> w_files w' x' = None"
proof -
  let ?msg = "''remove certificate file''" and ?p = "crt_path dir name" and ?q = "key_path dir name"
  obtain e1 w1 where 1: "remove_if_present ?msg ?p w = (e1, w1)" by fastforce
  obtain e2 w2 where 2: "remove_if_present ?msg ?q w1 = (e2, w2)" by fastforce
  have run: "e = add_error (add_error None e1) e2" "w' = w2" using assms 1 2 by (auto simp: removeCertificate_def)
  note d1 = remove_if_present_D [OF 1, unfolded goes_def] and d2 = remove_if_present_D [OF 2, unfolded goes_def]
  have msg: "?msg \<in> cleanup_messages" by (simp add: cleanup_messages_def)
  show "w_net w' = w_net w" using run d1 d2 by auto
  show "e = None \<Longrightarrow> w_files w' = (w_files w)(?p := None, ?q := None)"
    using run d1 d2 by (auto simp: add_error_def errors_Join_def List.map_filter_def)
  show "e = Some x \<Longrightarrow> cleanup_failed x"
    using run d1 d2 msg by (auto simp: add_error_def errors_Join_def List.map_filter_def split: if_splits)
  show "w_files w' x' = w_files w x' \<or> x' \<in> {?p, ?q} \<and> w_files w' x' = None"
    using run d1 d2 by (auto split: if_splits)
  assume alw: "always P w" "\<And>fs. (\<And>p. fs p = w_files w p \<or> p \<in> {?p, ?q} \<and> fs p = None) \<Longrightarrow> P fs (w_net w)"
  have "always P w1" using d1 alw by (auto elim!: trail_always)
  then show "always P w'" using d1 d2 alw(2) run(2) by (auto elim!: trail_always)
qed

text \<open>
  What a part of the command does to the files: on success it has created the files \<open>made\<close>, on an
  error it has undone what it did unless the error tells of a failed clean-up, and on the way
  it leaves the files that were there as they are.
\<close>

definition creation :: "(string \<times> data) list \<Rightarrow> 'n world \<Rightarrow> 'a result \<Rightarrow> 'n world \<Rightarrow> bool" where
  "creation made w r w' \<longleftrightarrow>
     w_net w' = w_net w \<and> untouched (w_files w) (w_files w')
     \<and> (\<forall>u. r = Inr u \<longrightarrow> (\<forall>(p, d) \<in> set made. w_files w p = None)
          \<and> w_files w' = (\<lambda>p. case map_of made p of None \<Rightarrow> w_files w p | Some d \<Rightarrow> Some (Whole d)))
     \<and> (\<forall>e. r = Inl e \<longrightarrow> w_files w' = w_files w \<or> cleanup_failed e)
     \<and> (\<forall>P. always P w \<longrightarrow> (\<forall>fs. untouched (w_files w) fs \<longrightarrow> P fs (w_net w)) \<longrightarrow> always P w')"

definition creates :: "(string \<times> data) list \<Rightarrow> ('n, 'a) io \<Rightarrow> bool" where
  "creates made m \<longleftrightarrow> (\<forall>w r w'. m w = (r, w') \<longrightarrow> creation made w r w')"

lemma creates_D:
  assumes "creates made m" and "m w = (r, w')"
  shows "w_net w' = w_net w" and "untouched (w_files w) (w_files w')"
    and "r = Inr u \<Longrightarrow> (\<forall>(p, d) \<in> set made. w_files w p = None)
      \<and> w_files w' = (\<lambda>p. case map_of made p of None \<Rightarrow> w_files w p | Some d \<Rightarrow> Some (Whole d))"
    and "r = Inl e \<Longrightarrow> w_files w' = w_files w \<or> cleanup_failed e"
    and "always P w \<Longrightarrow> (\<And>fs. untouched (w_files w) fs \<Longrightarrow> P fs (w_net w)) \<Longrightarrow> always P w'"
  using assms unfolding creates_def creation_def by blast+

lemma creates_wrap:
  assumes "creates made m"
  shows "creates made (wrap_io msg m)"
  unfolding creates_def
proof (intro allI impI)
  fix w r w' assume "wrap_io msg m w = (r, w')"
  then obtain r0 where r0: "m w = (r0, w')" "r = map_error (Wrap msg) r0"
    by (auto simp: wrap_io_def split: prod.splits)
  then show "creation made w r w'"
    using creates_D [OF assms r0(1)] by (cases r0) (auto simp: creation_def)
qed

lemma creates_certificate:
  "creates [(crt_path dir name, Bytes (pk_PemEncode K ''CERTIFICATE'' (ct_Raw c))),
      (key_path dir name, Bytes (pk_PemEncode K ''PRIVATE KEY'' (projr (pk_MarshalPKCS8 K k))))]
    (saveCertificate K dir name c k)"
  unfolding creates_def
proof (intro allI impI)
  fix w r w' assume run: "saveCertificate K dir name c k w = (r, w')"
  show "creation [(crt_path dir name, Bytes (pk_PemEncode K ''CERTIFICATE'' (ct_Raw c))),
      (key_path dir name, Bytes (pk_PemEncode K ''PRIVATE KEY'' (projr (pk_MarshalPKCS8 K k))))] w r w'"
    using saveCertificate_D(1,3-5) [OF run] saveCertificate_D(2) [OF run] by (auto simp: creation_def fun_eq_iff)
qed

lemma creates_config: "creates [(path, Bytes (projr (ya_Marshal Y cfg)))] (cliconfig_Save Y path cfg)"
  unfolding creates_def
proof (intro allI impI)
  fix w r w' assume run: "cliconfig_Save Y path cfg w = (r, w')"
  show "creation [(path, Bytes (projr (ya_Marshal Y cfg)))] w r w'"
    using cliconfig_Save_D [OF run] by (auto simp: creation_def fun_eq_iff)
qed

text \<open>A clean-up that removes what was made.\<close>

definition removes :: "string set \<Rightarrow> ('n world \<Rightarrow> error option \<times> 'n world) \<Rightarrow> bool" where
  "removes ps rm \<longleftrightarrow>
     (\<forall>w e w'. rm w = (e, w') \<longrightarrow>
        w_net w' = w_net w \<and> (\<forall>p. w_files w' p = w_files w p \<or> p \<in> ps \<and> w_files w' p = None)
        \<and> (e = None \<longrightarrow> (\<forall>p \<in> ps. w_files w' p = None)) \<and> (\<forall>x. e = Some x \<longrightarrow> cleanup_failed x)
        \<and> (\<forall>P. always P w \<longrightarrow> (\<forall>fs. (\<forall>p. fs p = w_files w p \<or> p \<in> ps \<and> fs p = None) \<longrightarrow> P fs (w_net w)) \<longrightarrow>
             always P w'))"

lemma removes_D:
  assumes "removes ps rm" and "rm w = (e, w')"
  shows "w_net w' = w_net w" and "w_files w' p = w_files w p \<or> p \<in> ps \<and> w_files w' p = None"
    and "e = None \<Longrightarrow> p \<in> ps \<Longrightarrow> w_files w' p = None" and "e = Some x \<Longrightarrow> cleanup_failed x"
    and "always P w \<Longrightarrow> (\<And>fs. (\<And>p. fs p = w_files w p \<or> p \<in> ps \<and> fs p = None) \<Longrightarrow> P fs (w_net w)) \<Longrightarrow> always P w'"
  using assms unfolding removes_def by blast+

lemma removes_certificate: "removes {crt_path dir name, key_path dir name} (removeCertificate dir name)"
  unfolding removes_def
proof (intro allI impI)
  fix w e w' assume run: "removeCertificate dir name w = (e, w')"
  note d = removeCertificate_D [OF run]
  show "w_net w' = w_net w
        \<and> (\<forall>p. w_files w' p = w_files w p \<or> p \<in> {crt_path dir name, key_path dir name} \<and> w_files w' p = None)
        \<and> (e = None \<longrightarrow> (\<forall>p \<in> {crt_path dir name, key_path dir name}. w_files w' p = None))
        \<and> (\<forall>x. e = Some x \<longrightarrow> cleanup_failed x)
        \<and> (\<forall>P. always P w \<longrightarrow>
             (\<forall>fs. (\<forall>p. fs p = w_files w p \<or> p \<in> {crt_path dir name, key_path dir name} \<and> fs p = None) \<longrightarrow>
               P fs (w_net w)) \<longrightarrow> always P w')"
    using d(1,3,4,5) d(2) by auto
qed

text \<open>Files made one after the other, and files made and removed again.\<close>

lemma made_append:
  assumes "fs1 = (\<lambda>p. case map_of A p of None \<Rightarrow> fs p | Some d \<Rightarrow> Some (Whole d))"
    and "\<forall>(p, d) \<in> set B. fs1 p = None"
  shows "(\<lambda>p. case map_of B p of None \<Rightarrow> fs1 p | Some d \<Rightarrow> Some (Whole d))
      = (\<lambda>p. case map_of (A @ B) p of None \<Rightarrow> fs p | Some d \<Rightarrow> Some (Whole d))"
    and "\<forall>(p, d) \<in> set B. fs p = None"
proof -
  show "\<forall>(p, d) \<in> set B. fs p = None" using assms by (auto split: option.splits)
  show "(\<lambda>p. case map_of B p of None \<Rightarrow> fs1 p | Some d \<Rightarrow> Some (Whole d))
      = (\<lambda>p. case map_of (A @ B) p of None \<Rightarrow> fs p | Some d \<Rightarrow> Some (Whole d))"
  proof
    fix p
    show "(case map_of B p of None \<Rightarrow> fs1 p | Some d \<Rightarrow> Some (Whole d))
        = (case map_of (A @ B) p of None \<Rightarrow> fs p | Some d \<Rightarrow> Some (Whole d))"
    proof (cases "map_of B p")
      case None
      then show ?thesis by (simp add: assms(1) map_add_def split: option.split)
    next
      case (Some d)
      then have "fs1 p = None" using assms(2) by (auto dest: map_of_SomeD)
      then have "map_of A p = None" by (simp add: assms(1) split: option.splits)
      then show ?thesis using Some by (simp add: map_add_def)
    qed
  qed
qed

lemma made_removed:
  assumes "fs1 = (\<lambda>p. case map_of A p of None \<Rightarrow> fs p | Some d \<Rightarrow> Some (Whole d))"
    and "\<forall>(p, d) \<in> set A. fs p = None" and "\<And>p. fs2 p = fs1 p \<or> p \<in> fst ` set A \<and> fs2 p = None"
    and "\<And>p. p \<in> fst ` set A \<Longrightarrow> fs2 p = None"
  shows "fs2 = fs"
proof
  fix p
  show "fs2 p = fs p"
  proof (cases "p \<in> fst ` set A")
    case True
    then show ?thesis using assms(2,4) by auto
  next
    case False
    then have "map_of A p = None" by (simp add: map_of_eq_None_iff)
    then show ?thesis using assms(1) assms(3) [of p] False by simp
  qed
qed

text \<open>
  The interface of \<open>saveCertificate\<close> and \<open>removeCertificate\<close> that the command relies on: what
  the one makes as a whole the other removes. With it a later step may fail.
\<close>

locale saved_files =
  fixes made :: "(string \<times> data) list" and save :: "('n, 'a) io"
    and remove :: "'n world \<Rightarrow> error option \<times> 'n world"
  assumes saves: "creates made save" and removed: "removes (fst ` set made) remove"
begin

lemma remove_keeps:
  assumes "\<forall>(p, d) \<in> set made. fs p = None" and "untouched fs fs2"
    and "\<And>p. fs3 p = fs2 p \<or> p \<in> fst ` set made \<and> fs3 p = None"
  shows "untouched fs fs3"
  unfolding untouched_def
proof (intro allI impI)
  fix p c assume "fs p = Some c"
  then show "fs3 p = Some c" using assms(1,2) assms(3) [of p] by (auto simp: untouched_def)
qed

lemma both_saved:
  assumes "save w = (Inr u, w1)" and "creates B next" and "next w1 = (Inr v, w2)"
  shows "creation (made @ B) w (Inr v) w2"
proof -
  note d1 = creates_D [OF saves assms(1)] and d2 = creates_D [OF assms(2,3)]
  have new: "\<forall>(p, d) \<in> set made. w_files w p = None"
    and w1: "w_files w1 = (\<lambda>p. case map_of made p of None \<Rightarrow> w_files w p | Some d \<Rightarrow> Some (Whole d))"
    using d1(3) by auto
  have w2: "\<forall>(p, d) \<in> set B. w_files w1 p = None"
    "w_files w2 = (\<lambda>p. case map_of B p of None \<Rightarrow> w_files w1 p | Some d \<Rightarrow> Some (Whole d))"
    using d2(3) by auto
  have keeps: "untouched (w_files w) fs" if "untouched (w_files w1) fs" for fs
    using that d1(2) by (simp add: untouched_def)
  have "always P w2" if "always P w" "\<And>fs. untouched (w_files w) fs \<Longrightarrow> P fs (w_net w)" for P
    by (rule d2(5) [OF d1(5) [OF that]]) (use keeps that(2) d1(1) in auto)
  then show ?thesis
    using d1(1) d2(1,2) keeps new made_append [OF w1 w2(1)] w2(2) by (auto simp: creation_def)
qed

lemma next_failed:
  assumes "save w = (Inr u, w1)" and "creates B next" and "next w1 = (Inl x, w2)" and "remove w2 = (e, w3)"
    and r: "r = (case e of None \<Rightarrow> Inl x | Some y \<Rightarrow> Inl (Multi ''join'' [x, Wrap msg y]))"
  shows "creation (made @ B) w r w3"
proof -
  note d1 = creates_D [OF saves assms(1)] and d2 = creates_D [OF assms(2,3)]
  note d3 = removes_D [OF removed assms(4)]
  have new: "\<forall>(p, d) \<in> set made. w_files w p = None"
    and w1: "w_files w1 = (\<lambda>p. case map_of made p of None \<Rightarrow> w_files w p | Some d \<Rightarrow> Some (Whole d))"
    using d1(3) by auto
  have keeps: "untouched (w_files w) fs" if "untouched (w_files w1) fs" for fs
    using that d1(2) by (simp add: untouched_def)
  note kept = remove_keeps [OF new keeps [OF d2(2)]]
  have "w_files w3 = w_files w" if "e = None" "w_files w2 = w_files w1"
    by (rule made_removed [OF w1 new]) (use d3(2,3) that in auto)
  then have "w_files w3 = w_files w \<or> cleanup_failed (case e of None \<Rightarrow> x | Some y \<Rightarrow> Multi ''join'' [x, Wrap msg y])"
    using d2(4) d3(4) by (cases e) auto
  moreover have a2: "always P w2" if "always P w" "\<And>fs. untouched (w_files w) fs \<Longrightarrow> P fs (w_net w)" for P
    by (rule d2(5) [OF d1(5) [OF that]]) (use keeps that(2) d1(1) in auto)
  have "always P w3" if "always P w" "\<And>fs. untouched (w_files w) fs \<Longrightarrow> P fs (w_net w)" for P
    by (rule d3(5) [OF a2 [OF that]]) (use kept that(2) d1(1) d2(1) in auto)
  moreover have "untouched (w_files w) (w_files w3)" using kept d3(2) by blast
  ultimately show ?thesis
    using d3(1) d2(1) d1(1) by (auto simp: r creation_def split: option.splits)
qed

lemma creates_then:
  assumes "creates B next"
  shows "creates (made @ B) (bind_io save (\<lambda>_. or_clean_up msg remove next))"
  unfolding creates_def
proof (intro allI impI)
  fix w r w' assume run: "bind_io save (\<lambda>_. or_clean_up msg remove next) w = (r, w')"
  obtain r1 w1 where 1: "save w = (r1, w1)" by fastforce
  obtain r2 w2 where 2: "next w1 = (r2, w2)" by fastforce
  obtain e w3 where 3: "remove w2 = (e, w3)" by fastforce
  show "creation (made @ B) w r w'"
  proof (cases r1)
    case (Inl x)
    then have "r = Inl x" "w' = w1" using run 1 by (simp_all add: bind_io_def)
    then show ?thesis using creates_D [OF saves 1] Inl by (simp add: creation_def)
  next
    case r1: (Inr u)
    show ?thesis
    proof (cases r2)
      case (Inr v)
      then show ?thesis
        using both_saved [OF 1 [unfolded r1] assms 2 [unfolded Inr]] run 1 2 r1
        by (simp add: bind_io_def or_clean_up_def)
    next
      case (Inl x)
      then have "r = (case e of None \<Rightarrow> Inl x | Some y \<Rightarrow> Inl (Multi ''join'' [x, Wrap msg y]))" "w' = w3"
        using run 1 2 3 r1 by (auto simp: bind_io_def or_clean_up_def split: option.splits)
      then show ?thesis using next_failed [OF 1 [unfolded r1] assms 2 [unfolded Inl] 3] by blast
    qed
  qed
qed

end

text \<open>\<open>wrap_io\<close> adds the message of the command.\<close>

interpretation certificate_files: saved_files
    "[(crt_path dir name, Bytes (pk_PemEncode K ''CERTIFICATE'' (ct_Raw c))),
      (key_path dir name, Bytes (pk_PemEncode K ''PRIVATE KEY'' (projr (pk_MarshalPKCS8 K k))))]"
    "wrap_io message (saveCertificate K dir name c k)" "removeCertificate dir name"
  for dir name K c k message
  by unfold_locales (intro creates_wrap creates_certificate, simp add: removes_certificate)

text \<open>The files of the command.\<close>

definition init_files :: "pki_env \<Rightarrow> yaml \<Rightarrow> string \<Rightarrow> CA \<Rightarrow> Certificate \<Rightarrow> cli_config \<Rightarrow> (string \<times> data) list" where
  "init_files K Y dataDir ca serverCert cfg =
     (let dir = pki_dir dataDir; crt = \<lambda>c. Bytes (pk_PemEncode K ''CERTIFICATE'' (ct_Raw c));
          key = \<lambda>k. Bytes (pk_PemEncode K ''PRIVATE KEY'' (projr (pk_MarshalPKCS8 K k)))
      in [(crt_path dir ''ca'', crt (ca_Certificate ca)), (key_path dir ''ca'', key (ca_PrivateKey ca)),
          (crt_path dir ''server'', crt (crt_Certificate serverCert)),
          (key_path dir ''server'', key (crt_PrivateKey serverCert)),
          (admin_yaml dataDir, Bytes (projr (ya_Marshal Y cfg)))])"

lemma creates_init: "creates (init_files K Y dataDir ca serverCert cfg) (init_save K Y dataDir ca serverCert cfg)"
proof -
  let ?dir = "pki_dir dataDir"
  let ?pair = "\<lambda>name c k. [(crt_path ?dir name, Bytes (pk_PemEncode K ''CERTIFICATE'' (ct_Raw c))),
      (key_path ?dir name, Bytes (pk_PemEncode K ''PRIVATE KEY'' (projr (pk_MarshalPKCS8 K k))))]"
  let ?A = "?pair ''ca'' (ca_Certificate ca) (ca_PrivateKey ca)"
  let ?B = "?pair ''server'' (crt_Certificate serverCert) (crt_PrivateKey serverCert)"
  have "creates (?A @ (?B @ [(admin_yaml dataDir, Bytes (projr (ya_Marshal Y cfg)))]))
      (init_save K Y dataDir ca serverCert cfg)"
    unfolding init_save_def CA_Save_def CA_Remove_def Certificate_Save_def Certificate_Remove_def
    by (intro certificate_files.creates_then creates_wrap creates_config)
  then show ?thesis by (simp add: init_files_def Let_def)
qed

text \<open>
  Claim C35: initialization is all or nothing. At every moment, whatever fails, every file that
  existed is as it was. When the command returns an error the files are as they were before, unless the
  error tells that a clean-up failed; when it returns none it has created exactly its five
  files, none of which existed.
\<close>

theorem init_all_or_nothing:
  assumes "newInitCommand K Y keys now dataDir (start_world fs n faults) = (r, w)"
  shows "(\<forall>fs' \<in> insert (w_files w) (fst ` set (w_history w)). \<forall>p c. fs p = Some c \<longrightarrow> fs' p = Some c)
    \<and> (\<forall>e. r = Inl e \<longrightarrow> w_files w = fs \<or> cleanup_failed e)
    \<and> (r = Inr () \<longrightarrow> (\<exists>ca serverCert cfg. init_credentials K keys now = Inr (ca, serverCert, cfg)
         \<and> (\<forall>p. w_files w p = (case map_of (init_files K Y dataDir ca serverCert cfg) p of
              None \<Rightarrow> fs p | Some d \<Rightarrow> Some (Whole d)))
         \<and> (\<forall>p \<in> fst ` set (init_files K Y dataDir ca serverCert cfg). fs p = None)))"
proof (cases "init_credentials K keys now")
  case (Inl e)
  then show ?thesis using assms by (auto simp: newInitCommand_def sequencing_defs start_world_def)
next
  case (Inr creds)
  obtain ca serverCert cfg where c: "creds = (ca, serverCert, cfg)" by (cases creds) auto
  have run: "init_save K Y dataDir ca serverCert cfg (start_world fs n faults) = (r, w)"
    using assms(1) Inr c by (simp add: newInitCommand_def sequencing_defs)
  have start: "w_files (start_world fs n faults) = fs" by (simp add: start_world_def)
  note d = creates_D [OF creates_init run, unfolded start]
  have "always (\<lambda>fs'' n''. untouched fs fs'') w"
    by (rule d(5)) (auto simp: start_world_def always_def)
  then have "\<forall>fs' \<in> insert (w_files w) (fst ` set (w_history w)). untouched fs fs'"
    by (auto simp: always_def)
  then show ?thesis
    using d(3,4) Inr c unfolding untouched_def by (cases r) auto
qed

section \<open>What it leaves is loaded\<close>

text \<open>
  Documented behaviour of the libraries: a PEM pair that was written is read back, PEM blocks are
  not empty, and YAML documents are read back.
\<close>

definition pem_pair_law :: "pki_env \<Rightarrow> bool" where
  "pem_pair_law K \<longleftrightarrow>
     (\<forall>der k keyDER. pk_MarshalPKCS8 K k = Inr keyDER \<longrightarrow>
        pk_X509KeyPair K (Whole (Bytes (pk_PemEncode K ''CERTIFICATE'' der)))
          (Whole (Bytes (pk_PemEncode K ''PRIVATE KEY'' keyDER))) = Inr (der, k))
     \<and> (\<forall>t b. pk_PemEncode K t b \<noteq> [])"

definition yaml_law :: "yaml \<Rightarrow> bool" where
  "yaml_law Y \<longleftrightarrow> (\<forall>cfg data. ya_Marshal Y cfg = Inr data \<longrightarrow> ya_Unmarshal Y (Whole (Bytes data)) = Inr cfg)"

lemma start_files: "w_files (start_world fs n faults) = fs"
  by (simp add: start_world_def)

lemma init_paths [simp]:
  "admin_yaml d \<noteq> crt_path (pki_dir d) n" "admin_yaml d \<noteq> key_path (pki_dir d) n"
  by (simp_all add: admin_yaml_def pki_dir_def crt_path_def key_path_def path_Join_def)

lemma init_save_marshals:
  assumes "init_save K Y dataDir ca serverCert cfg w = (Inr (), w')"
  shows "\<exists>der data. pk_MarshalPKCS8 K (ca_PrivateKey ca) = Inr der \<and> ya_Marshal Y cfg = Inr data"
proof -
  have "(\<exists>der. pk_MarshalPKCS8 K (ca_PrivateKey ca) = Inr der) \<and> (\<exists>data. ya_Marshal Y cfg = Inr data)"
    using assms by (auto simp: init_save_def CA_Save_def saveCertificate_def cliconfig_Save_def or_clean_up_def
        sequencing_defs split: sum.splits prod.splits option.splits)
  then show ?thesis by blast
qed

text \<open>
  Claim C36: what \<open>init\<close> leaves is what the programs load. After a run without an error the server
  loads the authority that was generated, and the command line tool loads from \<open>admin.yaml\<close> a
  configuration with that authority's certificate and the administrator's certificate and key,
  from which it makes its client.
\<close>

theorem init_then_load:
  assumes "newInitCommand K Y keys now dataDir (start_world fs n faults) = (Inr (), w)"
    and "x509_faithful (pk_X K)" and "keeps_raw (pk_X K)" and "pem_pair_law K" and "yaml_law Y"
    and "ik_CA keys = Inr (pub, Ed25519Private k)"
  shows "\<exists>ca serverCert cfg. init_credentials K keys now = Inr (ca, serverCert, cfg)
    \<and> fst (LoadCA_files K (pki_dir dataDir) (start_world (w_files w) m [])) = Inr ca
    \<and> cc_CACert cfg = pk_PemEncode K ''CERTIFICATE'' (ct_Raw (ca_Certificate ca))
    \<and> fst (newAPIClient CE Y (admin_yaml dataDir) (start_world (w_files w) m []))
      = NewClient CE \<lparr>cfg_ServerURL = cc_ServerURL cfg, cfg_CACertPEM = cc_CACert cfg,
          cfg_ClientCertPEM = cc_ClientCert cfg, cfg_ClientKeyPEM = cc_ClientKey cfg\<rparr>"
proof -
  let ?dir = "pki_dir dataDir"
  obtain ca serverCert cfg where c: "init_credentials K keys now = Inr (ca, serverCert, cfg)"
    and run: "init_save K Y dataDir ca serverCert cfg (start_world fs n faults) = (Inr (), w)"
    using assms(1) by (auto simp: newInitCommand_def sequencing_defs split: sum.splits)
  have gen: "GenerateCA (pk_X K) (Inr (pub, Ed25519Private k)) now = Inr ca"
    and cfg: "cc_CACert cfg = pk_PemEncode K ''CERTIFICATE'' (ct_Raw (ca_Certificate ca))"
    "cc_ServerURL cfg = ''https://localhost:8080''"
    "\<exists>a b. cc_ClientCert cfg = pk_PemEncode K ''CERTIFICATE'' a \<and> cc_ClientKey cfg = pk_PemEncode K ''PRIVATE KEY'' b"
    using c assms(6) by (auto simp: init_credentials_def result_eqs)
  have files: "w_files w p = (case map_of (init_files K Y dataDir ca serverCert cfg) p of
      None \<Rightarrow> fs p | Some d \<Rightarrow> Some (Whole d))" for p
    using creates_D(3) [OF creates_init run refl, unfolded start_files] by simp
  obtain der data where marshal: "pk_MarshalPKCS8 K (ca_PrivateKey ca) = Inr der" "ya_Marshal Y cfg = Inr data"
    using init_save_marshals [OF run] by blast
  have saved: "w_files w (crt_path ?dir ''ca'') = Some (Whole (Bytes (cc_CACert cfg)))"
    "w_files w (key_path ?dir ''ca'') = Some (Whole (Bytes (pk_PemEncode K ''PRIVATE KEY'' der)))"
    "w_files w (admin_yaml dataDir) = Some (Whole (Bytes data))"
    by (simp_all add: files init_files_def Let_def marshal cfg(1))
  have "fst (LoadCA_files K ?dir (start_world (w_files w) m [])) = Inr ca"
    using assms(4) marshal(1) saved(1,2) GenerateCA_loads [OF assms(2,3) gen] cfg(1)
    by (simp add: LoadCA_files_def LoadX509KeyPair_def sequencing_defs quiet_calls start_world_def pem_pair_law_def)
  moreover have "pk_PemEncode K t b \<noteq> []" for t b using assms(4) by (simp add: pem_pair_law_def)
  then have "cc_CACert cfg \<noteq> []" "cc_ClientCert cfg \<noteq> []" "cc_ClientKey cfg \<noteq> []"
    using cfg(1,3) by metis+
  then have "check_config cfg = Inr cfg" using cfg(2) by (simp add: check_config_def)
  then have "fst (cliconfig_Load Y (admin_yaml dataDir) (start_world (w_files w) m [])) = Inr cfg"
    using assms(5) marshal(2) saved(3)
    by (simp add: cliconfig_Load_def sequencing_defs quiet_calls start_world_def yaml_law_def)
  then have "fst (newAPIClient CE Y (admin_yaml dataDir) (start_world (w_files w) m []))
      = NewClient CE \<lparr>cfg_ServerURL = cc_ServerURL cfg, cfg_CACertPEM = cc_CACert cfg,
          cfg_ClientCertPEM = cc_ClientCert cfg, cfg_ClientKeyPEM = cc_ClientKey cfg\<rparr>"
    by (cases "cliconfig_Load Y (admin_yaml dataDir) (start_world (w_files w) m [])")
      (simp add: newAPIClient_def sequencing_defs)
  ultimately show ?thesis using c cfg(1) by blast
qed

lemma init_save_quiet:
  assumes "w_faults w = []" and "pk_MarshalPKCS8 K (ca_PrivateKey ca) = Inr der1"
    and "pk_MarshalPKCS8 K (crt_PrivateKey serverCert) = Inr der2" and "ya_Marshal Y cfg = Inr data"
    and "\<And>p. p \<in> fst ` set (init_files K Y dataDir ca serverCert cfg) \<Longrightarrow> w_files w p = None"
  obtains v where "init_save K Y dataDir ca serverCert cfg w = (Inr (), v)"
proof -
  let ?dir = "pki_dir dataDir"
  obtain v1 where v1: "CA_Save K ca ?dir w = (Inr (), v1)" "w_faults v1 = []"
    unfolding CA_Save_def
    by (rule saveCertificate_quiet [OF assms(1,2), of ?dir "''ca''"]) (use assms(5) in \<open>auto simp: init_files_def Let_def\<close>)
  have f1: "p \<notin> {crt_path ?dir ''ca'', key_path ?dir ''ca''} \<Longrightarrow> w_files v1 p = w_files w p" for p
    using saveCertificate_D(2) [OF v1(1) [unfolded CA_Save_def]] by auto
  obtain v2 where v2: "Certificate_Save K serverCert ?dir ''server'' v1 = (Inr (), v2)" "w_faults v2 = []"
    unfolding Certificate_Save_def
    by (rule saveCertificate_quiet [OF v1(2) assms(3), of ?dir "''server''"])
      (use assms(5) f1 in \<open>auto simp: init_files_def Let_def\<close>)
  have f2: "p \<notin> {crt_path ?dir ''server'', key_path ?dir ''server''} \<Longrightarrow> w_files v2 p = w_files v1 p" for p
    using saveCertificate_D(2) [OF v2(1) [unfolded Certificate_Save_def]] by auto
  have "w_files w (admin_yaml dataDir) = None" by (rule assms(5)) (simp add: init_files_def Let_def)
  then have f3: "w_files v2 (admin_yaml dataDir) = None" by (simp add: f1 f2)
  obtain v3 where "cliconfig_Save Y (admin_yaml dataDir) cfg v2 = (Inr (), v3)"
    by (rule cliconfig_Save_quiet [OF v2(2) assms(4) f3])
  then show ?thesis
    using that [of v3] v1(1) v2(1) by (simp add: init_save_def or_clean_up_def sequencing_defs)
qed

section \<open>An instance\<close>

text \<open>Certificates are named after their subjects; the fields of the configuration stand in four lines.\<close>

definition in_certificate :: "string \<Rightarrow> certificate" where
  "in_certificate cn =
     (if cn = ''Hambo Server''
      then (server_template ex_x509 0)\<lparr>ct_Raw := cn\<rparr>
      else if cn = ''admin'' then (admin_template ex_x509 0)\<lparr>ct_Raw := cn\<rparr>
      else (ca_template ex_x509 0)\<lparr>ct_Raw := cn\<rparr>)"

definition in_pki :: pki_env where
  "in_pki = \<lparr>
     pk_X = \<lparr>
       x_CreateCertificate = (\<lambda>t p pub priv.
         if made_from (in_certificate (ct_CommonName t)) t then Inr (ct_CommonName t)
         else Inl (Msg ''x509: unsupported template'')),
       x_ParseCertificate = (\<lambda>der. Inr (in_certificate der)),
       x_ParseCertificateRequest = (\<lambda>der. Inl (Msg der)),
       x_AddDate = x_AddDate ex_x509\<rparr>,
     pk_MarshalPKCS8 = (\<lambda>k. case k of Ed25519Private s \<Rightarrow> Inr s | OtherPrivate s \<Rightarrow> Inl (Msg s)),
     pk_PemEncode = (\<lambda>t b. CHR ''-'' # b),
     pk_X509KeyPair = (\<lambda>c k. case (c, k) of
       (Whole (Bytes (_ # der)), Whole (Bytes (_ # s))) \<Rightarrow> Inr (der, Ed25519Private s)
     | _ \<Rightarrow> Inl (Msg ''tls: failed to find any PEM data''))\<rparr>"

definition in_yaml :: yaml where
  "in_yaml = \<lparr>
     ya_Marshal = (\<lambda>cfg.
       if CHR 0x0A \<in> set (cc_ServerURL cfg @ cc_CACert cfg @ cc_ClientCert cfg @ cc_ClientKey cfg)
       then Inl (Msg ''yaml: not supported'')
       else Inr (cc_ServerURL cfg @ CHR 0x0A # cc_CACert cfg @ CHR 0x0A # cc_ClientCert cfg
                 @ CHR 0x0A # cc_ClientKey cfg)),
     ya_Unmarshal = (\<lambda>c. case c of
       Whole (Bytes b) \<Rightarrow>
         (case Split (CHR 0x0A) b of
            [u, ca, crt, key] \<Rightarrow>
              Inr \<lparr>cc_ServerURL = u, cc_CACert = ca, cc_ClientCert = crt, cc_ClientKey = key\<rparr>
          | _ \<Rightarrow> Inl (Msg ''yaml: not supported''))
     | _ \<Rightarrow> Inl (Msg ''yaml: not supported''))\<rparr>"

definition in_keys :: init_keys where
  "in_keys = \<lparr>ik_CA = Inr (Ed25519Public ''p'', Ed25519Private ''a''),
     ik_Server = Inr (Ed25519Public ''q'', Ed25519Private ''b''),
     ik_Admin = Inr (Ed25519Public ''r'', Ed25519Private ''c'')\<rparr>"

lemma in_laws:
  "x509_faithful (pk_X in_pki)" "keeps_raw (pk_X in_pki)" "pem_pair_law in_pki" "yaml_law in_yaml"
proof -
  show "x509_faithful (pk_X in_pki)"
    by (auto simp: x509_faithful_def in_pki_def split: if_splits)
  show "keeps_raw (pk_X in_pki)"
    by (simp add: keeps_raw_def in_pki_def in_certificate_def)
  show "pem_pair_law in_pki"
    by (auto simp: pem_pair_law_def in_pki_def split: private_key.splits)
  show "yaml_law in_yaml"
    by (auto simp: yaml_law_def in_yaml_def Split_append Split_no_sep)
qed

lemma in_credentials:
  obtains ca serverCert cfg data where "init_credentials in_pki in_keys 0 = Inr (ca, serverCert, cfg)"
    "pk_MarshalPKCS8 in_pki (ca_PrivateKey ca) = Inr ''a''"
    "pk_MarshalPKCS8 in_pki (crt_PrivateKey serverCert) = Inr ''b''" "ya_Marshal in_yaml cfg = Inr data"
proof -
  have "map_value (\<lambda>(ca, serverCert, cfg). (pk_MarshalPKCS8 in_pki (ca_PrivateKey ca),
      pk_MarshalPKCS8 in_pki (crt_PrivateKey serverCert), isl (ya_Marshal in_yaml cfg)))
      (init_credentials in_pki in_keys 0) = Inr (Inr ''a'', Inr ''b'', False)"
    by code_simp
  then obtain ca serverCert cfg where c: "init_credentials in_pki in_keys 0 = Inr (ca, serverCert, cfg)"
    "pk_MarshalPKCS8 in_pki (ca_PrivateKey ca) = Inr ''a''"
    "pk_MarshalPKCS8 in_pki (crt_PrivateKey serverCert) = Inr ''b''" "\<not> isl (ya_Marshal in_yaml cfg)"
    by (auto simp: map_value_eq_Inr)
  then obtain data where "ya_Marshal in_yaml cfg = Inr data" by (cases "ya_Marshal in_yaml cfg") auto
  then show ?thesis using that c by blast
qed

text \<open>The certificate of a server is there already; the files of the authority are taken back.\<close>

theorem init_all_or_nothing_witness:
  "\<exists>e w. newInitCommand in_pki in_yaml in_keys 0 ''d'' (start_world [''d/pki/server.crt'' \<mapsto> Whole (Bytes ''x'')] () [])
      = (Inl e, w) \<and> w_files w ''d/pki/server.crt'' = Some (Whole (Bytes ''x''))"
proof -
  let ?fs = "[''d/pki/server.crt'' \<mapsto> Whole (Bytes ''x'')]" and ?dir = "pki_dir ''d''"
  obtain r w where run: "newInitCommand in_pki in_yaml in_keys 0 ''d'' (start_world ?fs () []) = (r, w)"
    by fastforce
  have path: "crt_path ?dir ''server'' = ''d/pki/server.crt''"
    by (simp add: crt_path_def pki_dir_def path_Join_def)
  note all = init_all_or_nothing [OF run]
  have "r \<noteq> Inr ()"
  proof
    assume "r = Inr ()"
    then obtain ca serverCert cfg where made: "\<forall>p \<in> fst ` set (init_files in_pki in_yaml ''d'' ca serverCert cfg). ?fs p = None"
      using all [THEN conjunct2, THEN conjunct2] by blast
    have "crt_path ?dir ''server'' \<in> fst ` set (init_files in_pki in_yaml ''d'' ca serverCert cfg)"
      by (simp add: init_files_def Let_def)
    then have "?fs (crt_path ?dir ''server'') = None" by (rule made [rule_format])
    then show False unfolding path by simp
  qed
  then obtain e where e: "r = Inl e" by (cases r) auto
  have "\<forall>p c. ?fs p = Some c \<longrightarrow> w_files w p = Some c" using all [THEN conjunct1] by blast
  then have "w_files w ''d/pki/server.crt'' = Some (Whole (Bytes ''x''))" by simp
  then show ?thesis using run unfolding e by blast
qed

theorem init_then_load_witness:
  "\<exists>w ca. newInitCommand in_pki in_yaml in_keys 0 ''d'' (start_world (\<lambda>p. None) () []) = (Inr (), w)
    \<and> fst (LoadCA_files in_pki (pki_dir ''d'') (start_world (w_files w) () [])) = Inr ca"
proof -
  let ?w = "start_world (\<lambda>p. None) () [] :: unit world"
  obtain ca serverCert cfg data where c: "init_credentials in_pki in_keys 0 = Inr (ca, serverCert, cfg)"
    "pk_MarshalPKCS8 in_pki (ca_PrivateKey ca) = Inr ''a''"
    "pk_MarshalPKCS8 in_pki (crt_PrivateKey serverCert) = Inr ''b''" "ya_Marshal in_yaml cfg = Inr data"
    by (rule in_credentials)
  obtain v where "init_save in_pki in_yaml ''d'' ca serverCert cfg ?w = (Inr (), v)"
    by (rule init_save_quiet [OF _ c(2-4)]) (auto simp: start_world_def)
  then have run: "newInitCommand in_pki in_yaml in_keys 0 ''d'' ?w = (Inr (), v)"
    using c(1) by (simp add: newInitCommand_def sequencing_defs)
  have "ik_CA in_keys = Inr (Ed25519Public ''p'', Ed25519Private ''a'')" by (simp add: in_keys_def)
  from init_then_load [OF run in_laws this, of "()"] show ?thesis using run by blast
qed

end
