(* ===== verification/Server_Run.thy ===== *)
theory Server_Run
  imports Runs
begin

text \<open>
  The life of the server process: \<open>run\<close> and \<open>runServer\<close> of \<open>cmd/hambo-server/serve.go\<close>, with
  \<open>store.Open\<close>, \<open>Close\<close> and \<open>internal/sqlitestore\<close>. What the process holds is read off a log of
  events, newest first. The answers of the outside are a record: of the files (the loaded
  authority), of bbolt, of the SQL driver, of the listener, of \<open>net/http\<close> and of the scheduler's
  goroutine, whose own steps are those of \<open>System\<close>. That goroutine ends only when the queue is
  shut down: the last theorem says that it then does.
\<close>

section \<open>Events\<close>

datatype resource = Database | SqlWrite | SqlRead | Listener | SchedulerRoutine | ServeRoutine | DockerClient

datatype event = Opened resource | Closed resource | QueueShutdown | CreatedTables

type_synonym act = "event list \<Rightarrow> error option \<times> event list"

definition checked :: "string \<Rightarrow> error option \<Rightarrow> act" where
  "checked message e log = (map_option (Wrap message) e, log)"

definition and_then :: "act \<Rightarrow> act \<Rightarrow> act" where
  "and_then a b log = (case a log of (Some e, log') \<Rightarrow> (Some e, log') | (None, log') \<Rightarrow> b log')"

text \<open>\<open>defer\<close> of a call whose error is dropped, or of a function that changes the error.\<close>

definition deferring :: "event list \<Rightarrow> act \<Rightarrow> act" where
  "deferring closes a log = (case a log of (e, log') \<Rightarrow> (e, closes @ log'))"

section \<open>The stores\<close>

record sql_driver =
  sql_Open :: "string \<Rightarrow> error option"
  sql_Ping :: "string \<Rightarrow> error option"
  sql_Exec :: "string \<Rightarrow> error option"

datatype serve_outcome =
    Ends "error option"
  | Cancelled "error option" "error option" "error option"

record run_env =
  rz_LoadCA :: "CA result"
  rz_MkdirAll :: "error option"
  rz_bolt_Open :: "error option"
  rz_bolt_Close :: "error option"
  rz_sql :: sql_driver
  rz_Listen :: "error option"
  rz_Serve :: serve_outcome
  rz_ServerClosed :: "error \<Rightarrow> bool"
  rz_Scheduler :: "error option"

definition store_Open :: "run_env \<Rightarrow> act" where
  "store_Open Z log =
     (case rz_bolt_Open Z of
        Some e \<Rightarrow> (Some (Wrap ''open bolt database'' e), log)
      | None \<Rightarrow> (None, Opened Database # log))"

definition store_Close :: "run_env \<Rightarrow> act" where
  "store_Close Z log = (map_option (Wrap ''close bolt database'') (rz_bolt_Close Z), Closed Database # log)"

definition writePath :: "string \<Rightarrow> string" where
  "writePath path = path @ ''?_journal_mode=WAL'' @ ''&_foreign_keys=on&_busy_timeout=5000''
     @ ''&_txlock=immediate&_synchronous=FULL''"

definition readPath :: "string \<Rightarrow> string" where
  "readPath path = path @ ''?_foreign_keys=on'' @ ''&_busy_timeout=5000&_query_only=on''"

definition sqlitestore_Open :: "sql_driver \<Rightarrow> string \<Rightarrow> act" where
  "sqlitestore_Open Q path log =
     (case sql_Open Q (writePath path) of
        Some e \<Rightarrow> (Some e, log)
      | None \<Rightarrow>
          let log = Opened SqlWrite # log
          in case sql_Ping Q (writePath path) of
               Some e \<Rightarrow> (Some e, Closed SqlWrite # log)
             | None \<Rightarrow>
                 (case sql_Open Q (readPath path) of
                    Some e \<Rightarrow> (Some e, Closed SqlWrite # log)
                  | None \<Rightarrow>
                      let log = Opened SqlRead # log
                      in case sql_Ping Q (readPath path) of
                           Some e \<Rightarrow> (Some e, Closed SqlWrite # Closed SqlRead # log)
                         | None \<Rightarrow> (None, log)))"

text \<open>\<open>Close\<close> closes the reader first; its error is dropped by the caller.\<close>

definition sqlitestore_Close :: "event list" where
  "sqlitestore_Close = [Closed SqlWrite, Closed SqlRead]"

text \<open>The statement, line by line with its tabs.\<close>

definition tabbed :: "nat \<Rightarrow> string \<Rightarrow> string" where
  "tabbed n line = replicate n (CHR 0x09) @ line"

definition tables_statement :: string where
  "tables_statement = List.concat (map (\<lambda>line. line @ [CHR 0x0A])
     [tabbed 0 (''''),
      tabbed 2 (''CREATE TABLE IF NOT EXISTS nodes (''),
      tabbed 3 (''id                TEXT NOT NULL PRIMARY KEY,''),
      tabbed 3 (''name              TEXT NOT NULL,''),
      tabbed 3 (''runtime_ready     INTEGER NOT NULL DEFAULT 0''),
      tabbed 3 (''                  CHECK (runtime_ready IN (0, 1)),''),
      tabbed 3 (''last_seen_at      TEXT,''),
      tabbed 3 (''status_session_id TEXT NOT NULL DEFAULT '' @ [CHR 0x27, CHR 0x27] @ '',''),
      tabbed 3 (''status_sequence   INTEGER NOT NULL DEFAULT 0''),
      tabbed 3 (''                  CHECK (status_sequence >= 0)''),
      tabbed 2 ('') STRICT;'')])
     @ tabbed 1 ('''')"

definition CreateTables :: "sql_driver \<Rightarrow> act" where
  "CreateTables Q log = (sql_Exec Q tables_statement, CreatedTables # log)"

section \<open>The server\<close>

text \<open>
  \<open>Ends\<close>: \<open>ServeTLS\<close> returns by itself. \<open>Cancelled\<close>: the context is done; the errors are those of
  \<open>Shutdown\<close>, of \<open>Close\<close>, which is only called when \<open>Shutdown\<close> fails, and of \<open>ServeTLS\<close>, which
  both wait for.
\<close>

definition unless_closed :: "run_env \<Rightarrow> error option \<Rightarrow> error option" where
  "unless_closed Z err =
     (case err of Some e \<Rightarrow> if rz_ServerClosed Z e then None else Some e | None \<Rightarrow> None)"

definition runServer :: "run_env \<Rightarrow> act" where
  "runServer Z log =
     (let log = Opened ServeRoutine # log
      in case rz_Serve Z of
           Ends err \<Rightarrow> (unless_closed Z err, Closed ServeRoutine # log)
         | Cancelled shutdownErr closed serveErr \<Rightarrow>
             let closeErr = (if shutdownErr \<noteq> None then closed else None)
             in (errors_Join [shutdownErr, closeErr, unless_closed Z serveErr], Closed ServeRoutine # log))"

definition serve_and_schedule :: "run_env \<Rightarrow> act" where
  "serve_and_schedule Z log =
     (case runServer Z (Opened SchedulerRoutine # log) of
        (serverErr, log) \<Rightarrow>
          (errors_Join [serverErr, map_option (Wrap ''run scheduler'') (rz_Scheduler Z)],
           Closed SchedulerRoutine # QueueShutdown # log))"

definition listen_and_serve :: "run_env \<Rightarrow> act" where
  "listen_and_serve Z log =
     (case rz_Listen Z of
        Some e \<Rightarrow> (Some (Wrap ''listen'' e), log)
      | None \<Rightarrow> deferring [Closed Listener] (serve_and_schedule Z) (Opened Listener # log))"

definition open_and_serve :: "run_env \<Rightarrow> 'db bolt \<Rightarrow> 'db \<Rightarrow> act" where
  "open_and_serve Z B db log =
     (case NewCollection B ''nodes'' marshal_Node unmarshal_Node db of
        (Inl e, _) \<Rightarrow> (Some (Wrap ''open nodes collection'' e), log)
      | (Inr _, db1) \<Rightarrow>
          (case NewCollection B ''containers'' marshal_Container unmarshal_Container db1 of
             (Inl e, _) \<Rightarrow> (Some (Wrap ''open containers collection'' e), log)
           | (Inr _, db2) \<Rightarrow>
               deferring [QueueShutdown]
                 (case newServer B db2 of
                    (Inl e, _) \<Rightarrow> (\<lambda>log. (Some (Wrap ''create API server'' e), log))
                  | (Inr _, _) \<Rightarrow> listen_and_serve Z) log))"

text \<open>The deferred closing of the database joins its error to the one that is returned.\<close>

definition closing_db :: "run_env \<Rightarrow> act \<Rightarrow> act" where
  "closing_db Z a log =
     (case a log of
        (runErr, log1) \<Rightarrow>
          (case store_Close Z log1 of
             (Some e, log2) \<Rightarrow> (errors_Join [runErr, Some (Wrap ''close db'' e)], log2)
           | (None, log2) \<Rightarrow> (runErr, log2)))"

definition server_run :: "run_env \<Rightarrow> 'db bolt \<Rightarrow> 'db \<Rightarrow> act" where
  "server_run Z B db =
     and_then (checked ''load CA'' (case rz_LoadCA Z of Inl e \<Rightarrow> Some e | Inr _ \<Rightarrow> None))
     (and_then (checked ''create db directory'' (rz_MkdirAll Z))
     (and_then (\<lambda>log. case store_Open Z log of (e, log') \<Rightarrow> (map_option (Wrap ''open db'') e, log'))
       (closing_db Z
         (and_then (sqlitestore_Open (rz_sql Z) ''./hambo.db'')
           (deferring sqlitestore_Close
             (and_then (CreateTables (rz_sql Z))
               (open_and_serve Z B db)))))))"

text \<open>The collections and the server it opens are those of \<open>open_state\<close>.\<close>

lemma open_and_serve_state:
  "open_and_serve Z B db log =
     (case fst (open_state B db) of
        Inl e \<Rightarrow> (Some e, (if (\<exists>x. e = Wrap ''create API server'' x) then QueueShutdown # log else log))
      | Inr _ \<Rightarrow> deferring [QueueShutdown] (listen_and_serve Z) log)"
  by (simp add: open_and_serve_def open_state_def deferring_def split: prod.split sum.split)

section \<open>What is held\<close>

text \<open>
  The resources held after a log, the last one first. \<open>None\<close>: one was closed out of turn, or the
  scheduler's end was waited for without shutting the queue down right before.
\<close>

fun held :: "event list \<Rightarrow> resource list option" where
  "held [] = Some []"
| "held (Opened x # log) = map_option ((#) x) (held log)"
| "held (Closed x # log) =
     (case held log of
        Some (y # ys) \<Rightarrow>
          if y = x \<and> (x = SchedulerRoutine \<longrightarrow> take 1 log = [QueueShutdown]) then Some ys else None
      | _ \<Rightarrow> None)"
| "held (QueueShutdown # log) = held log"
| "held (CreatedTables # log) = held log"

text \<open>A part that gives back what it takes.\<close>

definition balanced :: "act \<Rightarrow> bool" where
  "balanced a \<longleftrightarrow> (\<forall>log h e log'. held log = Some h \<longrightarrow> a log = (e, log') \<longrightarrow> held log' = Some h)"

lemma balancedD: "balanced a \<Longrightarrow> held log = Some h \<Longrightarrow> held (snd (a log)) = Some h"
  unfolding balanced_def by (metis prod.collapse)

lemma balancedI: "(\<And>log h. held log = Some h \<Longrightarrow> held (snd (a log)) = Some h) \<Longrightarrow> balanced a"
  unfolding balanced_def by (metis snd_conv)

lemma balanced_serve: "balanced (listen_and_serve Z)"
  by (rule balancedI)
    (simp add: listen_and_serve_def deferring_def serve_and_schedule_def runServer_def Let_def split_beta
      split: option.split serve_outcome.split)

lemma balanced_open: "balanced (open_and_serve Z B db)"
proof (rule balancedI)
  fix log h assume "held log = Some h"
  then show "held (snd (open_and_serve Z B db log)) = Some h"
    using balancedD [OF balanced_serve]
    by (simp add: open_and_serve_state deferring_def split_beta split: sum.split)
qed

text \<open>Opening takes what closing gives back, and takes nothing when it fails.\<close>

lemma sqlitestore_Open_held:
  assumes "held log = Some h" and "sqlitestore_Open Q path log = (e, log')"
  shows "held log' = Some (if e = None then SqlRead # SqlWrite # h else h)"
proof -
  have "held (snd (sqlitestore_Open Q path log))
      = Some (if fst (sqlitestore_Open Q path log) = None then SqlRead # SqlWrite # h else h)"
    using assms(1) by (simp add: sqlitestore_Open_def Let_def split: option.split)
  then show ?thesis using assms(2) by simp
qed

lemma balanced_sqlite:
  assumes "balanced a"
  shows "balanced (and_then (sqlitestore_Open Q path) (deferring sqlitestore_Close a))"
proof (rule balancedI)
  fix log h assume h: "held log = Some h"
  obtain e log1 where o: "sqlitestore_Open Q path log = (e, log1)" by fastforce
  have 1: "held log1 = Some (if e = None then SqlRead # SqlWrite # h else h)"
    by (rule sqlitestore_Open_held [OF h o])
  show "held (snd (and_then (sqlitestore_Open Q path) (deferring sqlitestore_Close a) log)) = Some h"
    using 1 o balancedD [OF assms, of log1]
    by (cases e) (simp_all add: and_then_def deferring_def sqlitestore_Close_def split_beta)
qed

lemma balanced_tables:
  assumes "balanced a"
  shows "balanced (and_then (CreateTables Q) a)"
proof (rule balancedI)
  fix log h assume "held log = Some h"
  then show "held (snd (and_then (CreateTables Q) a log)) = Some h"
    using balancedD [OF assms, of "CreatedTables # log" h]
    by (simp add: and_then_def CreateTables_def split: option.split)
qed

lemma held_run: "held (snd (server_run Z B db [])) = Some []"
proof -
  let ?a = "and_then (sqlitestore_Open (rz_sql Z) ''./hambo.db'') (deferring sqlitestore_Close
    (and_then (CreateTables (rz_sql Z)) (open_and_serve Z B db)))"
  have "balanced ?a" by (intro balanced_sqlite balanced_tables balanced_open)
  from balancedD [OF this, of "[Opened Database]"] have "held (snd (?a [Opened Database])) = Some [Database]"
    by simp
  then have closed: "held (snd (closing_db Z ?a [Opened Database])) = Some []"
    by (simp add: closing_db_def store_Close_def split_beta split: option.split)
  define b where "b = closing_db Z ?a"
  show ?thesis
    using closed unfolding server_run_def b_def [symmetric]
    by (simp add: and_then_def checked_def store_Open_def split: option.split sum.split)
qed

section \<open>When it returns no error\<close>

lemma errors_Join_eq_None: "errors_Join [a, b] = None \<longleftrightarrow> a = None \<and> b = None"
  "errors_Join [a, b, c] = None \<longleftrightarrow> a = None \<and> b = None \<and> c = None"
  by (simp_all add: errors_Join_None)

text \<open>How serving ends without an error.\<close>

definition served_well :: "run_env \<Rightarrow> bool" where
  "served_well Z \<longleftrightarrow>
     (case rz_Serve Z of
        Ends err \<Rightarrow> unless_closed Z err = None
      | Cancelled shutdownErr _ serveErr \<Rightarrow> shutdownErr = None \<and> unless_closed Z serveErr = None)"

lemma runServer_None: "fst (runServer Z log) = None \<longleftrightarrow> served_well Z"
  by (auto simp: runServer_def served_well_def Let_def errors_Join_eq_None split: serve_outcome.split)

lemma listen_and_serve_None:
  "fst (listen_and_serve Z log) = None \<longleftrightarrow> rz_Listen Z = None \<and> served_well Z \<and> rz_Scheduler Z = None"
  by (auto simp: listen_and_serve_def deferring_def serve_and_schedule_def errors_Join_eq_None split_beta
      runServer_None split: option.split)

lemma sqlitestore_Open_None:
  "fst (sqlitestore_Open Q path log) = None \<longleftrightarrow> sql_Open Q (writePath path) = None
    \<and> sql_Ping Q (writePath path) = None \<and> sql_Open Q (readPath path) = None \<and> sql_Ping Q (readPath path) = None"
  by (simp add: sqlitestore_Open_def Let_def split: option.split)

lemma and_then_None:
  "fst (and_then a b log) = None \<longleftrightarrow> fst (a log) = None \<and> fst (b (snd (a log))) = None"
  by (simp add: and_then_def split_beta split: option.split)

lemma open_and_serve_None:
  "fst (open_and_serve Z B db log) = None \<longleftrightarrow> (\<exists>s. fst (open_state B db) = Inr s) \<and> rz_Listen Z = None
    \<and> served_well Z \<and> rz_Scheduler Z = None"
  by (auto simp: open_and_serve_state deferring_def split_beta listen_and_serve_None split: sum.split)

lemma server_run_None:
  "fst (server_run Z B db log) = None \<longleftrightarrow>
     (\<exists>ca. rz_LoadCA Z = Inr ca) \<and> rz_MkdirAll Z = None \<and> rz_bolt_Open Z = None
     \<and> fst (sqlitestore_Open (rz_sql Z) ''./hambo.db'' []) = None \<and> sql_Exec (rz_sql Z) tables_statement = None
     \<and> (\<exists>s. fst (open_state B db) = Inr s) \<and> rz_Listen Z = None \<and> served_well Z \<and> rz_Scheduler Z = None
     \<and> rz_bolt_Close Z = None"
proof -
  let ?a = "and_then (sqlitestore_Open (rz_sql Z) ''./hambo.db'') (deferring sqlitestore_Close
    (and_then (CreateTables (rz_sql Z)) (open_and_serve Z B db)))"
  have "fst (closing_db Z ?a l) = None \<longleftrightarrow> fst (?a l) = None \<and> rz_bolt_Close Z = None" for l
    by (auto simp: closing_db_def store_Close_def errors_Join_eq_None split_beta split: option.split)
  moreover have "fst (?a l) = None \<longleftrightarrow> fst (sqlitestore_Open (rz_sql Z) ''./hambo.db'' []) = None
      \<and> sql_Exec (rz_sql Z) tables_statement = None \<and> fst (open_and_serve Z B db []) = None" for l
    by (auto simp: and_then_None deferring_def CreateTables_def split_beta open_and_serve_None sqlitestore_Open_None)
  ultimately show ?thesis
    unfolding server_run_def
    by (auto simp: and_then_None checked_def store_Open_def open_and_serve_None split: option.split sum.split)
qed

text \<open>
  Claim C39: the server gives back what it takes, whatever fails. After \<open>run\<close> nothing is held: the
  database, both handles of SQLite, the listener and the two goroutines were closed in the
  opposite order of their opening, and the queue was shut down right before the end of the
  scheduler was waited for, while the database was open. It returns no error exactly when every
  step worked, serving ended in an orderly way, the scheduler returned none and the database
  closed.
\<close>

theorem server_run_releases:
  "held (snd (server_run Z B db [])) = Some []
   \<and> (fst (server_run Z B db []) = None \<longleftrightarrow>
       (\<exists>ca. rz_LoadCA Z = Inr ca) \<and> rz_MkdirAll Z = None \<and> rz_bolt_Open Z = None
       \<and> fst (sqlitestore_Open (rz_sql Z) ''./hambo.db'' []) = None \<and> sql_Exec (rz_sql Z) tables_statement = None
       \<and> (\<exists>s. fst (open_state B db) = Inr s) \<and> rz_Listen Z = None \<and> served_well Z \<and> rz_Scheduler Z = None
       \<and> rz_bolt_Close Z = None)"
  by (rule conjI [OF held_run server_run_None])

section \<open>The scheduler ends\<close>

text \<open>How many steps of its own the scheduler is from its end, once the queue is shut down.\<close>

fun sched_rank :: "sched_phase \<Rightarrow> nat" where
  "sched_rank Stopped = 0"
| "sched_rank Ready = 1"
| "sched_rank Starting = 2"
| "sched_rank (Finishing k err) = 2"
| "sched_rank (Committed k outcome) = 3"
| "sched_rank (Assigning k) = 4"

lemma Get_shut: "shuttingDown q \<Longrightarrow> Queue.Get q = (Some ([], True), q)"
  by (simp add: Get_def)

lemma assign_finish_total:
  assumes "watcher_inv w"
  shows "\<exists>err w'. assign_finish outcome w = Some (err, w')"
proof -
  obtain retry n e where o: "outcome = ((retry, n), e)" by (metis prod.exhaust)
  obtain e' w' where "Notify n w = Some (e', w')" using Notify_total [OF assms] by blast
  then show ?thesis by (cases e; cases e') (simp_all add: o assign_finish_def Let_def)
qed

lemma shut_kept [simp]:
  "shuttingDown (fst (Add k q)) = shuttingDown q" "shuttingDown (fst (Done k q)) = shuttingDown q"
  by (simp_all add: Add_def Done_def Let_def)

context hambo_db
begin

lemma shut_step:
  assumes "sys_step E y z" and E: "e_B E = B" and base: "base_inv E y" and shut: "shuttingDown (sy_queue y)"
  shows "(shuttingDown (sy_queue z) \<and> (sy_sched z = sy_sched y \<or> sched_rank (sy_sched z) < sched_rank (sy_sched y)))
    \<or> (\<exists>s n db'. open_state B (sy_db y) = (Inr s, db') \<and> z = boot s n)"
  using assms(1)
proof cases
  case (request g r resp s')
  have inv: "state_inv B (sy_state y)" using base E by (simp add: base_inv_def)
  have "request_ok B (sy_state y) s'" using serve_commit_ok [OF inv E request(2)] by simp
  then show ?thesis using request(1) shut by (simp add: request_ok_def)
next
  case (create_commits g r c s')
  have inv: "state_inv B (sy_state y)" using base E by (simp add: base_inv_def)
  have "commit_ok B {c_ID c} (sy_state y) s'" using serve_commit_ok [OF inv E create_commits(2)] by simp
  then show ?thesis using create_commits(1) shut by (simp add: commit_ok_def)
next
  case (create_adds cs c ds resp s')
  then show ?thesis using finish_simps [OF create_adds(3)] shut by simp
next
  case (sched_start s')
  have inv: "state_inv B (sy_state y)" using base E by (simp add: base_inv_def)
  then obtain es where "s' = (sy_state y)\<lparr>st_queue := hydrate_loop es (sy_queue y)\<rparr>"
    using run_start_Inr sched_start(3) E by (fastforce simp: state_inv_def)
  moreover have "queue_inv (sy_queue y)" using inv by (simp add: state_inv_def)
  ultimately show ?thesis using sched_start(1,2) shut hydrate_queue(3) by simp
next
  case (sched_fails e s')
  then have "s' = sy_state y" by (auto simp: run_start_def split: sum.splits)
  then show ?thesis using sched_fails(1,2) shut by simp
next
  case (sched_get k q)
  then show ?thesis using Get_shut [OF shut] by simp
next
  case (sched_stop k q)
  then show ?thesis using Get_shut [OF shut] shut by simp
next
  case (shutdown q wk)
  then show ?thesis using shut by (simp add: Shutdown_def)
next
  case (restart s db' n)
  then show ?thesis using E by blast
qed (use shut in simp_all)

lemma shut_progress:
  assumes E: "e_B E = B" and base: "base_inv E y" and shut: "shuttingDown (sy_queue y)"
    and "sy_sched y \<noteq> Stopped"
  shows "\<exists>z. sys_step E y z \<and> sched_rank (sy_sched z) < sched_rank (sy_sched y)"
proof (cases "sy_sched y")
  case Starting
  obtain r s' where r: "run_start (e_B E) (sy_state y) = (r, s')" by fastforce
  show ?thesis
  proof (cases r)
    case None
    then show ?thesis using sys_step.sched_start [OF Starting] r Starting by fastforce
  next
    case (Some e)
    then show ?thesis using sys_step.sched_fails [OF Starting] r Starting by fastforce
  qed
next
  case Ready
  show ?thesis
    by (rule exI, rule conjI, rule sys_step.sched_stop [OF Ready Get_shut [OF shut]]) (simp add: Ready)
next
  case (Assigning k)
  obtain captured err db' where "assign_write (e_B E) 0 k (sy_db y) = (captured, err, db')"
    by (metis prod.exhaust)
  then show ?thesis using sys_step.sched_commit [OF Assigning] Assigning by fastforce
next
  case (Committed k outcome)
  have "watcher_inv (sy_watcher y)" using base by (simp add: base_inv_def state_inv_def)
  then obtain err w where "assign_finish outcome (sy_watcher y) = Some (err, w)"
    using assign_finish_total by blast
  then show ?thesis using sys_step.sched_notify [OF Committed] Committed by fastforce
next
  case (Finishing k err)
  show ?thesis
    by (rule exI, rule conjI, rule sys_step.sched_done [OF Finishing refl]) (simp add: Finishing)
qed (use assms(4) in simp)

end

text \<open>
  Claim C40: once the queue is shut down the scheduler ends. From then on, until the server is started
  again, the queue stays shut down, no step of the system brings the scheduler back from
  its end, and until it has ended a step of its own is possible that brings it nearer, of
  which there are at most four.
\<close>

theorem shutdown_stops_scheduler:
  assumes "hambo_db (e_B E)" and "sys_reach E y" and "shuttingDown (sy_queue y)"
  shows "(\<forall>z. sys_step E y z \<longrightarrow>
        (shuttingDown (sy_queue z) \<and> (sy_sched z = sy_sched y \<or> sched_rank (sy_sched z) < sched_rank (sy_sched y)))
        \<or> (\<exists>s n db'. open_state (e_B E) (sy_db y) = (Inr s, db') \<and> z = boot s n))
    \<and> (sy_sched y \<noteq> Stopped \<longrightarrow>
        (\<exists>z. sys_step E y z \<and> sched_rank (sy_sched z) < sched_rank (sy_sched y)))
    \<and> sched_rank (sy_sched y) \<le> 4"
proof -
  have base: "base_inv E y" by (rule hambo_db.sys_reach_base [OF assms(1,2) refl])
  have "sched_rank p \<le> 4" for p by (cases p) simp_all
  then show ?thesis
    using hambo_db.shut_step [OF assms(1) _ refl base assms(3)]
      hambo_db.shut_progress [OF assms(1) refl base assms(3)] by blast
qed

definition y_shut :: "mem_db system" where
  "y_shut = set_queue (NewMemoryQueue\<lparr>shuttingDown := True, shutdownCh_closed := True\<rparr>) (y_ready ex0)"

theorem shutdown_stops_scheduler_witness:
  "\<exists>z. sys_step ex_env y_shut z \<and> sched_rank (sy_sched z) < 1"
proof -
  have "Shutdown (sy_queue (y_ready ex0))
      = Some (NewMemoryQueue\<lparr>shuttingDown := True, shutdownCh_closed := True\<rparr>, Broadcast)"
    by (simp add: ex0_def Shutdown_def NewMemoryQueue_def)
  then have "sys_reach ex_env y_shut"
    unfolding y_shut_def by (intro sys_reach.step [OF reach0] sys_step.shutdown)
  moreover have "sy_sched y_shut = Ready" "shuttingDown (sy_queue y_shut)" by (simp_all add: y_shut_def set_queue_def)
  ultimately show ?thesis using shutdown_stops_scheduler [OF ex_hambo(2), of y_shut] by simp
qed

end
