(* ===== verification/Simple_Container.thy ===== *)
theory Simple_Container
  imports Docker "HOL-Library.AList"
begin

text \<open>
  \<open>cmd/simpleworker/container.go\<close>: the containers of the simple worker, which runs them on the
  local Docker daemon without a cluster: their JSON documents, the defaults and the checks of a
  configuration. \<open>None\<close> for a slice is nil, which differs from an empty one. The environment, a
  Go map, is the list of its entries; its keys are distinct. Parameters (\<open>sw_env\<close>) are the
  parser of image references, \<open>time.ParseDuration\<close>, the order in which a range statement visits
  the entries of a map, the text of an error, \<open>errdefs.IsNotFound\<close> and the Docker client.
\<close>

section \<open>Types\<close>

record ContainerConfig =
  cf_Name :: string
  cf_Image :: string
  cf_PullPolicy :: string
  cf_Entrypoint :: "string list option"
  cf_Command :: "string list option"
  cf_Environment :: "(string \<times> string) list"
  cf_WorkingDir :: string
  cf_Restart :: string
  cf_StopGracePeriod :: string

record ContainerStatus =
  cs_DockerID :: string
  cs_State :: string
  cs_ExitCode :: "go_int option"
  cs_Error :: string

record sw_container =
  sc_ID :: string
  sc_Config :: ContainerConfig
  sc_Status :: ContainerStatus

definition sw_StatePending :: string where "sw_StatePending = ''pending''"
definition sw_StateFailed :: string where "sw_StateFailed = ''failed''"
definition sw_StateMissing :: string where "sw_StateMissing = ''missing''"
definition sw_StateExited :: string where "sw_StateExited = ''exited''"

definition PullMissing :: string where "PullMissing = ''missing''"
definition PullAlways :: string where "PullAlways = ''always''"
definition PullNever :: string where "PullNever = ''never''"

definition RestartNo :: string where "RestartNo = ''no''"
definition RestartOnFailure :: string where "RestartOnFailure = ''on-failure''"
definition RestartAlways :: string where "RestartAlways = ''always''"

definition zero_ContainerConfig :: ContainerConfig where
  "zero_ContainerConfig = \<lparr>cf_Name = [], cf_Image = [], cf_PullPolicy = [], cf_Entrypoint = None,
     cf_Command = None, cf_Environment = [], cf_WorkingDir = [], cf_Restart = [], cf_StopGracePeriod = []\<rparr>"

definition zero_ContainerStatus :: ContainerStatus where
  "zero_ContainerStatus = \<lparr>cs_DockerID = [], cs_State = [], cs_ExitCode = None, cs_Error = []\<rparr>"

definition zero_sw_container :: sw_container where
  "zero_sw_container = \<lparr>sc_ID = [], sc_Config = zero_ContainerConfig, sc_Status = zero_ContainerStatus\<rparr>"

record 'd sw_env =
  sw_Docker :: "'d docker"
  sw_IsNotFound :: "error \<Rightarrow> bool"
  sw_ParseNormalizedNamed :: "string \<Rightarrow> error option"
  sw_ParseDuration :: "string \<Rightarrow> duration result"
  sw_Range :: "(string \<times> string) list \<Rightarrow> (string \<times> string) list"
  sw_Error :: "error \<Rightarrow> string"

section \<open>Documents\<close>

text \<open>
  A slice that is nil is written \<open>null\<close>. The members of a map are stored one by one in the map
  that is there; its keys are written in order.
\<close>

definition enc_strings :: "string list option \<Rightarrow> json" where
  "enc_strings s = (case s of None \<Rightarrow> JNull | Some xs \<Rightarrow> JArr (map JStr xs))"

definition dec_strings :: "json \<Rightarrow> string list option result" where
  "dec_strings j =
     (case j of
        JArr js \<Rightarrow> map_value Some (map_result (\<lambda>j. dec_string j []) js)
      | JNull \<Rightarrow> Inr None
      | _ \<Rightarrow> type_error)"

definition dec_environment :: "json \<Rightarrow> (string \<times> string) list \<Rightarrow> (string \<times> string) list result" where
  "dec_environment j old =
     (case j of
        JObj ms \<Rightarrow> fold_result (\<lambda>(k, v) env. map_value (\<lambda>s. AList.update k s env) (dec_string v [])) ms old
      | JNull \<Rightarrow> Inr []
      | _ \<Rightarrow> type_error)"

definition config_members :: "ContainerConfig \<Rightarrow> (string \<times> json) list" where
  "config_members c =
     [(''name'', JStr (cf_Name c)), (''image'', JStr (cf_Image c))]
     @ omit_string ''pull_policy'' (cf_PullPolicy c)
     @ [(''entrypoint'', enc_strings (cf_Entrypoint c)), (''command'', enc_strings (cf_Command c))]
     @ (if cf_Environment c = [] then []
        else [(''environment'', JObj (map (\<lambda>(k, v). (k, JStr v)) (sort_key fst (cf_Environment c))))])
     @ omit_string ''working_dir'' (cf_WorkingDir c)
     @ omit_string ''restart'' (cf_Restart c)
     @ omit_string ''stop_grace_period'' (cf_StopGracePeriod c)"

definition enc_ContainerConfig :: "ContainerConfig \<Rightarrow> json" where
  "enc_ContainerConfig c = JObj (config_members c)"

definition ContainerConfig_fields :: "ContainerConfig fields" where
  "ContainerConfig_fields =
     [(''name'', \<lambda>j c. map_value (\<lambda>x. c\<lparr>cf_Name := x\<rparr>) (dec_string j (cf_Name c))),
      (''image'', \<lambda>j c. map_value (\<lambda>x. c\<lparr>cf_Image := x\<rparr>) (dec_string j (cf_Image c))),
      (''pull_policy'', \<lambda>j c. map_value (\<lambda>x. c\<lparr>cf_PullPolicy := x\<rparr>) (dec_string j (cf_PullPolicy c))),
      (''entrypoint'', \<lambda>j c. map_value (\<lambda>x. c\<lparr>cf_Entrypoint := x\<rparr>) (dec_strings j)),
      (''command'', \<lambda>j c. map_value (\<lambda>x. c\<lparr>cf_Command := x\<rparr>) (dec_strings j)),
      (''environment'', \<lambda>j c. map_value (\<lambda>x. c\<lparr>cf_Environment := x\<rparr>) (dec_environment j (cf_Environment c))),
      (''working_dir'', \<lambda>j c. map_value (\<lambda>x. c\<lparr>cf_WorkingDir := x\<rparr>) (dec_string j (cf_WorkingDir c))),
      (''restart'', \<lambda>j c. map_value (\<lambda>x. c\<lparr>cf_Restart := x\<rparr>) (dec_string j (cf_Restart c))),
      (''stop_grace_period'',
         \<lambda>j c. map_value (\<lambda>x. c\<lparr>cf_StopGracePeriod := x\<rparr>) (dec_string j (cf_StopGracePeriod c)))]"

definition dec_ContainerConfig :: "json \<Rightarrow> ContainerConfig result" where
  "dec_ContainerConfig = decode_struct True ContainerConfig_fields zero_ContainerConfig"

definition enc_ContainerStatus :: "ContainerStatus \<Rightarrow> json" where
  "enc_ContainerStatus t =
     JObj (omit_string ''docker_id'' (cs_DockerID t) @ [(''state'', JStr (cs_State t))]
       @ omit_int ''exit_code'' (cs_ExitCode t) @ omit_string ''error'' (cs_Error t))"

definition ContainerStatus_fields :: "ContainerStatus fields" where
  "ContainerStatus_fields =
     [(''docker_id'', \<lambda>j t. map_value (\<lambda>x. t\<lparr>cs_DockerID := x\<rparr>) (dec_string j (cs_DockerID t))),
      (''state'', \<lambda>j t. map_value (\<lambda>x. t\<lparr>cs_State := x\<rparr>) (dec_string j (cs_State t))),
      (''exit_code'', \<lambda>j t. map_value (\<lambda>x. t\<lparr>cs_ExitCode := x\<rparr>) (dec_int_ptr j)),
      (''error'', \<lambda>j t. map_value (\<lambda>x. t\<lparr>cs_Error := x\<rparr>) (dec_string j (cs_Error t)))]"

text \<open>The configuration is an embedded struct: its members stand in the document of the container.\<close>

definition enc_sw_container :: "sw_container \<Rightarrow> json" where
  "enc_sw_container c =
     JObj ((''id'', JStr (sc_ID c)) # config_members (sc_Config c)
       @ [(''status'', enc_ContainerStatus (sc_Status c))])"

definition sw_container_fields :: "sw_container fields" where
  "sw_container_fields =
     [(''id'', \<lambda>j c. map_value (\<lambda>x. c\<lparr>sc_ID := x\<rparr>) (dec_string j (sc_ID c))),
      (''status'', \<lambda>j c. map_value (\<lambda>x. c\<lparr>sc_Status := x\<rparr>)
         (decode_struct False ContainerStatus_fields (sc_Status c) j))]
     @ map (\<lambda>(k, store). (k, \<lambda>j c. map_value (\<lambda>x. c\<lparr>sc_Config := x\<rparr>) (store j (sc_Config c))))
         ContainerConfig_fields"

definition dec_sw_container :: "json \<Rightarrow> sw_container result" where
  "dec_sw_container = decode_struct False sw_container_fields zero_sw_container"

section \<open>Defaults and checks\<close>

definition applyContainerDefaults :: "ContainerConfig \<Rightarrow> ContainerConfig" where
  "applyContainerDefaults c0 =
     (let c1 = if cf_PullPolicy c0 = [] then c0\<lparr>cf_PullPolicy := PullMissing\<rparr> else c0;
          c2 = if cf_Restart c1 = [] then c1\<lparr>cf_Restart := RestartNo\<rparr> else c1
      in if cf_StopGracePeriod c2 = [] then c2\<lparr>cf_StopGracePeriod := ''10s''\<rparr> else c2)"

definition alphanumeric :: "char \<Rightarrow> bool" where
  "alphanumeric ch \<longleftrightarrow> (let n = code ch in 97 \<le> n \<and> n \<le> 122 \<or> 65 \<le> n \<and> n \<le> 90 \<or> 48 \<le> n \<and> n \<le> 57)"

definition containerNamePattern :: "string \<Rightarrow> bool" where
  "containerNamePattern s =
     (case s of
        [] \<Rightarrow> False
      | ch # rest \<Rightarrow> alphanumeric ch \<and> list_all (\<lambda>d. alphanumeric d \<or> d \<in> {CHR ''_'', CHR ''.'', CHR ''-''}) rest)"

definition path_IsAbs :: "string \<Rightarrow> bool" where
  "path_IsAbs p \<longleftrightarrow> p \<noteq> [] \<and> hd p = CHR ''/''"

definition validateContainer :: "'d sw_env \<Rightarrow> ContainerConfig \<Rightarrow> error option" where
  "validateContainer S c =
     (if cf_Name c = [] then Some (Msg ''name is required'')
      else if length (cf_Name c) > 63 then Some (Msg ''name must not exceed 63 characters'')
      else if \<not> containerNamePattern (cf_Name c) then Some (Msg ''invalid container name'')
      else if cf_Image c = [] then Some (Msg ''image is required'')
      else case sw_ParseNormalizedNamed S (cf_Image c) of
        Some e \<Rightarrow> Some (Wrap ''invalid image'' e)
      | None \<Rightarrow>
          if cf_PullPolicy c \<notin> {PullMissing, PullAlways, PullNever} then Some (Msg ''unsupported pull policy'')
          else if (case cf_Entrypoint c of Some (x # _) \<Rightarrow> x = [] | _ \<Rightarrow> False)
          then Some (Msg ''entrypoint executable cannot be empty; use [] to clear it'')
          else if cf_Entrypoint c = Some []
            \<and> (case cf_Command c of Some (x # _) \<Rightarrow> x = [] | _ \<Rightarrow> True)
          then Some (Msg ''command must provide an executable when entrypoint is cleared'')
          else if list_ex (\<lambda>(k, _). k = [] \<or> CHR ''='' \<in> set k) (sw_Range S (cf_Environment c))
          then Some (Msg ''invalid environment variable name'')
          else if cf_WorkingDir c \<noteq> [] \<and> \<not> path_IsAbs (cf_WorkingDir c)
          then Some (Msg ''working_dir must be an absolute container path'')
          else if cf_Restart c \<notin> {RestartNo, RestartOnFailure, RestartAlways}
          then Some (Msg ''unsupported restart policy'')
          else case sw_ParseDuration S (cf_StopGracePeriod c) of
            Inl e \<Rightarrow> Some (Wrap ''invalid stop_grace_period'' e)
          | Inr gracePeriod \<Rightarrow>
              if gracePeriod < 0 then Some (Msg ''stop_grace_period cannot be negative'') else None)"

section \<open>What the decoder and the checks give\<close>

lemma check_None: "(if b then Some x else r) = None \<longleftrightarrow> \<not> b \<and> r = None"
  by simp

lemma cleared_strings:
  "(case e of Some (x # _) \<Rightarrow> x = [] | _ \<Rightarrow> False) \<longleftrightarrow> (\<exists>xs. e = Some ([] # xs))"
  "(case e of Some (x # _) \<Rightarrow> x = [] | _ \<Rightarrow> True) \<longleftrightarrow> (\<forall>x xs. e = Some (x # xs) \<longrightarrow> x = [])"
  by (auto split: option.splits list.splits)

lemma grace_None:
  "(case g of Inl e \<Rightarrow> Some (Wrap m e) | Inr v \<Rightarrow> if v < (0 :: int) then Some x else None) = None
    \<longleftrightarrow> (\<exists>v \<ge> 0. g = Inr v)"
  by (auto split: sum.splits)

lemma image_None:
  "(case i of Some e \<Rightarrow> Some (Wrap m e) | None \<Rightarrow> r) = None \<longleftrightarrow> i = None \<and> r = None"
  by (cases i) auto

lemma validateContainer_None:
  "validateContainer S c = None \<longleftrightarrow>
     cf_Name c \<noteq> [] \<and> length (cf_Name c) \<le> 63 \<and> containerNamePattern (cf_Name c) \<and> cf_Image c \<noteq> []
     \<and> sw_ParseNormalizedNamed S (cf_Image c) = None
     \<and> cf_PullPolicy c \<in> {PullMissing, PullAlways, PullNever}
     \<and> (\<nexists>xs. cf_Entrypoint c = Some ([] # xs))
     \<and> (cf_Entrypoint c = Some [] \<longrightarrow> (\<exists>x xs. cf_Command c = Some (x # xs) \<and> x \<noteq> []))
     \<and> (\<forall>(k, v) \<in> set (sw_Range S (cf_Environment c)). k \<noteq> [] \<and> CHR ''='' \<notin> set k)
     \<and> (cf_WorkingDir c = [] \<or> path_IsAbs (cf_WorkingDir c))
     \<and> cf_Restart c \<in> {RestartNo, RestartOnFailure, RestartAlways}
     \<and> (\<exists>grace \<ge> 0. sw_ParseDuration S (cf_StopGracePeriod c) = Inr grace)"
  unfolding validateContainer_def
  by (simp add: check_None cleared_strings grace_None image_None list_ex_iff not_less split_beta del: insert_iff)

lemma dec_environment_distinct:
  assumes "dec_environment j old = Inr env" and "distinct (map fst old)"
  shows "distinct (map fst env)"
proof (cases j)
  case (JObj ms)
  then have "fold_result (\<lambda>(k, v) env. map_value (\<lambda>s. AList.update k s env) (dec_string v [])) ms old = Inr env"
    using assms(1) by (simp add: dec_environment_def)
  then show ?thesis
    by (rule fold_result_invariant [where P = "\<lambda>env. distinct (map fst env)"])
      (use assms(2) in \<open>auto simp: map_value_eq_Inr distinct_update\<close>)
qed (use assms in \<open>auto simp: dec_environment_def type_error_def\<close>)

text \<open>The keys of a decoded environment are distinct, whatever the document.\<close>

lemma decode_ContainerConfig_distinct:
  assumes "dec_ContainerConfig j = Inr c"
  shows "distinct (map fst (cf_Environment c))"
proof (cases j)
  case (JObj ms)
  then have "fold_result (decode_member True ContainerConfig_fields) ms zero_ContainerConfig = Inr c"
    using assms by (simp add: dec_ContainerConfig_def decode_struct_def)
  then show ?thesis
  proof (rule fold_result_invariant [where P = "\<lambda>c. distinct (map fst (cf_Environment c))"])
    fix m u v assume "distinct (map fst (cf_Environment u))" "decode_member True ContainerConfig_fields m u = Inr v"
    then show "distinct (map fst (cf_Environment v))"
      by (auto simp: decode_member_def ContainerConfig_fields_def map_value_eq_Inr
          dest: dec_environment_distinct split: if_splits)
  qed (simp add: zero_ContainerConfig_def)
qed (use assms in \<open>auto simp: dec_ContainerConfig_def decode_struct_def zero_ContainerConfig_def type_error_def\<close>)

lemma applyContainerDefaults_keeps [simp]:
  "cf_Environment (applyContainerDefaults c) = cf_Environment c"
  "cf_Entrypoint (applyContainerDefaults c) = cf_Entrypoint c"
  "cf_Command (applyContainerDefaults c) = cf_Command c"
  "cf_Name (applyContainerDefaults c) = cf_Name c" "cf_Image (applyContainerDefaults c) = cf_Image c"
  by (simp_all add: applyContainerDefaults_def Let_def)

section \<open>Documents are read back\<close>

lemma config_keys [key_simps]:
  "fold_name ''pull_policy'' = ''PULL_POLICY''" "fold_name ''entrypoint'' = ''ENTRYPOINT''"
  "fold_name ''command'' = ''COMMAND''" "fold_name ''environment'' = ''ENVIRONMENT''"
  "fold_name ''working_dir'' = ''WORKING_DIR''" "fold_name ''restart'' = ''RESTART''"
  "fold_name ''stop_grace_period'' = ''STOP_GRACE_PERIOD''" "fold_name ''docker_id'' = ''DOCKER_ID''"
  "fold_name ''error'' = ''ERROR''" "fold_name ''status'' = ''STATUS''"
  by code_simp+

lemma dec_strings_enc [codec_simps]: "dec_strings (enc_strings s) = Inr s"
proof -
  have "map_result (\<lambda>j. dec_string j []) (map JStr xs) = Inr xs" for xs
    by (induction xs) (simp_all add: codec_simps)
  then show ?thesis by (cases s) (simp_all add: dec_strings_def enc_strings_def)
qed

lemma dec_environment_members:
  assumes "distinct (map fst env)" and "fst ` set env \<inter> fst ` set old = {}"
  shows "dec_environment (JObj (map (\<lambda>(k, v). (k, JStr v)) env)) old = Inr (old @ env)"
  using assms unfolding dec_environment_def json.case
proof (induction env arbitrary: old)
  case (Cons e env)
  obtain k v where e: "e = (k, v)" by (cases e)
  have "k \<notin> fst ` set old" using Cons.prems(2) e by auto
  then have "AList.update k v old = old @ [(k, v)]"
    by (induction old) auto
  then show ?case
    using Cons.IH [of "old @ [(k, v)]"] Cons.prems e by (auto simp: codec_simps)
qed simp

lemma dec_environment_enc:
  "distinct (map fst env) \<Longrightarrow>
    dec_environment (JObj (map (\<lambda>(k, v). (k, JStr v)) (sort_key fst env))) [] = Inr (sort_key fst env)"
proof -
  assume "distinct (map fst env)"
  then have "distinct (map fst (sort_key fst env))"
    by (metis distinct_map distinct_sort set_sort)
  then show ?thesis using dec_environment_members [of "sort_key fst env" "[]"] by simp
qed

lemma sw_field_steps [codec_simps]:
  "decode_member False sw_container_fields (''id'', JStr s) c = Inr (c\<lparr>sc_ID := s\<rparr>)"
  "decode_member False sw_container_fields (''name'', JStr s) c
    = Inr (c\<lparr>sc_Config := (sc_Config c)\<lparr>cf_Name := s\<rparr>\<rparr>)"
  "decode_member False sw_container_fields (''image'', JStr s) c
    = Inr (c\<lparr>sc_Config := (sc_Config c)\<lparr>cf_Image := s\<rparr>\<rparr>)"
  "decode_member False sw_container_fields (''pull_policy'', JStr s) c
    = Inr (c\<lparr>sc_Config := (sc_Config c)\<lparr>cf_PullPolicy := s\<rparr>\<rparr>)"
  "decode_member False sw_container_fields (''entrypoint'', enc_strings xs) c
    = Inr (c\<lparr>sc_Config := (sc_Config c)\<lparr>cf_Entrypoint := xs\<rparr>\<rparr>)"
  "decode_member False sw_container_fields (''command'', enc_strings xs) c
    = Inr (c\<lparr>sc_Config := (sc_Config c)\<lparr>cf_Command := xs\<rparr>\<rparr>)"
  "decode_member False sw_container_fields (''working_dir'', JStr s) c
    = Inr (c\<lparr>sc_Config := (sc_Config c)\<lparr>cf_WorkingDir := s\<rparr>\<rparr>)"
  "decode_member False sw_container_fields (''restart'', JStr s) c
    = Inr (c\<lparr>sc_Config := (sc_Config c)\<lparr>cf_Restart := s\<rparr>\<rparr>)"
  "decode_member False sw_container_fields (''stop_grace_period'', JStr s) c
    = Inr (c\<lparr>sc_Config := (sc_Config c)\<lparr>cf_StopGracePeriod := s\<rparr>\<rparr>)"
  "decode_member False sw_container_fields (''environment'', j) c
    = map_value (\<lambda>x. c\<lparr>sc_Config := (sc_Config c)\<lparr>cf_Environment := x\<rparr>\<rparr>)
        (dec_environment j (cf_Environment (sc_Config c)))"
  "decode_member False sw_container_fields (''status'', j) c
    = map_value (\<lambda>x. c\<lparr>sc_Status := x\<rparr>) (decode_struct False ContainerStatus_fields (sc_Status c) j)"
  by (simp_all add: decode_member_def sw_container_fields_def ContainerConfig_fields_def codec_simps key_simps
      map_value_def split: sum.split)

lemma status_read_back:
  "decode_struct False ContainerStatus_fields zero_ContainerStatus (enc_ContainerStatus t) = Inr t"
  by (cases t) (auto simp: enc_ContainerStatus_def ContainerStatus_fields_def zero_ContainerStatus_def
      decode_member_def omit_string_def omit_int_def codec_simps key_simps split: option.split)

text \<open>Only the order of the environment is lost.\<close>

lemma sw_container_read_back:
  assumes "distinct (map fst (cf_Environment (sc_Config c)))"
  shows "dec_sw_container (enc_sw_container c) =
    Inr (c\<lparr>sc_Config := (sc_Config c)\<lparr>cf_Environment := sort_key fst (cf_Environment (sc_Config c))\<rparr>\<rparr>)"
proof -
  obtain i cfg t where c: "c = \<lparr>sc_ID = i, sc_Config = cfg, sc_Status = t\<rparr>" by (cases c)
  show ?thesis
    using dec_environment_enc [of "cf_Environment cfg"] assms
    by (cases cfg) (simp add: c dec_sw_container_def enc_sw_container_def config_members_def zero_sw_container_def
        zero_ContainerConfig_def omit_string_def codec_simps fold_result_append status_read_back)
qed

end
