(* ===== verification/Simple_Worker.thy ===== *)
theory Simple_Worker
  imports Simple_Container Client
begin

text \<open>
  The rest of \<open>cmd/simpleworker\<close>: the calls of the Docker client (\<open>docker.go\<close>), the daemon with
  its table of containers and its two endpoints (\<open>daemon.go\<close>, \<open>handlers.go\<close>, \<open>http.go\<close>), and the
  command line that asks it (\<open>cli.go\<close>). A goroutine is started for each accepted container; it is
  in \<open>da_Jobs\<close> until it has run. Its calls of Docker are one step here: between them other
  goroutines change only their own containers.
\<close>

section \<open>Docker\<close>

text \<open>\<open>client_new\<close> is the outcome of \<open>client.New\<close>.\<close>

definition newDockerClient :: "'d docker \<Rightarrow> error option \<Rightarrow> 'd \<Rightarrow> error option \<times> 'd" where
  "newDockerClient D client_new d =
     (case client_new of
        Some e \<Rightarrow> (Some (Wrap ''create Docker client'' e), d)
      | None \<Rightarrow>
          (case dk_Ping D d of (e, d') \<Rightarrow> (map_option (Wrap ''reach Docker'') e, d')))"

definition pull_and_inspect :: "'d docker \<Rightarrow> string \<Rightarrow> 'd \<Rightarrow> docker_image result \<times> 'd" where
  "pull_and_inspect D name d =
     (case dk_ImagePull D name d of
        (Inl e, d1) \<Rightarrow> (Inl (Wrap ''pull image'' e), d1)
      | (Inr (Some e), d1) \<Rightarrow> (Inl (Wrap ''pull image'' e), d1)
      | (Inr None, d1) \<Rightarrow> dk_ImageInspect D name d1)"

definition ensureImage :: "'d sw_env \<Rightarrow> string \<Rightarrow> string \<Rightarrow> 'd \<Rightarrow> docker_image result \<times> 'd" where
  "ensureImage S name policy d =
     (if policy = PullNever then dk_ImageInspect (sw_Docker S) name d
      else if policy = PullMissing
      then (case dk_ImageInspect (sw_Docker S) name d of
              (Inr im, d1) \<Rightarrow> (Inr im, d1)
            | (Inl e, d1) \<Rightarrow>
                if \<not> sw_IsNotFound S e then (Inl (Wrap ''inspect image'' e), d1)
                else pull_and_inspect (sw_Docker S) name d1)
      else if policy = PullAlways then pull_and_inspect (sw_Docker S) name d
      else (Inl (Msg ''unsupported pull policy''), d))"

definition containerCreateOptions :: "'d sw_env \<Rightarrow> sw_container \<Rightarrow> docker_image \<Rightarrow> docker_options result" where
  "containerCreateOptions S c im =
     (case sw_ParseDuration S (cf_StopGracePeriod (sc_Config c)) of
        Inl e \<Rightarrow> Inl (Wrap ''parse stop_grace_period'' e)
      | Inr gracePeriod \<Rightarrow>
          let cfg = sc_Config c;
              options = \<lparr>do_Name = cf_Name cfg, do_Image = im_ID im, do_WorkingDir = cf_WorkingDir cfg,
                do_Entrypoint = cf_Entrypoint cfg, do_Cmd = cf_Command cfg,
                do_Env = map (\<lambda>(key, value). key @ ''='' @ value) (sw_Range S (cf_Environment cfg)),
                do_StopTimeout = Some (sgn gracePeriod * (\<bar>gracePeriod\<bar> div seconds 1)),
                do_Labels = [(''simpleworker.id'', sc_ID c)], do_RestartPolicy = cf_Restart cfg\<rparr>;
              options = if cf_Entrypoint cfg = Some [] then options\<lparr>do_Entrypoint := Some [[]]\<rparr> else options
          in if cf_Entrypoint cfg = None \<and> cf_Command cfg = Some []
             then if im_Entrypoint im \<in> {None, Some []}
                  then Inl (Msg ''command is cleared and the image has no entrypoint'')
                  else Inr (options\<lparr>do_Entrypoint := im_Entrypoint im\<rparr>)
             else Inr options)"

text \<open>\<open>runContainer\<close> returns the identifier of Docker and an error; both when the start failed.\<close>

definition runContainer :: "'d sw_env \<Rightarrow> sw_container \<Rightarrow> 'd \<Rightarrow> (string \<times> error option) \<times> 'd" where
  "runContainer S c d =
     (case ensureImage S (cf_Image (sc_Config c)) (cf_PullPolicy (sc_Config c)) d of
        (Inl e, d1) \<Rightarrow> (([], Some e), d1)
      | (Inr im, d1) \<Rightarrow>
          (case containerCreateOptions S c im of
             Inl e \<Rightarrow> (([], Some e), d1)
           | Inr options \<Rightarrow>
               (case dk_ContainerCreate (sw_Docker S) options d1 of
                  (Inl e, d2) \<Rightarrow> (([], Some (Wrap ''create container'' e)), d2)
                | (Inr created, d2) \<Rightarrow>
                    (case dk_ContainerStart (sw_Docker S) created d2 of
                       (e, d3) \<Rightarrow> ((created, map_option (Wrap ''start container'') e), d3)))))"

definition sw_inspectContainer :: "'d sw_env \<Rightarrow> string \<Rightarrow> 'd \<Rightarrow> ContainerStatus result \<times> 'd" where
  "sw_inspectContainer S dockerID d =
     (case dk_ContainerInspect (sw_Docker S) dockerID d of
        (Inl e, d') \<Rightarrow>
          (if sw_IsNotFound S e
           then Inr (zero_ContainerStatus\<lparr>cs_DockerID := dockerID, cs_State := sw_StateMissing\<rparr>)
           else Inl (Wrap ''inspect container'' e), d')
      | (Inr state, d') \<Rightarrow>
          (let status = \<lparr>cs_DockerID = ds_ID state, cs_State = ds_Status state, cs_ExitCode = None,
                 cs_Error = ds_Error state\<rparr>
           in Inr (if cs_State status = sw_StateExited
                   then status\<lparr>cs_ExitCode := Some (word_of_int (ds_ExitCode state))\<rparr> else status), d'))"

section \<open>The daemon\<close>

record 'd daemon =
  da_docker :: 'd
  da_containers :: "string \<Rightarrow> sw_container option"
  da_Jobs :: "sw_container list"

definition StatusAccepted :: nat where "StatusAccepted = 202"

text \<open>\<open>http.Error\<close> with the text of an error.\<close>

definition http_Error :: "string \<Rightarrow> nat \<Rightarrow> response" where
  "http_Error text statusCode =
     \<lparr>rs_Status = statusCode,
      rs_Header = [(''Content-Type'', ''text/plain; charset=utf-8''), (''X-Content-Type-Options'', ''nosniff'')],
      rs_Body = TextBody (text @ [CHR 0x0A])\<rparr>"

text \<open>
  \<open>body\<close> holds the values the decoder finds in the body, up to the end or to its first failure.
  \<open>rnd\<close> is the text of \<open>rand.Text\<close>. The handler starts the goroutine by putting its container
  in \<open>da_Jobs\<close>.
\<close>

definition handleRunContainer ::
  "'d sw_env \<Rightarrow> string \<Rightarrow> body_item list \<Rightarrow> 'd daemon \<Rightarrow> response \<times> 'd daemon" where
  "handleRunContainer S rnd body d =
     (case (case body of
              BodyValue j # rest \<Rightarrow> map_value (\<lambda>config. (config, rest)) (dec_ContainerConfig j)
            | BodyTooLarge # _ \<Rightarrow> Inl (Msg ''http: request body too large'')
            | BodyInvalid # _ \<Rightarrow> Inl (Msg ''invalid character'')
            | [] \<Rightarrow> Inl (Msg ''EOF'')) of
        Inl e \<Rightarrow> (http_Error (sw_Error S e) StatusBadRequest, d)
      | Inr (config0, rest) \<Rightarrow>
          if rest \<noteq> [] then (http_Error ''body must contain one JSON object'' StatusBadRequest, d)
          else
            let config = applyContainerDefaults config0
            in case validateContainer S config of
                 Some e \<Rightarrow> (http_Error (sw_Error S e) StatusBadRequest, d)
               | None \<Rightarrow>
                   let c = zero_sw_container\<lparr>sc_ID := rnd, sc_Config := config\<rparr>
                   in (\<lparr>rs_Status = StatusAccepted,
                        rs_Header = [(''Content-Type'', ''application/json''), (''Location'', ''/containers/'' @ rnd)],
                        rs_Body = JsonBody (enc_sw_container
                          (c\<lparr>sc_Status := (sc_Status c)\<lparr>cs_State := sw_StatePending\<rparr>\<rparr>))\<rparr>,
                       d\<lparr>da_containers := (da_containers d)(rnd \<mapsto> c), da_Jobs := da_Jobs d @ [c]\<rparr>))"

text \<open>The goroutine; looking up a key that is absent gives the zero value.\<close>

definition run_job :: "'d sw_env \<Rightarrow> sw_container \<Rightarrow> 'd daemon \<Rightarrow> 'd daemon" where
  "run_job S c d =
     (case runContainer S c (da_docker d) of
        ((dockerID, err), dk) \<Rightarrow>
          let stored = (case da_containers d (sc_ID c) of Some s \<Rightarrow> s | None \<Rightarrow> zero_sw_container);
              stored = stored\<lparr>sc_Status := (sc_Status stored)\<lparr>cs_DockerID := dockerID\<rparr>\<rparr>;
              stored = (case err of None \<Rightarrow> stored
                | Some e \<Rightarrow> stored\<lparr>sc_Status := (sc_Status stored)\<lparr>cs_Error := sw_Error S e\<rparr>\<rparr>)
          in d\<lparr>da_docker := dk, da_containers := (da_containers d)(sc_ID c \<mapsto> stored)\<rparr>)"

definition sw_answer :: "sw_container \<Rightarrow> response" where
  "sw_answer c = \<lparr>rs_Status = StatusOK, rs_Header = [(''Content-Type'', ''application/json'')],
     rs_Body = JsonBody (enc_sw_container c)\<rparr>"

definition handleGetContainer :: "'d sw_env \<Rightarrow> string \<Rightarrow> 'd daemon \<Rightarrow> response \<times> 'd daemon" where
  "handleGetContainer S cid d =
     (case da_containers d cid of
        None \<Rightarrow> (http_Error ''container not found'' StatusNotFound, d)
      | Some c \<Rightarrow>
          if cs_DockerID (sc_Status c) = []
          then (sw_answer (c\<lparr>sc_Status := (sc_Status c)\<lparr>cs_State :=
                  (if cs_Error (sc_Status c) \<noteq> [] then sw_StateFailed else sw_StatePending)\<rparr>\<rparr>), d)
          else (case sw_inspectContainer S (cs_DockerID (sc_Status c)) (da_docker d) of
                  (Inl e, dk) \<Rightarrow> (http_Error (sw_Error S e) StatusInternalServerError, d\<lparr>da_docker := dk\<rparr>)
                | (Inr status, dk) \<Rightarrow> (sw_answer (c\<lparr>sc_Status := status\<rparr>), d\<lparr>da_docker := dk\<rparr>)))"

text \<open>
  The multiplexer; \<open>segments\<close> are the decoded segments of a clean path. A path that matches with
  another method is answered 405.
\<close>

definition newHTTPServer ::
  "'d sw_env \<Rightarrow> string \<Rightarrow> string \<Rightarrow> string list \<Rightarrow> body_item list \<Rightarrow> 'd daemon \<Rightarrow> response \<times> 'd daemon" where
  "newHTTPServer S rnd verb segments body d =
     (case segments of
        [a] \<Rightarrow>
          if a \<noteq> ''containers'' then (http_Error ''404 page not found'' StatusNotFound, d)
          else if verb = ''POST'' then handleRunContainer S rnd body d
          else (http_Error ''Method Not Allowed'' StatusMethodNotAllowed, d)
      | [a, cid] \<Rightarrow>
          if a \<noteq> ''containers'' \<or> cid = [] then (http_Error ''404 page not found'' StatusNotFound, d)
          else if verb = ''GET'' \<or> verb = ''HEAD'' then handleGetContainer S cid d
          else (http_Error ''Method Not Allowed'' StatusMethodNotAllowed, d)
      | _ \<Rightarrow> (http_Error ''404 page not found'' StatusNotFound, d))"

section \<open>The command line\<close>

text \<open>The network of the command line: building the request and \<open>http.Client.Do\<close>.\<close>

record 'n sw_client =
  sl_NewRequest :: "string \<Rightarrow> string \<Rightarrow> error option"
  sl_Do :: "string \<Rightarrow> string \<Rightarrow> json option \<Rightarrow> 'n \<Rightarrow> http_response result \<times> 'n"
  sl_PathEscape :: "string \<Rightarrow> string"

definition requestContainer ::
  "'n sw_client \<Rightarrow> string \<Rightarrow> string \<Rightarrow> json option \<Rightarrow> 'n \<Rightarrow> sw_container result \<times> 'n" where
  "requestContainer L verb path body n =
     (case sl_NewRequest L verb path of
        Some e \<Rightarrow> (Inl (Wrap ''create worker request'' e), n)
      | None \<Rightarrow>
          (case sl_Do L verb path body n of
             (Inl e, n') \<Rightarrow> (Inl (Wrap ''request worker'' e), n')
           | (Inr hr, n') \<Rightarrow>
               (if \<not> success hr
                then (case read_error hr of
                        Some e \<Rightarrow> Inl (Wrap ''read worker error'' e)
                      | None \<Rightarrow> Inl (Msg ''worker returned''))
                else map_error (Wrap ''decode worker response'') (Decode dec_sw_container (body_documents hr)), n')))"

text \<open>
  \<open>run\<close>: \<open>first\<close> and \<open>second\<close> are the outcomes of the two calls of the YAML decoder; \<open>None\<close> is
  the end of the file.
\<close>

definition sw_run_command ::
  "'n sw_client \<Rightarrow> error option \<Rightarrow> ContainerConfig result \<Rightarrow> unit result option \<Rightarrow> 'n \<Rightarrow> string result \<times> 'n" where
  "sw_run_command L opened first second n =
     (case opened of
        Some e \<Rightarrow> (Inl (Wrap ''open config'' e), n)
      | None \<Rightarrow>
          (case first of
             Inl e \<Rightarrow> (Inl (Wrap ''decode config'' e), n)
           | Inr config \<Rightarrow>
               if second \<noteq> None then (Inl (Msg ''config file must contain one document''), n)
               else (case requestContainer L ''POST'' ''/containers'' (Some (enc_ContainerConfig config)) n of
                       (r, n') \<Rightarrow> (map_value sc_ID r, n'))))"

definition sw_get_command :: "'n sw_client \<Rightarrow> string \<Rightarrow> 'n \<Rightarrow> json result \<times> 'n" where
  "sw_get_command L cid n =
     (case requestContainer L ''GET'' (''/containers/'' @ sl_PathEscape L cid) None n of
        (r, n') \<Rightarrow> (map_value enc_sw_container r, n'))"

section \<open>Its runs\<close>

text \<open>
  A request, a goroutine that runs, or a change in Docker that others make. \<open>rand.Text\<close> draws
  130 random bits: a text that is in use is not drawn again.
\<close>

inductive sw_step :: "'d sw_env \<Rightarrow> 'd daemon \<Rightarrow> 'd daemon \<Rightarrow> bool" for S :: "'d sw_env" where
  request: "da_containers d rnd = None \<Longrightarrow> newHTTPServer S rnd verb segments body d = (resp, d') \<Longrightarrow> sw_step S d d'"
| job: "da_Jobs d = js @ c # ks \<Longrightarrow> run_job S c d = d' \<Longrightarrow> sw_step S d (d'\<lparr>da_Jobs := js @ ks\<rparr>)"
| docker: "sw_step S d (d\<lparr>da_docker := dk\<rparr>)"

definition start_daemon :: "'d \<Rightarrow> 'd daemon" where
  "start_daemon dk = \<lparr>da_docker = dk, da_containers = (\<lambda>_. None), da_Jobs = []\<rparr>"

definition sw_reach :: "'d sw_env \<Rightarrow> 'd daemon \<Rightarrow> bool" where
  "sw_reach S d \<longleftrightarrow> (\<exists>dk. (sw_step S)\<^sup>*\<^sup>* (start_daemon dk) d)"

text \<open>
  What the outside promises: a range visits each entry of a map once, durations are 64-bit
  numbers of nanoseconds, errors have a text, and Docker names what it creates.
\<close>

definition sw_laws :: "'d sw_env \<Rightarrow> bool" where
  "sw_laws S \<longleftrightarrow>
     (\<forall>xs. mset (sw_Range S xs) = mset xs)
     \<and> (\<forall>s v. sw_ParseDuration S s = Inr v \<longrightarrow> - (2 ^ 63) \<le> v \<and> v < 2 ^ 63)
     \<and> (\<forall>e. sw_Error S e \<noteq> [])
     \<and> (\<forall>options d d'. dk_ContainerCreate (sw_Docker S) options d \<noteq> (Inr [], d'))"

end
