(* ===== verification/Simple_Guarantees.thy ===== *)
theory Simple_Guarantees
  imports Simple_Worker
begin

text \<open>
  The daemon of the simple worker keeps every container it has accepted and reports it as what it
  is; what it hands to Docker is the configuration that was accepted; the command line reads
  the answers of the daemon.
\<close>

section \<open>The table of containers\<close>

definition sw_inv :: "'d sw_env \<Rightarrow> 'd daemon \<Rightarrow> bool" where
  "sw_inv S d \<longleftrightarrow>
     distinct (map sc_ID (da_Jobs d))
     \<and> (\<forall>c \<in> set (da_Jobs d). da_containers d (sc_ID c) = Some c \<and> sc_Status c = zero_ContainerStatus)
     \<and> (\<forall>cid c. da_containers d cid = Some c \<longrightarrow> sc_ID c = cid
          \<and> validateContainer S (sc_Config c) = None \<and> distinct (map fst (cf_Environment (sc_Config c)))
          \<and> (c \<in> set (da_Jobs d) \<or> cs_DockerID (sc_Status c) \<noteq> [] \<or> cs_Error (sc_Status c) \<noteq> []))"

lemma sw_inv_D:
  assumes "sw_inv S d"
  shows "distinct (map sc_ID (da_Jobs d))"
    and "c \<in> set (da_Jobs d) \<Longrightarrow> da_containers d (sc_ID c) = Some c"
    and "c \<in> set (da_Jobs d) \<Longrightarrow> sc_Status c = zero_ContainerStatus"
    and "da_containers d cid = Some c \<Longrightarrow> sc_ID c = cid"
    and "da_containers d cid = Some c \<Longrightarrow> validateContainer S (sc_Config c) = None"
    and "da_containers d cid = Some c \<Longrightarrow> distinct (map fst (cf_Environment (sc_Config c)))"
    and "da_containers d cid = Some c \<Longrightarrow> c \<in> set (da_Jobs d) \<or> cs_DockerID (sc_Status c) \<noteq> []
      \<or> cs_Error (sc_Status c) \<noteq> []"
  using assms unfolding sw_inv_def by blast+

lemma sw_invI:
  assumes "distinct (map sc_ID (da_Jobs d))"
    and "\<And>c. c \<in> set (da_Jobs d) \<Longrightarrow> da_containers d (sc_ID c) = Some c \<and> sc_Status c = zero_ContainerStatus"
    and "\<And>cid c. da_containers d cid = Some c \<Longrightarrow> sc_ID c = cid \<and> validateContainer S (sc_Config c) = None
      \<and> distinct (map fst (cf_Environment (sc_Config c)))
      \<and> (c \<in> set (da_Jobs d) \<or> cs_DockerID (sc_Status c) \<noteq> [] \<or> cs_Error (sc_Status c) \<noteq> [])"
  shows "sw_inv S d"
  using assms unfolding sw_inv_def by blast

lemma handleRunContainer_cases:
  obtains (refused) resp where "handleRunContainer S rnd body d = (resp, d)" "rs_Status resp = 400"
  | (accepted) j config c where "body = [BodyValue j]" "dec_ContainerConfig j = Inr config"
      "validateContainer S (applyContainerDefaults config) = None"
      "c = zero_sw_container\<lparr>sc_ID := rnd, sc_Config := applyContainerDefaults config\<rparr>"
      "handleRunContainer S rnd body d =
        (\<lparr>rs_Status = 202,
          rs_Header = [(''Content-Type'', ''application/json''), (''Location'', ''/containers/'' @ rnd)],
          rs_Body = JsonBody (enc_sw_container (c\<lparr>sc_Status := (sc_Status c)\<lparr>cs_State := sw_StatePending\<rparr>\<rparr>))\<rparr>,
         d\<lparr>da_containers := (da_containers d)(rnd \<mapsto> c), da_Jobs := da_Jobs d @ [c]\<rparr>)"
proof (cases "\<exists>j config. body = [BodyValue j] \<and> dec_ContainerConfig j = Inr config
    \<and> validateContainer S (applyContainerDefaults config) = None")
  case True
  then obtain j config where 1: "body = [BodyValue j]" "dec_ContainerConfig j = Inr config"
    "validateContainer S (applyContainerDefaults config) = None" by blast
  show ?thesis
    by (rule accepted [OF 1 refl]) (simp add: handleRunContainer_def 1 StatusAccepted_def Let_def)
next
  case False
  then have "\<exists>resp. handleRunContainer S rnd body d = (resp, d) \<and> rs_Status resp = 400"
    by (auto simp: handleRunContainer_def http_Error_def StatusBadRequest_def Let_def map_value_eq_Inr
        split: list.split body_item.split sum.split option.split)
  then show ?thesis using refused by blast
qed

text \<open>A request leaves the table alone, or adds one container and its goroutine.\<close>

lemma newHTTPServer_cases:
  obtains (same) resp dk where "newHTTPServer S rnd verb segments body d = (resp, d\<lparr>da_docker := dk\<rparr>)"
  | (added) resp j config c where "dec_ContainerConfig j = Inr config"
      "validateContainer S (applyContainerDefaults config) = None"
      "c = zero_sw_container\<lparr>sc_ID := rnd, sc_Config := applyContainerDefaults config\<rparr>"
      "newHTTPServer S rnd verb segments body d
        = (resp, d\<lparr>da_containers := (da_containers d)(rnd \<mapsto> c), da_Jobs := da_Jobs d @ [c]\<rparr>)"
proof -
  have self: "d\<lparr>da_docker := da_docker d\<rparr> = d" by simp
  have get: "\<exists>resp dk. handleGetContainer S cid d = (resp, d\<lparr>da_docker := dk\<rparr>)" for cid
    by (auto simp: handleGetContainer_def intro: exI [of _ "da_docker d"]
        split: option.split prod.split sum.split)
  obtain r d' where run: "newHTTPServer S rnd verb segments body d = (r, d')" by fastforce
  have "(\<exists>dk. d' = d\<lparr>da_docker := dk\<rparr>) \<or> handleRunContainer S rnd body d = (r, d')"
  proof (cases "(\<exists>dk. d' = d\<lparr>da_docker := dk\<rparr>) \<or> (\<exists>cid. handleGetContainer S cid d = (r, d'))")
    case True
    then show ?thesis using get by (metis prod.inject)
  next
    case False
    then have "d' \<noteq> d" using self by metis
    then show ?thesis using run False by (auto simp: newHTTPServer_def split: list.splits if_splits)
  qed
  then show ?thesis
  proof
    assume "\<exists>dk. d' = d\<lparr>da_docker := dk\<rparr>"
    then show ?thesis using run same by blast
  next
    assume h: "handleRunContainer S rnd body d = (r, d')"
    show ?thesis
    proof (cases rule: handleRunContainer_cases [of S rnd body d])
      case (refused resp)
      then show ?thesis using run h same [of r "da_docker d"] by simp
    next
      case (accepted j config c)
      then show ?thesis using run h added [OF accepted(2-4), of r] by simp
    qed
  qed
qed

text \<open>What the goroutine does to its entry.\<close>

lemma run_job_entry:
  assumes "sw_laws S" and "da_containers d (sc_ID c) = Some s"
  obtains dk t where "run_job S c d = d\<lparr>da_docker := dk,
      da_containers := (da_containers d)(sc_ID c \<mapsto> s\<lparr>sc_Status := t\<rparr>)\<rparr>"
    "cs_DockerID t \<noteq> [] \<or> cs_Error t \<noteq> []"
proof -
  obtain dockerID err dk where r: "runContainer S c (da_docker d) = ((dockerID, err), dk)"
    by (metis prod.exhaust)
  have named: "err = None \<Longrightarrow> dockerID \<noteq> []"
    using r assms(1) by (auto simp: runContainer_def sw_laws_def split: prod.splits sum.splits)
  have said: "sw_Error S e \<noteq> []" for e using assms(1) by (simp add: sw_laws_def)
  show ?thesis
  proof (cases err)
    case None
    show ?thesis
      by (rule that [where dk = dk and t = "(sc_Status s)\<lparr>cs_DockerID := dockerID\<rparr>"])
        (use None named in \<open>simp_all add: run_job_def r assms(2)\<close>)
  next
    case (Some e)
    show ?thesis
      by (rule that [where dk = dk and t = "(sc_Status s)\<lparr>cs_DockerID := dockerID, cs_Error := sw_Error S e\<rparr>"])
        (use Some said in \<open>simp_all add: run_job_def r assms(2)\<close>)
  qed
qed

lemma sw_inv_added:
  assumes "sw_inv S d" and "da_containers d (sc_ID c) = None" and "sc_Status c = zero_ContainerStatus"
    and "validateContainer S (sc_Config c) = None" and "distinct (map fst (cf_Environment (sc_Config c)))"
  shows "sw_inv S (d\<lparr>da_containers := (da_containers d)(sc_ID c \<mapsto> c), da_Jobs := da_Jobs d @ [c]\<rparr>)"
proof -
  note inv = sw_inv_D [OF assms(1)]
  have fresh: "e \<in> set (da_Jobs d) \<Longrightarrow> sc_ID e \<noteq> sc_ID c" for e using inv(2) [of e] assms(2) by auto
  show ?thesis
  proof (rule sw_invI)
    show "distinct (map sc_ID (da_Jobs (d\<lparr>da_containers := (da_containers d)(sc_ID c \<mapsto> c), da_Jobs := da_Jobs d @ [c]\<rparr>)))"
      using inv(1) fresh by fastforce
  qed (use inv(2-7) fresh assms(3-5) in \<open>auto split: if_splits\<close>)
qed

lemma sw_inv_job:
  assumes "sw_inv S d" and "da_Jobs d = js @ c # ks" and "cs_DockerID t \<noteq> [] \<or> cs_Error t \<noteq> []"
  shows "sw_inv S (d\<lparr>da_docker := dk, da_containers := (da_containers d)(sc_ID c \<mapsto> c\<lparr>sc_Status := t\<rparr>),
    da_Jobs := js @ ks\<rparr>)"
proof -
  note inv = sw_inv_D [OF assms(1)]
  have c: "da_containers d (sc_ID c) = Some c" by (rule inv(2)) (simp add: assms(2))
  have others: "e \<in> set (js @ ks) \<Longrightarrow> sc_ID e \<noteq> sc_ID c" for e
    using inv(1) assms(2) by (force simp: image_iff)
  show ?thesis
  proof (rule sw_invI)
    fix k e
    assume "da_containers (d\<lparr>da_docker := dk, da_containers := (da_containers d)(sc_ID c \<mapsto> c\<lparr>sc_Status := t\<rparr>),
      da_Jobs := js @ ks\<rparr>) k = Some e"
    then show "sc_ID e = k \<and> validateContainer S (sc_Config e) = None
      \<and> distinct (map fst (cf_Environment (sc_Config e)))
      \<and> (e \<in> set (da_Jobs (d\<lparr>da_docker := dk, da_containers := (da_containers d)(sc_ID c \<mapsto> c\<lparr>sc_Status := t\<rparr>),
           da_Jobs := js @ ks\<rparr>)) \<or> cs_DockerID (sc_Status e) \<noteq> [] \<or> cs_Error (sc_Status e) \<noteq> [])"
      using inv(5,6) [OF c] inv(4-7) [of k e] assms(2,3) by (auto split: if_splits)
  qed (use inv(1) inv(2,3) others assms(2) in \<open>auto split: if_splits\<close>)
qed

lemma sw_inv_step:
  assumes "sw_laws S" and "sw_step S d d'" and inv: "sw_inv S d"
  shows "sw_inv S d'"
    and "da_containers d cid = Some c \<Longrightarrow> \<exists>t. da_containers d' cid = Some (c\<lparr>sc_Status := t\<rparr>)"
proof -
  have same_status: "\<exists>t. Some c = Some (c\<lparr>sc_Status := t\<rparr>)" by (intro exI [of _ "sc_Status c"]) simp
  have docker: "sw_inv S (d\<lparr>da_docker := dk\<rparr>)" for dk using inv by (simp add: sw_inv_def)
  have "sw_inv S d' \<and> (da_containers d cid = Some c \<longrightarrow> (\<exists>t. da_containers d' cid = Some (c\<lparr>sc_Status := t\<rparr>)))"
    using assms(2)
  proof cases
    case (request rnd verb segments body resp)
    show ?thesis
    proof (cases rule: newHTTPServer_cases [of S rnd verb segments body d])
      case (same r dk)
      then have "d' = d\<lparr>da_docker := dk\<rparr>" using request(2) by simp
      then show ?thesis using docker same_status by simp
    next
      case (added r j config c0)
      have c0: "sc_ID c0 = rnd" "sc_Status c0 = zero_ContainerStatus" "sc_Config c0 = applyContainerDefaults config"
        by (simp_all add: added(3) zero_sw_container_def)
      have d': "d' = d\<lparr>da_containers := (da_containers d)(sc_ID c0 \<mapsto> c0), da_Jobs := da_Jobs d @ [c0]\<rparr>"
        using request(2) added(4) c0(1) by simp
      have "sw_inv S d'"
        unfolding d'
        by (rule sw_inv_added [OF inv])
          (use request(1) c0 added(2) decode_ContainerConfig_distinct [OF added(1)] in simp_all)
      then show ?thesis using request(1) d' c0(1) same_status by auto
    qed
  next
    case (job js c0 ks d1)
    have c0: "da_containers d (sc_ID c0) = Some c0" by (rule sw_inv_D(2) [OF inv]) (simp add: job(2))
    obtain dk t where j: "run_job S c0 d = d\<lparr>da_docker := dk,
        da_containers := (da_containers d)(sc_ID c0 \<mapsto> c0\<lparr>sc_Status := t\<rparr>)\<rparr>"
      "cs_DockerID t \<noteq> [] \<or> cs_Error t \<noteq> []"
      by (rule run_job_entry [OF assms(1) c0])
    have d': "d' = d\<lparr>da_docker := dk, da_containers := (da_containers d)(sc_ID c0 \<mapsto> c0\<lparr>sc_Status := t\<rparr>),
        da_Jobs := js @ ks\<rparr>"
      using job(1,3) j(1) by simp
    have "sw_inv S d'" unfolding d' by (rule sw_inv_job [OF inv job(2) j(2)])
    moreover have "da_containers d cid = Some c \<longrightarrow> (\<exists>t. da_containers d' cid = Some (c\<lparr>sc_Status := t\<rparr>))"
      using c0 d' same_status by (cases "cid = sc_ID c0") auto
    ultimately show ?thesis by blast
  next
    case (docker dk)
    then show ?thesis using inv same_status by (simp add: sw_inv_def)
  qed
  then show "sw_inv S d'"
    "da_containers d cid = Some c \<Longrightarrow> \<exists>t. da_containers d' cid = Some (c\<lparr>sc_Status := t\<rparr>)" by blast+
qed

lemma sw_steps:
  assumes "(sw_step S)\<^sup>*\<^sup>* d d'" and "sw_laws S" and "sw_inv S d"
  shows "sw_inv S d'"
    and "da_containers d cid = Some c \<Longrightarrow> \<exists>t. da_containers d' cid = Some (c\<lparr>sc_Status := t\<rparr>)"
proof -
  have "sw_inv S d' \<and> (da_containers d cid = Some c \<longrightarrow> (\<exists>t. da_containers d' cid = Some (c\<lparr>sc_Status := t\<rparr>)))"
    using assms
  proof (induction rule: rtranclp_induct)
    case base
    then show ?case by (auto intro: exI [of _ "sc_Status c"])
  next
    case (step e f)
    then have e: "sw_inv S e" "da_containers d cid = Some c \<longrightarrow> (\<exists>t. da_containers e cid = Some (c\<lparr>sc_Status := t\<rparr>))"
      by blast+
    have "sw_inv S f" by (rule sw_inv_step(1) [OF step.prems(1) step.hyps(2) e(1)])
    then show ?case using e(2) sw_inv_step(2) [OF step.prems(1) step.hyps(2) e(1)] by fastforce
  qed
  then show "sw_inv S d'"
    "da_containers d cid = Some c \<Longrightarrow> \<exists>t. da_containers d' cid = Some (c\<lparr>sc_Status := t\<rparr>)" by blast+
qed

lemma sw_reach_inv: "sw_laws S \<Longrightarrow> sw_reach S d \<Longrightarrow> sw_inv S d"
proof -
  assume "sw_laws S" "sw_reach S d"
  then obtain dk where "(sw_step S)\<^sup>*\<^sup>* (start_daemon dk) d" by (auto simp: sw_reach_def)
  moreover have "sw_inv S (start_daemon dk)" by (simp add: sw_inv_def start_daemon_def)
  ultimately show ?thesis using sw_steps(1) \<open>sw_laws S\<close> by blast
qed

section \<open>What Docker is asked for\<close>

text \<open>How Docker reads an entry of the environment: up to the first equals sign.\<close>

definition env_entry :: "string \<Rightarrow> string \<times> string" where
  "env_entry s = (takeWhile (\<lambda>ch. ch \<noteq> CHR ''='') s, drop 1 (dropWhile (\<lambda>ch. ch \<noteq> CHR ''='') s))"

lemma env_entry_join: "CHR ''='' \<notin> set k \<Longrightarrow> env_entry (k @ CHR ''='' # v) = (k, v)"
proof -
  assume "CHR ''='' \<notin> set k"
  then have "\<forall>ch \<in> set k. ch \<noteq> CHR ''=''" by auto
  then show ?thesis by (simp add: env_entry_def takeWhile_append dropWhile_append)
qed

lemma same_entries:
  "mset xs = mset ys \<Longrightarrow> distinct (map fst ys) \<Longrightarrow> map_of xs k = map_of ys k"
proof -
  assume same: "mset xs = mset ys" and ys: "distinct (map fst ys)"
  have "mset (map fst xs) = mset (map fst ys)" using same by simp
  then have "distinct (map fst xs)" using ys mset_eq_imp_distinct_iff by blast
  moreover have "set xs = set ys" using same by (metis set_mset_mset)
  ultimately show ?thesis using ys by (metis map_of_eqI map_of_SomeD map_of_is_SomeI not_Some_eq)
qed

lemma environment_kept:
  assumes "sw_laws S" and "validateContainer S cfg = None" and "distinct (map fst (cf_Environment cfg))"
  shows "map_of (map env_entry (map (\<lambda>(key, value). key @ ''='' @ value) (sw_Range S (cf_Environment cfg)))) k
    = map_of (cf_Environment cfg) k"
proof -
  have "\<forall>(k, v) \<in> set (sw_Range S (cf_Environment cfg)). CHR ''='' \<notin> set k"
    using assms(2) by (auto simp: validateContainer_None)
  then have "map env_entry (map (\<lambda>(key, value). key @ ''='' @ value) (sw_Range S (cf_Environment cfg)))
      = sw_Range S (cf_Environment cfg)"
    unfolding map_map by (intro map_idI) (use env_entry_join in fastforce)
  moreover have "mset (sw_Range S (cf_Environment cfg)) = mset (cf_Environment cfg)"
    using assms(1) by (simp add: sw_laws_def)
  ultimately show ?thesis using same_entries assms(3) by metis
qed

lemma stop_timeout:
  assumes "0 \<le> (grace :: int)" and "grace < 2 ^ 63"
  defines "t \<equiv> sgn grace * (\<bar>grace\<bar> div seconds 1)"
  shows "0 \<le> t" "t < 2 ^ 34" "seconds t \<le> grace" "grace < seconds (t + 1)"
proof -
  have "t = grace div 1000000000" using assms(1) by (cases "grace = 0") (simp_all add: t_def)
  then show "0 \<le> t" "t < 2 ^ 34" "seconds t \<le> grace" "grace < seconds (t + 1)" using assms(1,2) by simp_all
qed

text \<open>
  Claim C37: Docker is asked for what was accepted. For every container whose goroutine has still to run
  and every image, the creation options can be built unless the command was cleared and the
  image has no entrypoint. Then they carry the accepted name, command and restart policy, the
  container's label, an
  environment that Docker reads as the accepted one, an executable that is not empty
  where the configuration names one, and the grace period rounded down to seconds.
\<close>

theorem accepted_container_created:
  assumes "sw_laws S" and "sw_reach S d" and "c \<in> set (da_Jobs d)"
  defines "cfg \<equiv> sc_Config c"
  shows "(\<forall>e. containerCreateOptions S c im = Inl e \<longrightarrow>
        cf_Entrypoint cfg = None \<and> cf_Command cfg = Some [] \<and> im_Entrypoint im \<in> {None, Some []})
    \<and> (\<forall>options. containerCreateOptions S c im = Inr options \<longrightarrow>
        do_Name options = cf_Name cfg \<and> do_Image options = im_ID im \<and> do_Cmd options = cf_Command cfg
        \<and> do_RestartPolicy options = cf_Restart cfg \<and> do_Labels options = [(''simpleworker.id'', sc_ID c)]
        \<and> cf_Restart cfg \<in> {''no'', ''on-failure'', ''always''}
        \<and> (\<forall>k. map_of (map env_entry (do_Env options)) k = map_of (cf_Environment cfg) k)
        \<and> (cf_Entrypoint cfg = None \<longrightarrow>
             do_Entrypoint options = (if cf_Command cfg = Some [] then im_Entrypoint im else None))
        \<and> (cf_Entrypoint cfg = Some [] \<longrightarrow>
             do_Entrypoint options = Some [[]] \<and> (\<exists>x xs. cf_Command cfg = Some (x # xs) \<and> x \<noteq> []))
        \<and> (\<forall>x xs. cf_Entrypoint cfg = Some (x # xs) \<longrightarrow> do_Entrypoint options = Some (x # xs) \<and> x \<noteq> [])
        \<and> (\<exists>t grace. do_StopTimeout options = Some t \<and> 0 \<le> t \<and> t < 2 ^ 34
             \<and> sw_ParseDuration S (cf_StopGracePeriod cfg) = Inr grace
             \<and> seconds t \<le> grace \<and> grace < seconds (t + 1)))"
proof -
  note inv = sw_inv_D [OF sw_reach_inv [OF assms(1,2)]]
  have c: "da_containers d (sc_ID c) = Some c" by (rule inv(2) [OF assms(3)])
  have valid: "validateContainer S cfg = None" and keys: "distinct (map fst (cf_Environment cfg))"
    using inv(5,6) [OF c] by (simp_all add: cfg_def)
  note v = valid [unfolded validateContainer_None]
  obtain grace where grace: "sw_ParseDuration S (cf_StopGracePeriod cfg) = Inr grace" "0 \<le> grace" using v by blast
  have "grace < 2 ^ 63" using assms(1) grace(1) unfolding sw_laws_def by blast
  note t = stop_timeout [OF grace(2) this]
  note env = environment_kept [OF assms(1) valid keys]
  let ?r = "containerCreateOptions S c im"
  have err: "?r = Inl e \<Longrightarrow>
      cf_Entrypoint cfg = None \<and> cf_Command cfg = Some [] \<and> im_Entrypoint im \<in> {None, Some []}" for e
    using grace(1) by (auto simp: containerCreateOptions_def cfg_def Let_def split: if_splits)
  have options: "do_Name options = cf_Name cfg" "do_Image options = im_ID im" "do_Cmd options = cf_Command cfg"
      "do_RestartPolicy options = cf_Restart cfg" "do_Labels options = [(''simpleworker.id'', sc_ID c)]"
      "do_Env options = map (\<lambda>(key, value). key @ ''='' @ value) (sw_Range S (cf_Environment cfg))"
      "do_StopTimeout options = Some (sgn grace * (\<bar>grace\<bar> div seconds 1))"
      "do_Entrypoint options = (if cf_Entrypoint cfg = None then if cf_Command cfg = Some [] then im_Entrypoint im else None
          else if cf_Entrypoint cfg = Some [] then Some [[]] else cf_Entrypoint cfg)"
    if "?r = Inr options" for options
    using that grace(1) by (auto simp: containerCreateOptions_def cfg_def Let_def split: if_splits)
  have restart: "cf_Restart cfg \<in> {''no'', ''on-failure'', ''always''}"
    using v by (simp add: RestartNo_def RestartOnFailure_def RestartAlways_def)
  have entry: "cf_Entrypoint cfg = Some [] \<Longrightarrow> \<exists>x xs. cf_Command cfg = Some (x # xs) \<and> x \<noteq> []"
    "cf_Entrypoint cfg = Some (x # xs) \<Longrightarrow> x \<noteq> []" for x xs
    using v by blast+
  show ?thesis
  proof (intro conjI allI impI)
    fix options assume o: "?r = Inr options"
    note opt = options [OF o]
    show "do_Name options = cf_Name cfg" "do_Image options = im_ID im" "do_Cmd options = cf_Command cfg"
      "do_RestartPolicy options = cf_Restart cfg" "do_Labels options = [(''simpleworker.id'', sc_ID c)]"
      by (rule opt)+
    show "cf_Restart cfg \<in> {''no'', ''on-failure'', ''always''}" by (rule restart)
    show "map_of (map env_entry (do_Env options)) k = map_of (cf_Environment cfg) k" for k
      unfolding opt(6) by (rule env)
    show "do_Entrypoint options = (if cf_Command cfg = Some [] then im_Entrypoint im else None)"
      if "cf_Entrypoint cfg = None" using that opt(8) by simp
    show "do_Entrypoint options = Some [[]]" "\<exists>x xs. cf_Command cfg = Some (x # xs) \<and> x \<noteq> []"
      if "cf_Entrypoint cfg = Some []" using that opt(8) entry(1) by simp_all
    show "do_Entrypoint options = Some (x # xs)" "x \<noteq> []" if "cf_Entrypoint cfg = Some (x # xs)" for x xs
      using that opt(8) entry(2) by simp_all
    show "\<exists>t grace. do_StopTimeout options = Some t \<and> 0 \<le> t \<and> t < 2 ^ 34
        \<and> sw_ParseDuration S (cf_StopGracePeriod cfg) = Inr grace \<and> seconds t \<le> grace \<and> grace < seconds (t + 1)"
      using opt(7) t grace(1) by blast
  qed (use err in blast)+
qed

section \<open>What the daemon reports\<close>

text \<open>
  Claim C38: an accepted container is kept and reported as what it is. Over any number of later steps it
  stays in the table under its identifier with its configuration, which passed the checks. It is
  reported as pending exactly while its goroutine has still to run; then, if Docker created no
  container, as failed with an error, and otherwise with what Docker says of it, with
  an exit code only when it has exited, or as missing when Docker no longer knows it.
\<close>

theorem accepted_container_reported:
  assumes "sw_laws S" and "sw_reach S d" and "da_containers d cid = Some c" and "(sw_step S)\<^sup>*\<^sup>* d e"
  shows "validateContainer S (sc_Config c) = None
    \<and> (\<exists>c'. da_containers e cid = Some c' \<and> sc_ID c' = cid \<and> sc_Config c' = sc_Config c)
    \<and> fst (handleGetContainer S cid d) =
       (if c \<in> set (da_Jobs d)
        then sw_answer (c\<lparr>sc_Status := zero_ContainerStatus\<lparr>cs_State := ''pending''\<rparr>\<rparr>)
        else if cs_DockerID (sc_Status c) = []
        then sw_answer (c\<lparr>sc_Status := (sc_Status c)\<lparr>cs_State := ''failed''\<rparr>\<rparr>)
        else case fst (dk_ContainerInspect (sw_Docker S) (cs_DockerID (sc_Status c)) (da_docker d)) of
          Inl x \<Rightarrow>
            if sw_IsNotFound S x
            then sw_answer (c\<lparr>sc_Status := \<lparr>cs_DockerID = cs_DockerID (sc_Status c), cs_State = ''missing'',
                   cs_ExitCode = None, cs_Error = []\<rparr>\<rparr>)
            else http_Error (sw_Error S (Wrap ''inspect container'' x)) 500
        | Inr st \<Rightarrow>
            sw_answer (c\<lparr>sc_Status := \<lparr>cs_DockerID = ds_ID st, cs_State = ds_Status st,
              cs_ExitCode = (if ds_Status st = ''exited'' then Some (word_of_int (ds_ExitCode st)) else None),
              cs_Error = ds_Error st\<rparr>\<rparr>))
    \<and> (c \<notin> set (da_Jobs d) \<longrightarrow> cs_DockerID (sc_Status c) = [] \<longrightarrow> cs_Error (sc_Status c) \<noteq> [])"
proof -
  have i: "sw_inv S d" by (rule sw_reach_inv [OF assms(1,2)])
  note inv = sw_inv_D [OF i]
  obtain t where later: "da_containers e cid = Some (c\<lparr>sc_Status := t\<rparr>)"
    using sw_steps(2) [OF assms(4,1) i assms(3)] by blast
  have status: "c \<in> set (da_Jobs d) \<Longrightarrow> sc_Status c = zero_ContainerStatus" by (rule inv(3))
  have failed: "c \<notin> set (da_Jobs d) \<Longrightarrow> cs_DockerID (sc_Status c) = [] \<Longrightarrow> cs_Error (sc_Status c) \<noteq> []"
    using inv(7) [OF assms(3)] by blast
  obtain r dk where r: "dk_ContainerInspect (sw_Docker S) (cs_DockerID (sc_Status c)) (da_docker d) = (r, dk)"
    by fastforce
  show ?thesis
    using inv(4,5) [OF assms(3)] later status failed
    by (cases r) (auto simp: handleGetContainer_def sw_inspectContainer_def assms(3) r zero_ContainerStatus_def Let_def
        sw_StatePending_def sw_StateFailed_def sw_StateMissing_def sw_StateExited_def StatusInternalServerError_def)
qed

section \<open>The command line reads the answers\<close>

text \<open>What \<open>get\<close> and \<open>run\<close> read of an answer with a container is that container; the environment is sorted.\<close>

lemma requestContainer_reads:
  assumes "sl_NewRequest L verb path = None" and "sl_Do L verb path b n = (Inr hr, n')"
    and "hr_Response hr = sw_answer c" and "hr_DecodeErr hr = None"
    and "distinct (map fst (cf_Environment (sc_Config c)))"
  shows "requestContainer L verb path b n =
    (Inr (c\<lparr>sc_Config := (sc_Config c)\<lparr>cf_Environment := sort_key fst (cf_Environment (sc_Config c))\<rparr>\<rparr>), n')"
  using assms(1-4) sw_container_read_back [OF assms(5)]
  by (simp add: requestContainer_def success_def sw_answer_def StatusOK_def Decode_def body_documents_def)

section \<open>An instance\<close>

text \<open>A Docker that counts what it creates, and a request for one container with two variables.\<close>

definition ex_sw :: "nat sw_env" where
  "ex_sw = \<lparr>
     sw_Docker = \<lparr>
       dk_Ping = (\<lambda>d. (None, d)),
       dk_ContainerList = (\<lambda>label d. (Inr [], d)),
       dk_ImagePull = (\<lambda>name d. (Inr None, d)),
       dk_ImageInspect = (\<lambda>name d. (Inr \<lparr>im_ID = ''sha'', im_Entrypoint = None\<rparr>, d)),
       dk_ContainerCreate = (\<lambda>options d. (Inr ''made'', d + 1)),
       dk_ContainerStart = (\<lambda>dockerID d. (None, d)),
       dk_ContainerWait = (\<lambda>dockerID d. (WaitResult 0 None, d)),
       dk_ContainerInspect = (\<lambda>dockerID d.
         (Inr \<lparr>ds_ID = dockerID, ds_Status = ''running'', ds_Error = [], ds_ExitCode = 0\<rparr>, d))\<rparr>,
     sw_IsNotFound = (\<lambda>e. False),
     sw_ParseNormalizedNamed = (\<lambda>s. None),
     sw_ParseDuration = (\<lambda>s. if s = ''10s'' then Inr (seconds 10) else Inl (Msg ''time: invalid duration'')),
     sw_Range = rev,
     sw_Error = (\<lambda>e. ''error'')\<rparr>"

definition ex_sw_document :: json where
  "ex_sw_document = JObj [(''name'', JStr ''web''), (''image'', JStr ''nginx''), (''entrypoint'', JArr []),
     (''command'', JArr [JStr ''sh'']), (''environment'', JObj [(''A'', JStr ''1''), (''B'', JStr ''x=y'')])]"

definition ex_sw_config :: ContainerConfig where
  "ex_sw_config = \<lparr>cf_Name = ''web'', cf_Image = ''nginx'', cf_PullPolicy = [], cf_Entrypoint = Some [],
     cf_Command = Some [''sh''], cf_Environment = [(''A'', ''1''), (''B'', ''x=y'')], cf_WorkingDir = [],
     cf_Restart = [], cf_StopGracePeriod = []\<rparr>"

definition ex_sw_daemon :: "nat daemon" where
  "ex_sw_daemon = snd (newHTTPServer ex_sw ''r'' ''POST'' [''containers''] [BodyValue ex_sw_document] (start_daemon 0))"

lemma ex_sw_laws: "sw_laws ex_sw"
  by (simp add: sw_laws_def ex_sw_def)

lemma ex_sw_step: "sw_step ex_sw (start_daemon 0) ex_sw_daemon"
  by (rule sw_step.request [of _ "''r''" _ "''POST''" "[''containers'']" "[BodyValue ex_sw_document]"
        "fst (newHTTPServer ex_sw ''r'' ''POST'' [''containers''] [BodyValue ex_sw_document] (start_daemon 0))"])
    (simp_all add: start_daemon_def ex_sw_daemon_def)

lemma ex_sw_reach: "sw_reach ex_sw ex_sw_daemon"
  using ex_sw_step by (auto simp: sw_reach_def)

lemma ex_sw_decoded: "dec_ContainerConfig ex_sw_document = Inr ex_sw_config"
  by (simp add: dec_ContainerConfig_def ex_sw_document_def ex_sw_config_def zero_ContainerConfig_def
      ContainerConfig_fields_def decode_member_def dec_strings_def dec_environment_def codec_simps key_simps)

lemma ex_sw_valid: "validateContainer ex_sw (applyContainerDefaults ex_sw_config) = None"
  by (simp add: validateContainer_None ex_sw_config_def ex_sw_def applyContainerDefaults_def Let_def
      PullMissing_def RestartNo_def containerNamePattern_def alphanumeric_def code_def)

lemma ex_sw_accepted:
  obtains c where "da_containers ex_sw_daemon ''r'' = Some c" "c \<in> set (da_Jobs ex_sw_daemon)"
    "cf_Environment (sc_Config c) = [(''A'', ''1''), (''B'', ''x=y'')]" "cf_Entrypoint (sc_Config c) = Some []"
proof (cases rule: handleRunContainer_cases [of ex_sw "''r''" "[BodyValue ex_sw_document]" "start_daemon 0"])
  case (refused resp)
  then show ?thesis
    by (auto simp: handleRunContainer_def ex_sw_decoded ex_sw_valid StatusAccepted_def Let_def)
next
  case (accepted j config c)
  have d: "ex_sw_daemon = (start_daemon 0)
      \<lparr>da_containers := [''r'' \<mapsto> c], da_Jobs := [c]\<rparr>"
    using accepted(5) by (simp add: ex_sw_daemon_def newHTTPServer_def start_daemon_def)
  have "config = ex_sw_config" using accepted(1,2) ex_sw_decoded by simp
  then have "cf_Environment (sc_Config c) = [(''A'', ''1''), (''B'', ''x=y'')]" "cf_Entrypoint (sc_Config c) = Some []"
    using accepted(4) by (simp_all add: ex_sw_config_def)
  moreover have "da_containers ex_sw_daemon ''r'' = Some c" "c \<in> set (da_Jobs ex_sw_daemon)"
    by (simp_all add: d)
  ultimately show ?thesis by (intro that)
qed

theorem accepted_container_created_witness:
  "\<exists>c options. c \<in> set (da_Jobs ex_sw_daemon)
     \<and> containerCreateOptions ex_sw c \<lparr>im_ID = ''sha'', im_Entrypoint = None\<rparr> = Inr options
     \<and> do_Entrypoint options = Some [[]] \<and> map_of (map env_entry (do_Env options)) ''B'' = Some ''x=y''"
proof -
  obtain c where c: "c \<in> set (da_Jobs ex_sw_daemon)"
    "cf_Environment (sc_Config c) = [(''A'', ''1''), (''B'', ''x=y'')]" "cf_Entrypoint (sc_Config c) = Some []"
    by (rule ex_sw_accepted)
  let ?im = "\<lparr>im_ID = ''sha'', im_Entrypoint = None\<rparr>"
  note all = accepted_container_created [OF ex_sw_laws ex_sw_reach c(1), of ?im]
  obtain options where o: "containerCreateOptions ex_sw c ?im = Inr options"
    using all [THEN conjunct1] c(3) by (cases "containerCreateOptions ex_sw c ?im") auto
  have "do_Entrypoint options = Some [[]]" using all [THEN conjunct2, rule_format, OF o] c(3) by blast
  moreover have "map_of (map env_entry (do_Env options)) ''B'' = map_of (cf_Environment (sc_Config c)) ''B''"
    using all [THEN conjunct2, rule_format, OF o] by blast
  ultimately show ?thesis using c(1,2) o by auto
qed

theorem accepted_container_reported_witness:
  "\<exists>c. da_containers ex_sw_daemon ''r'' = Some c \<and> fst (handleGetContainer ex_sw ''r'' ex_sw_daemon)
     = sw_answer (c\<lparr>sc_Status := zero_ContainerStatus\<lparr>cs_State := ''pending''\<rparr>\<rparr>)"
proof -
  obtain c where c: "da_containers ex_sw_daemon ''r'' = Some c" "c \<in> set (da_Jobs ex_sw_daemon)"
    by (rule ex_sw_accepted)
  show ?thesis
    using accepted_container_reported [OF ex_sw_laws ex_sw_reach c(1) rtranclp.rtrancl_refl] c by simp
qed

end
