(* ===== verification/First_Join.thy ===== *)
theory First_Join
  imports Enrollment Admin_Guarantees Cli Example_Worker
begin

text \<open>
  From the administrator to the node: the token that \<open>hambo token create\<close> prints lets a worker
  with an empty data directory join. This needs of the database that it stores what it is
  given (\<open>puts_work\<close>), and of the network that it is undisturbed from then on.
\<close>

context hambo_db
begin

lemma nodes_store: "store_collection B nodes_collection"
  by unfold_locales

end

section \<open>The first join of a token\<close>

text \<open>SHA-256 has 32 bytes, identifiers are drawn from 16 random bytes.\<close>

lemma marshal_new_node: "\<exists>d. marshal_Node (new_node nodeID name) = Inr d"
  by (simp add: marshal_Node_def new_node_def zero_Node_def omit_time_def)

lemma marshal_used_token:
  "enc_time (md_ExpiresAt m) = Inr j \<Longrightarrow> \<exists>d. marshal_Metadata (m\<lparr>md_Enrollment := Some en\<rparr>) = Inr d"
  by (simp add: marshal_Metadata_def)

lemma join_tx_first:
  assumes "hambo_db (e_B E)" and "puts_work (e_B E)" and inv: "db_inv (e_B E) tx"
    and "token_tbl (e_B E) tx h = Some m" and "md_Enrollment m = None" and "now < md_ExpiresAt m"
    and "enc_time (md_ExpiresAt m) = Inr j" and "h \<noteq> []" "length h \<le> maxKeySize"
    and "node_tbl (e_B E) tx (GenerateNodeID rnd) = None"
    and "GenerateNodeID rnd \<noteq> []" "length (GenerateNodeID rnd) \<le> maxKeySize"
    and "IssueNodeCertificate (e_X E) (e_ca E) now (GenerateNodeID rnd) (jr_CSR q) = Inr c"
  shows "\<exists>tx'. join_tx E rnd now q h rh tx =
    (\<lparr>jv_response = \<lparr>jn_NodeID = GenerateNodeID rnd, jn_Certificate = e_pem_certificate E (ct_Raw c)\<rparr>,
      jv_statusCode = StatusCreated, jv_errorMessage = []\<rparr>, Inr tx')"
proof -
  let ?B = "e_B E" and ?id = "GenerateNodeID rnd"
  let ?m' = "m\<lparr>md_Enrollment := Some \<lparr>er_RequestHash = rh, er_NodeID = ?id,
      er_Certificate = e_pem_certificate E (ct_Raw c)\<rparr>\<rparr>"
  note nodes = hambo_db.nodes_store [OF assms(1)] and tokens = hambo_db.tokens_store [OF assms(1)]
  have ok: "tbl_ok ?B nodes_collection tx" "tbl_ok ?B tokens_collection tx"
    using inv by (simp_all add: db_inv_def db_ok_def)
  obtain d where "marshal_Node (new_node ?id (jr_Name q)) = Inr d" using marshal_new_node by blast
  then obtain tx1 where tx1: "CreateTx ?B nodes_collection ?id (new_node ?id (jr_Name q)) tx = Inr tx1"
    using store_collection.CreateTx_works [OF nodes assms(2) ok(1) assms(10-12)] by fastforce
  have same: "view ?B tx1 ''tokens'' = view ?B tx ''tokens''"
    using store_collection.CreateTx_tbl(4) [OF nodes ok(1) tx1, of "''tokens''"] by simp
  then have tok1: "tbl_ok ?B tokens_collection tx1" "token_tbl ?B tx1 h = Some m"
    using ok(2) assms(4) tbl_frame [of ?B tx1 tokens_collection tx] by simp_all
  obtain d' where "marshal_Metadata ?m' = Inr d'" using marshal_used_token [OF assms(7)] by blast
  then obtain tx2 where "UpdateTx ?B tokens_collection h ?m' tx1 = Inr tx2"
    using store_collection.UpdateTx_works [OF tokens assms(2) tok1 assms(8,9)] by fastforce
  moreover have "GetTx ?B tokens_collection h tx = Inr m"
    using store_collection.GetTx_tbl [OF tokens ok(2)] assms(4) by simp
  ultimately show ?thesis
    using assms(5,6,13) tx1 by (simp add: join_tx_def Expired_def Let_def new_node_def)
qed

text \<open>What the first join of the token under \<open>h\<close> needs of the server at the moment it is served.\<close>

definition first_joinable ::
  "'db env \<Rightarrow> rng \<Rightarrow> 'db state \<Rightarrow> string \<Rightarrow> Metadata \<Rightarrow> JoinNodeRequest \<Rightarrow> certificate \<Rightarrow> bool" where
  "first_joinable E g s h m q c \<longleftrightarrow>
     token_tbl (e_B E) (st_db s) h = Some m \<and> md_Enrollment m = None \<and> g_now g < md_ExpiresAt m
     \<and> time_min \<le> md_ExpiresAt m \<and> md_ExpiresAt m < time_max
     \<and> h \<noteq> [] \<and> length h \<le> maxKeySize
     \<and> node_tbl (e_B E) (st_db s) (GenerateNodeID (g_id g)) = None \<and> length (g_id g) = 16
     \<and> IssueNodeCertificate (e_X E) (e_ca E) (g_now g) (GenerateNodeID (g_id g)) (jr_CSR q) = Inr c"

definition first_result :: "'db env \<Rightarrow> rng \<Rightarrow> JoinNodeRequest \<Rightarrow> certificate \<Rightarrow> EnrollmentResult" where
  "first_result E g q c = \<lparr>er_RequestHash = request_hash E q, er_NodeID = GenerateNodeID (g_id g),
     er_Certificate = e_pem_certificate E (ct_Raw c)\<rparr>"

lemma join_first_run:
  assumes "hambo_db (e_B E)" and "db_works (e_B E)" and "puts_work (e_B E)" and inv: "db_inv (e_B E) (st_db s)"
    and req: "join_request r secret q" and first: "first_joinable E g s (secret_hash E secret) m q c"
  shows "\<exists>db'. joinNodeHandler E (g_id g) (g_now g) r s
    = (writeJSON [(''Cache-Control'', ''no-store'')] StatusCreated
         (Inr (enc_JoinNodeResponse (stored_result (first_result E g q c)))), s\<lparr>st_db := db'\<rparr>)"
proof -
  let ?B = "e_B E" and ?h = "secret_hash E secret" and ?rh = "request_hash E q"
  let ?fn = "join_tx E (g_id g) (g_now g) q ?h ?rh"
  have bolt: "bolt_api ?B" using assms(1) by (simp add: hambo_db_def)
  obtain tx where tx: "view ?B tx = view ?B (st_db s)"
    and ok: "\<And>v tx'. ?fn tx = (v, Inr tx') \<Longrightarrow>
      \<exists>db'. WriteTx ?B join_vars0 ?fn (st_db s) = (v, None, db') \<and> view ?B db' = view ?B tx'"
    by (rule bolt_api.WriteTx_works [OF bolt assms(2), of "st_db s" ?fn join_vars0]) blast
  have inv': "db_inv ?B tx" using inv db_inv_view [OF tx] by simp
  have same: "token_tbl ?B tx = token_tbl ?B (st_db s)" "node_tbl ?B tx = node_tbl ?B (st_db s)"
    using same_data_view [OF tx] by (simp_all add: same_data_def)
  obtain j where j: "enc_time (md_ExpiresAt m) = Inr j"
    using first by (auto simp: first_joinable_def enc_time_def split: if_splits)
  have "length (GenerateNodeID (g_id g)) = 32" using first by (simp add: first_joinable_def GenerateNodeID_def length_hex)
  then have fits: "GenerateNodeID (g_id g) \<noteq> []" "length (GenerateNodeID (g_id g)) \<le> maxKeySize"
    by (auto simp: maxKeySize_def)
  obtain tx' where "?fn tx = (\<lparr>jv_response = stored_result (first_result E g q c),
      jv_statusCode = StatusCreated, jv_errorMessage = []\<rparr>, Inr tx')"
    using join_tx_first [OF assms(1,3) inv' _ _ _ j _ _ _ fits] first same
    by (fastforce simp: first_joinable_def stored_result_def first_result_def)
  then obtain db' where "WriteTx ?B join_vars0 ?fn (st_db s) = (\<lparr>jv_response = stored_result (first_result E g q c),
      jv_statusCode = StatusCreated, jv_errorMessage = []\<rparr>, None, db')" using ok by blast
  moreover obtain v err db'' where "WriteTx ?B join_vars0 ?fn (st_db s) = (v, err, db'')"
    "joinNodeHandler E (g_id g) (g_now g) r s = (join_answer v err, s\<lparr>st_db := db''\<rparr>)"
    by (rule join_run [OF req])
  ultimately show ?thesis by (auto simp: join_answer_def)
qed

lemma JoinNode_first:
  assumes "hambo_db (e_B E)" and "db_works (e_B E)" and "puts_work (e_B E)" and "wired E WE" and "pem_laws E WE"
    and "nw_faults nw (nw_count nw) = Delivered" and "plain secret" and inv: "state_inv (e_B E) (nw_state nw)"
    and first: "first_joinable E (nw_rng nw (nw_count nw)) (nw_state nw) (secret_hash E secret) m (pending_request p) c"
    and en: "en = first_result E (nw_rng nw (nw_count nw)) (pending_request p) c"
    and acc: "accepted E p en"
    and size: "length (e_json_text E (enc_JoinNodeResponse (stored_result en))) \<le> 64 * 1024"
    and root: "root_url u" and name: "valid_utf8 (jr_Name (pending_request p))"
  shows "\<exists>nw'. Client.JoinNode (we_client WE) u (Some (ca_Certificate (e_ca E))) secret (pending_request p) nw
      = (Inr (stored_result en), nw')
    \<and> node_tbl (e_B E) (st_db (nw_state nw'))
        = (node_tbl (e_B E) (st_db (nw_state nw)))(er_NodeID en \<mapsto> new_node (er_NodeID en) (ws_Name p))
    \<and> token_tbl (e_B E) (st_db (nw_state nw'))
        = (token_tbl (e_B E) (st_db (nw_state nw)))(secret_hash E secret \<mapsto> m\<lparr>md_Enrollment := Some en\<rparr>)"
proof -
  let ?s = "nw_state nw" and ?g = "nw_rng nw (nw_count nw)" and ?CE = "we_client WE"
  let ?req = "join_http_request u (ca_Certificate (e_ca E)) secret (pending_request p)"
  let ?resp = "writeJSON [(''Cache-Control'', ''no-store'')] StatusCreated (Inr (enc_JoinNodeResponse (stored_result en)))"
  have jr: "join_request (server_request E ?req) secret (pending_request p)"
    unfolding join_request_http [OF assms(7) name] using acc by (simp add: accepted_def pending_request_def)
  have dinv: "db_inv (e_B E) (st_db ?s)" using inv by (simp add: state_inv_def)
  obtain db' where db': "joinNodeHandler E (g_id ?g) (g_now ?g) (server_request E ?req) ?s = (?resp, ?s\<lparr>st_db := db'\<rparr>)"
    using join_first_run [OF assms(1-3) dinv jr first] unfolding en by blast
  let ?nw' = "nw\<lparr>nw_count := Suc (nw_count nw), nw_state := ?s\<lparr>st_db := db'\<rparr>\<rparr>"
  have "server_Do E ?req nw = (Inr (client_response E None ?resp), ?nw')"
    by (rule server_Do_delivered [OF valid_headers(2) [OF assms(7)]])
      (use assms(6) db' in \<open>auto simp: trusts_def serve_join [OF root], simp_all add: join_http_request_def\<close>)
  moreover have filled: "er_NodeID en \<noteq> []" "er_Certificate en \<noteq> []"
    using accepted_filled [OF assms(5) acc] by simp_all
  moreover have "secret \<noteq> []" using assms(7) by (simp add: plain_def)
  ultimately have run: "Client.JoinNode ?CE u (Some (ca_Certificate (e_ca E))) secret (pending_request p) nw
      = (Inr (stored_result en), ?nw')"
    using assms(4) size
    by (simp add: Client.JoinNode_def wired_def success_def writeJSON_def status_defs read_error_def
        body_length_def body_documents_def Decode_def stored_result_def)
  have "node_tbl (e_B E) (st_db (nw_state ?nw'))
        = (node_tbl (e_B E) (st_db ?s))(er_NodeID en \<mapsto> new_node (er_NodeID en) (ws_Name p))
    \<and> token_tbl (e_B E) (st_db (nw_state ?nw'))
        = (token_tbl (e_B E) (st_db ?s))(secret_hash E secret \<mapsto> m\<lparr>md_Enrollment := Some en\<rparr>)"
  proof (cases rule: JoinNode_outcome [OF assms(1) inv assms(4,7) root name run])
    case (2 rnd now v)
    then have v: "jv_response v = stored_result en" by simp
    from 2(5) first v show ?thesis
      by (auto simp: first_joinable_def retried_def enrolled_def stored_result_def en first_result_def
          pending_request_def)
  qed simp
  then show ?thesis using run by blast
qed

section \<open>Join on an empty data directory\<close>

lemma loadState_missing:
  assumes "w_faults w = []" and "w_files w (worker_json dir) = None"
  shows "\<exists>e. loadState dir w = (Inl e, snapshot w) \<and> errors_Is e ErrNotExist"
  using assms by (simp add: loadState_def sequencing_defs quiet_calls not_exist_def)

lemma Join_empty_dir:
  assumes "fs (worker_json (jc_DataDir cfg)) = None" and "fs (temporary_path (jc_DataDir cfg) rnd1) = None"
    and "fs (temporary_path (jc_DataDir cfg) rnd2) = None" and "Parse (jc_Token cfg) = Inr tok"
    and "TrimSpace (jc_Token cfg) \<noteq> []" and "newEnrollment WE key cfg = Inr p" and "rnd1 \<noteq> rnd2"
  obtains w where "Join WE key Locked rnd1 rnd2 cfg (start_world fs nw []) = enroll WE rnd2 cfg p tok w"
    "w_net w = nw" "w_faults w = []" "w_files w (temporary_path (jc_DataDir cfg) rnd2) = None"
proof -
  let ?dir = "jc_DataDir cfg"
  obtain w1 where w1: "lockDataDir Locked ?dir (start_world fs nw []) = (Inr (), w1)" "w_faults w1 = []"
    "w_net w1 = nw" "\<And>q. q \<noteq> path_Join ?dir ''worker.lock'' \<Longrightarrow> w_files w1 q = fs q"
    using lockDataDir_quiet [of "start_world fs nw []" ?dir] by (auto simp: start_world_def)
  have free: "w_files w1 (temporary_path ?dir rnd1) = None" "w_files w1 (temporary_path ?dir rnd2) = None"
    "w_files w1 (worker_json ?dir) = None"
    using assms(1-3) by (simp_all add: w1(4) temporary_path_def path_Join_def worker_json_def)
  obtain e where e: "loadState ?dir w1 = (Inl e, snapshot w1)" "errors_Is e ErrNotExist"
    using loadState_missing [OF w1(2) free(3)] by blast
  obtain v where v: "saveState ?dir rnd1 p (snapshot w1) = (Inr (), v)" "w_faults v = []" "w_net v = nw"
    using saveState_quiet [of "snapshot w1" ?dir rnd1 p] w1(2,3) free(1) by auto
  have "w_files v (temporary_path ?dir rnd2) = w_files w1 (temporary_path ?dir rnd2)"
    using saveState_D(2) [OF v(1)] assms(7) by (simp add: saving_def temporary_path_def path_Join_def worker_json_def)
  then have "w_files v (temporary_path ?dir rnd2) = None" using free(2) by simp
  moreover have "Join WE key Locked rnd1 rnd2 cfg (start_world fs nw []) = enroll WE rnd2 cfg p tok v"
    using w1(1) e v(1) assms(4-6) by (simp add: Join_def join_new_def sequencing_defs)
  ultimately show ?thesis using that v(2,3) by blast
qed

lemma trailing_space_plain: "33 \<le> code c \<Longrightarrow> code c < 127 \<Longrightarrow> trailing_space_rev (c # s) = 0"
  by (auto simp: trailing_space_rev_def split: list.splits)

lemma TrimSpace_plain:
  assumes "plain s"
  shows "TrimSpace s = s"
proof -
  obtain c s' where s: "s = c # s'" using assms by (cases s) (auto simp: plain_def)
  obtain d r where r: "rev s = d # r" using s by (cases "rev s") auto
  have "d \<in> set (rev s)" unfolding r by simp
  then have "33 \<le> code d" "code d < 127" using assms by (simp_all add: plain_def)
  then have "leading_space s = 0" "trailing_space_rev (rev s) = 0"
    using assms leading_space_plain trailing_space_plain unfolding r by (simp_all add: plain_def s)
  then have "TrimLeftSpace_fuel n s = s" "TrimRightSpace_fuel n (rev s) = rev s" for n by (cases n; simp)+
  then show ?thesis by (simp add: TrimSpace_def)
qed

lemma Format_plain: "plain (t_CAFingerprint t) \<Longrightarrow> plain (t_Secret t) \<Longrightarrow> plain (Format t)"
  by (auto simp: plain_def Format_def code_def)

lemma Join_first:
  assumes "hambo_db (e_B E)" and "db_works (e_B E)" and "puts_work (e_B E)" and "wired E WE" and "pem_laws E WE"
    and "pair_law E WE" and tok: "Parse (jc_Token cfg) = Inr tok" and "plain (t_Secret tok)" "plain (jc_Token cfg)"
    and "t_CAFingerprint tok = b64_EncodeToString (e_sha256 E (ct_Raw (ca_Certificate (e_ca E))))"
    and "t_CAFingerprint tok \<noteq> []" and "\<forall>i. nw_faults nw i = Delivered" and inv: "state_inv (e_B E) (nw_state nw)"
    and first: "first_joinable E (nw_rng nw (Suc (nw_count nw))) (nw_state nw) (secret_hash E (t_Secret tok)) m
      (pending_request p) c"
    and en: "en = first_result E (nw_rng nw (Suc (nw_count nw))) (pending_request p) c"
    and sizes: "length (e_json_text E (enc_JoinNodeRequest (pending_request p))) \<le> maxJoinNodeRequestSize"
      "length (e_json_text E (enc_JoinNodeResponse (stored_result en))) \<le> 64 * 1024"
    and "TrimSpace (jc_Name cfg) \<noteq> []" and "newEnrollment WE key cfg = Inr p"
    and "fs (worker_json (jc_DataDir cfg)) = None" and "fs (temporary_path (jc_DataDir cfg) rnd1) = None"
    and "fs (temporary_path (jc_DataDir cfg) rnd2) = None" and "rnd1 \<noteq> rnd2" and "ws_CSR p \<noteq> []"
    and cfg: "plain_config cfg"
  shows "\<exists>w s. Join WE key Locked rnd1 rnd2 cfg (start_world fs nw [])
      = (Inr \<lparr>jo_NodeID = er_NodeID en, jo_AlreadyConfigured = False\<rparr>, w)
    \<and> node_tbl (e_B E) (st_db (nw_state (w_net w)))
        = (node_tbl (e_B E) (st_db (nw_state nw)))(er_NodeID en \<mapsto> new_node (er_NodeID en) (jc_Name cfg))
    \<and> token_tbl (e_B E) (st_db (nw_state (w_net w)))
        = (token_tbl (e_B E) (st_db (nw_state nw)))(secret_hash E (t_Secret tok) \<mapsto> m\<lparr>md_Enrollment := Some en\<rparr>)
    \<and> w_files w (worker_json (jc_DataDir cfg)) = pending_file s
    \<and> ws_NodeID s = er_NodeID en \<and> ws_Certificate s = er_Certificate en"
proof -
  let ?nw1 = "nw\<lparr>nw_count := Suc (nw_count nw)\<rparr>" and ?CA = "ca_Certificate (e_ca E)"
  have made: "made WE cfg p" using assms(19) cfg by (auto simp: made_def)
  have name: "ws_Name p = jc_Name cfg" using made_fields(3) [OF made] .
  have csr: "jr_CSR (pending_request p) = ws_CSR p" by (simp add: pending_request_def)
  have issued: "IssueNodeCertificate (e_X E) (e_ca E) (g_now (nw_rng nw (Suc (nw_count nw)))) (er_NodeID en) (ws_CSR p) = Inr c"
    using first by (simp add: first_joinable_def en first_result_def csr)
  have acc: "accepted E p en"
    unfolding accepted_def
    using issued sizes(1) assms(18,24) name by (auto simp: en first_result_def)
  have trimmed: "TrimSpace (jc_Token cfg) \<noteq> []"
    using TrimSpace_plain [OF assms(9)] assms(9) by (simp add: plain_def)
  obtain w where w: "Join WE key Locked rnd1 rnd2 cfg (start_world fs nw []) = enroll WE rnd2 cfg p tok w"
    "w_net w = nw" "w_faults w = []" "w_files w (temporary_path (jc_DataDir cfg) rnd2) = None"
    by (rule Join_empty_dir [OF assms(20-22) tok trimmed assms(19,23)])
  have fetch: "FetchAndVerifyCA (we_client WE) (jc_ServerURL cfg) (t_CAFingerprint tok) (w_net w) = (Inr ?CA, ?nw1)"
    using FetchAndVerifyCA_quiet [OF made_valid(4) [OF made] assms(4,5) _ assms(10,11)] assms(12) w(2) by simp
  obtain nw2 where join: "Client.JoinNode (we_client WE) (jc_ServerURL cfg) (Some ?CA) (t_Secret tok) (pending_request p) ?nw1
      = (Inr (stored_result en), nw2)"
    "node_tbl (e_B E) (st_db (nw_state nw2))
        = (node_tbl (e_B E) (st_db (nw_state nw)))(er_NodeID en \<mapsto> new_node (er_NodeID en) (jc_Name cfg))"
    "token_tbl (e_B E) (st_db (nw_state nw2))
        = (token_tbl (e_B E) (st_db (nw_state nw)))(secret_hash E (t_Secret tok) \<mapsto> m\<lparr>md_Enrollment := Some en\<rparr>)"
    using JoinNode_first [OF assms(1-5) _ assms(8) _ _ _ acc sizes(2) made_valid(4,3) [OF made], of ?nw1 m c] assms(12) inv first en name
    by auto
  from enroll_answered [OF fetch join(1) assms(6) made acc w(3,4)] show ?thesis
    using w(1) join(2,3) by auto
qed

section \<open>The token the administrator prints\<close>

text \<open>What an answered call of the client returns was written by the server with a success.\<close>

lemma client_do_served:
  assumes "ce_Do CE = server_Do E" and "client_do CE c verb path input (Some dec) nw = (Inr v, nw')"
  obtains req resp j where "newRequest CE c verb path input = Inr req"
    "serve E (nw_rng nw (nw_count nw)) (server_request E req) (nw_state nw) = (resp, nw_state nw')"
    "200 \<le> rs_Status resp" "rs_Status resp \<le> 299" "rs_Body resp = JsonBody j" "dec j = Inr (the v)"
proof -
  obtain req where req: "newRequest CE c verb path input = Inr req"
    using assms(2) by (auto simp: client_do_def split: sum.splits)
  obtain x where x: "server_Do E req nw = (x, nw')"
    using assms req by (auto simp: client_do_def split: sum.splits prod.splits)
  obtain hr where hr: "x = Inr hr" "success hr" "Decode dec (body_documents hr) = Inr (the v)"
    using assms req x
    by (auto simp: client_do_def bind_result_eq_Inr split: sum.splits prod.splits if_splits option.splits)
  from server_Do_D [OF x] hr(1) obtain resp where resp:
    "serve E (nw_rng nw (nw_count nw)) (server_request E req) (nw_state nw) = (resp, nw_state nw')"
    "hr_Response hr = resp" "hr_Stream hr = []"
    by (auto simp: client_response_def)
  obtain j where "rs_Body resp = JsonBody j" "dec j = Inr (the v)"
    using hr(3) resp(2,3) by (auto simp: Decode_def body_documents_def type_error_def split: list.splits body.splits option.splits if_splits)
  moreover have "200 \<le> rs_Status resp" "rs_Status resp \<le> 299" using hr(2) resp(2) by (simp_all add: success_def)
  ultimately show ?thesis using that req resp(1) by metis
qed

lemma serve_tokens:
  assumes "rq_Path r = ''/tokens''" and "rq_Method r = ''POST''" and "serve E g r s = (resp, s')" and "rs_Status resp \<le> 299"
  shows "createTokenHandler E (g_secret g) (g_now g) r s = (resp, s')"
  using assms by (auto simp: serve_def route_of_clean match_pattern_def addRoutes_def adminOnly_def requireGroup_cases
      status_defs split: if_splits)

lemma createToken_stored:
  assumes "createTokenHandler E rnd now r s = (resp, s')" and "rs_Status resp \<le> 299"
    and "rq_Body r maxTokenRequestSize \<in> {[BodyTooLarge], [BodyValue (enc_CreateTokenRequest q)]}"
    and "ctr_TTL q \<noteq> []" and "e_ParseDuration E (ctr_TTL q) = Inr ttl"
  obtains bs t where "rnd = Inr bs" 
      "t = \<lparr>t_CAFingerprint = caFingerprint (e_sha256 E) (ct_Raw (ca_Certificate (e_ca E))),
            t_Secret = b64_EncodeToString bs\<rparr>"
      "Create (e_B E) tokens_collection (SecretHash (e_sha256 E) t)
         \<lparr>md_ExpiresAt = now + ttl, md_Enrollment = None\<rparr> (st_db s) = (None, st_db s')"
      "rs_Body resp = JsonBody (JObj [(''token'', JStr (Format t)), (''expires_at'', JTime (now + ttl))])"
      "time_min \<le> now + ttl" "now + ttl < time_max"
proof -
  have r: "readJSON dec_CreateTokenRequest maxTokenRequestSize r = Inr q"
    using assms(1-3) by (auto simp: readJSON_def createTokenHandler_def too_large_def status_defs split: if_splits)
  show ?thesis
    using assms(1,2) r assms(4,5) that
    by (auto simp: createTokenHandler_def Generate_def generateSecret_def Let_def status_defs writeJSON_def
        enc_CreateTokenResponse_def enc_time_def split: if_splits sum.splits prod.splits option.splits)
qed

text \<open>What the token of a command that printed it is at the server.\<close>

definition token_ready :: "'db env \<Rightarrow> instant \<Rightarrow> Token \<Rightarrow> 'db state \<Rightarrow> bool" where
  "token_ready E expires t s \<longleftrightarrow>
     token_tbl (e_B E) (st_db s) (secret_hash E (t_Secret t)) = Some \<lparr>md_ExpiresAt = expires, md_Enrollment = None\<rparr>
     \<and> time_min \<le> expires \<and> expires < time_max"

lemma token_printed:
  assumes "hambo_db (e_B E)" and inv: "state_inv (e_B E) (nw_state nw)" and "ce_Do CE = server_Do E"
    and run: "Client.CreateToken CE c q nw = (Inr p, nw')" and ttl: "ctr_TTL q \<noteq> []" "e_ParseDuration E (ctr_TTL q) = Inr ttl"
    and digests: "\<forall>x. length (e_sha256 E x) = 32" and root: "root_url (cl_baseURL c)"
    and secrets: "\<forall>bs. g_secret (nw_rng nw (nw_count nw)) = Inr bs \<longrightarrow> length bs = 32"
  obtains t where "cto_Token p = Format t" "Parse (Format t) = Inr t" "plain (t_CAFingerprint t)" "plain (t_Secret t)"
    "t_CAFingerprint t = b64_EncodeToString (e_sha256 E (ct_Raw (ca_Certificate (e_ca E))))"
    "token_ready E (g_now (nw_rng nw (nw_count nw)) + ttl) t (nw_state nw')" "state_inv (e_B E) (nw_state nw')"
    "node_tbl (e_B E) (st_db (nw_state nw')) = node_tbl (e_B E) (st_db (nw_state nw))"
proof -
  let ?g = "nw_rng nw (nw_count nw)" and ?s = "nw_state nw" and ?s' = "nw_state nw'" and ?B = "e_B E"
  obtain v where do: "client_do CE c ''POST'' ''tokens'' (Some (enc_CreateTokenRequest q)) (Some dec_CreateTokenResponse) nw
      = (Inr v, nw')" "p = the v"
    using run by (cases "client_do CE c ''POST'' ''tokens'' (Some (enc_CreateTokenRequest q)) (Some dec_CreateTokenResponse) nw")
      (auto simp: Client.CreateToken_def value_of_def result_eqs)
  from client_do_served [OF assms(3) do(1)] obtain req resp j where
    req: "newRequest CE c ''POST'' ''tokens'' (Some (enc_CreateTokenRequest q)) = Inr req"
    and served: "serve E ?g (server_request E req) ?s = (resp, ?s')"
    and resp: "rs_Status resp \<le> 299" "rs_Body resp = JsonBody j" "dec_CreateTokenResponse j = Inr p"
    unfolding do(2) by metis
  let ?r = "server_request E req"
  have r: "rq_Path ?r = ''/tokens''" "rq_Method ?r = ''POST''"
    "rq_Body ?r maxTokenRequestSize \<in> {[BodyTooLarge], [BodyValue (enc_CreateTokenRequest q)]}"
    using req root_paths(7) [OF root] by (auto simp: newRequest_def server_request_def split: option.splits)
  note handled = serve_tokens [OF r(1,2) served resp(1)]
  obtain bs t where bs: "g_secret ?g = Inr bs"
    and t: "t = \<lparr>t_CAFingerprint = caFingerprint (e_sha256 E) (ct_Raw (ca_Certificate (e_ca E))),
            t_Secret = b64_EncodeToString bs\<rparr>"
    and cr: "Create ?B tokens_collection (SecretHash (e_sha256 E) t)
         \<lparr>md_ExpiresAt = g_now ?g + ttl, md_Enrollment = None\<rparr> (st_db ?s) = (None, st_db ?s')"
    and body: "rs_Body resp = JsonBody (JObj [(''token'', JStr (Format t)), (''expires_at'', JTime (g_now ?g + ttl))])"
    and range: "time_min \<le> g_now ?g + ttl" "g_now ?g + ttl < time_max"
    by (rule createToken_stored [OF handled resp(1) r(3) ttl])
  have "cto_Token p = Format t"
    using resp(2,3) body wire_token [of "Format t" "g_now ?g + ttl"] range
    by (auto simp: enc_CreateTokenResponse_def enc_time_def)
  moreover have "Parse (Format t) = Inr t"
    using Parse_Format_encoded [of "e_sha256 E (ct_Raw (ca_Certificate (e_ca E)))" bs] digests secrets bs
    by (simp add: t caFingerprint_def)
  moreover have "plain (b64_EncodeToString xs)" if "length xs = 32" for xs using that by (intro b64_plain) auto
  then have "plain (t_CAFingerprint t)" "plain (t_Secret t)"
    using digests secrets bs by (simp_all add: t caFingerprint_def)
  moreover have "token_ready E (g_now ?g + ttl) t ?s'"
    using store_collection.Create_ok(1,3) [OF hambo_db.tokens_store [OF assms(1)] _ cr] inv range
    by (simp add: token_ready_def SecretHash_def secret_hash_def state_inv_def db_inv_def db_ok_def)
  moreover have "state_inv ?B ?s'"
    using hambo_db.createToken_ok [OF assms(1) inv refl handled] by (simp add: request_ok_def)
  moreover have "node_tbl ?B (st_db ?s') = node_tbl ?B (st_db ?s)"
    using hambo_db.createToken_inv(4) [OF assms(1) _ refl handled] inv by (simp add: state_inv_def)
  moreover have "t_CAFingerprint t = b64_EncodeToString (e_sha256 E (ct_Raw (ca_Certificate (e_ca E))))"
    by (simp add: t caFingerprint_def)
  ultimately show ?thesis using that by blast
qed

lemma newAPIClient_net: "newAPIClient CE Y path w = (r, w') \<Longrightarrow> w_net w' = w_net w"
  by (auto simp: newAPIClient_def cliconfig_Load_def sequencing_defs goes_def
      dest!: os_ReadFile_D split: prod.splits sum.splits)

lemma token_command_created:
  assumes "token_create_command CE Y dS path ttl w = (Inr text, w')"
  obtains c p nw' w2 where "newAPIClient CE Y path w = (Inr c, w2)"
    "Client.CreateToken CE c \<lparr>ctr_TTL = dS ttl\<rparr> (w_net w) = (Inr p, nw')" "text = cto_Token p"
    "w_net w' = nw'"
proof -
  obtain r1 w1 where c: "newAPIClient CE Y path w = (r1, w1)" by (metis surj_pair)
  obtain r2 n2 where d: "Client.CreateToken CE (projr r1) \<lparr>ctr_TTL = dS ttl\<rparr> (w_net w) = (r2, n2)" by (metis surj_pair)
  show ?thesis
    using assms c d newAPIClient_net [OF c] that [of "projr r1" w1 "projr r2" n2]
    by (auto simp: token_create_command_def sequencing_defs net_call_def split: if_splits sum.splits)
qed

section \<open>From the token to the node\<close>

text \<open>
  Claim C9: a printed token enrolls. When \<open>hambo token create\<close> has printed a token, a worker
  with an empty data directory to which it is given joins before the token expires, over a
  network that is undisturbed from then on (the administrator's may have had any faults, and
  others may have used the server in between, but not the token): \<open>hambo-worker join\<close> prints the
  identifier of a new node of the given name (both know the server by an address without a path of
  its own, and the name is valid UTF-8), the server stores exactly this node and uses the
  token up for this request, and \<open>worker.json\<close> holds the identifier and its certificate.
\<close>

theorem printed_token_enrolls:
  fixes w0 :: "'db network world" and nw :: "'db network"
  defines "now \<equiv> g_now (nw_rng (w_net w0) (nw_count (w_net w0)))" and "g \<equiv> nw_rng nw (Suc (nw_count nw))"
  assumes laws: "hambo_db (e_B E)" "db_works (e_B E)" "puts_work (e_B E)" "wired E WE" "pem_laws E WE" "pair_law E WE"
      "ce_Do CE = server_Do E" "\<forall>x. length (e_sha256 E x) = 32"
    and created: "token_create_command CE Y dS path ttl w0 = (Inr text, w1)" "state_inv (e_B E) (nw_state (w_net w0))"
      "dS ttl \<noteq> []" "e_ParseDuration E (dS ttl) = Inr ttl"
      "\<forall>bs. g_secret (nw_rng (w_net w0) (nw_count (w_net w0))) = Inr bs \<longrightarrow> length bs = 32"
      "\<forall>cl w'. newAPIClient CE Y path w0 = (Inr cl, w') \<longrightarrow> root_url (cl_baseURL cl)"
    and between: "state_inv (e_B E) (nw_state nw)"
      "token_tbl (e_B E) (st_db (nw_state nw)) = token_tbl (e_B E) (st_db (nw_state (w_net w1)))"
    and quiet: "\<forall>i. nw_faults nw i = Delivered" "g_now g < now + ttl"
    and fresh: "length (g_id g) = 16" "node_tbl (e_B E) (st_db (nw_state nw)) (GenerateNodeID (g_id g)) = None"
      "fs (worker_json dataDir) = None" "fs (temporary_path dataDir rnd1) = None"
      "fs (temporary_path dataDir rnd2) = None" "rnd1 \<noteq> rnd2"
    and worker: "ParseServerURL (we_client WE) serverURL = Inr u" "TrimSpace name \<noteq> []"
      "newEnrollment WE key \<lparr>jc_ServerURL = u, jc_Token = text, jc_Name = name, jc_DataDir = dataDir\<rparr> = Inr p"
      "ws_CSR p \<noteq> []"
      "IssueNodeCertificate (e_X E) (e_ca E) (g_now g) (GenerateNodeID (g_id g)) (ws_CSR p) = Inr c"
    and address: "root_url u" "valid_utf8 (u_String u)" "valid_utf8 name"
    and sizes: "length (e_json_text E (enc_JoinNodeRequest (pending_request p))) \<le> maxJoinNodeRequestSize"
      "length (e_json_text E (enc_JoinNodeResponse \<lparr>jn_NodeID = GenerateNodeID (g_id g),
         jn_Certificate = e_pem_certificate E (ct_Raw c)\<rparr>)) \<le> 64 * 1024"
  shows "\<exists>w s t. join_command WE key Locked rnd1 rnd2 serverURL text name dataDir (start_world fs nw [])
      = (Inr (''Worker joined as node '' @ GenerateNodeID (g_id g)), w)
    \<and> node_tbl (e_B E) (st_db (nw_state (w_net w))) = (node_tbl (e_B E) (st_db (nw_state nw)))
        (GenerateNodeID (g_id g) \<mapsto> new_node (GenerateNodeID (g_id g)) name)
    \<and> Parse text = Inr t
    \<and> token_tbl (e_B E) (st_db (nw_state (w_net w))) = (token_tbl (e_B E) (st_db (nw_state nw)))
        (secret_hash E (t_Secret t) \<mapsto> \<lparr>md_ExpiresAt = now + ttl,
           md_Enrollment = Some (first_result E g (pending_request p) c)\<rparr>)
    \<and> w_files w (worker_json dataDir) = pending_file s
    \<and> ws_NodeID s = GenerateNodeID (g_id g) \<and> ws_Certificate s = e_pem_certificate E (ct_Raw c)"
proof -
  let ?cfg = "\<lparr>jc_ServerURL = u, jc_Token = text, jc_Name = name, jc_DataDir = dataDir\<rparr>"
  let ?en = "first_result E g (pending_request p) c"
  have cfg: "plain_config ?cfg" using address by (simp add: plain_config_def)
  obtain cl q nw1 w2 where made: "newAPIClient CE Y path w0 = (Inr cl, w2)"
    and q: "Client.CreateToken CE cl \<lparr>ctr_TTL = dS ttl\<rparr> (w_net w0) = (Inr q, nw1)"
    "text = cto_Token q" "w_net w1 = nw1" by (rule token_command_created [OF created(1)])
  have root: "root_url (cl_baseURL cl)" using created(6) made by blast
  have asked: "ctr_TTL \<lparr>ctr_TTL = dS ttl\<rparr> \<noteq> []" "e_ParseDuration E (ctr_TTL \<lparr>ctr_TTL = dS ttl\<rparr>) = Inr ttl"
    using created(3,4) by simp_all
  obtain t where t: "text = Format t" "Parse (Format t) = Inr t" "plain (t_CAFingerprint t)" "plain (t_Secret t)"
    "t_CAFingerprint t = b64_EncodeToString (e_sha256 E (ct_Raw (ca_Certificate (e_ca E))))"
    "token_ready E (now + ttl) t (nw_state nw1)"
    by (rule token_printed [OF laws(1) created(2) laws(7) q(1) asked laws(8) root created(5)]) (auto simp: q(2) now_def)
  have "length (secret_hash E (t_Secret t)) = 64" using laws(8) by (simp add: secret_hash_def length_hex)
  then have "secret_hash E (t_Secret t) \<noteq> []" "length (secret_hash E (t_Secret t)) \<le> maxKeySize"
    by (auto simp: maxKeySize_def)
  then have first: "first_joinable E g (nw_state nw) (secret_hash E (t_Secret t))
      \<lparr>md_ExpiresAt = now + ttl, md_Enrollment = None\<rparr> (pending_request p) c"
    using t(6) between(2) quiet(2) fresh(1,2) worker(5) q(3)
    by (simp add: first_joinable_def token_ready_def pending_request_def)
  have filled: "t_CAFingerprint t \<noteq> []" "plain text" "Parse text = Inr t"
    using t(3) Format_plain [OF t(3,4)] t(2) unfolding t(1) plain_def by blast+
  have en: "er_NodeID ?en = GenerateNodeID (g_id g)" "er_Certificate ?en = e_pem_certificate E (ct_Raw c)"
    "stored_result ?en = \<lparr>jn_NodeID = GenerateNodeID (g_id g), jn_Certificate = e_pem_certificate E (ct_Raw c)\<rparr>"
    by (simp_all add: first_result_def stored_result_def)
  have "\<exists>w s. Join WE key Locked rnd1 rnd2 ?cfg (start_world fs nw [])
      = (Inr \<lparr>jo_NodeID = er_NodeID ?en, jo_AlreadyConfigured = False\<rparr>, w)
    \<and> node_tbl (e_B E) (st_db (nw_state (w_net w)))
        = (node_tbl (e_B E) (st_db (nw_state nw)))(er_NodeID ?en \<mapsto> new_node (er_NodeID ?en) (jc_Name ?cfg))
    \<and> token_tbl (e_B E) (st_db (nw_state (w_net w))) = (token_tbl (e_B E) (st_db (nw_state nw)))
        (secret_hash E (t_Secret t) \<mapsto> \<lparr>md_ExpiresAt = now + ttl, md_Enrollment = None\<rparr>\<lparr>md_Enrollment := Some ?en\<rparr>)
    \<and> w_files w (worker_json (jc_DataDir ?cfg)) = pending_file s
    \<and> ws_NodeID s = er_NodeID ?en \<and> ws_Certificate s = er_Certificate ?en"
  proof (rule Join_first [OF laws(1-6) _ t(4) _ t(5) filled(1) quiet(1) between(1) first [unfolded g_def] _ sizes(1)])
    show "length (e_json_text E (enc_JoinNodeResponse (stored_result ?en))) \<le> 64 * 1024"
      unfolding en(3) by (rule sizes(2))
    show "?en = first_result E (nw_rng nw (Suc (nw_count nw))) (pending_request p) c" by (simp add: g_def)
  qed (use filled(2,3) worker(2-4) fresh(3-6) cfg in simp_all)
  then obtain w s where "Join WE key Locked rnd1 rnd2 ?cfg (start_world fs nw [])
      = (Inr \<lparr>jo_NodeID = GenerateNodeID (g_id g), jo_AlreadyConfigured = False\<rparr>, w)"
    and "node_tbl (e_B E) (st_db (nw_state (w_net w))) = (node_tbl (e_B E) (st_db (nw_state nw)))
        (GenerateNodeID (g_id g) \<mapsto> new_node (GenerateNodeID (g_id g)) name)"
      "token_tbl (e_B E) (st_db (nw_state (w_net w))) = (token_tbl (e_B E) (st_db (nw_state nw)))
        (secret_hash E (t_Secret t) \<mapsto> \<lparr>md_ExpiresAt = now + ttl, md_Enrollment = Some ?en\<rparr>)"
      "w_files w (worker_json dataDir) = pending_file s"
      "ws_NodeID s = GenerateNodeID (g_id g)" "ws_Certificate s = e_pem_certificate E (ct_Raw c)"
    unfolding en(1,2) by auto
  moreover from this(1) worker(1) have "join_command WE key Locked rnd1 rnd2 serverURL text name dataDir (start_world fs nw [])
      = (Inr (''Worker joined as node '' @ GenerateNodeID (g_id g)), w)"
    by (simp add: join_command_def sequencing_defs)
  ultimately show ?thesis using filled(3) by blast
qed

section \<open>An instance\<close>

definition ex_rng16 :: rng where
  "ex_rng16 = \<lparr>g_id = replicate 16 (CHR ''n''), g_secret = Inr (replicate 32 (CHR ''s'')), g_now = 1\<rparr>"

definition ex_fresh :: "mem_db network" where
  "ex_fresh = (ex_network ex0 [])\<lparr>nw_rng := \<lambda>i. ex_rng16\<rparr>"

definition ex_admin :: "mem_db network client_env" where
  "ex_admin = ex_client\<lparr>ce_X509KeyPair := \<lambda>cert key.
     Inr admin_certificate\<rparr>"

definition ex_yaml :: yaml where
  "ex_yaml = \<lparr>ya_Marshal = (\<lambda>cfg. Inr ''y''),
     ya_Unmarshal = (\<lambda>d. Inr \<lparr>cc_ServerURL = ''h'', cc_CACert = ''PEM Hambo CA'', cc_ClientCert = ''c'', cc_ClientKey = ''k''\<rparr>)\<rparr>"

definition ex_desk :: "mem_db network world" where
  "ex_desk = start_world (\<lambda>p. if p = ''cfg'' then Some (Whole (Bytes ''y'')) else None) ex_fresh []"

definition ex_desk_client :: Client where
  "ex_desk_client = \<lparr>cl_baseURL = \<lparr>u_Scheme = ''https'', u_Hostname = ''h'', u_User = False, u_Path = [], u_String = ''h''\<rparr>,
     cl_roots = [ex_certificate ''Hambo CA''],
     cl_pair = admin_certificate\<rparr>"

definition ex_token_http :: http_request where
  "ex_token_http = \<lparr>hq_Method = ''POST'', hq_URL = cl_baseURL ex_desk_client, hq_Path = ''tokens'',
     hq_Header = [(''Content-Type'', ''application/json'')], hq_Body = Some (enc_CreateTokenRequest \<lparr>ctr_TTL = ''1h''\<rparr>),
     hq_Roots = Some (cl_roots ex_desk_client), hq_Pair = Some (cl_pair ex_desk_client)\<rparr>"

definition ex_printed :: Token where
  "ex_printed = \<lparr>t_CAFingerprint = b64_EncodeToString ex_digest,
     t_Secret = b64_EncodeToString (replicate 32 (CHR ''s''))\<rparr>"

lemma ex_desk_client_made: "newAPIClient ex_admin ex_yaml ''cfg'' ex_desk = (Inr ex_desk_client, snapshot ex_desk)"
  by (simp add: newAPIClient_def cliconfig_Load_def sequencing_defs quiet_calls ex_desk_def start_world_def ex_yaml_def
    check_config_def NewClient_def ParseServerURL_def ex_admin_def ex_client_def ex_desk_client_def)

lemma ex_token_served: "fst (serve ex_server ex_rng16 (server_request ex_server ex_token_http) ex0)
  = writeJSON [(''Cache-Control'', ''no-store'')] StatusCreated (enc_CreateTokenResponse (Format ex_printed) (1 + hours 1))"
proof -
  let ?r = "server_request ex_server ex_token_http"
  have "e_json_text ex_server (enc_CreateTokenRequest \<lparr>ctr_TTL = ''1h''\<rparr>) = ''1h''"
    by (simp add: ex_server_def ex_env_def enc_CreateTokenRequest_def omit_string_def)
  moreover have "root_url (cl_baseURL ex_desk_client)" by (simp add: root_url_def ex_desk_client_def)
  then have "rq_Path ?r = ''/tokens''" using root_paths(7) by (simp add: ex_token_http_def)
  ultimately have r: "rq_Path ?r = ''/tokens''" "rq_Method ?r = ''POST''" "authenticated ?r" "''hambo:admins'' \<in> set (ct_Organization (leaf_certificate ?r))"
    "readJSON dec_CreateTokenRequest maxTokenRequestSize ?r = Inr \<lparr>ctr_TTL = ''1h''\<rparr>"
    by (simp_all add: server_request_def ex_token_http_def ex_desk_client_def authenticated_def leaf_certificate_def
        admin_certificate_def readJSON_Inr header_value_def maxTokenRequestSize_def)
  have "serve ex_server ex_rng16 ?r ex0 = createTokenHandler ex_server (g_secret ex_rng16) (g_now ex_rng16) ?r ex0"
    using r(1-4) by (simp add: serve_def route_of_clean match_pattern_def addRoutes_def adminOnly_def requireGroup_cases)
  moreover have key: "SecretHash (e_sha256 ex_server) ex_printed \<noteq> []"
    using length_hex [of ex_digest] by (auto simp: SecretHash_def ex_server_def ex_sha_def ex_digest_def)
  obtain db' where "Create mem_bolt tokens_collection (SecretHash (e_sha256 ex_server) ex_printed)
      \<lparr>md_ExpiresAt = 1 + hours 1, md_Enrollment = None\<rparr> (st_db ex0) = (None, db')"
    using key by (simp add: Create_def db_Update_def ex0_def marshal_Metadata_def enc_time_def mem_content_def
        time_min_def time_max_def)
  moreover have "Generate (e_sha256 ex_server) (ct_Raw (ca_Certificate (e_ca ex_server))) (g_secret ex_rng16) = Inr ex_printed"
    by (simp add: Generate_def generateSecret_def caFingerprint_def ex_server_def ex_sha_def ex_rng16_def ex_printed_def)
  moreover have "e_ParseDuration ex_server ''1h'' = Inr (hours 1)" "e_B ex_server = mem_bolt" "g_now ex_rng16 = 1"
    "\<not> hours 1 \<le> 0" "\<not> maxTokenTTL < hours 1"
    by (simp_all add: ex_server_def ex_env_def maxTokenTTL_def ex_rng16_def)
  ultimately show ?thesis using r(5) by (simp add: createTokenHandler_def Let_def)
qed

lemma ex_token_printed:
  obtains w s' where "token_create_command ex_admin ex_yaml (\<lambda>d. ''1h'') ''cfg'' (hours 1) ex_desk = (Inr (Format ex_printed), w)"
    "w_net w = ex_fresh\<lparr>nw_count := 1, nw_state := s'\<rparr>"
proof -
  let ?q = "\<lparr>ctr_TTL = ''1h''\<rparr>" and ?r = "server_request ex_server ex_token_http"
  let ?resp = "writeJSON [(''Cache-Control'', ''no-store'')] StatusCreated (enc_CreateTokenResponse (Format ex_printed) (1 + hours 1))"
  obtain s' where served: "serve ex_server ex_rng16 ?r ex0 = (?resp, s')"
    using ex_token_served by (metis prod.collapse)
  have new: "newRequest ex_admin ex_desk_client ''POST'' ''tokens'' (Some (enc_CreateTokenRequest ?q)) = Inr ex_token_http"
    by (simp add: newRequest_def ex_token_http_def ex_admin_def ex_client_def)
  have "list_all (\<lambda>c. code c = 9 \<or> 32 \<le> code c \<and> code c \<noteq> 127) ''application/json''" by code_simp
  then have "valid_header ex_token_http" by (simp add: valid_header_def ex_token_http_def)
  moreover have "trusts ex_server ex_token_http"
    by (simp add: trusts_def ex_token_http_def ex_desk_client_def ex_server_def ex_env_def ex_ca_def
        admin_certificate_def ex_certificate_def)
  ultimately have "server_Do ex_server ex_token_http ex_fresh
      = (Inr (client_response ex_server None ?resp), ex_fresh\<lparr>nw_count := 1, nw_state := s'\<rparr>)"
    using server_Do_delivered [of ex_token_http ex_server ex_fresh ?resp s'] served
    by (simp add: ex_fresh_def ex_network_def)
  moreover have "ce_Do ex_admin = server_Do ex_server" by (simp add: ex_admin_def ex_client_def)
  moreover obtain j where j: "enc_CreateTokenResponse (Format ex_printed) (1 + hours 1) = Inr j"
    by (simp add: enc_CreateTokenResponse_def enc_time_def time_min_def time_max_def)
  ultimately have "Client.CreateToken ex_admin ex_desk_client ?q ex_fresh
      = (Inr \<lparr>cto_Token = Format ex_printed, cto_ExpiresAt = 1 + hours 1\<rparr>, ex_fresh\<lparr>nw_count := 1, nw_state := s'\<rparr>)"
    using new wire_token [OF j]
    by (simp add: Client.CreateToken_def value_of_def client_do_def success_def writeJSON_def status_defs Decode_def
        body_documents_def drainResponseBody_def)
  moreover have "w_net (snapshot ex_desk) = ex_fresh" by (simp add: ex_desk_def start_world_def)
  ultimately show ?thesis
    using that ex_desk_client_made by (simp add: token_create_command_def sequencing_defs net_call_def)
qed

text \<open>The worker is given the token over the network the administrator has used.\<close>

theorem printed_token_enrolls_witness:
  "\<exists>w1 w s. token_create_command ex_admin ex_yaml (\<lambda>d. ''1h'') ''cfg'' (hours 1) ex_desk = (Inr (Format ex_printed), w1)
    \<and> join_command ex_worker (Inr (replicate 64 (CHR ''k''))) Locked ''1'' ''2'' ''h'' (Format ex_printed) ''w'' ''d''
        (start_world (\<lambda>p. None) (w_net w1) [])
      = (Inr (''Worker joined as node '' @ concat (replicate 16 ''6e'')), w)
    \<and> w_files w (worker_json ''d'') = pending_file s"
proof -
  obtain w1 s' where w1: "token_create_command ex_admin ex_yaml (\<lambda>d. ''1h'') ''cfg'' (hours 1) ex_desk
      = (Inr (Format ex_printed), w1)" "w_net w1 = ex_fresh\<lparr>nw_count := 1, nw_state := s'\<rparr>" by (rule ex_token_printed)
  obtain c q nw' w2 where made: "newAPIClient ex_admin ex_yaml ''cfg'' ex_desk = (Inr c, w2)"
    and q: "Client.CreateToken ex_admin c \<lparr>ctr_TTL = ''1h''\<rparr> (w_net ex_desk) = (Inr q, nw')" "w_net w1 = nw'"
    by (rule token_command_created [OF w1(1)])
  have desk_root: "\<forall>cl w'. newAPIClient ex_admin ex_yaml ''cfg'' ex_desk = (Inr cl, w') \<longrightarrow> root_url (cl_baseURL cl)"
    by (simp add: ex_desk_client_made ex_desk_client_def root_url_def)
  then have root: "root_url (cl_baseURL c)" using made by blast
  have utf: "root_url \<lparr>u_Scheme = ''https'', u_Hostname = ''h'', u_User = False, u_Path = [], u_String = ''h''\<rparr>"
    "valid_utf8 ''h''" "valid_utf8 ''w''" by (simp add: root_url_def) code_simp+
  have desk: "w_net ex_desk = ex_fresh" by (simp add: ex_desk_def start_world_def)
  have fresh: "nw_state ex_fresh = ex0" "nw_rng ex_fresh i = ex_rng16" "nw_faults ex_fresh i = Delivered" for i
    by (simp_all add: ex_fresh_def ex_network_def)
  have B: "e_B ex_server = mem_bolt" by (simp add: ex_server_def)
  have laws: "hambo_db (e_B ex_server)" "state_inv (e_B ex_server) (nw_state (w_net ex_desk))" "ce_Do ex_admin = server_Do ex_server"
    "\<forall>x. length (e_sha256 ex_server x) = 32" "e_ParseDuration ex_server ''1h'' = Inr (hours 1)"
    "db_works (e_B ex_server)" "puts_work (e_B ex_server)"
    "\<forall>bs. g_secret (nw_rng (w_net ex_desk) (nw_count (w_net ex_desk))) = Inr bs \<longrightarrow> length bs = 32"
    using ex_hambo(1) ex0_inv mem_bolt_works mem_puts_work unfolding B desk fresh
    by (simp_all add: ex_admin_def ex_client_def ex_server_def ex_env_def ex_sha_def ex_digest_def ex_rng16_def)
  obtain t where state: "state_inv mem_bolt s'" "node_tbl mem_bolt (st_db s') = node_tbl mem_bolt (st_db ex0)"
    by (rule token_printed [OF laws(1-3) q(1) _ _ laws(4) root laws(8)]) (use laws(5) q(2) w1(2) in \<open>auto simp: B desk fresh\<close>)
  have free: "node_tbl mem_bolt (st_db s') k = None" for k
    unfolding state(2) by (simp add: tbl_def mem_view ex0_def)
  let ?id = "GenerateNodeID (replicate 16 (CHR ''n''))"
  have id: "?id = concat (replicate 16 ''6e'')" by code_simp
  have issued: "IssueNodeCertificate ex_x509 ex_ca 1 ?id ''csr'' = Inr (ex_certificate (''hambo:node:'' @ ?id))"
    by code_simp
  let ?cfg = "\<lparr>jc_ServerURL = \<lparr>u_Scheme = ''https'', u_Hostname = ''h'', u_User = False, u_Path = [], u_String = ''h''\<rparr>,
      jc_Token = Format ex_printed, jc_Name = ''w'', jc_DataDir = ''d''\<rparr>"
  obtain p where p: "newEnrollment ex_worker (Inr (replicate 64 (CHR ''k''))) ?cfg = Inr p" "ws_CSR p = ''csr''" "ws_Name p = ''w''"
    by (simp add: newEnrollment_def GenerateNodeCSR_def ex_worker_def)
  have rng: "nw_rng (w_net w1) i = ex_rng16" "nw_faults (w_net w1) i = Delivered" "nw_state (w_net w1) = s'" for i
    using w1(2) fresh by simp_all
  have "GenerateNodeID (g_id ex_rng16) = ?id" "g_now ex_rng16 = 1" "length (g_id ex_rng16) = 16"
    by (simp_all add: ex_rng16_def)
  moreover have "e_X ex_server = ex_x509" "e_ca ex_server = ex_ca" by (simp_all add: ex_server_def ex_env_def)
  moreover have "ParseServerURL (we_client ex_worker) ''h'' = Inr (jc_ServerURL ?cfg)"
    by (simp add: ParseServerURL_def ex_worker_def ex_client_def)
  moreover have "length (e_json_text ex_server (enc_JoinNodeRequest (pending_request p))) \<le> maxJoinNodeRequestSize"
    by (simp add: ex_server_def ex_env_def enc_JoinNodeRequest_def pending_request_def p utf
        maxJoinNodeRequestSize_def)
  moreover have "length (e_json_text ex_server (enc_JoinNodeResponse \<lparr>jn_NodeID = ?id, jn_Certificate = x\<rparr>)) \<le> 64 * 1024" for x
    by (simp add: ex_server_def ex_env_def enc_JoinNodeResponse_def GenerateNodeID_def length_hex)
  moreover have "TrimSpace ''w'' \<noteq> []" by code_simp
  ultimately show ?thesis
    using printed_token_enrolls [OF laws(1,6,7) ex_enrollment_laws(1-3) laws(3,4) w1(1) laws(2) _ laws(5,8) desk_root, of "w_net w1"
        "\<lambda>p. None" "''d''" "''1''" "''2''" "''h''" "jc_ServerURL ?cfg" "''w''" "Inr (replicate 64 (CHR ''k''))" p
        "ex_certificate (''hambo:node:'' @ ?id)"]
      w1(1) state(1) free issued p utf
    by (fastforce simp: rng B desk fresh id)
qed

end
