(* ===== verification/Join_Secrecy.thy ===== *)
theory Join_Secrecy
  imports First_Join Worker_Guarantees
begin

text \<open>
  The secret of a join token: what a worker sends while it joins, over any network and from any
  state of its files.
\<close>

section \<open>The secret of the token\<close>

text \<open>A worker whose requests are written down.\<close>

definition recorded_worker :: "'n worker_env \<Rightarrow> (http_request list \<times> 'n) worker_env" where
  "recorded_worker WE = \<lparr>we_client = recorded (we_client WE), we_CreateCSR = we_CreateCSR WE,
     we_MarshalPKCS8 = we_MarshalPKCS8 WE, we_PemEncode = we_PemEncode WE\<rparr>"

text \<open>The requests sent between two worlds.\<close>

definition sends ::
  "(http_request list \<times> 'n) world \<Rightarrow> (http_request list \<times> 'n) world \<Rightarrow> http_request list \<Rightarrow> bool" where
  "sends w w' reqs \<longleftrightarrow> fst (w_net w') = fst (w_net w) @ reqs"

text \<open>
  A request that a listener may see: to any server (no roots are checked) only one without
  credentials and without a body; to the server whose certificate is the single root, when its
  fingerprint is that of the token, the secret and the certificate request.
\<close>

definition discreet :: "'n client_env \<Rightarrow> JoinConfig \<Rightarrow> Token \<Rightarrow> http_request \<Rightarrow> bool" where
  "discreet CE cfg tok req \<longleftrightarrow>
     hq_URL req = jc_ServerURL cfg \<and> hq_Pair req = None
     \<and> (case hq_Roots req of
          None \<Rightarrow> header_value ''Authorization'' req = None \<and> hq_Body req = None
        | Some roots \<Rightarrow>
            (\<exists>cert. roots = [cert]
               \<and> b64_EncodeToString (ce_sha256 CE (ct_Raw cert)) = t_CAFingerprint tok)
            \<and> header_value ''Authorization'' req = Some (''Bearer '' @ t_Secret tok)
            \<and> (\<exists>csr. hq_Body req = Some (enc_JoinNodeRequest \<lparr>jr_Name = jc_Name cfg, jr_CSR = csr\<rparr>)))"

text \<open>The token of a join: the one given, or the one of the saved enrollment.\<close>

definition token_in_use :: "JoinConfig \<Rightarrow> files \<Rightarrow> Token \<Rightarrow> bool" where
  "token_in_use cfg fs tok \<longleftrightarrow>
     Parse (jc_Token cfg) = Inr tok
     \<or> jc_Token cfg = []
       \<and> (\<exists>j s. fs (worker_json (jc_DataDir cfg)) = Some (Whole (JsonText j))
            \<and> dec_worker_state j = Inr s \<and> Parse (ws_Token s) = Inr tok)"

lemma ca_request_discreet: "discreet CE cfg tok (ca_request (jc_ServerURL cfg))"
  by (simp add: discreet_def ca_request_def header_value_def)

lemma join_request_discreet:
  assumes "b64_EncodeToString (ce_sha256 CE (ct_Raw cert)) = t_CAFingerprint tok" and "jr_Name q = jc_Name cfg"
  shows "discreet CE cfg tok (join_http_request (jc_ServerURL cfg) cert (t_Secret tok) q)"
  using assms by (cases q) (auto simp: discreet_def join_http_request_def header_value_def)

lemma FetchAndVerifyCA_recorded:
  assumes "FetchAndVerifyCA (recorded CE) u fp n = (r, n')"
  shows "fst n' \<in> {fst n, fst n @ [ca_request u]}"
    and "r = Inr cert \<Longrightarrow> b64_EncodeToString (ce_sha256 CE (ct_Raw cert)) = fp"
  using assms
  by (auto simp: FetchAndVerifyCA_def recorded_def bind_result_eq_Inr
      split: if_splits option.splits sum.splits prod.splits body.splits)

lemma JoinNode_recorded:
  assumes "Client.JoinNode (recorded CE) u (Some cert) secret q n = (r, n')"
  shows "fst n' \<in> {fst n, fst n @ [join_http_request u cert secret q]}"
  using assms
  by (auto simp: Client.JoinNode_def recorded_def split: if_splits option.splits sum.splits prod.splits)

lemma enroll_discreet:
  assumes "enroll (recorded_worker WE) rnd cfg p tok w = (r, w')" and "ws_Name p = jc_Name cfg"
  shows "\<exists>reqs. sends w w' reqs \<and> list_all (discreet (we_client WE) cfg tok) reqs"
proof -
  let ?CE = "recorded (we_client WE)" and ?u = "jc_ServerURL cfg" and ?q = "pending_request p"
  obtain r1 n1 where f: "FetchAndVerifyCA ?CE ?u (t_CAFingerprint tok) (w_net w) = (r1, n1)" by (metis surj_pair)
  note F = FetchAndVerifyCA_recorded [OF f]
  show ?thesis
  proof (cases r1)
    case (Inl e)
    then have "w_net w' = n1"
      using assms(1) f by (auto simp: enroll_def sequencing_defs net_call_def recorded_worker_def)
    then show ?thesis using F(1) ca_request_discreet [of "we_client WE" cfg tok]
      by (auto simp: sends_def)
  next
    case (Inr ca)
    obtain r2 n2 where j: "Client.JoinNode ?CE ?u (Some ca) (t_Secret tok) ?q n1 = (r2, n2)" by (metis surj_pair)
    have "w_net w' = n2"
      using assms(1) f j Inr
      by (auto simp: enroll_def sequencing_defs net_call_def recorded_worker_def pending_request_def
          dest!: saveState_D(1) split: sum.splits prod.splits)
    moreover have "discreet (we_client WE) cfg tok (join_http_request ?u ca (t_Secret tok) ?q)"
      by (rule join_request_discreet [OF F(2) [OF Inr]]) (simp add: assms(2) pending_request_def)
    ultimately show ?thesis
      using F(1) JoinNode_recorded [OF j] ca_request_discreet [of "we_client WE" cfg tok]
      by (auto simp: sends_def)
  qed
qed

lemma newEnrollment_name: "newEnrollment WE key cfg = Inr p \<Longrightarrow> ws_Name p = jc_Name cfg"
  by (auto simp: newEnrollment_def bind_result_eq_Inr)

lemma join_new_cases:
  assumes "join_new WE key rnd1 rnd2 cfg w = (r, w')"
  obtains "w_net w' = w_net w"
  | p tok v where "ws_Name p = jc_Name cfg" "Parse (jc_Token cfg) = Inr tok" "w_net v = w_net w"
      "enroll WE rnd2 cfg p tok v = (r, w')"
  using assms newEnrollment_name [of WE key cfg]
  by (auto simp: join_new_def sequencing_defs dest: saveState_D(1) split: if_splits sum.splits prod.splits)

lemma join_saved_cases:
  assumes "join_saved WE rnd cfg p w = (r, w')"
  obtains "w_net w' = w_net w"
  | tok where "ws_Name p = jc_Name cfg" "Parse (ws_Token p) = Inr tok"
      "jc_Token cfg = [] \<or> jc_Token cfg = ws_Token p" "enroll WE rnd cfg p tok w = (r, w')"
  using assms by (auto simp: join_saved_def sequencing_defs split: if_splits sum.splits)

lemma loadState_reads:
  assumes "loadState dir w = (Inr p, w')"
  shows "\<exists>j. w_files w (worker_json dir) = Some (Whole (JsonText j)) \<and> dec_worker_state j = Inr p"
  using assms unfolding loadState_def
  by (auto simp: sequencing_defs decode_file_def result_eqs
      dest!: os_ReadFile_D split: prod.splits sum.splits option.splits content.splits data.splits)

text \<open>
  Claim C29: the secret of a join token reaches nobody but the server the token names. Over any
  network, whatever it answers, and from any state of the files, every request that leaves
  \<open>Join\<close> goes to the configured server; a request to a server whose certificate is not pinned
  carries no Authorization and no body; the secret goes out only over a connection whose single
  root is a certificate with the fingerprint of the token, together with the node's name and
  certificate request, and nothing else (the private key stays).
\<close>

theorem join_secret_pinned:
  fixes w :: "(http_request list \<times> 'n) world"
  assumes "Join (recorded_worker WE) key flock rnd1 rnd2 cfg w = (r, w')"
  shows "\<exists>reqs. fst (w_net w') = fst (w_net w) @ reqs
    \<and> (\<forall>req \<in> set reqs. \<exists>tok. token_in_use cfg (w_files w) tok \<and> discreet (we_client WE) cfg tok req)"
proof -
  let ?WE = "recorded_worker WE" and ?dir = "jc_DataDir cfg"
  let ?ok = "\<lambda>tok. list_all (discreet (we_client WE) cfg tok)"
  obtain r1 w1 where lk: "lockDataDir flock ?dir w = (r1, w1)" by (metis surj_pair)
  obtain r2 w2 where ld: "loadState ?dir w1 = (r2, w2)" by (metis surj_pair)
  have net: "w_net w1 = w_net w" "w_net w2 = w_net w"
    using lockDataDir_D(2) [OF lk] loadState_D(1) [OF ld] by (simp_all add: goes_def)
  have same: "w_files w1 (worker_json ?dir) = w_files w (worker_json ?dir)" using lockDataDir_D(1) [OF lk] .
  consider (silent) "w_net w' = w_net w"
    | (started) p tok rnd v where "ws_Name p = jc_Name cfg" "token_in_use cfg (w_files w) tok"
        "w_net v = w_net w" "enroll ?WE rnd cfg p tok v = (r, w')"
  proof (cases r1)
    case (Inl e)
    then show ?thesis using assms lk net silent by (simp add: Join_def bind_io_def)
  next
    case (Inr u)
    show ?thesis
    proof (cases r2)
      case (Inl e)
      then have "w' = w2 \<or> join_new ?WE key rnd1 rnd2 cfg w2 = (r, w')"
        using assms lk ld \<open>r1 = Inr u\<close> by (auto simp: Join_def bind_io_def split: if_splits)
      then show ?thesis
      proof (elim disjE join_new_cases)
        fix p tok v
        assume "ws_Name p = jc_Name cfg" "Parse (jc_Token cfg) = Inr tok" "w_net v = w_net w2"
          "enroll ?WE rnd2 cfg p tok v = (r, w')"
        then show ?thesis using net(2) started [of p tok v rnd2] by (simp add: token_in_use_def)
      qed (use net silent in simp_all)
    next
      case (Inr s)
      then have "join_saved ?WE rnd1 cfg s w2 = (r, w')" using assms lk ld \<open>r1 = Inr u\<close> by (simp add: Join_def bind_io_def)
      then show ?thesis
      proof (cases rule: join_saved_cases)
        case 1
        then show ?thesis using net silent by simp
      next
        case (2 tok)
        then have "token_in_use cfg (w_files w) tok"
          using loadState_reads [OF ld [unfolded Inr]] same by (auto simp: token_in_use_def)
        then show ?thesis using 2(1,4) net(2) started by blast
      qed
    qed
  qed
  then show ?thesis
  proof cases
    case silent
    then show ?thesis by (intro exI [of _ "[]"]) simp
  next
    case (started p tok rnd v)
    then show ?thesis using enroll_discreet [OF started(4,1)] by (auto simp: sends_def list_all_iff)
  qed
qed

text \<open>The first join of the instance, over its network.\<close>

lemma recorded_simps:
  "ce_NewRequest (recorded CE) = ce_NewRequest CE" "ce_PemDecode (recorded CE) = ce_PemDecode CE"
  "ce_ParseCertificate (recorded CE) = ce_ParseCertificate CE" "ce_sha256 (recorded CE) = ce_sha256 CE"
  "ce_Do (recorded CE) req (sent, n) = (fst (ce_Do CE req n), (sent @ [req], snd (ce_Do CE req n)))"
  by (simp_all add: recorded_def split: prod.split)

lemma FetchAndVerifyCA_logged:
  assumes "fp \<noteq> []" and "\<And>verb u p. ce_NewRequest CE verb u p = None"
    and "FetchAndVerifyCA CE u fp n = (r, n')"
  shows "FetchAndVerifyCA (recorded CE) u fp (sent, n) = (r, (sent @ [ca_request u], n'))"
  using assms unfolding FetchAndVerifyCA_def recorded_simps
  by (cases "ce_Do CE (ca_request u) n"; cases "fst (ce_Do CE (ca_request u) n)") auto

lemma JoinNode_logged:
  assumes "secret \<noteq> []" and "\<And>verb u p. ce_NewRequest CE verb u p = None"
  shows "fst (snd (Client.JoinNode (recorded CE) u (Some cert) secret q (sent, n))) = sent @ [join_http_request u cert secret q]"
  using assms by (auto simp: Client.JoinNode_def recorded_def split: sum.splits prod.splits)

theorem join_secret_pinned_witness:
  "\<exists>reqs. fst (w_net (snd (Join (recorded_worker ex_worker) (Inr (replicate 64 (CHR ''k''))) Locked ''1'' ''2'' ex_config
       (start_world (\<lambda>p. None) ([], ex_network ex_start []) [])))) = reqs
    \<and> map hq_Path reqs = [''ca'', ''nodes/join'']
    \<and> (\<forall>req \<in> set reqs. \<exists>tok. token_in_use ex_config (\<lambda>p. None) tok \<and> discreet ex_client ex_config tok req)"
proof -
  let ?WE = "recorded_worker ex_worker" and ?key = "Inr (replicate 64 (CHR ''k'')) :: string result"
  let ?start = "start_world (\<lambda>p. None) ([], ex_network ex_start []) []" and ?u = "jc_ServerURL ex_config"
  obtain p where p: "newEnrollment ?WE ?key ex_config = Inr p"
    by (simp add: newEnrollment_def GenerateNodeCSR_def recorded_worker_def ex_worker_def)
  have given: "TrimSpace (jc_Token ex_config) \<noteq> []" by (simp add: ex_config_def) code_simp
  obtain w where w: "Join ?WE ?key Locked ''1'' ''2'' ex_config ?start = enroll ?WE ''2'' ex_config p ex_token w"
    "w_net w = ([], ex_network ex_start [])"
    by (rule Join_empty_dir [OF refl refl refl ex_enrollment_laws(4) given p, of "''1''" "''2''"]) auto
  have CE: "we_client ?WE = recorded ex_client" "\<And>verb u p. ce_NewRequest ex_client verb u p = None"
    by (simp_all add: recorded_worker_def ex_worker_def ex_client_def)
  obtain nw1 where "FetchAndVerifyCA ex_client ?u (t_CAFingerprint ex_token) (ex_network ex_start [])
      = (Inr (ca_Certificate ex_ca), nw1)"
    using FetchAndVerifyCA_quiet [OF ex_plain_config [unfolded plain_config_def, THEN conjunct1]
        ex_enrollment_laws(1,2), of "ex_network ex_start []" "t_CAFingerprint ex_token"]
      ex_fingerprint by (auto simp: ex_network_def ex_server_def ex_env_def ex_worker_def)
  from FetchAndVerifyCA_logged [OF ex_fingerprint(1) CE(2) this]
  have fetch: "FetchAndVerifyCA (we_client ?WE) ?u (t_CAFingerprint ex_token) (w_net w)
      = (Inr (ca_Certificate ex_ca), ([ca_request ?u], nw1))" unfolding CE(1) w(2) by simp
  let ?join = "join_http_request ?u (ca_Certificate ex_ca) (t_Secret ex_token) (pending_request p)"
  obtain r2 sent nw2 where join: "Client.JoinNode (we_client ?WE) ?u (Some (ca_Certificate ex_ca)) (t_Secret ex_token)
      (pending_request p) ([ca_request ?u], nw1) = (r2, (sent, nw2))" by (metis surj_pair)
  then have sent: "sent = [ca_request ?u, ?join]"
    using JoinNode_logged [of "t_Secret ex_token" ex_client ?u "ca_Certificate ex_ca" "pending_request p" "[ca_request ?u]" nw1]
      ex_enrollment_laws(5) CE by (simp add: plain_def)
  have "fst (w_net (snd (enroll ?WE ''2'' ex_config p ex_token w))) = sent"
    using fetch join unfolding enroll_def pending_request_def [symmetric]
    by (auto simp: sequencing_defs net_call_def dest: saveState_D(1) split: sum.splits prod.splits)
  then have net: "fst (w_net (snd (Join ?WE ?key Locked ''1'' ''2'' ex_config ?start))) = [ca_request ?u, ?join]"
    unfolding w(1) sent .
  from join_secret_pinned [of ex_worker ?key Locked "''1''" "''2''" ex_config ?start, OF prod.collapse [symmetric]]
  show ?thesis unfolding net by (simp add: start_world_def ca_request_def join_http_request_def ex_worker_def)
qed

end
