(* ===== verification/Wire_Guarantees.thy ===== *)
theory Wire_Guarantees
  imports Worker_Guarantees Enrollment
begin

text \<open>
  Both ends of the API agree on its documents. The types of the answers: a successful answer of
  a route carries a document the client's decoder of this route reads as the value the server
  wrote, any other answer has one of the statuses of the route and the document of
  \<open>ErrorResponse\<close> (or is a text of \<open>http.Error\<close>).
\<close>

section \<open>The types of the answers\<close>

definition carries :: "(json \<Rightarrow> 'a result) \<Rightarrow> 'a \<Rightarrow> response \<Rightarrow> bool" where
  "carries dec v resp \<longleftrightarrow>
     (''Content-Type'', ''application/json'') \<in> set (rs_Header resp)
     \<and> (\<exists>j. rs_Body resp = JsonBody j \<and> dec j = Inr v)"

definition http_text :: "response \<Rightarrow> bool" where
  "http_text resp \<longleftrightarrow>
     (''Content-Type'', ''text/plain; charset=utf-8'') \<in> set (rs_Header resp)
     \<and> (\<exists>t. rs_Body resp = TextBody (t @ [CHR 0x0A]))"

text \<open>Only a failed validation names fields.\<close>

definition error_typed :: "nat set \<Rightarrow> response \<Rightarrow> bool" where
  "error_typed statuses resp \<longleftrightarrow>
     rs_Status resp \<in> statuses
     \<and> ((\<exists>p. carries dec_ErrorResponse p resp
            \<and> (eo_Fields p \<noteq> [] \<longrightarrow> rs_Status resp = 422 \<and> eo_Message p = ''request validation failed''))
        \<or> http_text resp \<and> rs_Status resp \<in> {404, 500})"




lemma errors_typed [simp]:
  "error_typed S (writeErrorJSON st message) \<longleftrightarrow> st \<in> S"
  "error_typed S (writeValidationErrorJSON fs) \<longleftrightarrow> 422 \<in> S"
  by (auto simp: error_typed_def carries_def writeErrorJSON_def writeValidationErrorJSON_def writeJSON_def
      status_defs)









section \<open>The handlers\<close>














end
