(* ===== verification/Startup.thy ===== *)
theory Startup
  imports Server_Run Server_Init Cli Simple_Worker
begin

text \<open>
  How the programs are put together and end: the constructors with their checks for nil pointers
  (\<open>NewServer\<close> of \<open>internal/api\<close>, \<open>NewScheduler\<close>, \<open>NewWorker\<close>), the daemon of
  \<open>cmd/simpleworker\<close>, and the root commands with their flags and exit codes (\<open>main.go\<close> of each
  program). What cobra reads from the command line is an argument: the command that was named and
  its flags, \<open>None\<close> for a flag that was not given.
\<close>

section \<open>Constructors\<close>

text \<open>A constructor panics or makes its value; \<open>'p\<close> are the pointers, \<open>None\<close> is nil.\<close>

datatype 'a built = Panics string | Built 'a

definition not_nil :: "'p option \<Rightarrow> string \<Rightarrow> ('p \<Rightarrow> 'a built) \<Rightarrow> 'a built" where
  "not_nil ptr message k = (case ptr of None \<Rightarrow> Panics message | Some p \<Rightarrow> k p)"

record 'p Scheduler =
  sd_db :: 'p
  sd_nodes :: 'p
  sd_containers :: 'p
  sd_queue :: 'p
  sd_nodeWatcher :: 'p

definition NewScheduler ::
  "'p option \<Rightarrow> 'p option \<Rightarrow> 'p option \<Rightarrow> 'p option \<Rightarrow> 'p option \<Rightarrow> 'p Scheduler built" where
  "NewScheduler db workQueue nodes containers nodeWatcher =
     not_nil db ''scheduler: db cannot be nil'' (\<lambda>db.
     not_nil workQueue ''scheduler: queue cannot be nil'' (\<lambda>workQueue.
     not_nil nodes ''scheduler: nodes collection cannot be nil'' (\<lambda>nodes.
     not_nil containers ''scheduler: containers collection cannot be nil'' (\<lambda>containers.
     not_nil nodeWatcher ''scheduler: node watcher cannot be nil'' (\<lambda>nodeWatcher.
     Built \<lparr>sd_db = db, sd_nodes = nodes, sd_containers = containers, sd_queue = workQueue,
       sd_nodeWatcher = nodeWatcher\<rparr>)))))"

record 'p server =
  sv_logger :: 'p
  sv_db :: 'p
  sv_tokens :: "Metadata collection"
  sv_nodes :: 'p
  sv_containers :: 'p
  sv_ca :: 'p
  sv_schedulingQueue :: 'p
  sv_nodeWatcher :: 'p

definition WithLogger :: "'p option \<Rightarrow> ('p server \<Rightarrow> 'p server) built" where
  "WithLogger logger = not_nil logger ''api: logger cannot be nil'' (\<lambda>l. Built (\<lambda>srv. srv\<lparr>sv_logger := l\<rparr>))"

text \<open>
  \<open>newServer\<close> with all its arguments; \<open>d\<close> is the database behind the pointer \<open>db\<close>. Its routes are
  \<open>addRoutes\<close>, its only handler \<open>serve\<close>.
\<close>

definition NewServer ::
  "'db bolt \<Rightarrow> 'p \<Rightarrow> 'p option \<Rightarrow> 'p option \<Rightarrow> 'p option \<Rightarrow> 'p option \<Rightarrow> 'p option \<Rightarrow> 'p option
     \<Rightarrow> ('p server \<Rightarrow> 'p server) list \<Rightarrow> 'db \<Rightarrow> ('p server result \<times> 'db) built" where
  "NewServer B slog_Default db ca schedulingQueue nodes containers nodeWatcher options d =
     not_nil db ''api: db cannot be nil'' (\<lambda>db.
     not_nil ca ''api: CA certificate cannot be nil'' (\<lambda>ca.
     not_nil schedulingQueue ''api: scheduling queue cannot be nil'' (\<lambda>schedulingQueue.
     not_nil nodes ''api: nodes collection cannot be nil'' (\<lambda>nodes.
     not_nil containers ''api: containers collection cannot be nil'' (\<lambda>containers.
     not_nil nodeWatcher ''api: node watcher cannot be nil'' (\<lambda>nodeWatcher.
     Built (case newServer B d of
         (Inl e, d') \<Rightarrow> (Inl e, d')
       | (Inr tokens, d') \<Rightarrow>
           (Inr (foldl (\<lambda>srv option. option srv)
              \<lparr>sv_logger = slog_Default, sv_db = db, sv_tokens = tokens, sv_nodes = nodes,
               sv_containers = containers, sv_ca = ca, sv_schedulingQueue = schedulingQueue,
               sv_nodeWatcher = nodeWatcher\<rparr> options), d'))))))))"

definition NewWorker :: "Client option \<Rightarrow> 'p option \<Rightarrow> Worker built" where
  "NewWorker apiClient docker =
     not_nil apiClient ''worker: API client cannot be nil'' (\<lambda>c.
     not_nil docker ''worker: docker client cannot be nil'' (\<lambda>_.
     Built \<lparr>w_apiClient = c, w_sessionID = [], w_sequence = 0\<rparr>))"

lemma not_nil_Built: "not_nil ptr message k = Built v \<longleftrightarrow> (\<exists>p. ptr = Some p \<and> k p = Built v)"
  by (simp add: not_nil_def split: option.split)

lemma NewScheduler_Built:
  "(\<exists>s. NewScheduler db q n c w = Built s) \<longleftrightarrow> None \<notin> {db, q, n, c, w}"
  by (auto simp: NewScheduler_def not_nil_def split: option.splits)

text \<open>The options see the server one after the other; those of the package change only the logger.\<close>

lemma foldl_loggers:
  assumes "\<forall>option \<in> set options. \<exists>l. WithLogger l = Built option"
  shows "\<exists>l. foldl (\<lambda>srv option. option srv) srv options = srv\<lparr>sv_logger := l\<rparr>"
  using assms
proof (induction options arbitrary: srv)
  case Nil
  show ?case by (intro exI [of _ "sv_logger srv"]) simp
next
  case (Cons option options)
  then obtain l where "option = (\<lambda>srv. srv\<lparr>sv_logger := l\<rparr>)"
    by (auto simp: WithLogger_def not_nil_Built)
  then show ?case using Cons.IH [of "srv\<lparr>sv_logger := l\<rparr>"] Cons.prems by auto
qed

lemma NewServer_Built:
  assumes "\<forall>option \<in> set options. \<exists>l. WithLogger l = Built option"
    and "NewServer B slog_Default (Some db) (Some ca) (Some q) (Some n) (Some c) (Some w) options d = Built (r, d')"
  shows "d' = snd (newServer B d)"
    and "case fst (newServer B d) of
           Inl e \<Rightarrow> r = Inl e
         | Inr tokens \<Rightarrow> (\<exists>l. r = Inr \<lparr>sv_logger = l, sv_db = db, sv_tokens = tokens, sv_nodes = n,
               sv_containers = c, sv_ca = ca, sv_schedulingQueue = q, sv_nodeWatcher = w\<rparr>)"
proof -
  have r: "(case newServer B d of (Inl e, d') \<Rightarrow> (Inl e, d')
      | (Inr tokens, d') \<Rightarrow> (Inr (foldl (\<lambda>srv option. option srv)
          \<lparr>sv_logger = slog_Default, sv_db = db, sv_tokens = tokens, sv_nodes = n, sv_containers = c, sv_ca = ca,
            sv_schedulingQueue = q, sv_nodeWatcher = w\<rparr> options), d')) = (r, d')"
    using assms(2) by (simp add: NewServer_def not_nil_def)
  show "d' = snd (newServer B d)" using r by (simp split: prod.splits sum.splits)
  show "case fst (newServer B d) of
           Inl e \<Rightarrow> r = Inl e
         | Inr tokens \<Rightarrow> (\<exists>l. r = Inr \<lparr>sv_logger = l, sv_db = db, sv_tokens = tokens, sv_nodes = n,
               sv_containers = c, sv_ca = ca, sv_schedulingQueue = q, sv_nodeWatcher = w\<rparr>)"
  proof (cases "newServer B d")
    case (Pair x d2)
    show ?thesis
    proof (cases x)
      case (Inl e)
      then show ?thesis using r Pair by simp
    next
      case (Inr tokens)
      show ?thesis
        using r Pair Inr foldl_loggers [OF assms(1), of "\<lparr>sv_logger = slog_Default, sv_db = db, sv_tokens = tokens,
            sv_nodes = n, sv_containers = c, sv_ca = ca, sv_schedulingQueue = q, sv_nodeWatcher = w\<rparr>"] by auto
    qed
  qed
qed

section \<open>The daemon of simpleworker\<close>

text \<open>
  The outcome of \<open>server.Serve\<close>, when it ends by itself, or of \<open>server.Shutdown\<close>, when the context
  is done first. \<open>server.Close\<close> closes the listener.
\<close>

datatype daemon_outcome = Serve_ends error | Daemon_done "error option"

record daemon_env =
  dz_Docker :: "error option"
  dz_Listen :: "error option"
  dz_Serve :: daemon_outcome

definition daemon_serve :: "daemon_env \<Rightarrow> act" where
  "daemon_serve Z log =
     (case dz_Serve Z of
        Serve_ends e \<Rightarrow> (Some (Wrap ''serve HTTP requests'' e), log)
      | Daemon_done shutdownErr \<Rightarrow> (map_option (Wrap ''stop HTTP server'') shutdownErr, log))"

definition newDaemonCommand :: "daemon_env \<Rightarrow> act" where
  "newDaemonCommand Z log =
     (case dz_Docker Z of
        Some e \<Rightarrow> (Some e, log)
      | None \<Rightarrow>
          deferring [Closed DockerClient]
            (\<lambda>log. case dz_Listen Z of
                Some e \<Rightarrow> (Some (Wrap ''listen for HTTP requests'' e), log)
              | None \<Rightarrow> deferring [Closed Listener] (daemon_serve Z) (Opened Listener # log))
            (Opened DockerClient # log))"

lemma balanced_daemon: "balanced (newDaemonCommand Z)"
  by (rule balancedI)
    (simp add: newDaemonCommand_def daemon_serve_def deferring_def split: option.split daemon_outcome.split)

section \<open>The root commands\<close>

definition exit_code :: "error option \<Rightarrow> nat" where
  "exit_code err = (if err = None then 0 else 1)"

text \<open>What a command prints to its output, and its exit code.\<close>

definition finish :: "('n, string) io \<Rightarrow> 'n world \<Rightarrow> (nat \<times> string) \<times> 'n world" where
  "finish command w =
     (case command w of
        (Inl e, w') \<Rightarrow> ((exit_code (Some e), []), w')
      | (Inr line, w') \<Rightarrow> ((exit_code None, line @ [CHR 0x0A]), w'))"

definition checked_by :: "error option \<Rightarrow> ('n, 'a) io \<Rightarrow> ('n, 'a) io" where
  "checked_by problem command = (case problem of Some e \<Rightarrow> return_io (Inl e) | None \<Rightarrow> command)"

subsection \<open>hambo\<close>

datatype hambo_args =
    Health_args
  | Token_create_args "duration option"
  | Container_run_args string "string option"

definition hambo_commands :: "'n client_env \<Rightarrow> yaml \<Rightarrow> (int \<Rightarrow> string) \<Rightarrow> string \<Rightarrow> hambo_args \<Rightarrow> ('n, string) io" where
  "hambo_commands CE Y duration_String configPath args =
     (case args of
        Health_args \<Rightarrow> health_command CE Y configPath
      | Token_create_args ttl \<Rightarrow>
          token_create_command CE Y duration_String configPath (case ttl of None \<Rightarrow> minutes 15 | Some t \<Rightarrow> t)
      | Container_run_args name img \<Rightarrow>
          run_command CE Y configPath (case img of None \<Rightarrow> [] | Some i \<Rightarrow> i) name)"

definition hambo_run ::
  "'n client_env \<Rightarrow> yaml \<Rightarrow> (int \<Rightarrow> string) \<Rightarrow> string \<Rightarrow> string result \<Rightarrow> string option \<Rightarrow> hambo_args \<Rightarrow> 'n world
     \<Rightarrow> (nat \<times> string) \<times> 'n world" where
  "hambo_run CE Y duration_String hambo_config userConfigDir config_flag args w =
     (case config_path hambo_config userConfigDir of
        Inl e \<Rightarrow> ((1, []), w)
      | Inr configPath \<Rightarrow>
          let path = (case config_flag of None \<Rightarrow> configPath | Some p \<Rightarrow> p)
          in finish (checked_by (check_config_flag path) (hambo_commands CE Y duration_String path args)) w)"

subsection \<open>hambo-worker\<close>

definition worker_defaultDataDir :: string where "worker_defaultDataDir = ''./data''"

datatype worker_args =
    Join_args "string option" "string option" "string option"
  | Reset_args

text \<open>\<open>start\<close> runs until it is told to end; it is \<open>Start\<close> and \<open>Run\<close>.\<close>

definition worker_commands ::
  "'n worker_env \<Rightarrow> string result \<Rightarrow> flock_outcome \<Rightarrow> string \<Rightarrow> string \<Rightarrow> string result \<Rightarrow> string \<Rightarrow> worker_args
     \<Rightarrow> ('n, string) io" where
  "worker_commands WE key flock rnd1 rnd2 hostname dataDir args =
     (case args of
        Join_args server tok name \<Rightarrow>
          bind_io (return_io (join_name name hostname)) (\<lambda>n.
            join_command WE key flock rnd1 rnd2 (case server of None \<Rightarrow> ''https://localhost:8080'' | Some u \<Rightarrow> u)
              (case tok of None \<Rightarrow> [] | Some t \<Rightarrow> t) n dataDir)
      | Reset_args \<Rightarrow> reset_command flock dataDir)"

definition hambo_worker_run ::
  "'n worker_env \<Rightarrow> string result \<Rightarrow> flock_outcome \<Rightarrow> string \<Rightarrow> string \<Rightarrow> string result \<Rightarrow> string option \<Rightarrow> worker_args
     \<Rightarrow> 'n world \<Rightarrow> (nat \<times> string) \<times> 'n world" where
  "hambo_worker_run WE key flock rnd1 rnd2 hostname data_dir args =
     (let dataDir = (case data_dir of None \<Rightarrow> worker_defaultDataDir | Some d \<Rightarrow> d)
      in finish (checked_by (check_data_dir dataDir) (worker_commands WE key flock rnd1 rnd2 hostname dataDir args)))"

subsection \<open>hambo-server\<close>

definition server_defaultDataDir :: string where "server_defaultDataDir = ''./data''"

definition server_check_data_dir :: "string \<Rightarrow> error option" where
  "server_check_data_dir dataDir =
     (if TrimSpace dataDir = [] then Some (Msg ''--data-dir must not be empty'') else None)"

text \<open>Its two commands work on different worlds: the files, and what the process holds open.\<close>

definition hambo_server_init :: "pki_env \<Rightarrow> yaml \<Rightarrow> init_keys \<Rightarrow> instant \<Rightarrow> string option \<Rightarrow> 'n world \<Rightarrow> nat \<times> 'n world" where
  "hambo_server_init K Y keys now data_dir w =
     (let dataDir = (case data_dir of None \<Rightarrow> server_defaultDataDir | Some d \<Rightarrow> d)
      in case checked_by (server_check_data_dir dataDir) (newInitCommand K Y keys now dataDir) w of
           (Inl e, w') \<Rightarrow> (exit_code (Some e), w')
         | (Inr _, w') \<Rightarrow> (exit_code None, w'))"

definition hambo_server_serve :: "run_env \<Rightarrow> 'db bolt \<Rightarrow> 'db \<Rightarrow> string option \<Rightarrow> event list \<Rightarrow> nat \<times> event list" where
  "hambo_server_serve Z B db data_dir log =
     (let dataDir = (case data_dir of None \<Rightarrow> server_defaultDataDir | Some d \<Rightarrow> d)
      in case server_check_data_dir dataDir of
           Some e \<Rightarrow> (exit_code (Some e), log)
         | None \<Rightarrow> (case server_run Z B db log of (e, log') \<Rightarrow> (exit_code e, log')))"

subsection \<open>simpleworker\<close>

definition simpleworker_daemon :: "daemon_env \<Rightarrow> event list \<Rightarrow> nat \<times> event list" where
  "simpleworker_daemon Z log = (case newDaemonCommand Z log of (e, log') \<Rightarrow> (exit_code e, log'))"

section \<open>Exit codes\<close>

lemma exit_code_zero [simp]: "exit_code e = 0 \<longleftrightarrow> e = None"
  by (simp add: exit_code_def)

lemma finish_zero: "fst (finish command w) = (0, out) \<longleftrightarrow> (\<exists>line. fst (command w) = Inr line \<and> out = line @ [CHR 0x0A])"
  by (auto simp: finish_def split: prod.splits sum.splits)

text \<open>
  The programs leave nothing open, whatever they return: the daemon gives its Docker client and
  its listener back in the opposite order, and its exit code is 0 exactly when it could start,
  was told to end and shut down in time.
\<close>

theorem daemon_releases:
  "held (snd (simpleworker_daemon Z [])) = Some []
   \<and> (fst (simpleworker_daemon Z []) = 0 \<longleftrightarrow>
        dz_Docker Z = None \<and> dz_Listen Z = None \<and> dz_Serve Z = Daemon_done None)"
proof
  show "held (snd (simpleworker_daemon Z [])) = Some []"
    using balancedD [OF balanced_daemon, of "[]" "[]" Z] by (simp add: simpleworker_daemon_def split_beta)
  show "fst (simpleworker_daemon Z []) = 0 \<longleftrightarrow>
        dz_Docker Z = None \<and> dz_Listen Z = None \<and> dz_Serve Z = Daemon_done None"
    by (simp add: simpleworker_daemon_def newDaemonCommand_def daemon_serve_def deferring_def
        split: option.split daemon_outcome.split)
qed

text \<open>A command with a blank data directory touches no file.\<close>

lemma blank_data_dir:
  assumes "TrimSpace d = []"
  shows "hambo_server_init K Y keys now (Some d) w = (1, w)"
    and "hambo_server_serve Z B db (Some d) log = (1, log)"
    and "hambo_worker_run WE key flock rnd1 rnd2 hostname (Some d) args w = ((1, []), w)"
  using assms by (simp_all add: hambo_server_init_def hambo_server_serve_def hambo_worker_run_def checked_by_def
      server_check_data_dir_def check_data_dir_def return_io_def finish_def exit_code_def)

end
