(* ===== verification/Spec2Isabelle.thy ===== *)
theory Spec2Isabelle
  imports Runs Join_Guarantees Node_Guarantees Access_Guarantees Admin_Guarantees Enrollment Worker_Guarantees
    Server_Init Server_Run Simple_Guarantees First_Join Join_Secrecy Wire_Guarantees Startup
begin

text \<open>
  Hambo is a small container orchestrator in Go. A server (\<open>cmd/hambo-server\<close>) keeps nodes,
  containers and join tokens in a bbolt database and offers an HTTPS API with client
  certificates (\<open>internal/api\<close>); a scheduler in the same process (\<open>internal/scheduler\<close>) gives
  every pending container a node; workers (\<open>cmd/hambo-worker\<close>, \<open>internal/worker\<close>) enroll with a
  token, open a session, report what they observe and watch the assignments of their node. An
  administrator uses \<open>cmd/hambo\<close>; both talk to the API through package \<open>client\<close>.
  \<open>cmd/simpleworker\<close> is a separate daemon that runs containers on the local Docker. These theories
  model the programs and prove what makes them correct. Names follow the source; a definition
  with a source name is the translation of the function of that name.

  \<^bold>\<open>The theories, bottom up.\<close>
  \<^item> \<open>Prelude\<close>: errors (\<open>errdefs\<close>, wrapping and \<open>errors.Is\<close>), results as \<open>error + 'a\<close>, times
    in nanoseconds. \<open>Go_Strings\<close> (\<open>strings.TrimSpace\<close>, \<open>Fields\<close>, \<open>Split\<close>, \<open>CutPrefix\<close>,
    \<open>EqualFold\<close>), \<open>Go_Encoding\<close> (hex, unpadded URL base64), \<open>Json\<close> (\<open>encoding/json\<close> on
    syntax trees), \<open>Utf8\<close> (what it writes for a string that is not valid UTF-8) and \<open>Paths\<close>
    (\<open>path.Clean\<close>, \<open>URL.JoinPath\<close> and the cleaning of \<open>ServeMux\<close>) are the parts of the Go library
    the program relies on. A string is its bytes. \<open>TrimSpace\<close> runs on fuel, the length of the string, of which each round uses one.
    \<open>Files\<close> is what is used of package \<open>os\<close>: a world of files with the faults that are to come and
    the history of its states, so that a property of the history is one of every crash.
  \<^item> \<open>Node\<close>, \<open>Container\<close>, \<open>Token\<close>: the records of \<open>internal/node\<close>, \<open>internal/container\<close> and
    \<open>internal/token\<close> with their documents.
  \<^item> \<open>Bolt\<close>: the interface of bbolt, a record of operations with the laws \<open>bolt_api\<close> (a
    transaction commits as a whole or not at all), and an instance in memory. \<open>Store\<close>:
    \<open>internal/store\<close>, refined by the partial map \<open>tbl\<close>. \<open>State\<close>: the three collections of the
    server, the shared state and the invariants \<open>nodes_inv\<close>, \<open>containers_inv\<close>, \<open>tokens_inv\<close>.
  \<^item> \<open>Queue\<close>: \<open>internal/queue\<close>, with the goroutines that sleep in \<open>Get\<close>. \<open>Watch\<close>:
    \<open>internal/watch\<close>; channels are numbers, and closing a closed one is the result \<open>None\<close>.
  \<^item> \<open>Scheduler\<close>, \<open>Assign\<close>: \<open>internal/scheduler\<close> and its specification \<open>assignment\<close>.
  \<^item> \<open>Pki\<close>: \<open>internal/pki\<close> over a record of the functions of \<open>crypto/x509\<close>; \<open>Pki_Files\<close>: its
    files.
  \<^item> \<open>Http\<close>, \<open>Api_Tokens\<close>, \<open>Api_Join\<close>, \<open>Api_Status\<close>, \<open>Api_Containers\<close>, \<open>Api_Watch\<close>, \<open>Server\<close>:
    \<open>internal/api\<close>. A handler is a function of the request and the shared state. \<open>serve\<close> is one
    request, from the routing table to the answer; \<open>serve_commit\<close> is the same up to the commit
    of a new container. \<open>standard_answer\<close> is what \<open>net/http\<close> answers before any handler.
  \<^item> \<open>System\<close>: the running server. Its steps are requests (the one that creates a container is
    two, its commit and its \<open>Add\<close>, with any number of them under way), the points of the
    scheduler's goroutine (its transaction and its notification are two), the retry timers, the
    steps of one watch stream, shutdown of the queue and restarts on the same database.
    \<open>Lasting\<close>: what those steps leave alone, used tokens, registered nodes and their sessions.
  \<^item> \<open>Example\<close>, \<open>Runs\<close>: a concrete history (a token, a node, a session, a container, a report,
    an assignment) that the witnesses evaluate.
  \<^item> \<open>Server_Run\<close>: the life of the server process, \<open>serve.go\<close> with \<open>store.go\<close> and
    \<open>internal/sqlitestore\<close>: what it opens it closes, and the scheduler ends on shutdown.
  \<^item> \<open>Join_Guarantees\<close>, \<open>Node_Guarantees\<close>, \<open>Access_Guarantees\<close>, \<open>Admin_Guarantees\<close> and this
    theory: the properties of the handlers and of the running system.
  \<^item> \<open>Wire\<close>, \<open>Client\<close>: the client's side of the documents, and package \<open>client\<close> over a function
    from requests and the state of the other side to responses. \<open>Network\<close> makes that function of
    \<open>serve\<close>: exchanges may be lost before or after the server has handled them.
  \<^item> \<open>Worker_State\<close>, \<open>Worker_Join\<close>: \<open>state.go\<close>, \<open>lock.go\<close>, \<open>reset.go\<close> and \<open>join.go\<close> of
    \<open>internal/worker\<close>. \<open>Docker\<close>, \<open>Worker_Run\<close>: \<open>docker.go\<close>, \<open>worker.go\<close> and \<open>start.go\<close>; the two
    goroutines of \<open>Run\<close> are step functions whose steps interleave. \<open>Example_Worker\<close> is an instance.
    \<open>Enrollment\<close>: an interrupted enrollment is resumed, over client, network, server and files;
    \<open>Worker_Guarantees\<close>: the running worker against the server.
  \<^item> \<open>Cliconfig\<close>, \<open>Cli\<close>: \<open>internal/cliconfig\<close> and the bodies of the commands. \<open>Server_Init\<close>:
    \<open>hambo-server init\<close>, all or nothing, and its files are what the programs load.
  \<^item> \<open>Simple_Container\<close>, \<open>Simple_Worker\<close>, \<open>Simple_Guarantees\<close>: \<open>cmd/simpleworker\<close>.
  \<^item> \<open>Startup\<close>: the constructors with their checks for nil (\<open>NewServer\<close>, \<open>NewScheduler\<close>,
    \<open>NewWorker\<close>), the daemon of \<open>cmd/simpleworker\<close>, and the root commands (\<open>main.go\<close>) with their
    flags and exit codes.
  \<^item> \<open>First_Join\<close>: from \<open>hambo token create\<close> to the new node, over the command lines, the client,
    the network, the server and the files of the worker. \<open>Join_Secrecy\<close>: what a worker sends while
    it joins, whatever the network answers. \<open>Wire_Guarantees\<close>: the statuses and documents of
    every route are those the clients decode.

  \<^bold>\<open>Interfaces.\<close> \<open>bolt_api\<close> (laws of the database), \<open>json_codec\<close> (documents read back),
  \<open>store_collection\<close> (a collection of decodable documents), \<open>hambo_db\<close> (the three collections;
  extends \<open>bolt_api\<close>), \<open>work_queue\<close> (what the scheduler needs of the queue), \<open>saved_files\<close>
  (saving and removing the files of certificates, for \<open>init\<close>) and \<open>change_feed\<close> (what a stream needs of the watcher) are locales, interpreted on the model of
  the code in the theory that provides them.

  \<^bold>\<open>Modelling choices.\<close> A handler that touches the shared state once, in its transaction, runs as
  one step. \<open>createContainerHandler\<close> touches it twice and is two steps; the stream and the
  scheduler are step relations. Where two accesses are one step nothing can come between that
  changes the outcome: \<open>nodeOnly\<close> looks a node up before the handler does, and nodes never
  disappear; the scheduler reads the containers and adds them before it serves the queue, and a
  container created meanwhile is added by its handler; it starts a retry timer and calls \<open>Done\<close>
  in one step, and the timer runs for \<open>retryDelay\<close>. A client's request reaches the server at the
  path joined to its address; TLS refuses a client whose certificate \<open>e_VerifyClient\<close> rejects and
  a server whose authority is not among the client's roots. What comes from the command line or
  the host's name (the worker's name, the address, a container's name and image) may be any bytes
  and is written with \<open>json_string\<close>; other strings are ASCII or were decoded from JSON. Times and random bytes
  are arguments. SHA-256, PEM, PKCS 8, YAML, URL parsing, \<open>time.ParseDuration\<close>, the quoting of
  \<open>%q\<close>, the text of a JSON document, \<open>crypto/x509\<close>, TLS and the Docker client are parameters
  (records \<open>env\<close>, \<open>client_env\<close>, \<open>worker_env\<close>, \<open>pki_env\<close>, \<open>yaml\<close>, \<open>docker\<close>, \<open>sw_env\<close>); what the
  theorems need of them is stated as named laws (\<open>puts_work\<close> for a database that stores what it
  is given, \<open>x509_faithful\<close> for certificates of the program's templates and \<open>keeps_raw\<close>, \<open>pem_pair_law\<close>, \<open>yaml_law\<close>, \<open>sw_laws\<close> and those of \<open>Network\<close> and \<open>Enrollment\<close>),
  each with an instance. A JSON text is its syntax tree; a member that occurs twice is decoded
  afresh. The arguments of error messages are left out. The files hold data whole or cut
  short; renaming is atomic; directories and permissions are not modelled.

  \<^bold>\<open>Not modelled.\<close> Logging, the inside of \<open>net/http\<close> (listener, TLS, its shutdown), signals, and
  the flag parsing of cobra; that printing may fail is left out. SQLite is a driver that
  answers; no table of it is read or written.
\<close>

section \<open>The system that runs\<close>

text \<open>
  Claim C1: no container that waits for a node is forgotten. In every reachable state of a running
  server whose scheduler has started and whose queue is open, a stored container that is
  pending, has no node and is not to be deleted is in the scheduling queue, or has a retry
  timer, or is the one the scheduler is about to try or failed to assign, or was committed by a
  handler that is about to add it to the queue.
\<close>

theorem no_container_forgotten:
  assumes "hambo_db (e_B E)" and "sys_reach E y"
    and "sy_sched y \<noteq> Starting" and "sy_sched y \<noteq> Stopped" and "\<not> shuttingDown (sy_queue y)"
    and "container_tbl (e_B E) (sy_db y) k = Some c" and "waiting c"
  shows "k \<in> dirty (sy_queue y) \<or> (\<exists>d. (k, d) \<in> set (sy_timers y)) \<or> k \<in> will_retry (sy_sched y)
    \<or> (\<exists>d \<in> set (sy_adding y). c_ID d = k)"
proof -
  have "k \<in> waiting_set (container_tbl (e_B E) (sy_db y))"
    using assms(6,7) by (auto simp: waiting_set_def)
  then have "k \<in> remembered y"
    using hambo_db.sys_reach_no_lost [OF assms(1,2) refl] assms(3-5) by (auto simp: no_lost_def)
  then show ?thesis by (auto simp: remembered_def)
qed

text \<open>When the handler has called \<open>Add\<close>, the container is in the queue.\<close>

theorem no_container_forgotten_witness:
  "''63'' \<in> dirty (sy_queue (y_ready ex5))"
proof -
  have "map_option waiting (container_tbl mem_bolt (st_db ex5) ''63'') = Some True" by code_simp
  then obtain c where "container_tbl mem_bolt (st_db ex5) ''63'' = Some c" "waiting c" by auto
  then show ?thesis
    using no_container_forgotten [OF ex_hambo(2) reach5, of "''63''" c]
    by (simp add: ex5_parts Add_def NewMemoryQueue_def)
qed

text \<open>
  Claim C2: a scheduler that waits has a retry timer for every waiting container. When the
  scheduler is ready, \<open>Get\<close> has nothing to return and no handler stands between the commit of a
  container and its \<open>Add\<close>, every container that waits for a node is one whose assignment failed
  and whose timer is running.
\<close>

theorem idle_scheduler_retries:
  assumes "hambo_db (e_B E)" and "sys_reach E y"
    and "sy_sched y = Ready" and "Queue.Get (sy_queue y) = (None, q)" and "sy_adding y = []"
    and "container_tbl (e_B E) (sy_db y) k = Some c" and "waiting c"
  shows "\<exists>d. (k, d) \<in> set (sy_timers y)"
proof -
  have base: "base_inv E y" by (rule hambo_db.sys_reach_base [OF assms(1,2) refl])
  then have "queue_inv (sy_queue y)" "processing (sy_queue y) = {}"
    using assms(3) by (simp_all add: base_inv_def state_inv_def)
  then have "\<not> shuttingDown (sy_queue y)" "dirty (sy_queue y) = {}"
    using mq.get_waits [of "sy_queue y"] assms(4) by auto
  then have "waiting_set (container_tbl (e_B E) (sy_db y)) \<subseteq> fst ` set (sy_timers y)"
    using hambo_db.sys_reach_no_lost [OF assms(1,2) refl] assms(3,5)
    by (auto simp: no_lost_def remembered_def)
  then show ?thesis using assms(6,7) by (force simp: waiting_set_def)
qed

theorem idle_scheduler_retries_witness:
  "\<exists>d. (''63'', d) \<in> set (sy_timers y_retrying)"
proof -
  have "map_option waiting (container_tbl mem_bolt no_node_db ''63'') = Some True" by code_simp
  then obtain c where c: "container_tbl mem_bolt no_node_db ''63'' = Some c" "waiting c" by auto
  have "Queue.Get (fst (Done ''63'' q_taken)) = (None, fst (Done ''63'' q_taken))"
    by (simp add: q_taken_def Get_def Done_def Add_def NewMemoryQueue_def Let_def)
  then show ?thesis
    using idle_scheduler_retries [OF ex_hambo(2) reach_retrying, of _ "''63''" c] c
    by (simp add: y_retrying_def)
qed

text \<open>
  Claim C3: a watch stream that waits has sent the current assignments. In every reachable state,
  if the handler waits on a channel that is open and no notification for its node is
  outstanding, then the last document it sent lists exactly the containers now assigned to
  the node: no change that was committed and announced is ever missed.
\<close>

theorem waiting_stream_current:
  assumes "hambo_db (e_B E)" and "sys_reach E y"
    and "wr_phase (sy_watch y) = Waiting ch" and "\<not> chan_closed (sy_watcher y) ch"
    and "to_notify (sy_sched y) \<noteq> Some (wr_node (sy_watch y))"
  shows "\<exists>sent doc response. js_written (wr_stream (sy_watch y)) = sent @ [doc]
    \<and> enc_NodeWatchResponse response = Inr doc
    \<and> set response = assigned_to (wr_node (sy_watch y)) (container_tbl (e_B E) (sy_db y))"
  using hambo_db.sys_reach_feed [OF assms(1,2) refl] assms(3-5)
  by (auto simp: sys_feed_def feed_ok_def fresh_def)

theorem waiting_stream_current_witness:
  "assigned_to ''6e'' (container_tbl mem_bolt (st_db ex5)) = {}"
proof -
  have "\<not> chan_closed w_one 0" by (simp add: w_one_def Watch_def NewNodeWatcher_def chan_closed_def)
  then obtain response where r: "enc_NodeWatchResponse response = Inr sent_nothing"
    "set response = assigned_to ''6e'' (container_tbl mem_bolt (st_db ex5))"
    using waiting_stream_current [OF ex_hambo(2) reach_waiting, of 0] by (auto simp: y_waiting_def)
  have "response = []"
    using r(1) by (cases response) (auto simp: enc_NodeWatchResponse_def sent_nothing_def result_eqs)
  then show ?thesis using r(2) by simp
qed

text \<open>
  Claim C4: the notification of an assignment wakes the stream of its node. When the scheduler has
  committed an assignment to the node whose stream waits, the next step of the scheduler
  returns, and the channel the stream waits on is closed after it.
\<close>

theorem assignment_wakes_stream:
  assumes "hambo_db (e_B E)" and "sys_reach E y"
    and "wr_phase (sy_watch y) = Waiting ch"
    and "sy_sched y = Committed k ((retry, wr_node (sy_watch y)), None)"
  shows "\<exists>err w. assign_finish ((retry, wr_node (sy_watch y)), None) (sy_watcher y) = Some (err, w)
    \<and> chan_closed w ch"
proof -
  have "watcher_inv (sy_watcher y)"
    using hambo_db.sys_reach_base [OF assms(1,2) refl] by (simp add: base_inv_def state_inv_def)
  moreover have "wr_node (sy_watch y) \<noteq> []" "nw.live (sy_watcher y) (wr_node (sy_watch y)) ch"
    using hambo_db.sys_reach_feed [OF assms(1,2) refl] assms(3)
    by (auto simp: sys_feed_def feed_ok_def)
  ultimately obtain w where n: "Notify (wr_node (sy_watch y)) (sy_watcher y) = Some (None, w)"
    using Notify_total [of "sy_watcher y" "wr_node (sy_watch y)"]
    by (auto simp: Notify_def split: option.splits if_splits)
  then have "chan_closed w ch"
    using nw.notified_closed \<open>watcher_inv (sy_watcher y)\<close> \<open>nw.live (sy_watcher y) (wr_node (sy_watch y)) ch\<close>
    by blast
  then show ?thesis using n \<open>wr_node (sy_watch y) \<noteq> []\<close> by (simp add: assign_finish_def Let_def)
qed

theorem assignment_wakes_stream_witness:
  "\<exists>err w. assign_finish ((False, ''6e''), None) w_one = Some (err, w) \<and> chan_closed w 0"
proof -
  have "wr_phase (sy_watch y_committed) = Waiting 0" "wr_node (sy_watch y_committed) = ''6e''"
    "sy_sched y_committed = Committed ''63'' ((False, ''6e''), None)" "sy_watcher y_committed = w_one"
    by (simp_all add: y_committed_def y_assigning_def y_waiting_def)
  then show ?thesis
    using assignment_wakes_stream [OF ex_hambo(2) reach_committed, of 0 "''63''" False] by simp
qed

text \<open>
  Claim C5: the stored data stay consistent, over any interleaving and across restarts. Containers
  are stored under their identifier, with unique names, a known state, an exit code only when
  exited, and a node that is registered; without a node they are pending. Nodes are stored
  under their identifier. A used token names a registered node, and no two tokens the same.
\<close>

theorem reachable_data_consistent:
  assumes "hambo_db (e_B E)" and "sys_reach E y"
  defines "N \<equiv> node_tbl (e_B E) (sy_db y)" and "C \<equiv> container_tbl (e_B E) (sy_db y)"
    and "T \<equiv> token_tbl (e_B E) (sy_db y)"
  shows "(\<forall>k c. C k = Some c \<longrightarrow> c_ID c = k \<and> lifecycle_of (c_State c) \<noteq> None
        \<and> (c_ExitCode c \<noteq> None \<longrightarrow> c_State c = StateExited)
        \<and> (if c_NodeID c = [] then c_State c = StatePending else N (c_NodeID c) \<noteq> None))
    \<and> (\<forall>j k c d. C j = Some c \<longrightarrow> C k = Some d \<longrightarrow> c_Name c = c_Name d \<longrightarrow> j = k)
    \<and> (\<forall>k n. N k = Some n \<longrightarrow> n_ID n = k)
    \<and> (\<forall>h m e. T h = Some m \<longrightarrow> md_Enrollment m = Some e \<longrightarrow> N (er_NodeID e) \<noteq> None)
    \<and> (\<forall>g h m m' e e'. T g = Some m \<longrightarrow> T h = Some m' \<longrightarrow> md_Enrollment m = Some e \<longrightarrow>
         md_Enrollment m' = Some e' \<longrightarrow> er_NodeID e = er_NodeID e' \<longrightarrow> g = h)"
proof -
  have inv: "nodes_inv N" "containers_inv N C" "tokens_inv N T"
    using hambo_db.sys_reach_base [OF assms(1,2) refl]
    by (simp_all add: base_inv_def state_inv_def db_inv_def N_def C_def T_def)
  show ?thesis
    by (intro conjI; use inv in \<open>unfold nodes_inv_def containers_inv_def tokens_inv_def\<close>)
      (auto; blast)+
qed

theorem reachable_data_consistent_witness:
  "map_option c_ID (container_tbl mem_bolt (st_db ex5) ''63'') = Some ''63''"
proof -
  have "map_option waiting (container_tbl mem_bolt (st_db ex5) ''63'') = Some True" by code_simp
  then obtain c where c: "container_tbl mem_bolt (st_db ex5) ''63'' = Some c" by auto
  then have "c_ID c = ''63''"
    using reachable_data_consistent [OF ex_hambo(2) reach5] by simp
  then show ?thesis by (simp add: c)
qed

text \<open>
  Claim C6: an assignment is permanent and the lifecycle goes forward. From a reachable state, over
  any number of steps and restarts, no container disappears, changes its name or image, gets
  a second node, or goes back in its lifecycle.
\<close>

theorem assignments_permanent:
  assumes "hambo_db (e_B E)" and "sys_reach E y" and "(sys_step E)\<^sup>*\<^sup>* y z"
    and "container_tbl (e_B E) (sy_db y) k = Some c"
  shows "\<exists>c'. container_tbl (e_B E) (sy_db z) k = Some c' \<and> evolves c c'"
  by (rule hambo_db.sys_steps_evolve [OF assms(1,3) refl hambo_db.sys_reach_base [OF assms(1,2) refl] assms(4)])

theorem assignments_permanent_witness:
  "\<exists>c c'. container_tbl mem_bolt (st_db ex5) ''63'' = Some c
     \<and> container_tbl mem_bolt (st_db ex6) ''63'' = Some c' \<and> evolves c c'"
proof -
  have "map_option waiting (container_tbl mem_bolt (st_db ex5) ''63'') = Some True" by code_simp
  then obtain c where c: "container_tbl mem_bolt (st_db ex5) ''63'' = Some c" by auto
  have "(sys_step ex_env)\<^sup>*\<^sup>* y_waiting y_committed"
    using step_assigning step_committed by (meson rtranclp.rtrancl_into_rtrancl rtranclp.rtrancl_refl)
  moreover have "sy_db y_waiting = st_db ex5" "sy_db y_committed = st_db ex6"
    by (simp_all add: y_committed_def y_waiting_def)
  ultimately show ?thesis
    using assignments_permanent [OF ex_hambo(2) reach_waiting, of y_committed "''63''" c] c by auto
qed

end
